(* ===== verification/Prelude.thy ===== *)
theory Prelude
  imports Main "HOL-Library.Stream"
begin

text \<open>
  Shared vocabulary of the board-game models (src/tictactoe.py, src/othello.py).
  Both games keep the board as a Python list of row lists of ints, where 1 is a
  mark of player 0, -1 a mark of player 1 and 0 an empty cell; players are the
  ints 0 and 1, and the side to move after a move is \<open>(player + 1) % 2\<close>.
  Python's \<open>random.choice\<close> is modelled with an explicit stream of draws, so
  that a run with a fixed seed is a function of its inputs; an empty sequence
  raises \<open>IndexError\<close>, which is the \<open>Inl\<close> branch of the result.
\<close>

named_theorems board_simps "evaluation rules for the board models"

text \<open>The Python exceptions the modelled code can raise.\<close>

datatype py_error = IndexError | TypeError | ValueError | KeyError | AttributeError
  | UnboundLocalError | OverflowError | TclError | NameError | OperationalError
  | StreamlitAPIException

type_synonym grid = "int list list"
type_synonym move = "nat \<times> nat"

text \<open>\<open>(player + 1) % 2\<close>, the side to move after \<open>player\<close>.\<close>

definition next_player :: "nat \<Rightarrow> nat" where
  "next_player p = (p + 1) mod 2"

text \<open>The board value a player writes: \<open>1\<close> for player 0, \<open>-1\<close> otherwise
  (the \<open>if player == 0\<close> / \<open>else\<close> of both sources).\<close>

definition mark_of :: "nat \<Rightarrow> int" where
  "mark_of p = (if p = 0 then 1 else -1)"

text \<open>\<open>grid[i][j] = v\<close> on a list of rows.\<close>

definition set_cell :: "grid \<Rightarrow> nat \<Rightarrow> nat \<Rightarrow> int \<Rightarrow> grid" where
  "set_cell g i j v = g[i := (g ! i)[j := v]]"

text \<open>
  \<open>random.choice(seq)\<close>: the next draw \<open>r\<close> of the random stream picks
  \<open>seq[r mod len(seq)]\<close>; on an empty sequence Python raises \<open>IndexError\<close>
  and no draw is consumed.
\<close>

definition py_choice :: "'a list \<Rightarrow> nat stream \<Rightarrow> py_error + ('a \<times> nat stream)" where
  "py_choice xs rs =
     (if xs = [] then Inl IndexError
      else Inr (xs ! (shd rs mod length xs), stl rs))"

text \<open>
  The pygame events the main loops of both games distinguish: \<open>QUIT\<close>, a released
  key (\<open>KeyUp b\<close>, \<open>b\<close> when it is Escape), a mouse press at a pixel position,
  and any other event, which the loops ignore.
\<close>

datatype event = Quit | KeyUp bool | MouseDown nat nat | OtherEvent

text \<open>A square board of side \<open>n\<close>, every cell holding \<open>-1\<close>, \<open>0\<close> or \<open>1\<close>.\<close>

definition square :: "nat \<Rightarrow> grid \<Rightarrow> bool" where
  "square n g \<longleftrightarrow> length g = n \<and> list_all (\<lambda>r. length r = n) g"

definition cells_ok :: "grid \<Rightarrow> bool" where
  "cells_ok g \<longleftrightarrow> list_all (list_all (\<lambda>v. v = -1 \<or> v = 0 \<or> v = 1)) g"

text \<open>The decimal digits of a natural number, and \<open>str(i)\<close> of a Python int.\<close>

fun digits :: "nat \<Rightarrow> string" where
  "digits n = (if n < 10 then [char_of (48 + n)] else digits (n div 10) @ [char_of (48 + n mod 10)])"

definition py_str :: "int \<Rightarrow> string" where
  "py_str i = (if i < 0 then ''-'' @ digits (nat (- i)) else digits (nat i))"

declare digits.simps [simp del]

text \<open>An ASCII decimal digit, as \<open>str.isdigit\<close> and \<open>int()\<close> accept it here.\<close>

definition ascii_digit :: "char \<Rightarrow> bool" where
  "ascii_digit c \<longleftrightarrow> (48 :: nat) \<le> of_char c \<and> of_char c \<le> (57 :: nat)"

text \<open>\<open>int(s)\<close> of a string: surrounding white space, an optional sign and ASCII digits,
  single underscores allowed between digits; anything else raises \<open>ValueError\<close>.\<close>

definition py_space :: "char \<Rightarrow> bool" where
  "py_space c \<longleftrightarrow> c \<in> set '' \<newline>'' \<or> of_char c \<in> {9 :: nat, 11, 12, 13}"

definition py_strip :: "string \<Rightarrow> string" where
  "py_strip s = rev (dropWhile py_space (rev (dropWhile py_space s)))"

fun digits_value :: "int \<Rightarrow> bool \<Rightarrow> string \<Rightarrow> int option" where
  "digits_value acc after_digit [] = (if after_digit then Some acc else None)"
| "digits_value acc after_digit (c # cs) =
     (if ascii_digit c then digits_value (10 * acc + (int (of_char c) - 48)) True cs
      else if c = CHR ''_'' \<and> after_digit then digits_value acc False cs
      else None)"

definition py_int :: "string \<Rightarrow> py_error + int" where
  "py_int s =
     (let t = py_strip s;
          (sign, ds) = (case t of c # cs \<Rightarrow> if c = CHR ''-'' then (-1, cs) else if c = CHR ''+'' then (1, cs) else (1, t)
                                | [] \<Rightarrow> (1, []))
      in case digits_value 0 False ds of None \<Rightarrow> Inl ValueError | Some v \<Rightarrow> Inr (sign * v))"

subsection \<open>Generic lemmas\<close>

lemma next_player_cases [board_simps]:
  "next_player 0 = 1" "next_player 1 = 0"
  by (simp_all add: next_player_def)

lemma next_player_lt2 [simp]: "next_player p < 2"
  by (simp add: next_player_def)

lemma mark_of_nonzero [simp]: "mark_of p \<noteq> 0"
  by (simp add: mark_of_def)

lemma mark_of_cases [board_simps]: "mark_of 0 = 1" "mark_of (Suc n) = -1"
  by (simp_all add: mark_of_def)

lemma length_set_cell [simp]: "length (set_cell g i j v) = length g"
  by (simp add: set_cell_def)

lemma set_cell_nth:
  "i < length g \<Longrightarrow> j < length (g ! i) \<Longrightarrow>
   set_cell g i j v ! i' ! j' = (if i' = i \<and> j' = j then v else g ! i' ! j')"
  by (auto simp: set_cell_def nth_list_update)

lemma set_cell_nth_in:
  "a < length g \<Longrightarrow> b < length (g ! a) \<Longrightarrow>
   set_cell g i j v ! a ! b = (if a = i \<and> b = j then v else g ! a ! b)"
  by (cases "i < length g"; cases "j < length (g ! i)")
     (auto simp: set_cell_def nth_list_update list_update_beyond)

lemma set_cell_row_length:
  "length (set_cell g i j v ! k) = length (g ! k)"
  by (cases "i = k"; cases "i < length g")
     (simp_all add: set_cell_def nth_list_update_neq list_update_beyond)

lemma square_set_cell [simp]: "square n (set_cell g i j v) = square n g"
proof -
  have "list_all (\<lambda>r. length r = n) (set_cell g i j v) = list_all (\<lambda>r. length r = n) g"
    by (auto simp: list_all_length set_cell_row_length)
  then show ?thesis by (simp add: square_def)
qed

lemma square_nth_length:
  "square n g \<Longrightarrow> i < n \<Longrightarrow> length (g ! i) = n"
  by (simp add: square_def list_all_length)

lemma cells_ok_nth:
  "cells_ok g \<Longrightarrow> i < length g \<Longrightarrow> j < length (g ! i) \<Longrightarrow> g ! i ! j \<in> {-1, 0, 1}"
  by (auto simp: cells_ok_def list_all_length)

lemma list_all_list_update:
  "list_all P xs \<Longrightarrow> P x \<Longrightarrow> list_all P (xs[i := x])"
  by (auto simp: list_all_iff dest: set_update_subset_insert [THEN subsetD])

lemma cells_ok_set_cell:
  assumes "cells_ok g" and "v \<in> {-1, 0, 1}"
  shows "cells_ok (set_cell g i j v)"
proof (cases "i < length g")
  case True
  with assms(1) have "list_all (\<lambda>v. v = -1 \<or> v = 0 \<or> v = 1) (g ! i)"
    by (simp add: cells_ok_def list_all_length)
  with assms(2) have "list_all (\<lambda>v. v = -1 \<or> v = 0 \<or> v = 1) ((g ! i)[j := v])"
    by (auto intro: list_all_list_update)
  with assms(1) show ?thesis
    by (simp add: cells_ok_def set_cell_def list_all_list_update)
next
  case False
  with assms(1) show ?thesis by (simp add: set_cell_def list_update_beyond)
qed

lemma py_choice_Inr:
  "py_choice xs rs = Inr (x, rs') \<Longrightarrow> x \<in> set xs"
  by (auto simp: py_choice_def split: if_splits)

lemma py_choice_ok:
  "xs \<noteq> [] \<Longrightarrow> \<exists>x rs'. py_choice xs rs = Inr (x, rs')"
  by (simp add: py_choice_def)

lemma py_choice_Nil [simp]: "py_choice [] rs = Inl IndexError"
  by (simp add: py_choice_def)

lemma length_filter_mono:
  "(\<And>x. x \<in> set xs \<Longrightarrow> P x \<Longrightarrow> Q x) \<Longrightarrow> length (filter P xs) \<le> length (filter Q xs)"
  by (induction xs) auto

lemma length_filter_less_mono:
  assumes "\<And>x. x \<in> set xs \<Longrightarrow> P x \<Longrightarrow> Q x" "y \<in> set xs" "Q y" "\<not> P y"
  shows "length (filter P xs) < length (filter Q xs)"
  using assms
proof (induction xs)
  case (Cons x xs)
  show ?case
  proof (cases "y = x")
    case True
    with Cons.prems have "length (filter P xs) \<le> length (filter Q xs)"
      by (intro length_filter_mono) auto
    with True Cons.prems show ?thesis by simp
  next
    case False
    with Cons have "length (filter P xs) < length (filter Q xs)" by simp
    with Cons.prems show ?thesis by auto
  qed
qed simp

lemma sum_list_concat_lists: "sum_list (concat xss) = sum_list (map sum_list (xss :: int list list))"
  by (induction xss) simp_all

lemma length3_cases: "length xs = 3 \<Longrightarrow> \<exists>a b c. xs = [a, b, c]"
  by (auto simp: numeral_3_eq_3 length_Suc_conv)

lemma char_of_digit:
  "char_of (48 :: nat) = CHR ''0''" "char_of (49 :: nat) = CHR ''1''" "char_of (50 :: nat) = CHR ''2''"
  "char_of (51 :: nat) = CHR ''3''" "char_of (52 :: nat) = CHR ''4''" "char_of (53 :: nat) = CHR ''5''"
  "char_of (54 :: nat) = CHR ''6''" "char_of (55 :: nat) = CHR ''7''" "char_of (56 :: nat) = CHR ''8''"
  "char_of (57 :: nat) = CHR ''9''"
  by (simp_all add: char_of_def bit_0)

lemma foldl_update_enumerate:
  "k + length ts \<le> length xs \<Longrightarrow>
   foldl (\<lambda>xs (i, t). xs[i := t]) xs (enumerate k ts) = take k xs @ ts @ drop (k + length ts) xs"
proof (induction ts arbitrary: k xs)
  case (Cons t ts)
  then have "k < length xs" by simp
  with Cons.prems have "foldl (\<lambda>xs (i, t). xs[i := t]) (xs[k := t]) (enumerate (Suc k) ts)
     = take (Suc k) (xs[k := t]) @ ts @ drop (Suc k + length ts) (xs[k := t])"
    by (intro Cons.IH) simp
  also have "\<dots> = take k xs @ (t # ts) @ drop (k + length (t # ts)) xs"
    using \<open>k < length xs\<close> by (simp add: take_Suc_conv_app_nth take_update_cancel)
  finally show ?case by simp
qed simp

lemma foldl_update_upt:
  "a \<le> b \<Longrightarrow> b \<le> length xs \<Longrightarrow>
   foldl (\<lambda>xs i. xs[i := f i]) xs [a..<b] = take a xs @ map f [a..<b] @ drop b xs"
proof (induction b)
  case (Suc b)
  show ?case
  proof (cases "a = Suc b")
    case False
    with Suc.prems have "a \<le> b" by simp
    with Suc show ?thesis
      by (simp add: upt_Suc_append Cons_nth_drop_Suc[symmetric] list_update_append)
  qed simp
qed simp

lemma ascii_digit_char_of: "(k :: nat) < 10 \<Longrightarrow> ascii_digit (char_of (48 + k))"
  by (simp add: ascii_digit_def of_char_of)

lemma digits_all_digit: "list_all ascii_digit (digits n)"
proof (induction n rule: digits.induct)
  case (1 n)
  then show ?case by (subst digits.simps) (simp add: ascii_digit_char_of)
qed

lemma digits_not_Nil: "digits n \<noteq> []"
  by (subst digits.simps) simp

lemma of_char_digit: "(k :: nat) < 10 \<Longrightarrow> of_char (char_of (48 + k)) = 48 + k"
  by (simp add: of_char_of)

lemma digits_value_digits:
  "digits_value acc b (digits n @ cs) = digits_value (acc * 10 ^ length (digits n) + int n) True cs"
proof (induction n arbitrary: acc b cs rule: digits.induct)
  case (1 n)
  show ?case
  proof (cases "n < 10")
    case True
    then show ?thesis
      by (subst (1 2) digits.simps) (simp add: ascii_digit_char_of of_char_digit mult.commute)
  next
    case False
    then have d: "digits n = digits (n div 10) @ [char_of (48 + n mod 10)]"
      by (subst digits.simps) simp
    have "n = 10 * (n div 10) + n mod 10" by simp
    then have "int n = 10 * int (n div 10) + int (n mod 10)" by (metis of_nat_add of_nat_mult of_nat_numeral)
    with False 1 show ?thesis
      by (simp add: d ascii_digit_char_of of_char_digit algebra_simps)
  qed
qed

lemma digits_hd: "hd (digits n) \<noteq> CHR ''-'' \<and> hd (digits n) \<noteq> CHR ''+'' \<and> \<not> py_space (hd (digits n))"
proof -
  have "ascii_digit (hd (digits n))"
    using digits_all_digit [of n] digits_not_Nil [of n] by (cases "digits n") auto
  then show ?thesis by (auto simp: ascii_digit_def py_space_def)
qed

lemma digits_last: "\<not> py_space (last (digits n))"
proof -
  have "ascii_digit (last (digits n))"
    using digits_all_digit [of n] digits_not_Nil [of n] by (simp add: list_all_iff)
  then show ?thesis by (auto simp: ascii_digit_def py_space_def)
qed

lemma py_strip_pad:
  assumes "list_all py_space a" "list_all py_space b" "s \<noteq> []" "\<not> py_space (hd s)" "\<not> py_space (last s)"
  shows "py_strip (a @ s @ b) = s"
proof -
  have "dropWhile py_space (a @ s @ b) = s @ b"
    using assms by (simp add: dropWhile_append2 list_all_iff dropWhile_eq_self_iff)
  moreover have "dropWhile py_space (rev s) = rev s"
    using assms by (simp add: dropWhile_eq_self_iff hd_rev)
  then have "dropWhile py_space (rev b @ rev s) = rev s"
    using dropWhile_append2 [of "rev b" py_space "rev s"] assms(2) by (simp add: list_all_iff)
  ultimately show ?thesis by (simp add: py_strip_def)
qed

lemma digits_value_of_digits: "digits_value 0 False (digits n) = Some (int n)"
  using digits_value_digits [of 0 False n "[]"] by simp

text \<open>\<open>int\<close> reads back \<open>str\<close>: the decimal text of an int, with any white
  space around it, gives that int.\<close>

lemma py_int_py_str:
  assumes "list_all py_space a" "list_all py_space b"
  shows "py_int (a @ py_str i @ b) = Inr i"
proof -
  have ne: "py_str i \<noteq> []" "\<not> py_space (hd (py_str i))" "\<not> py_space (last (py_str i))"
    using digits_hd digits_not_Nil digits_last
    by (auto simp: py_str_def py_space_def)
  have s: "py_strip (a @ py_str i @ b) = py_str i"
    using py_strip_pad [OF assms ne] .
  show ?thesis
  proof (cases "i < 0")
    case True
    then show ?thesis
      unfolding py_int_def s by (simp add: py_str_def digits_value_of_digits)
  next
    case False
    obtain c cs where d: "digits (nat i) = c # cs" using digits_not_Nil by (cases "digits (nat i)") auto
    with digits_hd [of "nat i"] have "c \<noteq> CHR ''-''" "c \<noteq> CHR ''+''" by simp_all
    with False d show ?thesis
      using digits_value_of_digits [of "nat i"] unfolding py_int_def s by (simp add: py_str_def)
  qed
qed

lemma py_int_str [simp]: "py_int (py_str i) = Inr i"
  using py_int_py_str [of "[]" "[]" i] by simp

lemma py_int_Inl: "py_int s = Inl e \<Longrightarrow> e = ValueError"
  by (auto simp: py_int_def Let_def split: list.splits if_splits option.splits prod.splits)

lemma py_int_zero: "py_int ''0'' = Inr 0"
  by (simp add: py_int_def py_strip_def py_space_def ascii_digit_def)

end
