(* ===== verification/GameTree.thy ===== *)
theory GameTree
  imports Prelude
begin

text \<open>
  The search tree shared by both games: class \<open>Tree\<close> of src/tictactoe.py
  (lines 259-320); src/othello.py (lines 472-535) holds a textual copy of the same
  class.  A node stores its board, the side to move, the move that led to it
  (\<open>None\<close> at the root), its score and the list of its children in the order
  they were added.  \<open>pass_score\<close> backs the scores up the tree, mutating every
  node's score in place; the model returns the tree with the new scores.
  \<open>select_best_child\<close> collects the moves of the children whose score equals the
  root's and falls back to a random child when there is none.
\<close>

datatype 'g tree =
  Tree (node_grid: 'g) (node_player: nat) (node_action: "move option")
       (node_score: int) (node_children: "'g tree list")

text \<open>\<open>Tree.add_child\<close>: \<open>self.children.append(child)\<close>.\<close>

definition add_child :: "'g tree \<Rightarrow> 'g tree \<Rightarrow> 'g tree" where
  "add_child t c =
     Tree (node_grid t) (node_player t) (node_action t) (node_score t) (node_children t @ [c])"

text \<open>
  \<open>Tree.pass_score(player)\<close>: each child is first backed up with the other
  player, then its score replaces the node's score when it is smaller (player 1)
  or larger (any other player).  The node's own score takes part in the
  comparison: it is the starting value of the loop.
\<close>

definition min_step :: "'g tree \<Rightarrow> int \<Rightarrow> int" where
  "min_step c sc = (if node_score c < sc then node_score c else sc)"

definition max_step :: "'g tree \<Rightarrow> int \<Rightarrow> int" where
  "max_step c sc = (if node_score c > sc then node_score c else sc)"

fun pass_score :: "nat \<Rightarrow> 'g tree \<Rightarrow> 'g tree" where
  "pass_score player (Tree g p a s cs) =
     (let cs' = map (pass_score (next_player player)) cs
      in Tree g p a (if player = 1 then fold min_step cs' s else fold max_step cs' s) cs')"

text \<open>
  \<open>Tree.select_best_child()\<close>: the actions of the children whose score equals the
  node's score, in child order; if there is none, \<open>choice(self.children).action\<close>,
  which raises \<open>IndexError\<close> when the node has no children.
\<close>

definition select_best_child ::
  "'g tree \<Rightarrow> nat stream \<Rightarrow> py_error + (move option list \<times> nat stream)" where
  "select_best_child t rs =
     (let action = map node_action (filter (\<lambda>c. node_score c = node_score t) (node_children t))
      in if action = []
         then (case py_choice (node_children t) rs of
                 Inl e \<Rightarrow> Inl e
               | Inr (c, rs') \<Rightarrow> Inr (action @ [node_action c], rs'))
         else Inr (action, rs))"

subsection \<open>Reference evaluation\<close>

text \<open>
  The value the backup computes, stated without loops: a node's value is the
  minimum (player 1) or maximum (otherwise) of its own score and the values of
  its children, the children evaluated for the other player.
\<close>

fun engine_value :: "nat \<Rightarrow> 'g tree \<Rightarrow> int" where
  "engine_value p (Tree g q a s cs) =
     (if p = 1 then Min (insert s (set (map (engine_value (next_player p)) cs)))
      else Max (insert s (set (map (engine_value (next_player p)) cs))))"

text \<open>
  Textbook minimax (the game-tree evaluation of the spec, section 4.2 step 3): a leaf
  keeps its score, an inner node takes the minimum or maximum over its children
  only.
\<close>

fun minimax :: "nat \<Rightarrow> 'g tree \<Rightarrow> int" where
  "minimax p (Tree g q a s []) = s"
| "minimax p (Tree g q a s (c # cs)) =
     (if p = 1 then Min (set (map (minimax (next_player p)) (c # cs)))
      else Max (set (map (minimax (next_player p)) (c # cs))))"

subsection \<open>Lemmas on the backup\<close>

lemma fold_min_step: "fold min_step cs s = fold min (map node_score cs) s"
  by (induction cs arbitrary: s) (auto simp: min_step_def min_def)

lemma fold_max_step: "fold max_step cs s = fold max (map node_score cs) s"
  by (induction cs arbitrary: s) (auto simp: max_step_def max_def)

lemma fold_min_Min: "fold min xs (s::int) = Min (insert s (set xs))"
  by (metis Min.set_eq_fold list.simps(15))

lemma fold_max_Max: "fold max xs (s::int) = Max (insert s (set xs))"
  by (metis Max.set_eq_fold list.simps(15))

lemma pass_score_grid [simp]: "node_grid (pass_score p t) = node_grid t"
  by (cases t) (simp add: Let_def)

lemma pass_score_player [simp]: "node_player (pass_score p t) = node_player t"
  by (cases t) (simp add: Let_def)

lemma pass_score_action [simp]: "node_action (pass_score p t) = node_action t"
  by (cases t) (simp add: Let_def)

lemma pass_score_children:
  "node_children (pass_score p t) = map (pass_score (next_player p)) (node_children t)"
  by (cases t) (simp add: Let_def)

lemma pass_score_leaf [simp]: "pass_score p (Tree g q a s []) = Tree g q a s []"
  by (simp add: fold_min_step)

lemma map_node_action_pass_score [simp]:
  "map node_action (map (pass_score p) cs) = map node_action cs"
  by (induction cs) auto

lemma node_score_pass_score:
  "node_score (pass_score p t) = engine_value p t"
proof (induction p t rule: pass_score.induct)
  case (1 player g p a s cs)
  then show ?case
    by (cases "player = 1")
       (simp_all add: Let_def fold_min_step fold_max_step fold_min_Min fold_max_Max image_image
          cong: image_cong)
qed

lemma add_child_children [simp]: "node_children (add_child t c) = node_children t @ [c]"
  by (simp add: add_child_def)

lemma add_child_fields [simp]:
  "node_grid (add_child t c) = node_grid t"
  "node_player (add_child t c) = node_player t"
  "node_action (add_child t c) = node_action t"
  "node_score (add_child t c) = node_score t"
  by (simp_all add: add_child_def)

subsection \<open>Lemmas on the best-move selection\<close>

lemma select_best_child_Inr:
  assumes "select_best_child t rs = Inr (acts, rs')"
  shows "acts \<noteq> [] \<and> set acts \<subseteq> node_action ` set (node_children t)"
  using assms py_choice_Inr [of "node_children t" rs]
  by (auto simp: select_best_child_def Let_def split: if_splits sum.splits prod.splits)

lemma select_best_child_Inl:
  "(\<exists>e. select_best_child t rs = Inl e) \<longleftrightarrow> node_children t = []"
  by (auto simp: select_best_child_def Let_def py_choice_def split: sum.splits)

text \<open>The selection followed by \<open>choice(actions)\<close>, as both \<open>decision_tree\<close>s end.\<close>

lemma select_choice_Inl:
  "(case select_best_child t rs of Inl e \<Rightarrow> Inl e | Inr (acts, rs') \<Rightarrow> py_choice acts rs') = Inl e \<longleftrightarrow>
   node_children t = [] \<and> e = IndexError"
  by (auto simp: select_best_child_def Let_def py_choice_def split: sum.splits if_splits)

lemma select_choice_Inr:
  assumes "(case select_best_child t rs of Inl e \<Rightarrow> Inl e | Inr (acts, rs') \<Rightarrow> py_choice acts rs') = Inr (x, rs')"
  shows "x \<in> node_action ` set (node_children t)"
proof -
  obtain acts rs1 where sel: "select_best_child t rs = Inr (acts, rs1)" and ch: "py_choice acts rs1 = Inr (x, rs')"
    using assms by (auto split: sum.splits)
  from select_best_child_Inr [OF sel] py_choice_Inr [OF ch] show ?thesis by auto
qed

subsection \<open>Properties\<close>

text \<open>
  C6: the backup keeps a node's own score in the comparison: after \<open>pass_score\<close> a
  node of player 1 scores at most, and a node of any other player at least, the score
  it had before, whatever its children.  Textbook minimax ignores an inner node's own
  score, so the two differ (the witness: a player-0 node of score 0 whose only child
  scores -1 keeps 0, where minimax gives -1).
\<close>

theorem pass_score_keeps_own_score:
  "(p = 1 \<longrightarrow> node_score (pass_score p (Tree g q a s cs)) \<le> s) \<and>
   (p \<noteq> 1 \<longrightarrow> s \<le> node_score (pass_score p (Tree g q a s cs)))"
  by (simp only: node_score_pass_score) simp

theorem pass_score_keeps_own_score_witness:
  "node_score (pass_score 0 (Tree () 0 None 0 [Tree () 1 (Some (0, 0)) (-1) []])) = 0 \<and>
   minimax 0 (Tree () 0 None 0 [Tree () 1 (Some (0, 0)) (-1) []]) = -1"
proof -
  have "0 \<le> node_score (pass_score 0 (Tree () 0 None 0 [Tree () 1 (Some (0, 0)) (-1) []]))"
    using pass_score_keeps_own_score [of 0 "()" 0 None 0 "[Tree () 1 (Some (0, 0)) (-1) []]"] by simp
  then show ?thesis by (simp add: max_step_def next_player_def)
qed

text \<open>
  \<open>select_best_child\<close> fails exactly when the node has no children, and then
  with the \<open>IndexError\<close> of \<open>random.choice\<close> on an empty list.
\<close>

theorem select_best_child_error:
  "select_best_child t rs = Inl e \<longleftrightarrow> node_children t = [] \<and> e = IndexError"
  by (auto simp: select_best_child_def Let_def py_choice_def split: sum.splits)

end
