(* ===== verification/TicTacToe.thy ===== *)
theory TicTacToe
  imports GameTree
begin

text \<open>
  Class \<open>Tictactoe\<close> of src/tictactoe.py (lines 55-255): the board and rules of
  the 3x3 game and the AI player that builds a game tree to
  \<open>decision_level\<close> plies, backs the scores up and picks one of the best moves.
  The object's fields are the record \<open>tictactoe\<close>; every method that changes
  them returns the updated record.  \<open>grid[i][j]\<close> is row \<open>i\<close>, column \<open>j\<close>;
  every index the code computes is below 3, so no access is out of range on a
  3x3 board (\<open>square 3\<close>).
\<close>

record tictactoe =
  grid :: grid
  player :: nat
  decision_level :: nat
  end_game :: bool
  winner :: "nat option"
  result :: "nat list"

text \<open>\<open>Tictactoe.__init__\<close>.\<close>

definition init_tictactoe :: tictactoe where
  "init_tictactoe =
     \<lparr>grid = replicate 3 (replicate 3 0), player = 0, decision_level = 3,
      end_game = False, winner = None, result = [0, 0, 0]\<rparr>"

definition switch_player :: "tictactoe \<Rightarrow> tictactoe" where
  "switch_player s = s\<lparr>player := next_player (player s)\<rparr>"

definition set_decision_level :: "tictactoe \<Rightarrow> nat \<Rightarrow> tictactoe" where
  "set_decision_level s v = s\<lparr>decision_level := v\<rparr>"

text \<open>\<open>clean_grid\<close>: the double loop writing 0 to every cell.\<close>

definition clean_grid :: "tictactoe \<Rightarrow> tictactoe" where
  "clean_grid s =
     s\<lparr>grid := fold (\<lambda>i g. fold (\<lambda>j g. set_cell g i j 0) [0..<3] g) [0..<3] (grid s)\<rparr>"

definition reset_game :: "tictactoe \<Rightarrow> tictactoe" where
  "reset_game s = (clean_grid s)\<lparr>end_game := False\<rparr>"

text \<open>\<open>add_move(action)\<close>: returns the new state and \<open>added_move\<close>.\<close>

definition add_move :: "tictactoe \<Rightarrow> move \<Rightarrow> tictactoe \<times> bool" where
  "add_move s action =
     (let (i, j) = action
      in if player s = 0
         then (if grid s ! i ! j = 0 then (s\<lparr>grid := set_cell (grid s) i j 1\<rparr>, True) else (s, False))
         else (if grid s ! i ! j = 0 then (s\<lparr>grid := set_cell (grid s) i j (-1)\<rparr>, True) else (s, False)))"

text \<open>
  \<open>check_score(grid)\<close>: rows, then columns, then the two diagonals; each
  completed line overwrites the running score with \<open>1\<close> (player 0) or
  \<open>-1\<close> (player 1), so the last completed line in this order wins.
\<close>

definition line_score :: "int \<Rightarrow> int \<Rightarrow> int \<Rightarrow> int \<Rightarrow> int" where
  "line_score a b c score =
     (if a = 1 \<and> b = 1 \<and> c = 1 then 1
      else if a = -1 \<and> b = -1 \<and> c = -1 then -1 else score)"

definition check_score :: "grid \<Rightarrow> int" where
  "check_score g =
     (let score = fold (\<lambda>i. line_score (g ! i ! 0) (g ! i ! 1) (g ! i ! 2)) [0..<3] 0;
          score = fold (\<lambda>i. line_score (g ! 0 ! i) (g ! 1 ! i) (g ! 2 ! i)) [0..<3] score;
          score = line_score (g ! 0 ! 0) (g ! 1 ! 1) (g ! 2 ! 2) score
      in line_score (g ! 2 ! 0) (g ! 1 ! 1) (g ! 0 ! 2) score)"

text \<open>
  \<open>check_full_grid(grid)\<close>: the flag loop; its \<open>break\<close> leaves only the inner
  loop and skips cells that cannot set the flag back, so the flag is the fold.
\<close>

definition check_full_grid :: "grid \<Rightarrow> bool" where
  "check_full_grid g =
     fold (\<lambda>i f. fold (\<lambda>j f. if g ! i ! j = 0 then False else f) [0..<3] f) [0..<3] True"

text \<open>\<open>check_end_game()\<close> (the prints dropped).\<close>

definition check_end_game :: "tictactoe \<Rightarrow> tictactoe" where
  "check_end_game s =
     (let score = check_score (grid s);
          s = (if score \<noteq> 0
               then (let s = s\<lparr>end_game := True\<rparr>
                     in if score = 1 then s\<lparr>winner := Some 0, result := (result s)[0 := result s ! 0 + 1]\<rparr>
                        else if score = -1 then s\<lparr>winner := Some 1, result := (result s)[1 := result s ! 1 + 1]\<rparr>
                        else s)
               else s)
      in if score = 0 \<and> check_full_grid (grid s)
         then s\<lparr>end_game := True, result := (result s)[2 := result s ! 2 + 1]\<rparr>
         else s)"

subsection \<open>The AI player\<close>

text \<open>The cells in the order of the loops \<open>for i in range(3): for j in range(3)\<close>.\<close>

definition ttt_cells :: "move list" where
  "ttt_cells = [(i, j). i \<leftarrow> [0..<3], j \<leftarrow> [0..<3]]"

text \<open>
  \<open>extend_tree(tree, curr_player, level)\<close>.  The first argument is the number
  of levels left, \<open>decision_level - level\<close>: the call returns at once when it
  is 0 (\<open>level == self.decision_level\<close>) and recurses with one level less.
  For every empty cell in loop order a child is built for the move of
  \<open>curr_player\<close>; it is extended further only when its score is 0.
\<close>

fun extend_tree :: "nat \<Rightarrow> grid tree \<Rightarrow> nat \<Rightarrow> grid tree" where
  "extend_tree 0 t curr_player = t"
| "extend_tree (Suc d) t curr_player =
     fold (\<lambda>(i, j) t.
        if node_grid t ! i ! j = 0 then
          (let new_grid = set_cell (node_grid t) i j (if curr_player = 0 then 1 else -1);
               score = check_score new_grid;
               child = Tree new_grid (next_player curr_player) (Some (i, j)) score [];
               child = (if node_score child = 0
                        then extend_tree d child (next_player curr_player) else child)
           in add_child t child)
        else t) ttt_cells t"

text \<open>
  \<open>decision_tree()\<close>: a root with score 0 for the current board, extended to
  \<open>decision_level\<close> plies, backed up for \<open>self.player\<close>, and one of the
  selected actions drawn with \<open>choice\<close>.
\<close>

definition decision_tree ::
  "tictactoe \<Rightarrow> nat stream \<Rightarrow> py_error + (move option \<times> nat stream)" where
  "decision_tree s rs =
     (let p = player s;
          tree = Tree (grid s) p None 0 [];
          tree = extend_tree (decision_level s) tree p;
          tree = pass_score p tree
      in case select_best_child tree rs of
           Inl e \<Rightarrow> Inl e
         | Inr (actions, rs') \<Rightarrow> py_choice actions rs')"

text \<open>
  \<open>player_step()\<close>: the AI's move, the end-of-game check and the switch of
  player.  An action \<open>None\<close> would fail to unpack (\<open>TypeError\<close>).
\<close>

definition player_step ::
  "tictactoe \<Rightarrow> nat stream \<Rightarrow> py_error + (tictactoe \<times> nat stream)" where
  "player_step s rs =
     (case decision_tree s rs of
        Inl e \<Rightarrow> Inl e
      | Inr (None, rs') \<Rightarrow> Inl TypeError
      | Inr (Some action, rs') \<Rightarrow>
          (let (s, added_move) = add_move s action;
               s = check_end_game s
           in Inr (switch_player s, rs')))"

subsection \<open>Specification vocabulary\<close>

text \<open>
  The eight lines of the board in the order \<open>check_score\<close> inspects them, and
  what it means for a player to own a line or to be able to complete one with
  the next move.
\<close>

definition ttt_lines :: "move list list" where
  "ttt_lines =
     [[(0, 0), (0, 1), (0, 2)], [(1, 0), (1, 1), (1, 2)], [(2, 0), (2, 1), (2, 2)],
      [(0, 0), (1, 0), (2, 0)], [(0, 1), (1, 1), (2, 1)], [(0, 2), (1, 2), (2, 2)],
      [(0, 0), (1, 1), (2, 2)], [(2, 0), (1, 1), (0, 2)]]"

definition owns_line :: "grid \<Rightarrow> int \<Rightarrow> move list \<Rightarrow> bool" where
  "owns_line g v l = list_all (\<lambda>(i, j). g ! i ! j = v) l"

definition has_line :: "grid \<Rightarrow> int \<Rightarrow> bool" where
  "has_line g v = list_ex (owns_line g v) ttt_lines"

definition empty_cells :: "grid \<Rightarrow> move list" where
  "empty_cells g = filter (\<lambda>(i, j). g ! i ! j = 0) ttt_cells"

definition wins_now :: "grid \<Rightarrow> nat \<Rightarrow> bool" where
  "wins_now g p =
     list_ex (\<lambda>ij. has_line (let (i, j) = ij in set_cell g i j (mark_of p)) (mark_of p)) (empty_cells g)"

definition score_step :: "grid \<Rightarrow> move list \<Rightarrow> int \<Rightarrow> int" where
  "score_step g l s = (if owns_line g 1 l then 1 else if owns_line g (-1) l then -1 else s)"

text \<open>The board after player \<open>p\<close> marks cell \<open>(i, j)\<close>.\<close>

definition play :: "grid \<Rightarrow> nat \<Rightarrow> move \<Rightarrow> grid" where
  "play g p ij = (let (i, j) = ij in set_cell g i j (mark_of p))"

definition winning_moves :: "grid \<Rightarrow> nat \<Rightarrow> move list" where
  "winning_moves g p = filter (\<lambda>ij. has_line (play g p ij) (mark_of p)) (empty_cells g)"

definition safe_moves :: "grid \<Rightarrow> nat \<Rightarrow> move list" where
  "safe_moves g p = filter (\<lambda>ij. \<not> wins_now (play g p ij) (next_player p)) (empty_cells g)"

text \<open>One iteration of the loop of \<open>extend_tree\<close>, named to reason about it.\<close>

definition ttt_child :: "nat \<Rightarrow> grid \<Rightarrow> nat \<Rightarrow> move \<Rightarrow> grid tree" where
  "ttt_child d g p ij =
     (let (i, j) = ij;
          new_grid = set_cell g i j (if p = 0 then 1 else -1);
          score = check_score new_grid;
          child = Tree new_grid (next_player p) (Some (i, j)) score []
      in if score = 0 then extend_tree d child (next_player p) else child)"

definition ttt_expand :: "nat \<Rightarrow> nat \<Rightarrow> move \<Rightarrow> grid tree \<Rightarrow> grid tree" where
  "ttt_expand d p ij t =
     (let (i, j) = ij in if node_grid t ! i ! j = 0 then add_child t (ttt_child d (node_grid t) p ij) else t)"

subsection \<open>Lemmas on the board\<close>

lemma extend_tree_Suc_fold: "extend_tree (Suc d) t p = fold (ttt_expand d p) ttt_cells t"
  unfolding extend_tree.simps
  by (intro fold_cong refl ext) (simp add: ttt_expand_def ttt_child_def Let_def split: prod.splits)
lemma upt_3: "[0..<3] = [0::nat, 1, 2]"
  by (simp add: upt_rec)
lemma line_score_owns:
  "line_score (g ! a ! b) (g ! c ! d) (g ! e ! f) s = score_step g [(a, b), (c, d), (e, f)] s"
  by (simp add: score_step_def owns_line_def line_score_def)
lemma check_score_fold: "check_score g = fold (score_step g) ttt_lines 0"
  unfolding check_score_def ttt_lines_def upt_3 Let_def
  by (simp only: fold_simps line_score_owns)

lemma score_step_simps:
  "owns_line g 1 l \<Longrightarrow> score_step g l s = 1"
  "\<not> owns_line g 1 l \<Longrightarrow> owns_line g (-1) l \<Longrightarrow> score_step g l s = -1"
  "\<not> owns_line g 1 l \<Longrightarrow> \<not> owns_line g (-1) l \<Longrightarrow> score_step g l s = s"
  by (simp_all add: score_step_def)

lemma fold_score_step_none:
  "\<not> list_ex (owns_line g 1) ls \<Longrightarrow> \<not> list_ex (owns_line g (-1)) ls \<Longrightarrow> fold (score_step g) ls s = s"
  by (induction ls arbitrary: s) (simp_all add: score_step_simps)

lemma fold_score_step_pos:
  "list_ex (owns_line g 1) ls \<Longrightarrow> \<not> list_ex (owns_line g (-1)) ls \<Longrightarrow> fold (score_step g) ls s = 1"
proof (induction ls arbitrary: s)
  case (Cons l ls)
  then show ?case
    by (cases "list_ex (owns_line g 1) ls") (auto simp: score_step_simps fold_score_step_none)
qed simp

lemma fold_score_step_neg:
  "\<not> list_ex (owns_line g 1) ls \<Longrightarrow> list_ex (owns_line g (-1)) ls \<Longrightarrow> fold (score_step g) ls s = -1"
proof (induction ls arbitrary: s)
  case (Cons l ls)
  then show ?case
    by (cases "list_ex (owns_line g (-1)) ls") (auto simp: score_step_simps fold_score_step_none)
qed simp

lemma fold_score_step_some:
  "list_ex (\<lambda>l. owns_line g 1 l \<or> owns_line g (-1) l) ls \<Longrightarrow> fold (score_step g) ls s \<in> {-1, 1}"
proof (induction ls arbitrary: s)
  case Nil then show ?case by simp
next
  case (Cons l ls)
  show ?case
  proof (cases "list_ex (\<lambda>l. owns_line g 1 l \<or> owns_line g (-1) l) ls")
    case True with Cons.IH show ?thesis by simp
  next
    case False
    then have "fold (score_step g) ls s' = s'" for s'
      by (intro fold_score_step_none) (auto simp: list_ex_iff)
    moreover have "score_step g l s \<in> {-1, 1}"
      using Cons.prems False by (auto simp: score_step_def)
    ultimately show ?thesis by simp
  qed
qed

lemma fold_score_step_range: "fold (score_step g) ls s \<in> {s, -1, 1}"
  by (induction ls arbitrary: s) (auto simp: score_step_def)

lemma check_score_range: "check_score g \<in> {-1, 0, 1}"
  using fold_score_step_range [of g ttt_lines 0] by (auto simp: check_score_fold)

lemma check_score_lines:
  "\<not> (has_line g 1 \<and> has_line g (-1)) \<Longrightarrow>
   check_score g = (if has_line g 1 then 1 else if has_line g (-1) then -1 else 0)"
  by (auto simp: check_score_fold has_line_def fold_score_step_pos fold_score_step_neg
      fold_score_step_none)

lemma check_score_zero_iff:
  "check_score g = 0 \<longleftrightarrow> \<not> has_line g 1 \<and> \<not> has_line g (-1)"
proof
  assume "check_score g = 0"
  then show "\<not> has_line g 1 \<and> \<not> has_line g (-1)"
    using fold_score_step_some [of g ttt_lines 0]
    by (auto simp: check_score_fold has_line_def list_ex_iff)
next
  assume "\<not> has_line g 1 \<and> \<not> has_line g (-1)"
  then show "check_score g = 0"
    by (simp add: check_score_fold has_line_def fold_score_step_none)
qed

lemma ttt_lines_in_range: "l \<in> set ttt_lines \<Longrightarrow> (i, j) \<in> set l \<Longrightarrow> i < 3 \<and> j < 3"
  by (auto simp: ttt_lines_def)

lemma ttt_cells_in_range: "(i, j) \<in> set ttt_cells \<Longrightarrow> i < 3 \<and> j < 3"
  by (auto simp: ttt_cells_def)

lemma set_cell_other_value:
  assumes "square 3 g" "i < 3" "j < 3" "g ! i ! j = 0" "m \<noteq> v" "v \<noteq> 0" "i' < 3" "j' < 3"
  shows "(set_cell g i j m ! i' ! j' = v) = (g ! i' ! j' = v)"
  using assms by (auto simp: set_cell_nth square_def square_nth_length)

lemma has_line_set_cell_other:
  assumes "square 3 g" "i < 3" "j < 3" "g ! i ! j = 0" "m \<noteq> v" "v \<noteq> 0"
  shows "has_line (set_cell g i j m) v = has_line g v"
proof -
  have "owns_line (set_cell g i j m) v l = owns_line g v l" if "l \<in> set ttt_lines" for l
    using that assms set_cell_other_value [OF assms] ttt_lines_in_range [OF that]
    unfolding owns_line_def list_all_iff by fast
  then show ?thesis unfolding has_line_def list_ex_iff by blast
qed

lemma check_full_grid_iff: "check_full_grid g \<longleftrightarrow> empty_cells g = []"
  by (simp add: check_full_grid_def empty_cells_def ttt_cells_def upt_3)



lemma clean_grid_grid:
  assumes "square 3 (grid s)"
  shows "grid (clean_grid s) = replicate 3 (replicate 3 0)"
proof -
  have "length (grid s) = 3" using assms by (simp add: square_def)
  then obtain r0 r1 r2 where g: "grid s = [r0, r1, r2]"
    using length3_cases by blast
  have "length r0 = 3" "length r1 = 3" "length r2 = 3"
    using assms by (auto simp: square_def g)
  then obtain a b c d e f h i k where "r0 = [a, b, c]" "r1 = [d, e, f]" "r2 = [h, i, k]"
    using length3_cases by meson
  then show ?thesis
    by (simp add: clean_grid_def g upt_3 set_cell_def numeral_3_eq_3)
qed

declare extend_tree.simps(2) [simp del]

subsection \<open>Properties\<close>

text \<open>
  \<open>check_score\<close> is -1, 0 or 1, and on a board where not both players own a
  line it is 1 exactly when player 0 owns a line, -1 exactly when player 1 does, and
  0 when nobody does.
\<close>

theorem check_score_owner:
  "check_score g \<in> {-1, 0, 1} \<and>
   (\<not> (has_line g 1 \<and> has_line g (-1)) \<longrightarrow>
      check_score g = (if has_line g 1 then 1 else if has_line g (-1) then -1 else 0))"
  using check_score_range check_score_lines by blast

theorem check_score_owner_witness:
  "\<not> (has_line [[1,1,1],[0,-1,0],[-1,-1,0]] 1 \<and> has_line [[1,1,1],[0,-1,0],[-1,-1,0]] (-1)) \<and>
   check_score [[1,1,1],[0,-1,0],[-1,-1,0]] = 1"
proof -
  have h: "\<not> (has_line [[1,1,1],[0,-1,0],[-1,-1,0]] 1 \<and> has_line [[1,1,1],[0,-1,0],[-1,-1,0]] (-1))"
    "has_line [[1,1,1],[0,-1,0],[-1,-1,0]] 1" by code_simp+
  show ?thesis using check_score_owner [of "[[1,1,1],[0,-1,0],[-1,-1,0]]"] h by simp
qed

text \<open>
  \<open>check_end_game\<close> on a board where not both players own a line counts one
  win for the owner of a line, or one draw on a full board, and nothing otherwise, and
  ends the game exactly in these cases.
\<close>

theorem check_end_game_tally:
  assumes "\<not> (has_line (grid s) 1 \<and> has_line (grid s) (-1))"
  shows "result (check_end_game s) =
           (if has_line (grid s) 1 then (result s)[0 := result s ! 0 + 1]
            else if has_line (grid s) (-1) then (result s)[1 := result s ! 1 + 1]
            else if empty_cells (grid s) = [] then (result s)[2 := result s ! 2 + 1]
            else result s) \<and>
         end_game (check_end_game s) =
           (end_game s \<or> has_line (grid s) 1 \<or> has_line (grid s) (-1) \<or> empty_cells (grid s) = [])"
  using check_score_lines [OF assms]
  by (auto simp: check_end_game_def Let_def check_full_grid_iff)

theorem check_end_game_tally_witness:
  "\<not> (has_line (grid (init_tictactoe\<lparr>grid := [[1,1,1],[-1,-1,0],[0,0,0]]\<rparr>)) 1 \<and>
       has_line (grid (init_tictactoe\<lparr>grid := [[1,1,1],[-1,-1,0],[0,0,0]]\<rparr>)) (-1)) \<and>
   result (check_end_game (init_tictactoe\<lparr>grid := [[1,1,1],[-1,-1,0],[0,0,0]]\<rparr>)) = [1, 0, 0]"
proof -
  let ?s = "init_tictactoe\<lparr>grid := [[1,1,1],[-1,-1,0],[0,0,0]]\<rparr>"
  have h: "\<not> (has_line (grid ?s) 1 \<and> has_line (grid ?s) (-1))" "has_line (grid ?s) 1"
    by (simp_all add: init_tictactoe_def) code_simp+
  show ?thesis using check_end_game_tally [OF h(1)] h by (simp add: init_tictactoe_def)
qed

text \<open>
  \<open>reset_game\<close> empties the board and restarts the game, but leaves the side
  to move, the winner and the tally as they were: a game won by the human with the AI
  to move restarts with the AI moving first.
\<close>

theorem reset_game_board:
  "square 3 (grid s) \<Longrightarrow>
   grid (reset_game s) = replicate 3 (replicate 3 0) \<and> \<not> end_game (reset_game s) \<and>
   player (reset_game s) = player s \<and> winner (reset_game s) = winner s \<and>
   result (reset_game s) = result s"
  using clean_grid_grid [of s] by (simp add: reset_game_def clean_grid_def)

theorem reset_game_board_witness:
  "square 3 (grid (init_tictactoe\<lparr>player := 1, winner := Some 0\<rparr>)) \<and>
   player (reset_game (init_tictactoe\<lparr>player := 1, winner := Some 0\<rparr>)) = 1 \<and>
   winner (reset_game (init_tictactoe\<lparr>player := 1, winner := Some 0\<rparr>)) = Some 0"
proof -
  have h: "square 3 (grid (init_tictactoe\<lparr>player := 1, winner := Some 0\<rparr>))"
    by (simp add: init_tictactoe_def square_def numeral_3_eq_3)
  show ?thesis using reset_game_board [OF h] h by simp
qed

end
