(* ===== verification/TicTacToe_Engine.thy ===== *)
theory TicTacToe_Engine
  imports TicTacToe
begin

text \<open>
  What the AI of src/tictactoe.py computes.  \<open>extend_tree\<close> builds one child
  per empty cell in loop order (\<open>extend_tree_Suc_Tree\<close>) and expands a child only
  while its board has no completed line; \<open>pass_score\<close> then folds each node's own
  score into the minimum or maximum of its children (\<open>engine_value\<close>).  Since
  every expanded node has score 0, a node of player 0 never gets a value below 0
  and a node of player 1 never one above 0: the backed-up value of a position is
  decided by the next move alone (\<open>ttt_root_value\<close>), and the moves
  \<open>select_best_child\<close> returns are \<open>ai_candidates\<close>: the immediately winning
  moves if there are any, otherwise every empty cell at depth 1, and at depth 2 or
  more the moves after which the opponent cannot win at once.
\<close>

text \<open>The moves among which the AI draws, stated without the tree.\<close>

definition ai_candidates :: "nat \<Rightarrow> grid \<Rightarrow> nat \<Rightarrow> move list" where
  "ai_candidates d g p =
     (if wins_now g p then winning_moves g p
      else if d \<le> 1 then empty_cells g else safe_moves g p)"

subsection \<open>Shape of the tree\<close>

lemma fold_ttt_expand:
  "fold (ttt_expand d p) L (Tree g q a s cs) =
   Tree g q a s (cs @ map (ttt_child d g p) (filter (\<lambda>(i, j). g ! i ! j = 0) L))"
  by (induction L arbitrary: cs) (auto simp: ttt_expand_def add_child_def)

lemma extend_tree_Suc_Tree:
  "extend_tree (Suc d) (Tree g q a s cs) p = Tree g q a s (cs @ map (ttt_child d g p) (empty_cells g))"
  by (simp add: extend_tree_Suc_fold fold_ttt_expand empty_cells_def)

lemma extend_tree_shape: "\<exists>cs. extend_tree d (Tree g q a s []) p = Tree g q a s cs"
  by (cases d) (auto simp: extend_tree_Suc_Tree)

lemma engine_value_leaf [simp]: "engine_value p (Tree g q a s []) = s"
  by simp

lemma engine_value_min_own: "p = 1 \<Longrightarrow> engine_value p (Tree g q a s cs) \<le> s"
  by simp

lemma engine_value_max_own: "p \<noteq> 1 \<Longrightarrow> s \<le> engine_value p (Tree g q a s cs)"
  by simp

lemma engine_value_extend_min:
  "p = 1 \<Longrightarrow> engine_value p (extend_tree d (Tree g q a s []) p') \<le> s"
  using extend_tree_shape [of d g q a s p'] by auto

lemma engine_value_extend_max:
  "p \<noteq> 1 \<Longrightarrow> s \<le> engine_value p (extend_tree d (Tree g q a s []) p')"
  using extend_tree_shape [of d g q a s p'] by auto

lemma empty_cells_iff: "(i, j) \<in> set (empty_cells g) \<longleftrightarrow> (i, j) \<in> set ttt_cells \<and> g ! i ! j = 0"
  by (simp add: empty_cells_def)

lemma mark_of_lt2: "p < 2 \<Longrightarrow> mark_of p = 1 \<or> mark_of p = -1"
  by (simp add: mark_of_def)

lemma check_score_play:
  assumes "square 3 g" "check_score g = 0" "(i, j) \<in> set (empty_cells g)"
  shows "check_score (play g p (i, j)) = (if has_line (play g p (i, j)) (mark_of p) then mark_of p else 0)"
proof -
  from assms(3) have ij: "i < 3" "j < 3" "g ! i ! j = 0"
    by (auto simp: empty_cells_iff dest: ttt_cells_in_range)
  from assms(2) have none: "\<not> has_line g 1" "\<not> has_line g (-1)"
    by (auto simp: check_score_zero_iff)
  have "\<not> has_line (play g p (i, j)) (- mark_of p)"
    using has_line_set_cell_other [OF assms(1) ij, of "mark_of p" "- mark_of p"] none
    by (auto simp: play_def mark_of_def)
  then show ?thesis
    using check_score_lines [of "play g p (i, j)"] by (auto simp: mark_of_def split: if_splits)
qed

lemma ttt_child_play:
  "ttt_child d g p (i, j) =
     (if check_score (play g p (i, j)) = 0
      then extend_tree d (Tree (play g p (i, j)) (next_player p) (Some (i, j)) 0 []) (next_player p)
      else Tree (play g p (i, j)) (next_player p) (Some (i, j)) (check_score (play g p (i, j))) [])"
  by (simp add: ttt_child_def play_def mark_of_def Let_def)

lemma Max_insert_zero:
  "finite S \<Longrightarrow> \<forall>x\<in>S. x = 1 \<or> x \<le> 0 \<Longrightarrow> Max (insert (0::int) S) = (if 1 \<in> S then 1 else 0)"
  by (rule Max_eqI) auto

lemma Min_insert_zero:
  "finite S \<Longrightarrow> \<forall>x\<in>S. x = -1 \<or> 0 \<le> x \<Longrightarrow> Min (insert (0::int) S) = (if -1 \<in> S then -1 else 0)"
  by (rule Min_eqI) auto

lemma wins_now_play: "wins_now g p \<longleftrightarrow> (\<exists>ij\<in>set (empty_cells g). has_line (play g p ij) (mark_of p))"
  by (simp add: wins_now_def play_def list_ex_iff)

lemma ttt_child_value:
  assumes "square 3 g" "check_score g = 0" "ij \<in> set (empty_cells g)"
  shows "engine_value (next_player p) (ttt_child d g p ij) =
           (if has_line (play g p ij) (mark_of p) then mark_of p
            else engine_value (next_player p)
                   (extend_tree d (Tree (play g p ij) (next_player p) (Some ij) 0 []) (next_player p)))"
proof -
  obtain i j where ij: "ij = (i, j)" by (cases ij)
  show ?thesis
    using check_score_play [OF assms(1,2) assms(3) [unfolded ij]]
    by (simp add: ij ttt_child_play)
qed

lemma ttt_child_value_max:
  assumes "square 3 g" "check_score g = 0" "ij \<in> set (empty_cells g)"
  shows "if has_line (play g 0 ij) 1 then engine_value 1 (ttt_child d g 0 ij) = 1
         else engine_value 1 (ttt_child d g 0 ij) \<le> 0"
  using ttt_child_value [OF assms, where p = 0 and d = d]
    engine_value_extend_min [where p = 1 and d = d and g = "play g 0 ij" and q = 1 and a = "Some ij" and s = 0 and p' = 1]
  by (simp add: next_player_def mark_of_def)

lemma ttt_child_value_min:
  assumes "square 3 g" "check_score g = 0" "ij \<in> set (empty_cells g)"
  shows "if has_line (play g 1 ij) (-1) then engine_value 0 (ttt_child d g 1 ij) = -1
         else 0 \<le> engine_value 0 (ttt_child d g 1 ij)"
  using ttt_child_value [OF assms, where p = 1 and d = d]
    engine_value_extend_max [where p = 0 and d = d and g = "play g 1 ij" and q = 0 and a = "Some ij" and s = 0 and p' = 0]
  by (simp add: next_player_def mark_of_def)

theorem ttt_root_value:
  assumes "square 3 g" "check_score g = 0" "p < 2"
  shows "engine_value p (extend_tree (Suc d) (Tree g p a 0 []) p) = (if wins_now g p then mark_of p else 0)"
proof -
  let ?S = "(engine_value (next_player p) \<circ> ttt_child d g p) ` set (empty_cells g)"
  have val: "engine_value p (extend_tree (Suc d) (Tree g p a 0 []) p) =
      (if p = 1 then Min (insert 0 ?S) else Max (insert 0 ?S))"
    by (simp add: extend_tree_Suc_Tree)
  show ?thesis
  proof (cases "p = 0")
    case True
    note cv = ttt_child_value_max [OF assms(1,2), where d = d]
    have "\<forall>x\<in>?S. x = 1 \<or> x \<le> 0"
    proof
      fix x assume "x \<in> ?S"
      then obtain ij where "ij \<in> set (empty_cells g)" "x = engine_value 1 (ttt_child d g 0 ij)"
        using True by (auto simp: next_player_def)
      then show "x = 1 \<or> x \<le> 0" using cv [of ij] by (auto split: if_splits)
    qed
    moreover have "1 \<in> ?S \<longleftrightarrow> wins_now g p"
    proof
      assume "1 \<in> ?S"
      then obtain ij where "ij \<in> set (empty_cells g)" "engine_value 1 (ttt_child d g 0 ij) = 1"
        using True by (auto simp: next_player_def)
      then show "wins_now g p" using cv [of ij] True by (auto simp: wins_now_play mark_of_def split: if_splits)
    next
      assume "wins_now g p"
      then obtain ij where "ij \<in> set (empty_cells g)" "has_line (play g 0 ij) 1"
        using True by (auto simp: wins_now_play mark_of_def)
      then show "1 \<in> ?S" using cv [of ij] True by (force simp: next_player_def)
    qed
    ultimately have "Max (insert 0 ?S) = (if wins_now g p then 1 else 0)"
      by (simp add: Max_insert_zero)
    with True val show ?thesis by (simp add: mark_of_def)
  next
    case False
    with assms(3) have p1: "p = 1" by simp
    note cv = ttt_child_value_min [OF assms(1,2), where d = d]
    have "\<forall>x\<in>?S. x = -1 \<or> 0 \<le> x"
    proof
      fix x assume "x \<in> ?S"
      then obtain ij where "ij \<in> set (empty_cells g)" "x = engine_value 0 (ttt_child d g 1 ij)"
        using p1 by (auto simp: next_player_def)
      then show "x = -1 \<or> 0 \<le> x" using cv [of ij] by (auto split: if_splits)
    qed
    moreover have "-1 \<in> ?S \<longleftrightarrow> wins_now g p"
    proof
      assume "-1 \<in> ?S"
      then obtain ij where "ij \<in> set (empty_cells g)" "engine_value 0 (ttt_child d g 1 ij) = -1"
        using p1 by (auto simp: next_player_def)
      then show "wins_now g p" using cv [of ij] p1 by (auto simp: wins_now_play mark_of_def split: if_splits)
    next
      assume "wins_now g p"
      then obtain ij where "ij \<in> set (empty_cells g)" "has_line (play g 1 ij) (-1)"
        using p1 by (auto simp: wins_now_play mark_of_def)
      then show "-1 \<in> ?S" using cv [of ij] p1 by (force simp: next_player_def)
    qed
    ultimately have "Min (insert 0 ?S) = (if wins_now g p then -1 else 0)"
      by (simp add: Min_insert_zero)
    with p1 val show ?thesis by (simp add: mark_of_def)
  qed
qed

lemma empty_cells_range: "(i, j) \<in> set (empty_cells g) \<Longrightarrow> i < 3 \<and> j < 3 \<and> g ! i ! j = 0"
  by (auto simp: empty_cells_iff dest: ttt_cells_in_range)

lemma square_play [simp]: "square 3 (play g p ij) = square 3 g"
  by (cases ij) (simp add: play_def)

lemma child_engine_value:
  assumes "square 3 g" "check_score g = 0" "p < 2" "ij \<in> set (empty_cells g)"
  shows "engine_value (next_player p) (ttt_child d g p ij) =
           (if has_line (play g p ij) (mark_of p) then mark_of p
            else if d = 0 then 0
            else if wins_now (play g p ij) (next_player p) then mark_of (next_player p) else 0)"
proof -
  obtain i j where ij: "ij = (i, j)" by (cases ij)
  have cs: "check_score (play g p ij) = (if has_line (play g p ij) (mark_of p) then mark_of p else 0)"
    using check_score_play [OF assms(1,2) assms(4) [unfolded ij]] by (simp add: ij)
  show ?thesis
  proof (cases d)
    case 0
    then show ?thesis using ttt_child_value [OF assms(1,2,4), where p = p and d = d] by simp
  next
    case (Suc d')
    show ?thesis
    proof (cases "has_line (play g p ij) (mark_of p)")
      case True
      then show ?thesis using ttt_child_value [OF assms(1,2,4), where p = p and d = d] by simp
    next
      case False
      with cs have "check_score (play g p ij) = 0" by simp
      then have "engine_value (next_player p)
                   (extend_tree (Suc d') (Tree (play g p ij) (next_player p) (Some ij) 0 []) (next_player p))
                 = (if wins_now (play g p ij) (next_player p) then mark_of (next_player p) else 0)"
        using assms(1) by (intro ttt_root_value) simp_all
      then show ?thesis
        using ttt_child_value [OF assms(1,2,4), where p = p and d = d] False Suc by simp
    qed
  qed
qed
lemma ttt_child_action [simp]: "node_action (ttt_child d g p ij) = Some ij"
proof -
  obtain i j where ij: "ij = (i, j)" by (cases ij)
  show ?thesis
    using extend_tree_shape [of d "set_cell g i j (if p = 0 then 1 else -1)" "next_player p" "Some (i, j)" 0 "next_player p"]
    by (auto simp: ttt_child_def ij Let_def)
qed

theorem ttt_best_children:
  assumes "square 3 g" "check_score g = 0" "p < 2"
    and t: "t = pass_score p (extend_tree (Suc d) (Tree g p a 0 []) p)"
  shows "map node_action (filter (\<lambda>c. node_score c = node_score t) (node_children t))
         = map Some (ai_candidates (Suc d) g p)"
proof -
  let ?V = "if wins_now g p then mark_of p else 0"
  have root: "node_score t = ?V"
    using ttt_root_value [OF assms(1-3)] by (simp add: t node_score_pass_score)
  have kids: "node_children t = map (pass_score (next_player p) \<circ> ttt_child d g p) (empty_cells g)"
    by (simp add: t extend_tree_Suc_Tree Let_def)
  have lhs: "map node_action (filter (\<lambda>c. node_score c = node_score t) (node_children t))
      = map Some (filter (\<lambda>ij. engine_value (next_player p) (ttt_child d g p ij) = ?V) (empty_cells g))"
    by (simp add: root kids filter_map comp_def node_score_pass_score)
  have sel: "(engine_value (next_player p) (ttt_child d g p ij) = ?V) \<longleftrightarrow>
             (if wins_now g p then has_line (play g p ij) (mark_of p)
              else d = 0 \<or> \<not> wins_now (play g p ij) (next_player p))"
    if "ij \<in> set (empty_cells g)" for ij
  proof -
    have nh: "\<not> wins_now g p \<Longrightarrow> \<not> has_line (play g p ij) (mark_of p)"
      using that by (auto simp: wins_now_play)
    from assms(3) have "p = 0 \<or> p = 1" by auto
    then show ?thesis
      using child_engine_value [OF assms(1-3) that, where d = d] nh
      by (elim disjE) (auto simp: mark_of_def next_player_def)
  qed
  have "filter (\<lambda>ij. engine_value (next_player p) (ttt_child d g p ij) = ?V) (empty_cells g)
        = ai_candidates (Suc d) g p"
  proof -
    have "filter (\<lambda>ij. engine_value (next_player p) (ttt_child d g p ij) = ?V) (empty_cells g)
          = filter (\<lambda>ij. if wins_now g p then has_line (play g p ij) (mark_of p)
                          else d = 0 \<or> \<not> wins_now (play g p ij) (next_player p)) (empty_cells g)"
      by (rule filter_cong [OF refl]) (rule sel)
    then show ?thesis by (simp add: ai_candidates_def winning_moves_def safe_moves_def)
  qed
  with lhs show ?thesis by simp
qed
lemma set_ai_candidates: "set (ai_candidates d g p) \<subseteq> set (empty_cells g)"
  by (auto simp: ai_candidates_def winning_moves_def safe_moves_def)

lemma ai_candidates_Nil_empty: "empty_cells g = [] \<Longrightarrow> ai_candidates d g p = []"
  by (simp add: ai_candidates_def winning_moves_def safe_moves_def)

lemma decision_tree_eq:
  "decision_tree s rs =
     (case select_best_child (pass_score (player s) (extend_tree (decision_level s) (Tree (grid s) (player s) None 0 []) (player s))) rs of
        Inl e \<Rightarrow> Inl e | Inr (actions, rs') \<Rightarrow> py_choice actions rs')"
  by (simp add: decision_tree_def Let_def)

text \<open>
  C1: the move of the AI.  On a 3x3 board without a completed line, for the player to
  move (0 or 1) and a depth of at least 1, when \<open>ai_candidates\<close> is not empty
  \<open>decision_tree\<close> returns the candidate the next random draw selects and consumes
  that one draw.  The candidates are the immediately winning moves, or else every
  empty cell at depth 1 and, at any depth of 2 or more, the moves after which the
  opponent cannot complete a line at once: deeper threats are never seen.  The witness
  is the spec's scenario of section 8 (X in the centre, the AI to move, depth 9), where
  an edge reply, which loses by force, is among the candidates.
\<close>

theorem ttt_decision_tree:
  assumes "square 3 (grid s)" "check_score (grid s) = 0" "player s < 2" "0 < decision_level s"
    and ne: "ai_candidates (decision_level s) (grid s) (player s) \<noteq> []"
  shows "decision_tree s rs =
           (let cs = ai_candidates (decision_level s) (grid s) (player s)
            in Inr (Some (cs ! (shd rs mod length cs)), stl rs))"
proof -
  obtain d where d: "decision_level s = Suc d" using assms(4) by (cases "decision_level s") auto
  let ?t = "pass_score (player s) (extend_tree (Suc d) (Tree (grid s) (player s) None 0 []) (player s))"
  let ?cs = "ai_candidates (decision_level s) (grid s) (player s)"
  have best: "map node_action (filter (\<lambda>c. node_score c = node_score ?t) (node_children ?t)) = map Some ?cs"
    using ttt_best_children [OF assms(1-3) refl] d by simp
  then have "select_best_child ?t rs = Inr (map Some ?cs, rs)"
    using ne by (simp add: select_best_child_def Let_def)
  then show ?thesis
    using ne by (simp add: decision_tree_eq d py_choice_def Let_def)
qed

text \<open>
  when no candidate exists (every move lets the opponent win at once, depth at
  least 2), \<open>select_best_child\<close> falls back to a random child and
  \<open>decision_tree\<close> returns an empty cell picked by the first draw, consuming two
  draws.
\<close>

theorem ttt_decision_tree_fallback:
  assumes "square 3 (grid s)" "check_score (grid s) = 0" "player s < 2" "0 < decision_level s"
    and none: "ai_candidates (decision_level s) (grid s) (player s) = []"
    and ne: "empty_cells (grid s) \<noteq> []"
  shows "decision_tree s rs =
           Inr (Some (empty_cells (grid s) ! (shd rs mod length (empty_cells (grid s)))), stl (stl rs))"
proof -
  obtain d where d: "decision_level s = Suc d" using assms(4) by (cases "decision_level s") auto
  let ?t = "pass_score (player s) (extend_tree (Suc d) (Tree (grid s) (player s) None 0 []) (player s))"
  let ?E = "empty_cells (grid s)"
  have best: "map node_action (filter (\<lambda>c. node_score c = node_score ?t) (node_children ?t)) = []"
    using ttt_best_children [OF assms(1-3) refl] d none by simp
  have kids: "node_children ?t = map (pass_score (next_player (player s)) \<circ> ttt_child d (grid s) (player s)) ?E"
    by (simp add: extend_tree_Suc_Tree Let_def)
  have pick: "node_action (node_children ?t ! (shd rs mod length ?E)) = Some (?E ! (shd rs mod length ?E))"
    using ne by (simp add: kids)
  have "select_best_child ?t rs = Inr ([Some (?E ! (shd rs mod length ?E))], stl rs)"
    using best pick ne by (simp add: select_best_child_def py_choice_def kids)
  then show ?thesis by (simp add: decision_tree_eq d py_choice_def)
qed

text \<open>
  with \<open>decision_level = 0\<close> the root has no children and \<open>decision_tree\<close>
  raises \<open>IndexError\<close> from \<open>random.choice\<close>.
\<close>

theorem ttt_decision_tree_no_level:
  "decision_level s = 0 \<Longrightarrow> decision_tree s rs = Inl IndexError"
  by (simp add: decision_tree_eq select_best_child_def)

lemma decision_tree_legal:
  assumes "square 3 (grid s)" "player s < 2" "0 < decision_level s"
    and ne: "empty_cells (grid s) \<noteq> []"
  shows "\<exists>ij rs'. decision_tree s rs = Inr (Some ij, rs') \<and> ij \<in> set (empty_cells (grid s))"
proof -
  obtain d where d: "decision_level s = Suc d" using assms(3) by (cases "decision_level s") auto
  let ?t = "pass_score (player s) (extend_tree (Suc d) (Tree (grid s) (player s) None 0 []) (player s))"
  let ?E = "empty_cells (grid s)"
  have kids: "node_children ?t = map (pass_score (next_player (player s)) \<circ> ttt_child d (grid s) (player s)) ?E"
    by (simp add: extend_tree_Suc_Tree Let_def)
  have acts: "node_action ` set (node_children ?t) = Some ` set ?E"
    by (simp add: kids image_image)
  have "node_children ?t \<noteq> []" using ne kids by simp
  then obtain acts rs1 where sel: "select_best_child ?t rs = Inr (acts, rs1)"
    using select_best_child_Inl [of ?t rs] by (cases "select_best_child ?t rs") auto
  have acts_ne: "acts \<noteq> []" and acts_sub: "set acts \<subseteq> Some ` set ?E"
    using select_best_child_Inr [OF sel] acts by auto
  obtain x rs2 where ch: "py_choice acts rs1 = Inr (x, rs2)"
    using py_choice_ok [OF acts_ne] by blast
  have "x \<in> Some ` set ?E" using py_choice_Inr [OF ch] acts_sub by blast
  then show ?thesis using sel ch by (auto simp: decision_tree_eq d)
qed

subsection \<open>Properties\<close>



theorem ttt_decision_tree_witness:
  "decision_tree (init_tictactoe\<lparr>grid := [[0,0,0],[0,1,0],[0,0,0]], player := 1, decision_level := 9\<rparr>)
     (1 ## sconst 0) = Inr (Some (0, 1), sconst 0)"
proof -
  let ?s = "init_tictactoe\<lparr>grid := [[0,0,0],[0,1,0],[0,0,0]], player := 1, decision_level := 9\<rparr>"
  have c: "ai_candidates 9 [[0,0,0],[0,1,0],[0,0,0]] 1 = [(0,0),(0,1),(0,2),(1,0),(1,2),(2,0),(2,1),(2,2)]"
    by code_simp
  have h: "square 3 (grid ?s)" "check_score (grid ?s) = 0" "player ?s < 2" "0 < decision_level ?s"
    "ai_candidates (decision_level ?s) (grid ?s) (player ?s) \<noteq> []"
    using c by (simp_all add: init_tictactoe_def) code_simp+
  show ?thesis using ttt_decision_tree [OF h, of "1 ## sconst 0"] c by (simp add: init_tictactoe_def)
qed

theorem ttt_decision_tree_fallback_witness:
  "decision_tree (init_tictactoe\<lparr>grid := [[1,1,0],[1,-1,0],[0,0,-1]], player := 1\<rparr>) (sconst 0)
     = Inr (Some (0, 2), sconst 0)"
proof -
  let ?s = "init_tictactoe\<lparr>grid := [[1,1,0],[1,-1,0],[0,0,-1]], player := 1\<rparr>"
  have c: "ai_candidates 3 [[1,1,0],[1,-1,0],[0,0,-1]] 1 = []"
    "empty_cells [[1,1,0],[1,-1,0],[0,0,-1]] = [(0,2),(1,2),(2,0),(2,1)]"
    by code_simp+
  have h: "square 3 (grid ?s)" "check_score (grid ?s) = 0" "player ?s < 2" "0 < decision_level ?s"
    "ai_candidates (decision_level ?s) (grid ?s) (player ?s) = []" "empty_cells (grid ?s) \<noteq> []"
    using c by (simp_all add: init_tictactoe_def) code_simp+
  show ?thesis using ttt_decision_tree_fallback [OF h, of "sconst 0"] c by (simp add: init_tictactoe_def)
qed

theorem ttt_decision_tree_no_level_witness:
  "decision_level (init_tictactoe\<lparr>decision_level := 0\<rparr>) = 0 \<and>
   decision_tree (init_tictactoe\<lparr>decision_level := 0\<rparr>) (sconst 0) = Inl IndexError"
  using ttt_decision_tree_no_level [of "init_tictactoe\<lparr>decision_level := 0\<rparr>" "sconst 0"] by simp

end
