(* ===== verification/TicTacToe_App.thy ===== *)
theory TicTacToe_App
  imports TicTacToe_Engine
begin

text \<open>
  The host of the game, class \<open>TicTacToeApp\<close> of src/tictactoe.py: the main loop
  (lines 353-375) handles the pending events of one frame, a click by
  \<open>handle_mouse_click\<close> (lines 378-403), and then lets the AI move when the game
  is running and \<open>player == 1\<close>.  Drawing is not modelled.  Mouse coordinates are
  pixels, so they are \<open>nat\<close>, and \<open>int(mousex / 100)\<close> is \<open>mousex div 100\<close>.
  A frame either ends the program (\<open>None\<close>), raises (\<open>Inl\<close>), or yields the next
  state with the rest of the random stream.
\<close>

definition handle_mouse_click :: "tictactoe \<Rightarrow> nat \<Rightarrow> nat \<Rightarrow> tictactoe" where
  "handle_mouse_click s mousex mousey =
     (if mousey < 300 then
        (if mousex < 300 then
           (let clicked_grid_i = mousex div 100; clicked_grid_j = mousey div 100
            in if \<not> end_game s \<and> grid s ! clicked_grid_j ! clicked_grid_i = 0
               then switch_player (check_end_game (fst (add_move s (clicked_grid_j, clicked_grid_i))))
               else s)
         else s)
      else if 300 < mousey \<and> mousey < 350 then
        (if mousex < 100 then set_decision_level s 1
         else if 100 < mousex \<and> mousex < 200 then set_decision_level s 3
         else if 200 < mousex \<and> mousex < 300 then reset_game s
         else s)
      else s)"

text \<open>The \<open>for event in pygame.event.get()\<close> loop; \<open>None\<close> is \<open>sys.exit()\<close>.\<close>

fun run_events :: "tictactoe \<Rightarrow> event list \<Rightarrow> tictactoe option" where
  "run_events s [] = Some s"
| "run_events s (Quit # es) = None"
| "run_events s (KeyUp esc # es) = (if esc then None else run_events s es)"
| "run_events s (MouseDown x y # es) = run_events (handle_mouse_click s x y) es"
| "run_events s (OtherEvent # es) = run_events s es"

definition frame ::
  "tictactoe \<Rightarrow> nat stream \<Rightarrow> event list \<Rightarrow> py_error + (tictactoe \<times> nat stream) option" where
  "frame s rs es =
     (case run_events s es of
        None \<Rightarrow> Inr None
      | Some s \<Rightarrow>
          (if end_game s = False \<and> player s = 1
           then (case player_step s rs of Inl e \<Rightarrow> Inl e | Inr (s', rs') \<Rightarrow> Inr (Some (s', rs')))
           else Inr (Some (s, rs))))"

text \<open>The states a session reaches from \<open>Tictactoe()\<close>, whatever the random seed and events.\<close>

inductive ttt_reach :: "tictactoe \<Rightarrow> nat stream \<Rightarrow> bool" where
  start: "ttt_reach init_tictactoe rs"
| step: "ttt_reach s rs \<Longrightarrow> frame s rs es = Inr (Some (s', rs')) \<Longrightarrow> ttt_reach s' rs'"

text \<open>
  The invariant of a session: a 3x3 board of valid cells, three counters, a player
  and a positive depth, never a completed line for both players, and while the game
  runs, no completed line and an empty cell left.
\<close>

definition ttt_inv :: "tictactoe \<Rightarrow> bool" where
  "ttt_inv s \<longleftrightarrow>
     square 3 (grid s) \<and> cells_ok (grid s) \<and> length (result s) = 3 \<and> player s < 2 \<and>
     0 < decision_level s \<and> \<not> (has_line (grid s) 1 \<and> has_line (grid s) (-1)) \<and>
     (end_game s \<or> (check_score (grid s) = 0 \<and> empty_cells (grid s) \<noteq> []))"

subsection \<open>The invariant of a session\<close>

lemma add_move_empty:
  "grid s ! i ! j = 0 \<Longrightarrow> add_move s (i, j) = (s\<lparr>grid := play (grid s) (player s) (i, j)\<rparr>, True)"
  by (simp add: add_move_def play_def mark_of_def)

lemma check_end_game_fields [simp]:
  "grid (check_end_game s) = grid s" "player (check_end_game s) = player s"
  "decision_level (check_end_game s) = decision_level s"
  "length (result (check_end_game s)) = length (result s)"
  by (simp_all add: check_end_game_def Let_def)

lemma check_end_game_end:
  "end_game (check_end_game s) \<longleftrightarrow> end_game s \<or> check_score (grid s) \<noteq> 0 \<or> check_full_grid (grid s)"
  by (auto simp: check_end_game_def Let_def)

lemma cells_ok_play: "cells_ok g \<Longrightarrow> cells_ok (play g p ij)"
  by (cases ij) (simp add: play_def cells_ok_set_cell mark_of_def)

lemma empty_cells_mem: "i < 3 \<Longrightarrow> j < 3 \<Longrightarrow> g ! i ! j = 0 \<Longrightarrow> (i, j) \<in> set (empty_cells g)"
  by (auto simp: empty_cells_def ttt_cells_def image_iff)

text \<open>A mark placed on an empty cell of a running game keeps the invariant.\<close>

lemma move_inv:
  assumes inv: "ttt_inv s" and run: "\<not> end_game s" and ij: "(i, j) \<in> set (empty_cells (grid s))"
  shows "ttt_inv (switch_player (check_end_game (fst (add_move s (i, j)))))"
proof -
  let ?g = "grid s" and ?p = "player s"
  have rng: "i < 3" "j < 3" "?g ! i ! j = 0" using empty_cells_range [OF ij] by auto
  from inv run have sq: "square 3 ?g" and zero: "check_score ?g = 0"
    by (auto simp: ttt_inv_def)
  then have none: "\<not> has_line ?g 1" "\<not> has_line ?g (-1)" by (auto simp: check_score_zero_iff)
  have other: "\<not> has_line (play ?g ?p (i, j)) (- mark_of ?p)"
    using has_line_set_cell_other [OF sq rng, of "mark_of ?p" "- mark_of ?p"] none
    by (auto simp: play_def mark_of_def)
  have notboth: "\<not> (has_line (play ?g ?p (i, j)) 1 \<and> has_line (play ?g ?p (i, j)) (-1))"
    using other by (auto simp: mark_of_def split: if_splits)
  have tail: "check_score (play ?g ?p (i, j)) \<noteq> 0 \<or> check_full_grid (play ?g ?p (i, j)) \<or>
              (check_score (play ?g ?p (i, j)) = 0 \<and> empty_cells (play ?g ?p (i, j)) \<noteq> [])"
    by (auto simp: check_full_grid_iff)
  show ?thesis
    using inv tail notboth sq cells_ok_play [of ?g ?p "(i, j)"]
    by (auto simp: ttt_inv_def add_move_empty [OF rng(3)] check_end_game_end switch_player_def
        next_player_def)
qed

lemma zero_board:
  "square 3 (replicate 3 (replicate 3 0))" "cells_ok (replicate 3 (replicate 3 0))"
  "check_score (replicate 3 (replicate 3 0)) = 0" "empty_cells (replicate 3 (replicate 3 0)) \<noteq> []"
  "\<not> has_line (replicate 3 (replicate 3 0)) 1"
  by code_simp+

lemma init_inv: "ttt_inv init_tictactoe"
  using zero_board by (simp add: ttt_inv_def init_tictactoe_def)

lemma reset_inv: "ttt_inv s \<Longrightarrow> ttt_inv (reset_game s)"
  using zero_board clean_grid_grid [of s]
  by (simp add: ttt_inv_def reset_game_def) (simp add: clean_grid_def)

lemma set_level_inv: "ttt_inv s \<Longrightarrow> 0 < v \<Longrightarrow> ttt_inv (set_decision_level s v)"
  by (simp add: ttt_inv_def set_decision_level_def)

lemma click_inv: "ttt_inv s \<Longrightarrow> ttt_inv (handle_mouse_click s x y)"
proof -
  assume inv: "ttt_inv s"
  have board: "ttt_inv (switch_player (check_end_game (fst (add_move s (y div 100, x div 100)))))"
    if "y < 300" "x < 300" "\<not> end_game s" "grid s ! (y div 100) ! (x div 100) = 0"
    using that by (intro move_inv [OF inv]) (auto intro: empty_cells_mem)
  show ?thesis
    unfolding handle_mouse_click_def Let_def
    using board inv reset_inv set_level_inv by auto
qed

lemma player_step_inv:
  assumes inv: "ttt_inv s" and run: "\<not> end_game s"
  shows "\<exists>s' rs'. player_step s rs = Inr (s', rs') \<and> ttt_inv s'"
proof -
  from inv run have "square 3 (grid s)" "player s < 2" "0 < decision_level s" "empty_cells (grid s) \<noteq> []"
    by (auto simp: ttt_inv_def)
  then obtain ij rs' where dt0: "decision_tree s rs = Inr (Some ij, rs')"
    and ij0: "ij \<in> set (empty_cells (grid s))"
    using decision_tree_legal [of s rs] by blast
  obtain i j where "ij = (i, j)" by (cases ij)
  with dt0 ij0 have dt: "decision_tree s rs = Inr (Some (i, j), rs')"
    and ij: "(i, j) \<in> set (empty_cells (grid s))" by simp_all
  have "player_step s rs = Inr (switch_player (check_end_game (fst (add_move s (i, j)))), rs')"
    by (simp add: player_step_def dt split: prod.splits)
  then show ?thesis using move_inv [OF inv run ij] by blast
qed

lemma run_events_inv: "ttt_inv s \<Longrightarrow> run_events s es = Some s' \<Longrightarrow> ttt_inv s'"
  by (induction s es rule: run_events.induct) (auto simp: click_inv split: if_splits)

lemma frame_cases:
  assumes inv: "ttt_inv s"
  obtains (stopped) "frame s rs es = Inr None"
    | (running) s' rs' where "frame s rs es = Inr (Some (s', rs'))" "ttt_inv s'"
proof (cases "run_events s es")
  case None
  then show ?thesis using stopped by (simp add: frame_def)
next
  case (Some s1)
  with inv have i1: "ttt_inv s1" by (rule run_events_inv)
  show ?thesis
  proof (cases "end_game s1 = False \<and> player s1 = 1")
    case True
    then obtain s2 rs2 where "player_step s1 rs = Inr (s2, rs2)" "ttt_inv s2"
      using player_step_inv [OF i1] by blast
    with Some True show ?thesis using running by (simp add: frame_def)
  next
    case False
    then have "frame s rs es = Inr (Some (s1, rs))" using Some by (auto simp: frame_def)
    with i1 show ?thesis using running by blast
  qed
qed

lemma frame_inv:
  "ttt_inv s \<Longrightarrow> frame s rs es = Inr (Some (s', rs')) \<Longrightarrow> ttt_inv s'"
  by (cases rule: frame_cases [of s rs es]) auto

lemma frame_no_error: "ttt_inv s \<Longrightarrow> \<exists>r. frame s rs es = Inr r"
  by (cases rule: frame_cases [of s rs es]) auto

lemma reach_inv: "ttt_reach s rs \<Longrightarrow> ttt_inv s"
  by (induction rule: ttt_reach.induct) (auto intro: init_inv frame_inv)
subsection \<open>Properties\<close>

text \<open>
  C3: a session never raises: from every reachable state, every frame of events
  ends the program or yields a next state; the AI is only asked to move on a running
  game, which always has an empty cell, at a positive depth.
\<close>

theorem session_never_crashes: "ttt_reach s rs \<Longrightarrow> \<exists>r. frame s rs es = Inr r"
  by (intro frame_no_error reach_inv)

theorem session_never_crashes_witness:
  "ttt_reach init_tictactoe (sconst 0) \<and> (\<exists>r. frame init_tictactoe (sconst 0) [MouseDown 150 150] = Inr r)"
  using session_never_crashes [OF ttt_reach.start] ttt_reach.start by blast

text \<open>
  C8: in no reachable state do both players own a completed line (spec, section 8).
\<close>

theorem never_both_lines: "ttt_reach s rs \<Longrightarrow> \<not> (has_line (grid s) 1 \<and> has_line (grid s) (-1))"
  using reach_inv by (auto simp: ttt_inv_def)

theorem never_both_lines_witness:
  "ttt_reach init_tictactoe (sconst 1) \<and> \<not> (has_line (grid init_tictactoe) 1 \<and> has_line (grid init_tictactoe) (-1))"
  using never_both_lines [OF ttt_reach.start] ttt_reach.start by blast

lemma click_cell:
  "r < 3 \<Longrightarrow> c < 3 \<Longrightarrow> handle_mouse_click s (100 * c + 50) (100 * r + 50) =
     (if \<not> end_game s \<and> grid s ! r ! c = 0 then switch_player (check_end_game (fst (add_move s (r, c)))) else s)"
  by (simp add: handle_mouse_click_def Let_def)

lemma play_other_cell:
  "square 3 g \<Longrightarrow> r < 3 \<Longrightarrow> c < 3 \<Longrightarrow> (r', c') \<noteq> (r, c) \<Longrightarrow> play g p (r, c) ! r' ! c' = g ! r' ! c'"
  by (auto simp: play_def set_cell_nth square_def list_all_iff)

text \<open>
  C15: the click handler does not check whose turn it is: when the human is to move in a
  running game, clicks on two empty cells in one frame place a mark for the human and then
  one for the AI's side, the side to move is the human again, and the AI does not move
  (the random stream is not used).
\<close>

theorem two_clicks_one_frame:
  assumes inv: "ttt_inv s" and run: "\<not> end_game s" and p0: "player s = 0"
    and cells: "r1 < 3" "c1 < 3" "r2 < 3" "c2 < 3" "(r2, c2) \<noteq> (r1, c1)"
    and empty: "grid s ! r1 ! c1 = 0" "grid s ! r2 ! c2 = 0"
    and no_win: "check_score (play (grid s) 0 (r1, c1)) = 0"
  shows "\<exists>s'. frame s rs [MouseDown (100 * c1 + 50) (100 * r1 + 50), MouseDown (100 * c2 + 50) (100 * r2 + 50)] =
               Inr (Some (s', rs)) \<and>
             grid s' = play (play (grid s) 0 (r1, c1)) 1 (r2, c2) \<and> player s' = 0"
proof -
  have sq: "square 3 (grid s)" using inv by (simp add: ttt_inv_def)
  let ?g1 = "play (grid s) 0 (r1, c1)"
  define s1 where "s1 = switch_player (check_end_game (s\<lparr>grid := ?g1\<rparr>))"
  have e2: "?g1 ! r2 ! c2 = 0" using play_other_cell [OF sq cells(1,2,5)] empty(2) by simp
  have "\<not> check_full_grid ?g1"
    using empty_cells_mem [OF cells(3,4) e2] by (auto simp: check_full_grid_iff)
  then have s1: "\<not> end_game s1" "player s1 = 1" "grid s1 = ?g1"
    using run no_win p0 by (simp_all add: s1_def check_end_game_end switch_player_def next_player_def)
  have c1: "handle_mouse_click s (100 * c1 + 50) (100 * r1 + 50) = s1"
    using run empty(1) p0 by (simp add: click_cell cells add_move_empty s1_def)
  define s2 where "s2 = switch_player (check_end_game (s1\<lparr>grid := play ?g1 1 (r2, c2)\<rparr>))"
  have c2: "handle_mouse_click s1 (100 * c2 + 50) (100 * r2 + 50) = s2"
    using s1 e2 by (simp add: click_cell cells add_move_empty s2_def)
  have s2: "grid s2 = play ?g1 1 (r2, c2)" "player s2 = 0"
    using s1 by (simp_all add: s2_def switch_player_def next_player_def)
  have "frame s rs [MouseDown (100 * c1 + 50) (100 * r1 + 50), MouseDown (100 * c2 + 50) (100 * r2 + 50)] =
        Inr (Some (s2, rs))"
    using c1 c2 s2 by (simp add: frame_def)
  with s2 show ?thesis by blast
qed

theorem two_clicks_one_frame_witness:
  "\<exists>s'. frame init_tictactoe (sconst 2) [MouseDown 50 50, MouseDown 150 50] = Inr (Some (s', sconst 2)) \<and>
        grid s' = play (play (grid init_tictactoe) 0 (0, 0)) 1 (0, 1) \<and> player s' = 0"
proof -
  have h: "\<not> end_game init_tictactoe" "player init_tictactoe = 0"
    "grid init_tictactoe ! 0 ! 0 = 0" "grid init_tictactoe ! 0 ! 1 = 0"
    "check_score (play (grid init_tictactoe) 0 (0, 0)) = 0"
    by (simp_all add: init_tictactoe_def) code_simp
  show ?thesis
    using two_clicks_one_frame [OF init_inv h(1,2), of 0 0 0 1, OF _ _ _ _ _ h(3,4,5), of "sconst 2"] by simp
qed

text \<open>
  every reachable state holds a 3x3 board of cells -1, 0 or 1, three counters,
  a player 0 or 1 and a positive depth.
\<close>

theorem reach_type_invariant:
  "ttt_reach s rs \<Longrightarrow>
   square 3 (grid s) \<and> cells_ok (grid s) \<and> length (result s) = 3 \<and> player s < 2 \<and> 0 < decision_level s"
  using reach_inv by (auto simp: ttt_inv_def)

theorem reach_type_invariant_witness:
  "ttt_reach init_tictactoe (sconst 2) \<and> square 3 (grid init_tictactoe) \<and> player init_tictactoe < 2"
  using reach_type_invariant [OF ttt_reach.start] ttt_reach.start by blast
lemma empty_cells_play_less:
  assumes sq: "square 3 g" and ij: "(i, j) \<in> set (empty_cells g)"
  shows "length (empty_cells (play g p (i, j))) < length (empty_cells g)"
proof -
  have rng: "i < 3" "j < 3" "g ! i ! j = 0" using empty_cells_range [OF ij] by auto
  have cell: "play g p (i, j) ! a ! b = (if a = i \<and> b = j then mark_of p else g ! a ! b)"
    if "a < 3" "b < 3" for a b
    using that sq by (simp add: play_def set_cell_nth_in square_def list_all_length)
  have mem: "(i, j) \<in> set ttt_cells" using ij by (simp add: empty_cells_def)
  show ?thesis
    unfolding empty_cells_def
  proof (rule length_filter_less_mono [where y = "(i, j)"])
    fix x assume x: "x \<in> set ttt_cells" "(\<lambda>(i', j'). play g p (i, j) ! i' ! j' = 0) x"
    obtain a b where ab: "x = (a, b)" by (cases x)
    have "a < 3" "b < 3" using x(1) ab ttt_cells_in_range by auto
    then show "(\<lambda>(i', j'). g ! i' ! j' = 0) x"
      using x(2) ab cell [of a b] by (auto split: if_splits)
  qed (use mem rng cell in auto)
qed

lemma move_grid:
  "grid s ! i ! j = 0 \<Longrightarrow>
   grid (switch_player (check_end_game (fst (add_move s (i, j))))) = play (grid s) (player s) (i, j)"
  by (simp add: add_move_empty switch_player_def)

text \<open>
  C16: termination of a game: while a game runs there is an empty cell, every AI move and
  every accepted click on the board fills one (the number of empty cells, at most 9,
  strictly decreases), and the only other clicks keep the board or reset it; so a game
  ends after at most 9 moves.
\<close>

theorem ttt_game_terminates:
  assumes inv: "ttt_inv s"
  shows "(\<not> end_game s \<longrightarrow> empty_cells (grid s) \<noteq> []) \<and>
    (\<forall>rs s' rs'. \<not> end_game s \<longrightarrow> player_step s rs = Inr (s', rs') \<longrightarrow>
       length (empty_cells (grid s')) < length (empty_cells (grid s))) \<and>
    (\<forall>x y. grid (handle_mouse_click s x y) = grid s \<or> handle_mouse_click s x y = reset_game s \<or>
       length (empty_cells (grid (handle_mouse_click s x y))) < length (empty_cells (grid s)))"
proof (intro conjI allI impI)
  have sq: "square 3 (grid s)" using inv by (simp add: ttt_inv_def)
  show "empty_cells (grid s) \<noteq> []" if "\<not> end_game s" using inv that by (auto simp: ttt_inv_def)
  fix rs s' rs'
  assume run: "\<not> end_game s" and ps: "player_step s rs = Inr (s', rs')"
  from inv run have "square 3 (grid s)" "player s < 2" "0 < decision_level s" "empty_cells (grid s) \<noteq> []"
    by (auto simp: ttt_inv_def)
  then obtain ij rs'' where dt: "decision_tree s rs = Inr (Some ij, rs'')"
    and ij0: "ij \<in> set (empty_cells (grid s))"
    using decision_tree_legal [of s rs] by blast
  obtain i j where ij: "ij = (i, j)" by (cases ij)
  have z: "grid s ! i ! j = 0" using empty_cells_range ij ij0 by blast
  have "s' = switch_player (check_end_game (fst (add_move s (i, j))))"
    using ps by (simp add: player_step_def dt ij split: prod.splits)
  then show "length (empty_cells (grid s')) < length (empty_cells (grid s))"
    using empty_cells_play_less [OF sq] ij0 ij move_grid [OF z] by simp
next
  fix x y
  have sq: "square 3 (grid s)" using inv by (simp add: ttt_inv_def)
  have board: "length (empty_cells (grid (switch_player (check_end_game (fst (add_move s (y div 100, x div 100))))))) <
      length (empty_cells (grid s))"
    if "y < 300" "x < 300" "grid s ! (y div 100) ! (x div 100) = 0"
  proof -
    have "(y div 100, x div 100) \<in> set (empty_cells (grid s))"
      by (rule empty_cells_mem) (use that in auto)
    then show ?thesis
      using empty_cells_play_less [OF sq] move_grid [of s "y div 100" "x div 100"] that(3) by simp
  qed
  show "grid (handle_mouse_click s x y) = grid s \<or> handle_mouse_click s x y = reset_game s \<or>
       length (empty_cells (grid (handle_mouse_click s x y))) < length (empty_cells (grid s))"
    unfolding handle_mouse_click_def Let_def
    using board by (auto simp: set_decision_level_def)
qed

theorem ttt_game_terminates_witness:
  "ttt_inv init_tictactoe \<and> \<not> end_game init_tictactoe \<and> empty_cells (grid init_tictactoe) \<noteq> []"
  using ttt_game_terminates [OF init_inv] init_inv by (simp add: init_tictactoe_def)


end
