(* ===== verification/Othello.thy ===== *)
theory Othello
  imports GameTree
begin

text \<open>
  Class \<open>Othello\<close> of src/othello.py (lines 62-467): the 8x8 board, padded to
  10x10 with a border row and column on each side, its rules and the score.  The
  object's fields are the record \<open>othello\<close> (fields prefixed \<open>ot_\<close> to keep
  them apart from the Tic-Tac-Toe record); every method that changes them returns the
  updated record, and the board functions that mutate their argument in place return
  the new board.  Board indices are Python ints: \<open>pget\<close> and \<open>pset\<close> read and
  write \<open>grid[a][b]\<close> with Python's negative indexing (\<open>grid[-1]\<close> is the
  last row), which \<open>update_grid\<close> reaches in its up-left scan.
\<close>

subsection \<open>Python indexing\<close>

text \<open>
  A Python index \<open>k\<close> into a list of length \<open>n\<close>: \<open>k + n\<close> for a negative
  \<open>k\<close>.  Every index the Othello code computes for a move in rows and columns 1 to 8
  lies in \<open>-10 .. 9\<close>, inside the 10-element rows, so no access raises.
\<close>

definition py_idx :: "nat \<Rightarrow> int \<Rightarrow> nat" where
  "py_idx n k = nat (if k < 0 then k + int n else k)"

definition pget :: "grid \<Rightarrow> int \<Rightarrow> int \<Rightarrow> int" where
  "pget g a b = (let r = g ! py_idx (length g) a in r ! py_idx (length r) b)"

definition pset :: "grid \<Rightarrow> int \<Rightarrow> int \<Rightarrow> int \<Rightarrow> grid" where
  "pset g a b v = (let i = py_idx (length g) a in set_cell g i (py_idx (length (g ! i)) b) v)"

text \<open>\<open>range(a, b)\<close> over ints.\<close>

definition py_range :: "int \<Rightarrow> int \<Rightarrow> int list" where
  "py_range a b = [a..b - 1]"

text \<open>The opponent's board value: \<open>-1\<close> for player 0, \<open>1\<close> otherwise.\<close>

definition opp_of :: "nat \<Rightarrow> int" where
  "opp_of p = (if p = 0 then -1 else 1)"

subsection \<open>The state\<close>

record othello =
  ot_grid :: grid
  ot_player :: nat
  ot_decision_level :: nat
  ot_end_game :: bool
  ot_winner :: "nat option"
  ot_result :: "nat list"
  ot_score :: int

text \<open>The four centre discs of the opening, written in the order of the source.\<close>

definition ot_setup :: "grid \<Rightarrow> grid" where
  "ot_setup g = set_cell (set_cell (set_cell (set_cell g 4 4 1) 4 5 (-1)) 5 4 (-1)) 5 5 1"

definition ot_init_grid :: grid where
  "ot_init_grid = ot_setup (replicate 10 (replicate 10 0))"

definition init_othello :: othello where
  "init_othello =
     \<lparr>ot_grid = ot_init_grid, ot_player = 0, ot_decision_level = 1, ot_end_game = False,
      ot_winner = None, ot_result = [0, 0, 0], ot_score = 0\<rparr>"

definition ot_switch_player :: "othello \<Rightarrow> othello" where
  "ot_switch_player s = s\<lparr>ot_player := next_player (ot_player s)\<rparr>"

definition ot_set_decision_level :: "othello \<Rightarrow> nat \<Rightarrow> othello" where
  "ot_set_decision_level s v = s\<lparr>ot_decision_level := v\<rparr>"

text \<open>\<open>clean_grid\<close>: zero every cell of the 10x10 board, then the opening discs.\<close>

definition ot_clean_grid :: "othello \<Rightarrow> othello" where
  "ot_clean_grid s =
     s\<lparr>ot_grid := ot_setup (fold (\<lambda>i g. fold (\<lambda>j g. set_cell g i j 0) [0..<10] g) [0..<10] (ot_grid s))\<rparr>"

definition ot_reset_game :: "othello \<Rightarrow> othello" where
  "ot_reset_game s = (ot_clean_grid s)\<lparr>ot_end_game := False\<rparr>"

text \<open>\<open>add_move(action)\<close> (not called by the app): the new state and \<open>added_move\<close>.\<close>

definition ot_add_move :: "othello \<Rightarrow> move \<Rightarrow> othello \<times> bool" where
  "ot_add_move s action =
     (let (i, j) = action
      in if ot_player s = 0
         then (if ot_grid s ! i ! j = 0 then (s\<lparr>ot_grid := set_cell (ot_grid s) i j 1\<rparr>, True) else (s, False))
         else (if ot_grid s ! i ! j = 0 then (s\<lparr>ot_grid := set_cell (ot_grid s) i j (-1)\<rparr>, True) else (s, False)))"

text \<open>\<open>check_score(grid)\<close>: the sum of all 100 cells, border included.\<close>

definition ot_check_score :: "grid \<Rightarrow> int" where
  "ot_check_score g = fold (\<lambda>i score. fold (\<lambda>j score. score + g ! i ! j) [0..<10] score) [0..<10] 0"

text \<open>
  \<open>check_full_grid(grid)\<close>: the flag loop over rows and columns 1 to 8; its
  \<open>break\<close> leaves the inner loop only and skips cells that cannot set the flag back.
\<close>

definition ot_check_full_grid :: "grid \<Rightarrow> bool" where
  "ot_check_full_grid g =
     fold (\<lambda>i f. fold (\<lambda>j f. if g ! i ! j = 0 then False else f) [1..<9] f) [1..<9] True"

text \<open>\<open>check_end_game()\<close>: stores the score; the game ends only on a full board.\<close>

definition ot_check_end_game :: "othello \<Rightarrow> othello" where
  "ot_check_end_game s =
     (let score = ot_check_score (ot_grid s);
          s = s\<lparr>ot_score := score\<rparr>
      in if ot_check_full_grid (ot_grid s)
         then (let s = s\<lparr>ot_end_game := True\<rparr>
               in if score > 0 then s\<lparr>ot_winner := Some 0, ot_result := (ot_result s)[0 := ot_result s ! 0 + 1]\<rparr>
                  else if score < 0 then s\<lparr>ot_winner := Some 1, ot_result := (ot_result s)[1 := ot_result s ! 1 + 1]\<rparr>
                  else s\<lparr>ot_result := (ot_result s)[2 := ot_result s ! 2 + 1]\<rparr>)
         else s)"

subsection \<open>Moves\<close>

text \<open>
  \<open>is_valid_action(grid, player, action)\<close>: the cell is empty and, in one of the
  eight directions, the neighbour is an opponent's disc and the scan of that direction
  finds one of the player's discs.  Each scan is the source's loop that sets
  \<open>has_action\<close> when it meets a host disc, with the source's own ranges; it does
  not stop at an empty cell, and the diagonal ranges towards row or column 1 stop one
  cell short.
\<close>

definition host_in :: "grid \<Rightarrow> int \<Rightarrow> (int \<Rightarrow> int \<times> int) \<Rightarrow> int list \<Rightarrow> bool" where
  "host_in g host cell r = list_ex (\<lambda>i2. pget g (fst (cell i2)) (snd (cell i2)) = host) r"

definition is_valid_action :: "grid \<Rightarrow> nat \<Rightarrow> move \<Rightarrow> bool" where
  "is_valid_action g player action =
     (let i = int (fst action); j = int (snd action);
          host = mark_of player; opp = opp_of player
      in pget g i j = 0 \<and>
         ((pget g (i + 1) j = opp \<and> host_in g host (\<lambda>i2. (i2, j)) (py_range (i + 1) 10)) \<or>
          (pget g (i - 1) j = opp \<and> host_in g host (\<lambda>i2. (i2, j)) (py_range 0 (i - 1))) \<or>
          (pget g i (j + 1) = opp \<and> host_in g host (\<lambda>i2. (i, j + i2)) (py_range 0 (10 - j))) \<or>
          (pget g i (j - 1) = opp \<and> host_in g host (\<lambda>i2. (i, j - i2)) (py_range 0 j)) \<or>
          (pget g (i - 1) (j - 1) = opp \<and>
             host_in g host (\<lambda>i2. (i - i2, j - i2)) (py_range 0 (min (i - 1) (j - 1)))) \<or>
          (pget g (i - 1) (j + 1) = opp \<and>
             host_in g host (\<lambda>i2. (i - i2, j + i2)) (py_range 0 (min (i - 1) (10 - j)))) \<or>
          (pget g (i + 1) (j + 1) = opp \<and>
             host_in g host (\<lambda>i2. (i + i2, j + i2)) (py_range 0 (min (10 - i) (10 - j)))) \<or>
          (pget g (i + 1) (j - 1) = opp \<and>
             host_in g host (\<lambda>i2. (i + i2, j - i2)) (py_range 0 (min (10 - i) (j - 1))))))"

text \<open>\<open>get_valid_actions(grid, player)\<close>: the valid cells of rows and columns 1 to 8
  in loop order.\<close>

definition get_valid_actions :: "grid \<Rightarrow> nat \<Rightarrow> move list" where
  "get_valid_actions g player =
     [(i, j). i \<leftarrow> [1..<9], j \<leftarrow> [1..<9], is_valid_action g player (i, j)]"

text \<open>
  One direction \<open>(di, dj)\<close> of \<open>update_grid\<close>: if the neighbour is an opponent's
  disc, look for the first host disc at distance \<open>1 .. bound - 1\<close>; when there is
  one at distance \<open>i2\<close>, paint the cells at distance \<open>0 .. i2 - 1\<close> with the host
  value and \<open>break\<close>.  Nothing is written while searching, so the search is a
  \<open>find\<close> on the board as it was.
\<close>

definition flip_dir :: "int \<Rightarrow> int \<Rightarrow> int \<Rightarrow> int \<Rightarrow> int \<Rightarrow> int \<Rightarrow> int \<Rightarrow> grid \<Rightarrow> grid" where
  "flip_dir host opp i j di dj bound g =
     (if pget g (i + di) (j + dj) = opp
      then (case find (\<lambda>i2. pget g (i + di * i2) (j + dj * i2) = host) (py_range 1 bound) of
              None \<Rightarrow> g
            | Some i2 \<Rightarrow> fold (\<lambda>j2 g. pset g (i + di * j2) (j + dj * j2) host) (py_range 0 i2) g)
      else g)"

text \<open>
  \<open>update_grid(grid, player, action)\<close>: place the host disc, then the eight
  directions in the source's order (down, up, right, left, down-right, down-left,
  up-right, up-left), each on the board the previous one left.  The up-left bound is
  the source's \<open>min(10-i, 10-j)\<close>, which lets the scan run past row or column 0
  into negative indices.
\<close>

definition update_grid :: "grid \<Rightarrow> nat \<Rightarrow> move \<Rightarrow> grid" where
  "update_grid g player action =
     (let host = mark_of player; opp = opp_of player;
          i = int (fst action); j = int (snd action);
          g = pset g i j host;
          g = flip_dir host opp i j 1 0 (10 - i) g;
          g = flip_dir host opp i j (-1) 0 i g;
          g = flip_dir host opp i j 0 1 (10 - j) g;
          g = flip_dir host opp i j 0 (-1) j g;
          g = flip_dir host opp i j 1 1 (min (10 - i) (10 - j)) g;
          g = flip_dir host opp i j 1 (-1) (min (10 - i) j) g;
          g = flip_dir host opp i j (-1) 1 (min i (10 - j)) g
      in flip_dir host opp i j (-1) (-1) (min (10 - i) (10 - j)) g)"

text \<open>\<open>overwrite_grid(grid)\<close>: copy the 10x10 cells of \<open>grid\<close> into the state.\<close>

definition ot_overwrite_grid :: "othello \<Rightarrow> grid \<Rightarrow> othello" where
  "ot_overwrite_grid s g' =
     s\<lparr>ot_grid := fold (\<lambda>i g. fold (\<lambda>j g. set_cell g i j (g' ! i ! j)) [0..<10] g) [0..<10] (ot_grid s)\<rparr>"

subsection \<open>Specification vocabulary\<close>

text \<open>The 64 playable cells, rows and columns 1 to 8, in the loop order of the source.\<close>

definition ot_cells :: "move list" where
  "ot_cells = [(i, j). i \<leftarrow> [1..<9], j \<leftarrow> [1..<9]]"

text \<open>The number of discs on the playable board (spec, section 8).\<close>

definition disc_count :: "grid \<Rightarrow> nat" where
  "disc_count g = length (filter (\<lambda>(i, j). g ! i ! j \<noteq> 0) ot_cells)"

text \<open>
  \<open>paints h g g'\<close>: \<open>g'\<close> has the shape of \<open>g\<close> and every cell of \<open>g'\<close> is
  the cell of \<open>g\<close> or \<open>h\<close>; the way \<open>update_grid\<close> changes a board.
\<close>

definition paints :: "int \<Rightarrow> grid \<Rightarrow> grid \<Rightarrow> bool" where
  "paints h g g' \<longleftrightarrow> length g' = length g \<and>
     (\<forall>i < length g. length (g' ! i) = length (g ! i) \<and>
        (\<forall>j < length (g ! i). g' ! i ! j = g ! i ! j \<or> g' ! i ! j = h))"

text \<open>The sum of the playable cells, \<open>#P0 - #P1\<close> on a board of cells -1, 0, 1 (spec,
  section 8), and the border cells of the padded board.\<close>

definition disc_diff :: "grid \<Rightarrow> int" where
  "disc_diff g = sum_list (map (\<lambda>(i, j). g ! i ! j) ot_cells)"

definition border_cells :: "move list" where
  "border_cells =
     filter (\<lambda>(i, j). \<not> (1 \<le> i \<and> i < 9 \<and> 1 \<le> j \<and> j < 9)) [(i, j). i \<leftarrow> [0..<10], j \<leftarrow> [0..<10]]"

text \<open>
  The legal moves of Othello as the spec (section 4.1) states them: an empty cell from
  which, in one of the eight directions, an unbroken run of one or more opponent's discs
  inside the 8x8 board ends in one of the player's discs.
\<close>

definition ot_dirs :: "(int \<times> int) list" where
  "ot_dirs = [(1, 0), (-1, 0), (0, 1), (0, -1), (1, 1), (1, -1), (-1, 1), (-1, -1)]"

definition ray :: "nat \<Rightarrow> nat \<Rightarrow> int \<times> int \<Rightarrow> (int \<times> int) list" where
  "ray i j d =
     takeWhile (\<lambda>(a, b). 1 \<le> a \<and> a \<le> 8 \<and> 1 \<le> b \<and> b \<le> 8)
       (map (\<lambda>k. (int i + k * fst d, int j + k * snd d)) [1..8])"

definition captures_dir :: "grid \<Rightarrow> nat \<Rightarrow> nat \<Rightarrow> nat \<Rightarrow> int \<times> int \<Rightarrow> bool" where
  "captures_dir g p i j d =
     (let vs = map (\<lambda>(a, b). pget g a b) (ray i j d);
          rest = dropWhile (\<lambda>v. v = opp_of p) vs
      in takeWhile (\<lambda>v. v = opp_of p) vs \<noteq> [] \<and> rest \<noteq> [] \<and> hd rest = mark_of p)"

definition othello_legal :: "grid \<Rightarrow> nat \<Rightarrow> move \<Rightarrow> bool" where
  "othello_legal g p a = (g ! fst a ! snd a = 0 \<and> list_ex (captures_dir g p (fst a) (snd a)) ot_dirs)"

subsection \<open>Lemmas on indexing\<close>

lemma py_idx_nonneg [simp]: "py_idx n (int k) = k"
  by (simp add: py_idx_def)

lemma pget_nat [simp]: "pget g (int a) (int b) = g ! a ! b"
  by (simp add: pget_def)

lemma pset_nat: "pset g (int a) (int b) v = set_cell g a b v"
  by (simp add: pset_def)

lemma mark_opp [simp]: "opp_of p = - mark_of p"
  by (simp add: opp_of_def mark_of_def)

lemma is_valid_action_empty: "is_valid_action g p (i, j) \<Longrightarrow> g ! i ! j = 0"
  by (simp add: is_valid_action_def Let_def)

subsection \<open>What \<open>update_grid\<close> writes\<close>

lemma paints_refl [simp]: "paints h g g"
  by (simp add: paints_def)

lemma paints_trans: "paints h g1 g2 \<Longrightarrow> paints h g2 g3 \<Longrightarrow> paints h g1 g3"
  unfolding paints_def by (metis (no_types, lifting))

lemma paints_set_cell: "paints h g (set_cell g i j h)"
proof (cases "i < length g")
  case True
  then show ?thesis unfolding paints_def
    by (cases "j < length (g ! i)")
       (auto simp: set_cell_row_length set_cell_def nth_list_update list_update_beyond)
next
  case False
  then show ?thesis by (simp add: set_cell_def list_update_beyond)
qed

lemma paints_pset: "paints h g (pset g a b h)"
  by (simp add: pset_def Let_def paints_set_cell)

lemma paints_fold_pset:
  "paints h g g' \<Longrightarrow> paints h g (fold (\<lambda>k g. pset g (f k) (f' k) h) ks g')"
proof (induction ks arbitrary: g')
  case (Cons k ks)
  then show ?case using paints_trans paints_pset by simp
qed simp

lemma paints_flip_dir: "paints h g g' \<Longrightarrow> paints h g (flip_dir h opp i j di dj bound g')"
  by (simp add: flip_dir_def paints_fold_pset split: option.split)

lemma paints_update_grid: "paints (mark_of p) g (update_grid g p m)"
  unfolding update_grid_def Let_def
  by (intro paints_flip_dir paints_pset)

lemma paints_cell:
  "paints h g g' \<Longrightarrow> i < length g \<Longrightarrow> j < length (g ! i) \<Longrightarrow> g' ! i ! j = g ! i ! j \<or> g' ! i ! j = h"
  by (simp add: paints_def)

lemma paints_square: "paints h g g' \<Longrightarrow> square n g \<Longrightarrow> square n g'"
  by (auto simp: paints_def square_def list_all_length)

lemma paints_cells_ok:
  assumes p: "paints h g g'" and ok: "cells_ok g" and h: "h \<in> {-1, 0, 1}"
  shows "cells_ok g'"
proof -
  have "g' ! i ! j \<in> {-1, 0, 1}" if "i < length g'" "j < length (g' ! i)" for i j
  proof -
    from that p have ij: "i < length g" "j < length (g ! i)" by (auto simp: paints_def)
    with paints_cell [OF p ij] cells_ok_nth [OF ok ij] h show ?thesis by auto
  qed
  then show ?thesis by (auto simp: cells_ok_def list_all_length)
qed

lemma mark_of_range [simp]: "mark_of p \<in> {-1, 0, 1}"
  by (simp add: mark_of_def)

lemma square_update_grid [simp]: "square n (update_grid g p m) = square n g"
proof
  show "square n g \<Longrightarrow> square n (update_grid g p m)"
    using paints_update_grid paints_square by blast
  show "square n (update_grid g p m) \<Longrightarrow> square n g"
    using paints_update_grid [of p g m] by (auto simp: paints_def square_def list_all_length)
qed

lemma cells_ok_update_grid: "cells_ok g \<Longrightarrow> cells_ok (update_grid g p m)"
  using paints_update_grid paints_cells_ok mark_of_range by blast

text \<open>The move's own cell ends with the mover's disc: later directions only paint the
  host value.\<close>

lemma update_grid_own_cell:
  assumes "i < length g" "j < length (g ! i)"
  shows "update_grid g p (i, j) ! i ! j = mark_of p"
proof -
  let ?g0 = "pset g (int i) (int j) (mark_of p)"
  have g0: "?g0 ! i ! j = mark_of p" "i < length ?g0" "j < length (?g0 ! i)"
    using assms by (simp_all add: pset_nat set_cell_nth set_cell_row_length)
  have "paints (mark_of p) ?g0 (update_grid g p (i, j))"
    unfolding update_grid_def Let_def by (simp only: fst_conv snd_conv) (intro paints_flip_dir paints_refl)
  from paints_cell [OF this g0(2,3)] g0(1) show ?thesis by simp
qed

lemma ot_cells_range: "(i, j) \<in> set ot_cells \<Longrightarrow> 1 \<le> i \<and> i < 9 \<and> 1 \<le> j \<and> j < 9"
  by (auto simp: ot_cells_def)

lemma square10_cell: "square 10 g \<Longrightarrow> (i, j) \<in> set ot_cells \<Longrightarrow> i < length g \<and> j < length (g ! i)"
  using ot_cells_range [of i j] square_nth_length [of 10 g i] by (auto simp: square_def)

lemma disc_count_paints:
  assumes p: "paints h g g'" and sq: "square 10 g" and h: "h \<noteq> 0"
    and ij: "(i, j) \<in> set ot_cells" "g ! i ! j = 0" "g' ! i ! j \<noteq> 0"
  shows "disc_count g < disc_count g'"
  unfolding disc_count_def
proof (rule length_filter_less_mono [where y = "(i, j)"])
  fix x assume x: "x \<in> set ot_cells" "(\<lambda>(i, j). g ! i ! j \<noteq> 0) x"
  obtain a b where ab: "x = (a, b)" by (cases x)
  with paints_cell [OF p] square10_cell [OF sq] x h show "(\<lambda>(i, j). g' ! i ! j \<noteq> 0) x" by force
qed (use ij in auto)

subsection \<open>State operations\<close>

lemma fold_set_cell_self:
  "fold (\<lambda>j g. set_cell g i j (g' ! i ! j)) js g' = g'"
  by (induction js) (simp_all add: set_cell_def)

lemma fold_fold_set_cell_self:
  "fold (\<lambda>i g. fold (\<lambda>j g. set_cell g i j (g' ! i ! j)) js g) is g' = g'"
  by (induction "is") (simp_all add: fold_set_cell_self)

text \<open>\<open>overwrite_grid\<close> applied to the state's own board, as \<open>player_step\<close> calls it,
  changes nothing.\<close>

lemma ot_overwrite_self [simp]: "ot_overwrite_grid (s\<lparr>ot_grid := g\<rparr>) g = s\<lparr>ot_grid := g\<rparr>"
  by (simp add: ot_overwrite_grid_def fold_fold_set_cell_self)

lemma ot_check_end_game_fields [simp]:
  "ot_grid (ot_check_end_game s) = ot_grid s" "ot_player (ot_check_end_game s) = ot_player s"
  "ot_decision_level (ot_check_end_game s) = ot_decision_level s"
  "length (ot_result (ot_check_end_game s)) = length (ot_result s)"
  by (simp_all add: ot_check_end_game_def Let_def)

lemma ot_check_end_game_end:
  "ot_end_game (ot_check_end_game s) \<longleftrightarrow> ot_end_game s \<or> ot_check_full_grid (ot_grid s)"
  by (simp add: ot_check_end_game_def Let_def)

lemma square_ot_setup [simp]: "square n (ot_setup g) = square n g"
  by (simp add: ot_setup_def)

lemma cells_ok_ot_setup: "cells_ok g \<Longrightarrow> cells_ok (ot_setup g)"
  by (simp add: ot_setup_def cells_ok_set_cell)

lemma clean_fold_square: "square n (fold (\<lambda>i g. fold (\<lambda>j g. set_cell g i j 0) js g) is g) = square n g"
proof -
  have row: "square n (fold (\<lambda>j g. set_cell g i j 0) js g) = square n g" for i g
    by (induction js arbitrary: g) simp_all
  show ?thesis by (induction "is" arbitrary: g) (simp_all add: row)
qed

lemma clean_fold_cells_ok:
  "cells_ok g \<Longrightarrow> cells_ok (fold (\<lambda>i g. fold (\<lambda>j g. set_cell g i j 0) js g) is g)"
proof -
  have row: "cells_ok g \<Longrightarrow> cells_ok (fold (\<lambda>j g. set_cell g i j 0) js g)" for i g
    by (induction js arbitrary: g) (simp_all add: cells_ok_set_cell)
  show "cells_ok g \<Longrightarrow> ?thesis" by (induction "is" arbitrary: g) (simp_all add: row)
qed

lemma fold_row_lengths [simp]:
  "length (fold (\<lambda>j g. set_cell g i j v) js g) = length g"
  "length (fold (\<lambda>j g. set_cell g i j v) js g ! a) = length (g ! a)"
  by (induction js arbitrary: g) (simp_all add: set_cell_row_length)

lemma fold_row_nth:
  "a < length g \<Longrightarrow> b < length (g ! a) \<Longrightarrow>
   fold (\<lambda>j g. set_cell g i j v) js g ! a ! b = (if a = i \<and> b \<in> set js then v else g ! a ! b)"
  by (induction js arbitrary: g) (auto simp: set_cell_nth_in set_cell_row_length)

lemma fold_rows_nth:
  "a < length g \<Longrightarrow> b < length (g ! a) \<Longrightarrow>
   fold (\<lambda>i g. fold (\<lambda>j g. set_cell g i j v) js g) is g ! a ! b =
   (if a \<in> set is \<and> b \<in> set js then v else g ! a ! b)"
  by (induction "is" arbitrary: g) (auto simp: fold_row_nth)

lemma fold_rows_lengths:
  "length (fold (\<lambda>i g. fold (\<lambda>j g. set_cell g i j v) js g) is g) = length g"
  "length (fold (\<lambda>i g. fold (\<lambda>j g. set_cell g i j v) js g) is g ! a) = length (g ! a)"
  by (induction "is" arbitrary: g) simp_all

text \<open>On a 10x10 board, the zeroing loops of \<open>clean_grid\<close> give the empty board.\<close>

lemma clean_loops_zero:
  assumes "square 10 g"
  shows "fold (\<lambda>i g. fold (\<lambda>j g. set_cell g i j 0) [0..<10] g) [0..<10] g = replicate 10 (replicate 10 0)"
proof (rule nth_equalityI)
  let ?h = "fold (\<lambda>i g. fold (\<lambda>j g. set_cell g i j 0) [0..<10] g) [0..<10] g"
  have len: "length g = 10" using assms by (simp add: square_def)
  show "length ?h = length (replicate 10 (replicate 10 (0::int)))" by (simp add: fold_rows_lengths len)
  fix a assume "a < length ?h"
  then have a: "a < 10" by (simp add: fold_rows_lengths len)
  have row: "length (g ! a) = 10" using square_nth_length [OF assms a] .
  show "?h ! a = replicate 10 (replicate 10 0) ! a"
    by (rule nth_equalityI) (simp_all add: fold_rows_lengths row fold_rows_nth len a)
qed

lemma ot_clean_grid_grid: "square 10 (ot_grid s) \<Longrightarrow> ot_grid (ot_clean_grid s) = ot_init_grid"
  by (simp add: ot_clean_grid_def clean_loops_zero ot_init_grid_def)

subsection \<open>The score\<close>

lemma fold_add_sum: "fold (\<lambda>j s. s + f j) xs s = s + sum_list (map f xs)"
  by (induction xs arbitrary: s) (simp_all add: algebra_simps)

lemma sum_list_split_cells:
  "sum_list (map (\<lambda>(i, j). f i j :: int) xs) =
   sum_list (map (\<lambda>(i, j). f i j) (filter (\<lambda>(i, j). P i j) xs)) +
   sum_list (map (\<lambda>(i, j). f i j) (filter (\<lambda>(i, j). \<not> P i j) xs))"
  by (induction xs) auto

lemma ot_cells_filter:
  "ot_cells = filter (\<lambda>(i, j). 1 \<le> i \<and> i < 9 \<and> 1 \<le> j \<and> j < 9) [(i, j). i \<leftarrow> [0..<10], j \<leftarrow> [0..<10]]"
  by code_simp

subsection \<open>Properties\<close>

text \<open>
  \<open>check_score\<close> sums the whole padded board: it is the disc differential of
  the 8x8 board plus the sum of the border cells.  The spec's score is the disc
  differential alone, so the two agree only while the border is empty.
\<close>

theorem ot_check_score_border:
  "ot_check_score g = disc_diff g + sum_list (map (\<lambda>(i, j). g ! i ! j) border_cells)"
proof -
  have "ot_check_score g = sum_list (map (\<lambda>(i, j). g ! i ! j) [(i, j). i \<leftarrow> [0..<10], j \<leftarrow> [0..<10]])"
    unfolding ot_check_score_def fold_add_sum
    by (simp add: map_concat sum_list_concat_lists o_def)
  also have "\<dots> = disc_diff g + sum_list (map (\<lambda>(i, j). g ! i ! j) border_cells)"
    unfolding disc_diff_def border_cells_def ot_cells_filter
    by (rule sum_list_split_cells)
  finally show ?thesis .
qed

text \<open>
  C9: \<open>update_grid\<close> only ever writes the mover's value: every cell of the 10x10
  board afterwards is the cell before or the mover's disc, so a flip never hands a disc
  to the opponent and never empties a cell.
\<close>

theorem update_grid_only_mover:
  assumes "square 10 g" "a < 10" "b < 10"
  shows "update_grid g p m ! a ! b = g ! a ! b \<or> update_grid g p m ! a ! b = mark_of p"
  using paints_cell [OF paints_update_grid] assms square_nth_length [OF assms(1)]
  by (simp add: square_def)

theorem update_grid_only_mover_witness:
  "square 10 ot_init_grid \<and> update_grid ot_init_grid 0 (3, 5) ! 4 ! 5 = mark_of 0 \<and>
   ot_init_grid ! 4 ! 5 = -1"
proof -
  have "square 10 ot_init_grid" "update_grid ot_init_grid 0 (3, 5) ! 4 ! 5 = 1" "ot_init_grid ! 4 ! 5 = -1"
    by code_simp+
  moreover have "update_grid ot_init_grid 0 (3, 5) ! 4 ! 5 = ot_init_grid ! 4 ! 5 \<or>
                 update_grid ot_init_grid 0 (3, 5) ! 4 ! 5 = mark_of 0"
    using update_grid_only_mover [OF calculation(1), of 4 5 0 "(3, 5)"] by simp
  ultimately show ?thesis by (simp add: mark_of_def)
qed

text \<open>
  C10: a move on an empty playable cell adds at least one disc to the 8x8 board
  (spec, section 8: the disc count increases by at least the placed disc and never
  decreases).
\<close>

theorem update_grid_adds_disc:
  assumes "square 10 g" "(i, j) \<in> set ot_cells" "g ! i ! j = 0"
  shows "disc_count g < disc_count (update_grid g p (i, j))"
proof -
  have ij: "i < length g" "j < length (g ! i)" using square10_cell [OF assms(1,2)] by auto
  show ?thesis
    using disc_count_paints [OF paints_update_grid assms(1) mark_of_nonzero assms(2,3)]
      update_grid_own_cell [OF ij] by simp
qed

theorem update_grid_adds_disc_witness:
  "square 10 ot_init_grid \<and> (3, 5) \<in> set ot_cells \<and> ot_init_grid ! 3 ! 5 = 0 \<and>
   disc_count ot_init_grid < disc_count (update_grid ot_init_grid 0 (3, 5))"
proof -
  have h: "square 10 ot_init_grid" "(3, 5) \<in> set ot_cells" "ot_init_grid ! 3 ! 5 = 0"
    by code_simp+
  show ?thesis using h update_grid_adds_disc [OF h] by blast
qed

text \<open>
  on the opening board each player has exactly the four standard moves (spec,
  section 8), in the loop order of \<open>get_valid_actions\<close>.
\<close>

theorem ot_initial_moves:
  "get_valid_actions ot_init_grid 0 = [(3, 5), (4, 6), (5, 3), (6, 4)] \<and>
   get_valid_actions ot_init_grid 1 = [(3, 4), (4, 3), (5, 6), (6, 5)]"
  by code_simp

text \<open>
  the diagonal scans of \<open>is_valid_action\<close> towards row or column 1 stop one
  cell short: a capture of the disc at (2, 2) from (3, 3) against a disc at (1, 1) is a
  legal move by the rule of the spec and is rejected by the code.
\<close>

theorem is_valid_action_misses_capture:
  "othello_legal [[0,0,0,0,0,0,0,0,0,0],[0,1,0,0,0,0,0,0,0,0],[0,0,-1,0,0,0,0,0,0,0],[0,0,0,0,0,0,0,0,0,0],[0,0,0,0,0,0,0,0,0,0],[0,0,0,0,0,0,0,0,0,0],[0,0,0,0,0,0,0,0,0,0],[0,0,0,0,0,0,0,0,0,0],[0,0,0,0,0,0,0,0,0,0],[0,0,0,0,0,0,0,0,0,0]] 0 (3, 3) \<and> \<not> is_valid_action [[0,0,0,0,0,0,0,0,0,0],[0,1,0,0,0,0,0,0,0,0],[0,0,-1,0,0,0,0,0,0,0],[0,0,0,0,0,0,0,0,0,0],[0,0,0,0,0,0,0,0,0,0],[0,0,0,0,0,0,0,0,0,0],[0,0,0,0,0,0,0,0,0,0],[0,0,0,0,0,0,0,0,0,0],[0,0,0,0,0,0,0,0,0,0],[0,0,0,0,0,0,0,0,0,0]] 0 (3, 3)"
  by code_simp

text \<open>
  \<open>reset_game\<close> restores the opening board and clears \<open>end_game\<close>, but
  keeps the side to move, the displayed score, the winner and the tally.
\<close>

theorem ot_reset_board:
  "square 10 (ot_grid s) \<Longrightarrow>
   ot_grid (ot_reset_game s) = ot_init_grid \<and> \<not> ot_end_game (ot_reset_game s) \<and>
   ot_player (ot_reset_game s) = ot_player s \<and> ot_score (ot_reset_game s) = ot_score s \<and>
   ot_winner (ot_reset_game s) = ot_winner s \<and> ot_result (ot_reset_game s) = ot_result s"
  using ot_clean_grid_grid [of s] by (simp add: ot_reset_game_def ot_clean_grid_def)

theorem ot_reset_board_witness:
  "square 10 (ot_grid (init_othello\<lparr>ot_player := 1, ot_score := 5\<rparr>)) \<and>
   ot_player (ot_reset_game (init_othello\<lparr>ot_player := 1, ot_score := 5\<rparr>)) = 1 \<and>
   ot_score (ot_reset_game (init_othello\<lparr>ot_player := 1, ot_score := 5\<rparr>)) = 5"
proof -
  have h: "square 10 (ot_grid (init_othello\<lparr>ot_player := 1, ot_score := 5\<rparr>))"
    by (simp add: init_othello_def) code_simp
  show ?thesis using ot_reset_board [OF h] h by simp
qed

end
