(* ===== verification/Othello_Engine.thy ===== *)
theory Othello_Engine
  imports Othello
begin

text \<open>
  The AI player of src/othello.py: \<open>Othello.extend_tree\<close>,
  \<open>Othello.decision_tree\<close> and \<open>Othello.player_step\<close> (lines 175-264), on the
  shared \<open>tree\<close> of theory \<open>GameTree\<close> (the file's own copy of class \<open>Tree\<close>,
  lines 472-535, is the same code).  Unlike Tic-Tac-Toe, every child is extended,
  whatever its score, and a child's score is the disc sum \<open>check_score\<close> of its board.
\<close>

text \<open>\<open>[[grid[j][i] for i in range(10)] for j in range(10)]\<close>: the copy of a board.\<close>

definition ot_copy :: "grid \<Rightarrow> grid" where
  "ot_copy g = map (\<lambda>j. map (\<lambda>i. g ! j ! i) [0..<10]) [0..<10]"

text \<open>
  \<open>extend_tree(tree, curr_player, level)\<close>, the first argument being the levels
  left, \<open>decision_level - level\<close>: one child per valid action of
  \<open>curr_player\<close>, in the order of \<open>get_valid_actions\<close>, each built on a copy of
  the node's board and extended to the remaining depth.
\<close>

fun ot_extend_tree :: "nat \<Rightarrow> grid tree \<Rightarrow> nat \<Rightarrow> grid tree" where
  "ot_extend_tree 0 t curr_player = t"
| "ot_extend_tree (Suc d) t curr_player =
     fold (\<lambda>action t.
        (let (i, j) = action;
             player = curr_player;
             new_grid = pset (ot_copy (node_grid t)) (int i) (int j) (if player = 0 then 1 else -1);
             new_grid = update_grid new_grid player action;
             score = ot_check_score new_grid;
             child = Tree new_grid (next_player player) (Some action) score [];
             child = ot_extend_tree d child (next_player player)
         in add_child t child))
       (get_valid_actions (node_grid t) curr_player) t"

text \<open>\<open>decision_tree()\<close>: a root of score 0 on a copy of the board, extended,
  backed up for the current player, and one selected action drawn by \<open>choice\<close>.\<close>

definition ot_decision_tree ::
  "othello \<Rightarrow> nat stream \<Rightarrow> py_error + (move option \<times> nat stream)" where
  "ot_decision_tree s rs =
     (let player = ot_player s;
          curr_grid = ot_copy (ot_grid s);
          tree = Tree curr_grid player None 0 [];
          tree = ot_extend_tree (ot_decision_level s) tree player;
          tree = pass_score player tree
      in case select_best_child tree rs of
           Inl e \<Rightarrow> Inl e
         | Inr (actions, rs') \<Rightarrow> py_choice actions rs')"

text \<open>
  \<open>player_step()\<close>: \<open>update_grid\<close> mutates \<open>self.grid\<close> in place and returns
  it, \<open>overwrite_grid\<close> copies it onto itself, then the end-of-game check and the
  switch of player.  An action \<open>None\<close> would fail to unpack (\<open>TypeError\<close>).
\<close>

definition ot_player_step ::
  "othello \<Rightarrow> nat stream \<Rightarrow> py_error + (othello \<times> nat stream)" where
  "ot_player_step s rs =
     (case ot_decision_tree s rs of
        Inl e \<Rightarrow> Inl e
      | Inr (None, rs') \<Rightarrow> Inl TypeError
      | Inr (Some action, rs') \<Rightarrow>
          (let new_grid = update_grid (ot_grid s) (ot_player s) action;
               s = s\<lparr>ot_grid := new_grid\<rparr>;
               s = ot_overwrite_grid s new_grid;
               s = ot_check_end_game s
           in Inr (ot_switch_player s, rs')))"

subsection \<open>Specification vocabulary\<close>

text \<open>The board a move of player \<open>p\<close> leads to, built as \<open>extend_tree\<close> builds it.\<close>

definition ot_play :: "grid \<Rightarrow> nat \<Rightarrow> move \<Rightarrow> grid" where
  "ot_play g p a =
     update_grid (pset (ot_copy g) (int (fst a)) (int (snd a)) (if p = 0 then 1 else -1)) p a"

text \<open>One iteration of the loop of \<open>extend_tree\<close>: the extended child of a move.\<close>

definition ot_child :: "nat \<Rightarrow> grid \<Rightarrow> nat \<Rightarrow> move \<Rightarrow> grid tree" where
  "ot_child d g p a =
     ot_extend_tree d (Tree (ot_play g p a) (next_player p) (Some a) (ot_check_score (ot_play g p a)) [])
       (next_player p)"

text \<open>The disc sum of the board a move leads to: the score of its child.\<close>

definition move_score :: "grid \<Rightarrow> nat \<Rightarrow> move \<Rightarrow> int" where
  "move_score g p a = ot_check_score (ot_play g p a)"

subsection \<open>The shape of the tree\<close>

lemma ot_copy_id: "square 10 g \<Longrightarrow> ot_copy g = g"
  by (intro nth_equalityI) (auto simp: ot_copy_def square_def list_all_length intro!: nth_equalityI)

lemma fold_ot_expand:
  "fold (\<lambda>action t.
        (let (i, j) = action;
             player = p;
             new_grid = pset (ot_copy (node_grid t)) (int i) (int j) (if player = 0 then 1 else -1);
             new_grid = update_grid new_grid player action;
             score = ot_check_score new_grid;
             child = Tree new_grid (next_player player) (Some action) score [];
             child = ot_extend_tree d child (next_player player)
         in add_child t child)) xs (Tree g q a s cs) =
   Tree g q a s (cs @ map (ot_child d g p) xs)"
  by (induction xs arbitrary: cs)
     (simp_all add: add_child_def ot_child_def ot_play_def split_def Let_def)

lemma ot_extend_tree_Suc:
  "ot_extend_tree (Suc d) (Tree g q a s cs) p =
   Tree g q a s (cs @ map (ot_child d g p) (get_valid_actions g p))"
  by (simp only: ot_extend_tree.simps fold_ot_expand tree.sel)

declare ot_extend_tree.simps(2) [simp del]

lemma ot_child_action [simp]: "node_action (ot_child d g p a) = Some a"
  by (cases d) (simp_all add: ot_child_def ot_extend_tree_Suc)

lemma ot_child_leaf: "ot_child 0 g p a = Tree (ot_play g p a) (next_player p) (Some a) (move_score g p a) []"
  by (simp add: ot_child_def move_score_def)

lemma ot_decision_tree_root:
  assumes "square 10 (ot_grid s)" "ot_decision_level s = Suc d"
  shows "ot_decision_tree s rs =
    (case select_best_child (pass_score (ot_player s) (Tree (ot_grid s) (ot_player s) None 0
            (map (ot_child d (ot_grid s) (ot_player s)) (get_valid_actions (ot_grid s) (ot_player s))))) rs of
       Inl e \<Rightarrow> Inl e
     | Inr (actions, rs') \<Rightarrow> py_choice actions rs')"
  using assms by (simp add: ot_decision_tree_def ot_copy_id ot_extend_tree_Suc Let_def)

lemma ot_decision_tree_level0:
  "ot_decision_level s = 0 \<Longrightarrow> ot_decision_tree s rs = Inl IndexError"
  by (simp add: ot_decision_tree_def Let_def select_best_child_def)

lemma ot_decision_tree_action:
  assumes "square 10 (ot_grid s)" "ot_decision_tree s rs = Inr (x, rs')"
  shows "\<exists>a. x = Some a \<and> a \<in> set (get_valid_actions (ot_grid s) (ot_player s))"
proof (cases "ot_decision_level s")
  case 0
  with assms(2) show ?thesis by (simp add: ot_decision_tree_level0)
next
  case (Suc d)
  from assms(2) have "x \<in> node_action ` set (node_children (pass_score (ot_player s) (Tree (ot_grid s)
      (ot_player s) None 0 (map (ot_child d (ot_grid s) (ot_player s)) (get_valid_actions (ot_grid s) (ot_player s))))))"
    unfolding ot_decision_tree_root [OF assms(1) Suc] by (rule select_choice_Inr)
  then show ?thesis by (auto simp: Let_def)
qed

lemma select_leaves:
  "map node_action (filter (\<lambda>c. node_score c = v)
      (map (\<lambda>a. Tree (f a) q (Some a) (sc a) []) vs)) = map Some (filter (\<lambda>a. sc a = v) vs)"
  by (induction vs) auto

text \<open>At depth 1 the root's value is its own score 0 folded with the children's disc
  sums; the AI draws among the moves reaching that value, or, when none does, draws
  any move with one more draw.\<close>

lemma ot_decision_tree_level1:
  assumes sq: "square 10 (ot_grid s)" and lvl: "ot_decision_level s = 1"
    and vs: "get_valid_actions (ot_grid s) (ot_player s) = vs" "vs \<noteq> []"
  shows "ot_decision_tree s rs =
    (let sc = move_score (ot_grid s) (ot_player s);
         v = (if ot_player s = 1 then Min (insert 0 (sc ` set vs)) else Max (insert 0 (sc ` set vs)));
         best = filter (\<lambda>a. sc a = v) vs
     in if best = [] then Inr (Some (vs ! (shd rs mod length vs)), stl (stl rs))
        else Inr (Some (best ! (shd rs mod length best)), stl rs))"
proof -
  let ?g = "ot_grid s" and ?p = "ot_player s"
  let ?sc = "move_score ?g ?p"
  let ?v = "if ?p = 1 then Min (insert 0 (?sc ` set vs)) else Max (insert 0 (?sc ` set vs))"
  let ?cs = "map (\<lambda>a. Tree (ot_play ?g ?p a) (next_player ?p) (Some a) (?sc a) []) vs"
  have lvl1: "ot_decision_level s = Suc 0" using lvl by simp
  have ps: "pass_score ?p (Tree ?g ?p None 0 (map (ot_child 0 ?g ?p) vs)) = Tree ?g ?p None ?v ?cs"
    by (simp add: ot_child_leaf Let_def fold_min_step fold_max_step fold_min_Min fold_max_Max
        image_image o_def cong: map_cong)
  have cs: "?cs ! (n mod length vs) = Tree (ot_play ?g ?p (vs ! (n mod length vs))) (next_player ?p)
             (Some (vs ! (n mod length vs))) (?sc (vs ! (n mod length vs))) []" for n
    using vs(2) by simp
  show ?thesis
    unfolding ot_decision_tree_root [OF sq lvl1] vs(1) ps
    using vs(2) cs by (simp add: select_best_child_def Let_def select_leaves py_choice_def)
qed

lemma filter_zip_map:
  "map fst (filter (\<lambda>(a, x). x = v) (zip vs (map f vs))) = filter (\<lambda>a. f a = v) vs"
  by (induction vs) auto

text \<open>The same with the children's scores given as a list, to evaluate a concrete decision.\<close>

lemma ot_decision_tree_scores:
  assumes sq: "square 10 (ot_grid s)" and lvl: "ot_decision_level s = 1"
    and vs: "get_valid_actions (ot_grid s) (ot_player s) = vs" "vs \<noteq> []"
    and ss: "map (move_score (ot_grid s) (ot_player s)) vs = ss"
  shows "ot_decision_tree s rs =
    (let v = (if ot_player s = 1 then Min (insert 0 (set ss)) else Max (insert 0 (set ss)));
         best = map fst (filter (\<lambda>(a, x). x = v) (zip vs ss))
     in if best = [] then Inr (Some (vs ! (shd rs mod length vs)), stl (stl rs))
        else Inr (Some (best ! (shd rs mod length best)), stl rs))"
  unfolding ot_decision_tree_level1 [OF sq lvl vs] ss [symmetric] filter_zip_map
  by (simp add: Let_def)

lemma ot_decision_tree_stuck:
  assumes "square 10 (ot_grid s)" "0 < ot_decision_level s" "get_valid_actions (ot_grid s) (ot_player s) = []"
  shows "ot_decision_tree s rs = Inl IndexError"
proof -
  obtain d where d: "ot_decision_level s = Suc d" using assms(2) by (cases "ot_decision_level s") auto
  show ?thesis unfolding ot_decision_tree_root [OF assms(1) d] assms(3)
    by (simp add: select_best_child_def)
qed

lemma ot_decision_tree_moves:
  assumes "square 10 (ot_grid s)" "0 < ot_decision_level s" "get_valid_actions (ot_grid s) (ot_player s) \<noteq> []"
  shows "\<exists>a rs'. ot_decision_tree s rs = Inr (Some a, rs')"
proof -
  obtain d where d: "ot_decision_level s = Suc d" using assms(2) by (cases "ot_decision_level s") auto
  have "\<nexists>e. ot_decision_tree s rs = Inl e"
    unfolding ot_decision_tree_root [OF assms(1) d] select_choice_Inl using assms(3) by (simp add: Let_def)
  then obtain x rs' where "ot_decision_tree s rs = Inr (x, rs')" by (metis prod.exhaust sum.exhaust)
  with ot_decision_tree_action [OF assms(1)] show ?thesis by blast
qed

subsection \<open>Properties\<close>

text \<open>
  C2: whatever the depth and the random draws, a move \<open>decision_tree\<close> returns is
  one of \<open>get_valid_actions\<close> for the side to move (spec, section 8).
\<close>

theorem ot_decision_tree_legal:
  "square 10 (ot_grid s) \<Longrightarrow> ot_decision_tree s rs = Inr (Some a, rs') \<Longrightarrow>
   a \<in> set (get_valid_actions (ot_grid s) (ot_player s))"
  using ot_decision_tree_action by blast

theorem ot_decision_tree_legal_witness:
  "square 10 (ot_grid init_othello) \<and> ot_decision_tree init_othello (0 ## sconst 0) = Inr (Some (3, 5), sconst 0) \<and>
   (3, 5) \<in> set (get_valid_actions (ot_grid init_othello) (ot_player init_othello))"
proof -
  have sq: "square 10 (ot_grid init_othello)" by (simp add: init_othello_def) code_simp
  have lvl: "ot_decision_level init_othello = 1" by (simp add: init_othello_def)
  have vs: "get_valid_actions (ot_grid init_othello) (ot_player init_othello) = [(3, 5), (4, 6), (5, 3), (6, 4)]"
    by (simp add: init_othello_def) code_simp
  have ss: "map (move_score (ot_grid init_othello) (ot_player init_othello)) [(3, 5), (4, 6), (5, 3), (6, 4)] =
            [3, 3, 3, 3]"
    by (simp add: init_othello_def) code_simp
  have dt: "ot_decision_tree init_othello (0 ## sconst 0) = Inr (Some (3, 5), sconst 0)"
    unfolding ot_decision_tree_scores [OF sq lvl vs list.distinct(2) ss] by (simp add: init_othello_def)
  show ?thesis using sq dt ot_decision_tree_legal [OF sq dt] by blast
qed

text \<open>
  at a positive depth, \<open>decision_tree\<close> fails exactly when the side to move
  has no valid action, with the \<open>IndexError\<close> of \<open>random.choice\<close> on the empty
  child list; the spec treats "no legal moves" as a normal path.
\<close>

theorem ot_decision_tree_error:
  "square 10 (ot_grid s) \<Longrightarrow> 0 < ot_decision_level s \<Longrightarrow>
   ot_decision_tree s rs = Inl e \<longleftrightarrow> get_valid_actions (ot_grid s) (ot_player s) = [] \<and> e = IndexError"
proof -
  assume sq: "square 10 (ot_grid s)" and lvl: "0 < ot_decision_level s"
  show ?thesis
  proof (cases "get_valid_actions (ot_grid s) (ot_player s) = []")
    case True
    then show ?thesis using ot_decision_tree_stuck [OF sq lvl True, of rs] by auto
  next
    case False
    then obtain a rs' where "ot_decision_tree s rs = Inr (Some a, rs')"
      using ot_decision_tree_moves [OF sq lvl False] by blast
    then show ?thesis using False by simp
  qed
qed

theorem ot_decision_tree_error_witness:
  "square 10 [[0,0,0,0,0,0,0,0,0,0],[0,0,0,0,0,0,0,0,0,0],[0,0,0,0,0,0,0,0,0,0],[0,0,0,0,0,0,0,0,0,0],[0,0,0,0,1,0,0,0,0,0],[0,0,0,0,0,0,0,0,0,0],[0,0,0,0,0,0,0,0,0,0],[0,0,0,0,0,0,0,0,0,0],[0,0,0,0,0,0,0,0,0,0],[0,0,0,0,0,0,0,0,0,0]] \<and> 0 < ot_decision_level (init_othello\<lparr>ot_grid := [[0,0,0,0,0,0,0,0,0,0],[0,0,0,0,0,0,0,0,0,0],[0,0,0,0,0,0,0,0,0,0],[0,0,0,0,0,0,0,0,0,0],[0,0,0,0,1,0,0,0,0,0],[0,0,0,0,0,0,0,0,0,0],[0,0,0,0,0,0,0,0,0,0],[0,0,0,0,0,0,0,0,0,0],[0,0,0,0,0,0,0,0,0,0],[0,0,0,0,0,0,0,0,0,0]], ot_player := 1\<rparr>) \<and>
   ot_decision_tree (init_othello\<lparr>ot_grid := [[0,0,0,0,0,0,0,0,0,0],[0,0,0,0,0,0,0,0,0,0],[0,0,0,0,0,0,0,0,0,0],[0,0,0,0,0,0,0,0,0,0],[0,0,0,0,1,0,0,0,0,0],[0,0,0,0,0,0,0,0,0,0],[0,0,0,0,0,0,0,0,0,0],[0,0,0,0,0,0,0,0,0,0],[0,0,0,0,0,0,0,0,0,0],[0,0,0,0,0,0,0,0,0,0]], ot_player := 1\<rparr>) (sconst 0) = Inl IndexError"
proof -
  let ?s = "init_othello\<lparr>ot_grid := [[0,0,0,0,0,0,0,0,0,0],[0,0,0,0,0,0,0,0,0,0],[0,0,0,0,0,0,0,0,0,0],[0,0,0,0,0,0,0,0,0,0],[0,0,0,0,1,0,0,0,0,0],[0,0,0,0,0,0,0,0,0,0],[0,0,0,0,0,0,0,0,0,0],[0,0,0,0,0,0,0,0,0,0],[0,0,0,0,0,0,0,0,0,0],[0,0,0,0,0,0,0,0,0,0]], ot_player := 1\<rparr>"
  have sq: "square 10 (ot_grid ?s)" by simp code_simp
  have lvl: "0 < ot_decision_level ?s" by (simp add: init_othello_def)
  have vs: "get_valid_actions (ot_grid ?s) (ot_player ?s) = []" by simp code_simp
  show ?thesis using sq lvl vs ot_decision_tree_error [OF sq lvl, of "sconst 0" IndexError] by simp
qed

text \<open>
  at depth 1 the AI (player 1) is greedy while it can stay level or get ahead: if
  one of its moves leaves a disc sum of at most 0, the move it plays has the least disc
  sum of all its moves.
\<close>

theorem ot_level1_greedy:
  assumes sq: "square 10 (ot_grid s)" and lvl: "ot_decision_level s = 1" and p: "ot_player s = 1"
    and ex: "list_ex (\<lambda>b. move_score (ot_grid s) 1 b \<le> 0) (get_valid_actions (ot_grid s) 1)"
    and dt: "ot_decision_tree s rs = Inr (Some a, rs')"
  shows "move_score (ot_grid s) 1 a = Min (move_score (ot_grid s) 1 ` set (get_valid_actions (ot_grid s) 1))"
proof -
  let ?vs = "get_valid_actions (ot_grid s) 1" and ?sc = "move_score (ot_grid s) 1"
  have ne: "?vs \<noteq> []" using ex by auto
  have fin: "finite (?sc ` set ?vs)" "?sc ` set ?vs \<noteq> {}" using ne by auto
  have le: "Min (?sc ` set ?vs) \<le> 0" using ex fin by (auto simp: list_ex_iff intro: Min_le_iff [THEN iffD2])
  have v: "Min (insert 0 (?sc ` set ?vs)) = Min (?sc ` set ?vs)" using le fin by (simp add: Min_insert min_absorb2)
  obtain b where b: "b \<in> set ?vs" "?sc b = Min (?sc ` set ?vs)" using Min_in [OF fin] by auto
  let ?best = "filter (\<lambda>a. ?sc a = Min (?sc ` set ?vs)) ?vs"
  have bne: "?best \<noteq> []" using b by (auto simp: filter_empty_conv)
  have "ot_decision_tree s rs = Inr (Some (?best ! (shd rs mod length ?best)), stl rs)"
    using ot_decision_tree_level1 [OF sq lvl _ ne, of rs] p v bne by (simp add: Let_def)
  with dt have a: "a = ?best ! (shd rs mod length ?best)" by simp
  have "?best ! (shd rs mod length ?best) \<in> set ?best"
    by (rule nth_mem) (use bne in simp)
  then show ?thesis unfolding a [symmetric] by simp
qed

theorem ot_level1_greedy_witness:
  "ot_decision_tree (init_othello\<lparr>ot_player := 1\<rparr>) (0 ## sconst 0) = Inr (Some (3, 4), sconst 0) \<and>
   move_score ot_init_grid 1 (3, 4) = Min (move_score ot_init_grid 1 ` set (get_valid_actions ot_init_grid 1))"
proof -
  let ?s = "init_othello\<lparr>ot_player := 1\<rparr>"
  have sq: "square 10 (ot_grid ?s)" by (simp add: init_othello_def) code_simp
  have lvl: "ot_decision_level ?s = 1" and p: "ot_player ?s = 1" by (simp_all add: init_othello_def)
  have vs: "get_valid_actions (ot_grid ?s) (ot_player ?s) = [(3, 4), (4, 3), (5, 6), (6, 5)]"
    by (simp add: init_othello_def) code_simp
  have ss: "map (move_score (ot_grid ?s) (ot_player ?s)) [(3, 4), (4, 3), (5, 6), (6, 5)] = [-3, -3, -3, -3]"
    by (simp add: init_othello_def) code_simp
  have dt: "ot_decision_tree ?s (0 ## sconst 0) = Inr (Some (3, 4), sconst 0)"
    unfolding ot_decision_tree_scores [OF sq lvl vs list.distinct(2) ss] by (simp add: init_othello_def)
  have ex: "list_ex (\<lambda>b. move_score (ot_grid ?s) 1 b \<le> 0) (get_valid_actions (ot_grid ?s) 1)"
    using vs ss p by simp
  show ?thesis using dt ot_level1_greedy [OF sq lvl p ex dt] by (simp add: init_othello_def)
qed

text \<open>
  C11: at depth 1, when every move of the AI leaves a positive disc sum, the root keeps
  its own score 0, no child matches it, and \<open>select_best_child\<close> falls back to a random
  child: the AI plays the move drawn by the first draw, whatever its disc sum, rather
  than the least bad one, and consumes two draws.
\<close>

theorem ot_level1_random:
  assumes sq: "square 10 (ot_grid s)" and lvl: "ot_decision_level s = 1" and p: "ot_player s = 1"
    and vs: "get_valid_actions (ot_grid s) 1 = vs" "vs \<noteq> []"
    and pos: "list_all (\<lambda>b. 0 < move_score (ot_grid s) 1 b) vs"
  shows "ot_decision_tree s rs = Inr (Some (vs ! (shd rs mod length vs)), stl (stl rs))"
proof -
  let ?sc = "move_score (ot_grid s) 1"
  have fin: "finite (?sc ` set vs)" "?sc ` set vs \<noteq> {}" using vs(2) by auto
  have v: "Min (insert 0 (?sc ` set vs)) = 0"
    using pos fin by (auto simp: list_all_iff min_def intro!: Min_eqI)
  have none: "filter (\<lambda>a. ?sc a = 0) vs = []" using pos by (auto simp: list_all_iff filter_empty_conv)
  show ?thesis using ot_decision_tree_level1 [OF sq lvl _ vs(2), of rs] vs(1) p v none by (simp add: Let_def)
qed

theorem ot_level1_random_witness:
  "ot_decision_tree (init_othello\<lparr>ot_grid := [[0,0,0,0,0,0,0,0,0,0],[0,0,0,0,0,0,0,0,0,0],[0,0,0,0,0,0,0,0,0,0],[0,0,0,0,0,1,1,1,0,0],[0,0,0,0,1,-1,1,0,0,0],[0,0,0,0,1,1,-1,0,0,0],[0,0,0,0,1,0,0,0,0,0],[0,0,0,0,0,0,0,0,0,0],[0,0,0,0,0,0,0,0,0,0],[0,0,0,0,0,0,0,0,0,0]], ot_player := 1\<rparr>) (4 ## 0 ## sconst 0) = Inr (Some (4, 7), sconst 0) \<and>
   move_score [[0,0,0,0,0,0,0,0,0,0],[0,0,0,0,0,0,0,0,0,0],[0,0,0,0,0,0,0,0,0,0],[0,0,0,0,0,1,1,1,0,0],[0,0,0,0,1,-1,1,0,0,0],[0,0,0,0,1,1,-1,0,0,0],[0,0,0,0,1,0,0,0,0,0],[0,0,0,0,0,0,0,0,0,0],[0,0,0,0,0,0,0,0,0,0],[0,0,0,0,0,0,0,0,0,0]] 1 (4, 7) = 3 \<and> move_score [[0,0,0,0,0,0,0,0,0,0],[0,0,0,0,0,0,0,0,0,0],[0,0,0,0,0,0,0,0,0,0],[0,0,0,0,0,1,1,1,0,0],[0,0,0,0,1,-1,1,0,0,0],[0,0,0,0,1,1,-1,0,0,0],[0,0,0,0,1,0,0,0,0,0],[0,0,0,0,0,0,0,0,0,0],[0,0,0,0,0,0,0,0,0,0],[0,0,0,0,0,0,0,0,0,0]] 1 (2, 6) = 1"
proof -
  let ?s = "init_othello\<lparr>ot_grid := [[0,0,0,0,0,0,0,0,0,0],[0,0,0,0,0,0,0,0,0,0],[0,0,0,0,0,0,0,0,0,0],[0,0,0,0,0,1,1,1,0,0],[0,0,0,0,1,-1,1,0,0,0],[0,0,0,0,1,1,-1,0,0,0],[0,0,0,0,1,0,0,0,0,0],[0,0,0,0,0,0,0,0,0,0],[0,0,0,0,0,0,0,0,0,0],[0,0,0,0,0,0,0,0,0,0]], ot_player := 1\<rparr>"
  have sq: "square 10 (ot_grid ?s)" by simp code_simp
  have lvl: "ot_decision_level ?s = 1" and p: "ot_player ?s = 1" by (simp_all add: init_othello_def)
  have vs: "get_valid_actions (ot_grid ?s) 1 = [(2, 5), (2, 6), (2, 7), (4, 3), (4, 7), (5, 3), (6, 3), (6, 5)]" by simp code_simp
  have ss: "map (move_score [[0,0,0,0,0,0,0,0,0,0],[0,0,0,0,0,0,0,0,0,0],[0,0,0,0,0,0,0,0,0,0],[0,0,0,0,0,1,1,1,0,0],[0,0,0,0,1,-1,1,0,0,0],[0,0,0,0,1,1,-1,0,0,0],[0,0,0,0,1,0,0,0,0,0],[0,0,0,0,0,0,0,0,0,0],[0,0,0,0,0,0,0,0,0,0],[0,0,0,0,0,0,0,0,0,0]] 1) [(2, 5), (2, 6), (2, 7), (4, 3), (4, 7), (5, 3), (6, 3), (6, 5)] = [3, 1, 3, 3, 3, 1, 3, 3]" by code_simp
  have pos: "list_all (\<lambda>b. 0 < move_score (ot_grid ?s) 1 b) [(2, 5), (2, 6), (2, 7), (4, 3), (4, 7), (5, 3), (6, 3), (6, 5)]" using ss by simp
  show ?thesis using ot_level1_random [OF sq lvl p vs list.distinct(2) pos, of "4 ## 0 ## sconst 0"] ss by simp
qed

end
