(* ===== verification/Othello_App.thy ===== *)
theory Othello_App
  imports Othello_Engine
begin

text \<open>
  The host of the game, class \<open>OthelloApp\<close> of src/othello.py: the main loop (lines
  568-592) handles the pending events of one frame, a click by
  \<open>handle_mouse_click\<close> (lines 595-640), and then lets the AI move when the game runs
  and \<open>player == 1\<close>.  The board is 400 pixels wide in tiles of 50
  (\<open>GRIDSIZE\<close>, \<open>TILESIZE\<close>); the buttons are 100 by 50 below it
  (\<open>BUTTONSIZE\<close>).  Mouse coordinates are pixels (\<open>nat\<close>), so
  \<open>int(mousex / TILESIZE) + 1\<close> is \<open>mousex div 50 + 1\<close>.
\<close>

definition ot_handle_mouse_click :: "othello \<Rightarrow> nat \<Rightarrow> nat \<Rightarrow> othello" where
  "ot_handle_mouse_click s mousex mousey =
     (if mousey < 400 then
        (if mousex < 400 then
           (let clicked_grid_i = mousex div 50 + 1; clicked_grid_j = mousey div 50 + 1;
                valid = is_valid_action (ot_grid s) (ot_player s) (clicked_grid_j, clicked_grid_i)
            in if ot_end_game s = False \<and> valid
               then (let s = s\<lparr>ot_grid := update_grid (ot_grid s) (ot_player s) (clicked_grid_j, clicked_grid_i)\<rparr>;
                         s = ot_check_end_game s
                     in ot_switch_player s)
               else s)
         else s)
      else if 400 < mousey \<and> mousey < 450 then
        (if mousex < 100 then ot_set_decision_level s 1
         else if 100 < mousex \<and> mousex < 200 then ot_set_decision_level s 3
         else if 200 < mousex \<and> mousex < 300 then ot_set_decision_level s 5
         else if 300 < mousex \<and> mousex < 400 then ot_reset_game s
         else s)
      else s)"

text \<open>The \<open>for event in pygame.event.get()\<close> loop; \<open>None\<close> is \<open>sys.exit()\<close>.\<close>

fun ot_run_events :: "othello \<Rightarrow> event list \<Rightarrow> othello option" where
  "ot_run_events s [] = Some s"
| "ot_run_events s (Quit # es) = None"
| "ot_run_events s (KeyUp esc # es) = (if esc then None else ot_run_events s es)"
| "ot_run_events s (MouseDown x y # es) = ot_run_events (ot_handle_mouse_click s x y) es"
| "ot_run_events s (OtherEvent # es) = ot_run_events s es"

definition ot_frame ::
  "othello \<Rightarrow> nat stream \<Rightarrow> event list \<Rightarrow> py_error + (othello \<times> nat stream) option" where
  "ot_frame s rs es =
     (case ot_run_events s es of
        None \<Rightarrow> Inr None
      | Some s \<Rightarrow>
          (if ot_end_game s = False \<and> ot_player s = 1
           then (case ot_player_step s rs of Inl e \<Rightarrow> Inl e | Inr (s', rs') \<Rightarrow> Inr (Some (s', rs')))
           else Inr (Some (s, rs))))"

text \<open>The states a session reaches from \<open>Othello()\<close>, whatever the random seed and events.\<close>

inductive ot_reach :: "othello \<Rightarrow> nat stream \<Rightarrow> bool" where
  start: "ot_reach init_othello rs"
| step: "ot_reach s rs \<Longrightarrow> ot_frame s rs es = Inr (Some (s', rs')) \<Longrightarrow> ot_reach s' rs'"

text \<open>The type invariant of a session: a 10x10 board of cells -1, 0, 1, three counters,
  a player 0 or 1 and a positive depth.\<close>

definition ot_inv :: "othello \<Rightarrow> bool" where
  "ot_inv s \<longleftrightarrow>
     square 10 (ot_grid s) \<and> cells_ok (ot_grid s) \<and> length (ot_result s) = 3 \<and>
     ot_player s < 2 \<and> 0 < ot_decision_level s"

subsection \<open>Frames\<close>

lemma ot_frame_click_ai:
  assumes "ot_handle_mouse_click s x y = s1" "\<not> ot_end_game s1" "ot_player s1 = 1"
    and "ot_decision_tree s1 rs = Inr (Some a, rs')"
  shows "ot_frame s rs [MouseDown x y] = Inr (Some (ot_switch_player (ot_check_end_game
           (ot_overwrite_grid (s1\<lparr>ot_grid := update_grid (ot_grid s1) (ot_player s1) a\<rparr>)
             (update_grid (ot_grid s1) (ot_player s1) a))), rs'))"
  using assms by (simp add: ot_frame_def ot_player_step_def Let_def)

lemma ot_frame_click_crash:
  "ot_handle_mouse_click s x y = s1 \<Longrightarrow> \<not> ot_end_game s1 \<Longrightarrow> ot_player s1 = 1 \<Longrightarrow>
   ot_decision_tree s1 rs = Inl e \<Longrightarrow> ot_frame s rs [MouseDown x y] = Inl e"
  by (simp add: ot_frame_def ot_player_step_def)

subsection \<open>The invariant of a session\<close>

lemma ot_inv_board:
  "ot_inv s \<Longrightarrow> ot_inv (ot_switch_player (ot_check_end_game (s\<lparr>ot_grid := update_grid (ot_grid s) (ot_player s) a\<rparr>)))"
  by (simp add: ot_inv_def ot_switch_player_def cells_ok_update_grid next_player_def)

lemma ot_init_inv: "ot_inv init_othello"
proof -
  have "square 10 ot_init_grid" "cells_ok ot_init_grid" by code_simp+
  then show ?thesis by (simp add: ot_inv_def init_othello_def)
qed

lemma ot_reset_inv: "ot_inv s \<Longrightarrow> ot_inv (ot_reset_game s)"
  using ot_init_inv ot_clean_grid_grid [of s]
  by (simp add: ot_inv_def ot_reset_game_def init_othello_def) (simp add: ot_clean_grid_def)

lemma ot_click_inv: "ot_inv s \<Longrightarrow> ot_inv (ot_handle_mouse_click s x y)"
  by (simp add: ot_handle_mouse_click_def Let_def ot_inv_board ot_reset_inv ot_set_decision_level_def)
     (simp add: ot_inv_def)

lemma ot_run_events_inv: "ot_inv s \<Longrightarrow> ot_run_events s es = Some s' \<Longrightarrow> ot_inv s'"
  by (induction s es rule: ot_run_events.induct) (auto simp: ot_click_inv split: if_splits)

lemma ot_player_step_inv:
  assumes "ot_inv s" "ot_player_step s rs = Inr (s', rs')"
  shows "ot_inv s'"
  using assms ot_inv_board [OF assms(1)]
  by (auto simp: ot_player_step_def Let_def split: sum.splits option.splits prod.splits)

lemma ot_frame_inv: "ot_inv s \<Longrightarrow> ot_frame s rs es = Inr (Some (s', rs')) \<Longrightarrow> ot_inv s'"
  by (auto simp: ot_frame_def dest: ot_run_events_inv ot_player_step_inv
      split: option.splits if_splits sum.splits prod.splits)

lemma ot_reach_inv: "ot_reach s rs \<Longrightarrow> ot_inv s"
  by (induction rule: ot_reach.induct) (auto intro: ot_init_inv ot_frame_inv)

subsection \<open>Errors of a frame\<close>

lemma ot_player_step_error:
  assumes "ot_inv s"
  shows "ot_player_step s rs = Inl e \<longleftrightarrow> get_valid_actions (ot_grid s) (ot_player s) = [] \<and> e = IndexError"
proof -
  have sq: "square 10 (ot_grid s)" and lvl: "0 < ot_decision_level s" using assms by (auto simp: ot_inv_def)
  show ?thesis
  proof (cases "get_valid_actions (ot_grid s) (ot_player s) = []")
    case True
    then show ?thesis using ot_decision_tree_stuck [OF sq lvl True, of rs] by (auto simp: ot_player_step_def)
  next
    case False
    then obtain a rs' where "ot_decision_tree s rs = Inr (Some a, rs')"
      using ot_decision_tree_moves [OF sq lvl False] by blast
    then show ?thesis using False by (simp add: ot_player_step_def Let_def)
  qed
qed

lemma valid_in_actions:
  "is_valid_action g p (i, j) \<Longrightarrow> 1 \<le> i \<Longrightarrow> i < 9 \<Longrightarrow> 1 \<le> j \<Longrightarrow> j < 9 \<Longrightarrow>
   (i, j) \<in> set (get_valid_actions g p)"
  by (auto simp: get_valid_actions_def)

subsection \<open>Properties\<close>

text \<open>
  C17: every state a session reaches has a 10x10 board of cells -1, 0, 1, three
  counters, a player 0 or 1 and a positive depth.
\<close>

theorem ot_reach_type_invariant:
  "ot_reach s rs \<Longrightarrow>
   square 10 (ot_grid s) \<and> cells_ok (ot_grid s) \<and> length (ot_result s) = 3 \<and>
   ot_player s < 2 \<and> 0 < ot_decision_level s"
  using ot_reach_inv by (auto simp: ot_inv_def)

theorem ot_reach_type_invariant_witness:
  "ot_reach init_othello (sconst 0) \<and> square 10 (ot_grid init_othello) \<and> ot_player init_othello < 2"
  using ot_reach_type_invariant [OF ot_reach.start] ot_reach.start by blast

text \<open>
  C4: a frame raises exactly when, after its events, the game runs, the AI is to move
  and it has no valid action; the error is \<open>IndexError\<close>.
\<close>

theorem ot_frame_error:
  assumes "ot_inv s"
  shows "ot_frame s rs es = Inl e \<longleftrightarrow>
    (\<exists>s'. ot_run_events s es = Some s' \<and> \<not> ot_end_game s' \<and> ot_player s' = 1 \<and>
          get_valid_actions (ot_grid s') 1 = []) \<and> e = IndexError"
proof (cases "ot_run_events s es")
  case None
  then show ?thesis by (simp add: ot_frame_def)
next
  case (Some s')
  have inv: "ot_inv s'" using ot_run_events_inv [OF assms Some] .
  show ?thesis
    using Some ot_player_step_error [OF inv, of rs e]
    by (auto simp: ot_frame_def split: sum.splits)
qed

text \<open>
  C14: nothing passes a turn: when the side to move has no valid action and the game
  runs, every click on the board leaves the state unchanged, so the game can neither
  go on nor end (the spec notes the missing end on "no legal move" as a gap).
\<close>

theorem ot_no_pass:
  assumes "\<not> ot_end_game s" "get_valid_actions (ot_grid s) (ot_player s) = []" "y < 400"
  shows "ot_handle_mouse_click s x y = s"
proof -
  have "\<not> is_valid_action (ot_grid s) (ot_player s) (y div 50 + 1, x div 50 + 1)" if "x < 400"
  proof -
    have "y div 50 < 8" "x div 50 < 8" using assms(3) that by (simp_all add: div_less_iff_less_mult)
    then show ?thesis
      using valid_in_actions [of "ot_grid s" "ot_player s" "y div 50 + 1" "x div 50 + 1"] assms(2) by auto
  qed
  then show ?thesis using assms(3) by (auto simp: ot_handle_mouse_click_def Let_def)
qed

theorem ot_no_pass_witness:
  "\<not> ot_end_game (init_othello\<lparr>ot_grid := [[0,0,0,0,0,0,0,0,0,0],[0,0,0,0,0,0,0,0,0,0],[0,0,0,0,0,0,0,0,0,0],[0,0,0,0,0,0,0,0,0,0],[0,0,0,0,-1,0,0,0,0,0],[0,0,0,0,0,0,0,0,0,0],[0,0,0,0,0,0,0,0,0,0],[0,0,0,0,0,0,0,0,0,0],[0,0,0,0,0,0,0,0,0,0],[0,0,0,0,0,0,0,0,0,0]]\<rparr>) \<and>
   get_valid_actions (ot_grid (init_othello\<lparr>ot_grid := [[0,0,0,0,0,0,0,0,0,0],[0,0,0,0,0,0,0,0,0,0],[0,0,0,0,0,0,0,0,0,0],[0,0,0,0,0,0,0,0,0,0],[0,0,0,0,-1,0,0,0,0,0],[0,0,0,0,0,0,0,0,0,0],[0,0,0,0,0,0,0,0,0,0],[0,0,0,0,0,0,0,0,0,0],[0,0,0,0,0,0,0,0,0,0],[0,0,0,0,0,0,0,0,0,0]]\<rparr>)) (ot_player (init_othello\<lparr>ot_grid := [[0,0,0,0,0,0,0,0,0,0],[0,0,0,0,0,0,0,0,0,0],[0,0,0,0,0,0,0,0,0,0],[0,0,0,0,0,0,0,0,0,0],[0,0,0,0,-1,0,0,0,0,0],[0,0,0,0,0,0,0,0,0,0],[0,0,0,0,0,0,0,0,0,0],[0,0,0,0,0,0,0,0,0,0],[0,0,0,0,0,0,0,0,0,0],[0,0,0,0,0,0,0,0,0,0]]\<rparr>)) = [] \<and>
   ot_handle_mouse_click (init_othello\<lparr>ot_grid := [[0,0,0,0,0,0,0,0,0,0],[0,0,0,0,0,0,0,0,0,0],[0,0,0,0,0,0,0,0,0,0],[0,0,0,0,0,0,0,0,0,0],[0,0,0,0,-1,0,0,0,0,0],[0,0,0,0,0,0,0,0,0,0],[0,0,0,0,0,0,0,0,0,0],[0,0,0,0,0,0,0,0,0,0],[0,0,0,0,0,0,0,0,0,0],[0,0,0,0,0,0,0,0,0,0]]\<rparr>) 225 125 = init_othello\<lparr>ot_grid := [[0,0,0,0,0,0,0,0,0,0],[0,0,0,0,0,0,0,0,0,0],[0,0,0,0,0,0,0,0,0,0],[0,0,0,0,0,0,0,0,0,0],[0,0,0,0,-1,0,0,0,0,0],[0,0,0,0,0,0,0,0,0,0],[0,0,0,0,0,0,0,0,0,0],[0,0,0,0,0,0,0,0,0,0],[0,0,0,0,0,0,0,0,0,0],[0,0,0,0,0,0,0,0,0,0]]\<rparr>"
proof -
  let ?s = "init_othello\<lparr>ot_grid := [[0,0,0,0,0,0,0,0,0,0],[0,0,0,0,0,0,0,0,0,0],[0,0,0,0,0,0,0,0,0,0],[0,0,0,0,0,0,0,0,0,0],[0,0,0,0,-1,0,0,0,0,0],[0,0,0,0,0,0,0,0,0,0],[0,0,0,0,0,0,0,0,0,0],[0,0,0,0,0,0,0,0,0,0],[0,0,0,0,0,0,0,0,0,0],[0,0,0,0,0,0,0,0,0,0]]\<rparr>"
  have h: "\<not> ot_end_game ?s" "get_valid_actions (ot_grid ?s) (ot_player ?s) = []" "(125::nat) < 400"
    by (simp_all add: init_othello_def) code_simp
  show ?thesis using h ot_no_pass [OF h, of 225] by blast
qed

end
