(* ===== verification/Render.thy ===== *)
theory Render
  imports TicTacToe_App Othello_App
begin

text \<open>
  The screens of both apps: \<open>draw_game_board\<close> of class \<open>TicTacToeApp\<close>
  (src/tictactoe.py, lines 406-445) and of class \<open>OthelloApp\<close> (src/othello.py,
  lines 644-695), with the geometry constants at the top of each file.  A frame's
  drawing is the list of pygame calls it makes: the background fill, then each
  \<open>blit\<close> of an image at a rectangle \<open>(left, top, width, height)\<close>, or of a
  text rendered by \<open>make_text\<close> with its top-left corner.  Python's
  \<open>"{}".format(n)\<close> of an int is \<open>py_str\<close>.  Pixel arithmetic is on \<open>int\<close>.
\<close>

datatype image =
  GridImg | CircleImg | CrossImg | EasyBtn | MediumBtn | HardBtn | ResetBtn
| BlackImg | WhiteImg | BlackImgSmall

type_synonym rect = "int \<times> int \<times> int \<times> int"

datatype draw_cmd = FillBg | Blit image rect | BlitText string int int

subsection \<open>Tic-Tac-Toe\<close>

text \<open>The geometry constants of src/tictactoe.py.\<close>

definition ttt_TILESIZE :: int where "ttt_TILESIZE = 100"
definition ttt_GRIDSIZE :: int where "ttt_GRIDSIZE = 300"
definition ttt_IMGSIZE :: "int \<times> int" where "ttt_IMGSIZE = (80, 80)"
definition ttt_BUTTONSIZE :: "int \<times> int" where "ttt_BUTTONSIZE = (100, 50)"
definition ttt_MARGINSIZE :: int where "ttt_MARGINSIZE = 10"

text \<open>The marks, row \<open>j\<close> outer and column \<open>i\<close> inner: a circle for 1, a cross for -1.\<close>

definition ttt_mark_cmds :: "grid \<Rightarrow> draw_cmd list" where
  "ttt_mark_cmds g =
     concat (map (\<lambda>j. concat (map (\<lambda>i.
        let r = (ttt_MARGINSIZE + int i * ttt_TILESIZE, ttt_MARGINSIZE + int j * ttt_TILESIZE,
                 fst ttt_IMGSIZE, snd ttt_IMGSIZE)
        in if g ! j ! i = 1 then [Blit CircleImg r]
           else if g ! j ! i = -1 then [Blit CrossImg r] else []) [0..<3])) [0..<3])"

definition ttt_draw_game_board :: "tictactoe \<Rightarrow> draw_cmd list" where
  "ttt_draw_game_board s =
     [FillBg, Blit GridImg (0, 0, ttt_GRIDSIZE, ttt_GRIDSIZE)] @ ttt_mark_cmds (grid s) @
     [Blit EasyBtn (10, ttt_GRIDSIZE + 10, fst ttt_BUTTONSIZE, snd ttt_BUTTONSIZE),
      Blit HardBtn (110, ttt_GRIDSIZE + 10, fst ttt_BUTTONSIZE, snd ttt_BUTTONSIZE),
      Blit ResetBtn (210, ttt_GRIDSIZE + 10, fst ttt_BUTTONSIZE, snd ttt_BUTTONSIZE),
      BlitText (''Win: '' @ py_str (int (result s ! 0)) @ '' Lose: '' @ py_str (int (result s ! 1)) @
                '' Draw: '' @ py_str (int (result s ! 2))) 10 (ttt_GRIDSIZE + 60)]"

subsection \<open>Othello\<close>

text \<open>The geometry constants of src/othello.py.\<close>

definition ot_TILESIZE :: int where "ot_TILESIZE = 50"
definition ot_GRIDSIZE :: int where "ot_GRIDSIZE = 400"
definition ot_IMGSIZE :: "int \<times> int" where "ot_IMGSIZE = (40, 40)"
definition ot_BUTTONSIZE :: "int \<times> int" where "ot_BUTTONSIZE = (100, 50)"
definition ot_MARGINSIZE :: int where "ot_MARGINSIZE = 5"

text \<open>The discs of rows and columns 1 to 8 only: black for 1, white for -1.\<close>

definition ot_disc_cmds :: "grid \<Rightarrow> draw_cmd list" where
  "ot_disc_cmds g =
     concat (map (\<lambda>j. concat (map (\<lambda>i.
        let r = (ot_MARGINSIZE + (int i - 1) * ot_TILESIZE, ot_MARGINSIZE + (int j - 1) * ot_TILESIZE,
                 fst ot_IMGSIZE, snd ot_IMGSIZE)
        in if g ! j ! i = 1 then [Blit BlackImg r]
           else if g ! j ! i = -1 then [Blit WhiteImg r] else []) [1..<9])) [1..<9])"

text \<open>The small black disc is drawn at \<open>IMGSIZE[0]/2\<close>, a float 20.0 that pygame
  truncates to 20.\<close>

definition ot_draw_game_board :: "othello \<Rightarrow> draw_cmd list" where
  "ot_draw_game_board s =
     [FillBg, Blit GridImg (0, 0, ot_GRIDSIZE, ot_GRIDSIZE)] @ ot_disc_cmds (ot_grid s) @
     [Blit EasyBtn (10, ot_GRIDSIZE + 10, fst ot_BUTTONSIZE, snd ot_BUTTONSIZE),
      Blit MediumBtn (110, ot_GRIDSIZE + 10, fst ot_BUTTONSIZE, snd ot_BUTTONSIZE),
      Blit HardBtn (210, ot_GRIDSIZE + 10, fst ot_BUTTONSIZE, snd ot_BUTTONSIZE),
      Blit ResetBtn (310, ot_GRIDSIZE + 10, fst ot_BUTTONSIZE, snd ot_BUTTONSIZE),
      BlitText (''Win: '' @ py_str (int (ot_result s ! 0)) @ '' Lose: '' @ py_str (int (ot_result s ! 1)) @
                '' Draw: '' @ py_str (int (ot_result s ! 2))) 10 (ot_GRIDSIZE + 60),
      BlitText (''You: '' @ py_str (ot_score s)) 250 (ot_GRIDSIZE + 60),
      Blit BlackImgSmall (335, ot_GRIDSIZE + 60, fst ot_IMGSIZE div 2, snd ot_IMGSIZE div 2)]"

text \<open>The disc differential the screen shows: black discs drawn minus white discs drawn.\<close>

definition drawn_diff :: "draw_cmd list \<Rightarrow> int" where
  "drawn_diff cs =
     int (length (filter (\<lambda>c. case c of Blit BlackImg r \<Rightarrow> True | _ \<Rightarrow> False) cs)) -
     int (length (filter (\<lambda>c. case c of Blit WhiteImg r \<Rightarrow> True | _ \<Rightarrow> False) cs))"

subsection \<open>Lemmas\<close>

lemma mem_ttt_mark_cmds:
  "Blit im r \<in> set (ttt_mark_cmds g) \<longleftrightarrow>
   (\<exists>i < 3. \<exists>j < 3. r = (10 + 100 * int i, 10 + 100 * int j, 80, 80) \<and>
      (im = CircleImg \<and> g ! j ! i = 1 \<or> im = CrossImg \<and> g ! j ! i = -1))"
  by (auto simp: ttt_mark_cmds_def Let_def ttt_MARGINSIZE_def ttt_TILESIZE_def ttt_IMGSIZE_def
      split: if_splits)

lemma mem_ot_disc_cmds:
  "Blit im r \<in> set (ot_disc_cmds g) \<longleftrightarrow>
   (\<exists>i. 1 \<le> i \<and> i < 9 \<and> (\<exists>j. 1 \<le> j \<and> j < 9 \<and> r = (5 + 50 * (int i - 1), 5 + 50 * (int j - 1), 40, 40) \<and>
      (im = BlackImg \<and> g ! j ! i = 1 \<or> im = WhiteImg \<and> g ! j ! i = -1)))"
  by (auto simp: ot_disc_cmds_def Let_def ot_MARGINSIZE_def ot_TILESIZE_def ot_IMGSIZE_def
      split: if_splits)

lemma div_tile:
  fixes x :: nat and m :: int
  assumes "m + k * int i \<le> int x" "int x < m + k * int i + w" "0 \<le> m" "m + w \<le> k"
  shows "x div nat k = i"
proof -
  have k: "0 < k" using assms by linarith
  have a: "int (nat k * i) = k * int i" using k by simp
  have "int (nat k * i) \<le> int x" "int x < int (nat k * i + nat k)" using a assms k by simp_all
  then have "nat k * i \<le> x" "x < nat k * i + nat k" by (simp_all only: of_nat_le_iff of_nat_less_iff)
  then show ?thesis by (simp add: div_nat_eqI mult.commute)
qed

lemma ttt_blit_mark:
  assumes "Blit im (x0, y0, w, h) \<in> set (ttt_draw_game_board s)" "im = CircleImg \<or> im = CrossImg"
  shows "Blit im (x0, y0, w, h) \<in> set (ttt_mark_cmds (grid s))"
  using assms by (auto simp: ttt_draw_game_board_def)

lemma ot_blit_disc:
  assumes "Blit im (x0, y0, w, h) \<in> set (ot_draw_game_board s)" "im = BlackImg \<or> im = WhiteImg"
  shows "Blit im (x0, y0, w, h) \<in> set (ot_disc_cmds (ot_grid s))"
  using assms by (auto simp: ot_draw_game_board_def)

lemma drawn_diff_append [simp]: "drawn_diff (xs @ ys) = drawn_diff xs + drawn_diff ys"
  by (simp add: drawn_diff_def)

lemma drawn_diff_concat: "drawn_diff (concat xss) = sum_list (map drawn_diff xss)"
  by (induction xss) (simp_all add: drawn_diff_def)

lemma drawn_diff_cell:
  "v \<in> {-1, 0, 1} \<Longrightarrow>
   drawn_diff (if v = 1 then [Blit BlackImg r] else if v = -1 then [Blit WhiteImg r] else []) = v"
  by (auto simp: drawn_diff_def)

lemma disc_diff_rows:
  "disc_diff g = sum_list (map (\<lambda>i. sum_list (map (\<lambda>j. g ! i ! j) [1..<9])) [1..<9])"
  by (simp add: disc_diff_def ot_cells_def map_concat sum_list_concat_lists o_def)

subsection \<open>Properties\<close>

text \<open>
  every mark drawn on the Tic-Tac-Toe screen lies inside the tile of its cell: a
  click at any pixel of the mark addresses, by \<open>int(mousex / 100)\<close> and
  \<open>int(mousey / 100)\<close>, the cell holding that mark, and is ignored.
\<close>

theorem ttt_click_on_mark:
  assumes "Blit im (x0, y0, w, h) \<in> set (ttt_draw_game_board s)" "im = CircleImg \<or> im = CrossImg"
    and "x0 \<le> int x" "int x < x0 + w" "y0 \<le> int y" "int y < y0 + h"
  shows "x < 300 \<and> y < 300 \<and> grid s ! (y div 100) ! (x div 100) = (if im = CircleImg then 1 else -1) \<and>
         handle_mouse_click s x y = s"
proof -
  obtain i j where ij: "i < 3" "j < 3" "(x0, y0, w, h) = (10 + 100 * int i, 10 + 100 * int j, 80, 80)"
    and c: "im = CircleImg \<and> grid s ! j ! i = 1 \<or> im = CrossImg \<and> grid s ! j ! i = -1"
    using ttt_blit_mark [OF assms(1,2)] by (auto simp: mem_ttt_mark_cmds)
  have xi: "x div 100 = i" using div_tile [of 10 100 i x 80] assms(3,4) ij(3) by simp
  have yj: "y div 100 = j" using div_tile [of 10 100 j y 80] assms(5,6) ij(3) by simp
  have lt: "x < 300" "y < 300" using assms(4,6) ij by auto
  have cell: "grid s ! (y div 100) ! (x div 100) = (if im = CircleImg then 1 else -1)"
    using c xi yj by auto
  then have "grid s ! (y div 100) ! (x div 100) \<noteq> 0" by (simp split: if_splits)
  then have "handle_mouse_click s x y = s" using lt by (simp add: handle_mouse_click_def)
  with lt cell show ?thesis by blast
qed

theorem ttt_click_on_mark_witness:
  "Blit CircleImg (110, 10, 80, 80) \<in> set (ttt_draw_game_board (init_tictactoe\<lparr>grid := [[0, 1, 0], [0, 0, 0], [0, 0, 0]]\<rparr>)) \<and>
   handle_mouse_click (init_tictactoe\<lparr>grid := [[0, 1, 0], [0, 0, 0], [0, 0, 0]]\<rparr>) 150 50 =
     init_tictactoe\<lparr>grid := [[0, 1, 0], [0, 0, 0], [0, 0, 0]]\<rparr>"
proof -
  let ?s = "init_tictactoe\<lparr>grid := [[0, 1, 0], [0, 0, 0], [0, 0, 0]]\<rparr>"
  have m: "Blit CircleImg (110, 10, 80, 80) \<in> set (ttt_draw_game_board ?s)" by code_simp
  show ?thesis using m ttt_click_on_mark [OF m, of 150 50] by simp
qed

text \<open>
  every disc drawn on the Othello screen lies inside the tile of its cell: a click
  at any pixel of the disc addresses, by \<open>int(mousex / 50) + 1\<close> and
  \<open>int(mousey / 50) + 1\<close>, the cell holding that disc, and is ignored.
\<close>

theorem ot_click_on_disc:
  assumes "Blit im (x0, y0, w, h) \<in> set (ot_draw_game_board s)" "im = BlackImg \<or> im = WhiteImg"
    and "x0 \<le> int x" "int x < x0 + w" "y0 \<le> int y" "int y < y0 + h"
  shows "x < 400 \<and> y < 400 \<and>
         ot_grid s ! (y div 50 + 1) ! (x div 50 + 1) = (if im = BlackImg then 1 else -1) \<and>
         ot_handle_mouse_click s x y = s"
proof -
  obtain i j where ij: "1 \<le> i" "i < 9" "1 \<le> j" "j < 9"
      "(x0, y0, w, h) = (5 + 50 * (int i - 1), 5 + 50 * (int j - 1), 40, 40)"
    and c: "im = BlackImg \<and> ot_grid s ! j ! i = 1 \<or> im = WhiteImg \<and> ot_grid s ! j ! i = -1"
    using ot_blit_disc [OF assms(1,2)] by (auto simp: mem_ot_disc_cmds)
  have e: "int (i - 1) = int i - 1" "int (j - 1) = int j - 1" using ij by auto
  have xi: "x div 50 + 1 = i" using div_tile [of 5 50 "i - 1" x 40] assms(3,4) ij e by simp
  have yj: "y div 50 + 1 = j" using div_tile [of 5 50 "j - 1" y 40] assms(5,6) ij e by simp
  have lt: "x < 400" "y < 400" using assms(4,6) ij by auto
  have cell: "ot_grid s ! (y div 50 + 1) ! (x div 50 + 1) = (if im = BlackImg then 1 else -1)"
    using c xi yj by auto
  then have "\<not> is_valid_action (ot_grid s) (ot_player s) (y div 50 + 1, x div 50 + 1)"
    using is_valid_action_empty by (fastforce split: if_splits)
  then have "ot_handle_mouse_click s x y = s" using lt by (simp add: ot_handle_mouse_click_def)
  with lt cell show ?thesis by blast
qed

theorem ot_click_on_disc_witness:
  "Blit BlackImg (155, 155, 40, 40) \<in> set (ot_draw_game_board init_othello) \<and>
   ot_handle_mouse_click init_othello 170 170 = init_othello"
proof -
  have m: "Blit BlackImg (155, 155, 40, 40) \<in> set (ot_draw_game_board init_othello)" by code_simp
  show ?thesis using m ot_click_on_disc [OF m, of 170 170] by simp
qed

text \<open>
  on a 10x10 board of cells -1, 0, 1 the Othello screen draws black discs minus
  white discs equal to the disc differential of the 8x8 board; the border is never
  drawn.
\<close>

theorem ot_drawn_diff:
  assumes "square 10 (ot_grid s)" "cells_ok (ot_grid s)"
  shows "drawn_diff (ot_draw_game_board s) = disc_diff (ot_grid s)"
proof -
  let ?g = "ot_grid s"
  have v: "?g ! j ! i \<in> {-1, 0, 1}" if "j < 9" "i < 9" for i j
    using cells_ok_nth [OF assms(2)] square_nth_length [OF assms(1)] assms(1) that
    by (simp add: square_def)
  have "drawn_diff (ot_disc_cmds ?g) = sum_list (map (\<lambda>j. sum_list (map (\<lambda>i. ?g ! j ! i) [1..<9])) [1..<9])"
    unfolding ot_disc_cmds_def drawn_diff_concat map_map o_def Let_def
    using v by (auto simp: drawn_diff_cell intro!: arg_cong [where f = sum_list] map_cong)
  then show ?thesis
    by (simp add: ot_draw_game_board_def disc_diff_rows) (simp add: drawn_diff_def)
qed

theorem ot_drawn_diff_witness:
  "square 10 (ot_grid init_othello) \<and> cells_ok (ot_grid init_othello) \<and>
   drawn_diff (ot_draw_game_board init_othello) = disc_diff ot_init_grid"
proof -
  have h: "square 10 (ot_grid init_othello)" "cells_ok (ot_grid init_othello)"
    by (simp_all add: init_othello_def) code_simp+
  show ?thesis using h ot_drawn_diff [OF h] by (simp add: init_othello_def)
qed

end
