(* ===== verification/Othello_Traces.thy ===== *)
theory Othello_Traces
  imports Render
begin

text \<open>
  Sessions of src/othello.py played from \<open>Othello()\<close> at the default depth 1: each
  frame is one click of the human (player 0) followed by the AI's reply, with the random
  draws of the AI given as a stream.  Each step is evaluated on the model's definitions;
  the traces show, on states the program really reaches, a crash of the AI, a border
  cell painted through Python's negative indices, and a move the spec's rule forbids
  that fills empty cells.
\<close>

subsection \<open>A wipe-out: the AI is left without a move\<close>

lemma wipe_click0:
  "ot_handle_mouse_click init_othello 225 125 =
   \<lparr>ot_grid = [[0, 0, 0, 0, 0, 0, 0, 0, 0, 0], [0, 0, 0, 0, 0, 0, 0, 0, 0, 0], [0, 0, 0, 0, 0, 0, 0, 0, 0, 0], [0, 0, 0, 0, 0, 1, 0, 0, 0, 0], [0, 0, 0, 0, 1, 1, 0, 0, 0, 0], [0, 0, 0, 0, -1, 1, 0, 0, 0, 0], [0, 0, 0, 0, 0, 0, 0, 0, 0, 0], [0, 0, 0, 0, 0, 0, 0, 0, 0, 0], [0, 0, 0, 0, 0, 0, 0, 0, 0, 0], [0, 0, 0, 0, 0, 0, 0, 0, 0, 0]], ot_player = 1, ot_decision_level = 1, ot_end_game = False, ot_winner = None, ot_result = [0, 0, 0], ot_score = 3\<rparr>"
  by code_simp

lemma wipe_ai0:
  "ot_decision_tree
   \<lparr>ot_grid = [[0, 0, 0, 0, 0, 0, 0, 0, 0, 0], [0, 0, 0, 0, 0, 0, 0, 0, 0, 0], [0, 0, 0, 0, 0, 0, 0, 0, 0, 0], [0, 0, 0, 0, 0, 1, 0, 0, 0, 0], [0, 0, 0, 0, 1, 1, 0, 0, 0, 0], [0, 0, 0, 0, -1, 1, 0, 0, 0, 0], [0, 0, 0, 0, 0, 0, 0, 0, 0, 0], [0, 0, 0, 0, 0, 0, 0, 0, 0, 0], [0, 0, 0, 0, 0, 0, 0, 0, 0, 0], [0, 0, 0, 0, 0, 0, 0, 0, 0, 0]], ot_player = 1, ot_decision_level = 1, ot_end_game = False, ot_winner = None, ot_result = [0, 0, 0], ot_score = 3\<rparr>
   (1 ## 4 ## 4 ## 0 ## 0 ## 0 ## sconst 0) = Inr (Some (3, 6), 4 ## 4 ## 0 ## 0 ## 0 ## sconst 0)"
proof -
  let ?s = "\<lparr>ot_grid = [[0, 0, 0, 0, 0, 0, 0, 0, 0, 0], [0, 0, 0, 0, 0, 0, 0, 0, 0, 0], [0, 0, 0, 0, 0, 0, 0, 0, 0, 0], [0, 0, 0, 0, 0, 1, 0, 0, 0, 0], [0, 0, 0, 0, 1, 1, 0, 0, 0, 0], [0, 0, 0, 0, -1, 1, 0, 0, 0, 0], [0, 0, 0, 0, 0, 0, 0, 0, 0, 0], [0, 0, 0, 0, 0, 0, 0, 0, 0, 0], [0, 0, 0, 0, 0, 0, 0, 0, 0, 0], [0, 0, 0, 0, 0, 0, 0, 0, 0, 0]], ot_player = 1, ot_decision_level = 1, ot_end_game = False, ot_winner = None, ot_result = [0, 0, 0], ot_score = 3\<rparr>"
  have sq: "square 10 (ot_grid ?s)" by code_simp
  have lvl: "ot_decision_level ?s = 1" by simp
  have vs: "get_valid_actions (ot_grid ?s) (ot_player ?s) = [(3, 4), (3, 6), (5, 6)]" by code_simp
  have ss: "map (move_score (ot_grid ?s) (ot_player ?s)) [(3, 4), (3, 6), (5, 6)] = [0, 0, 0]" by code_simp
  show ?thesis unfolding ot_decision_tree_scores [OF sq lvl vs list.distinct(2) ss] by simp
qed

lemma wipe_frame0:
  "ot_frame init_othello (1 ## 4 ## 4 ## 0 ## 0 ## 0 ## sconst 0) [MouseDown 225 125] =
   Inr (Some (\<lparr>ot_grid = [[0, 0, 0, 0, 0, 0, 0, 0, 0, 0], [0, 0, 0, 0, 0, 0, 0, 0, 0, 0], [0, 0, 0, 0, 0, 0, 0, 0, 0, 0], [0, 0, 0, 0, 0, 1, -1, 0, 0, 0], [0, 0, 0, 0, 1, -1, 0, 0, 0, 0], [0, 0, 0, 0, -1, 1, 0, 0, 0, 0], [0, 0, 0, 0, 0, 0, 0, 0, 0, 0], [0, 0, 0, 0, 0, 0, 0, 0, 0, 0], [0, 0, 0, 0, 0, 0, 0, 0, 0, 0], [0, 0, 0, 0, 0, 0, 0, 0, 0, 0]], ot_player = 0, ot_decision_level = 1, ot_end_game = False, ot_winner = None, ot_result = [0, 0, 0], ot_score = 0\<rparr>, 4 ## 4 ## 0 ## 0 ## 0 ## sconst 0))"
proof -
  have "ot_switch_player (ot_check_end_game (ot_overwrite_grid
      ((\<lparr>ot_grid = [[0, 0, 0, 0, 0, 0, 0, 0, 0, 0], [0, 0, 0, 0, 0, 0, 0, 0, 0, 0], [0, 0, 0, 0, 0, 0, 0, 0, 0, 0], [0, 0, 0, 0, 0, 1, 0, 0, 0, 0], [0, 0, 0, 0, 1, 1, 0, 0, 0, 0], [0, 0, 0, 0, -1, 1, 0, 0, 0, 0], [0, 0, 0, 0, 0, 0, 0, 0, 0, 0], [0, 0, 0, 0, 0, 0, 0, 0, 0, 0], [0, 0, 0, 0, 0, 0, 0, 0, 0, 0], [0, 0, 0, 0, 0, 0, 0, 0, 0, 0]], ot_player = 1, ot_decision_level = 1, ot_end_game = False, ot_winner = None, ot_result = [0, 0, 0], ot_score = 3\<rparr>)\<lparr>ot_grid := update_grid (ot_grid (\<lparr>ot_grid = [[0, 0, 0, 0, 0, 0, 0, 0, 0, 0], [0, 0, 0, 0, 0, 0, 0, 0, 0, 0], [0, 0, 0, 0, 0, 0, 0, 0, 0, 0], [0, 0, 0, 0, 0, 1, 0, 0, 0, 0], [0, 0, 0, 0, 1, 1, 0, 0, 0, 0], [0, 0, 0, 0, -1, 1, 0, 0, 0, 0], [0, 0, 0, 0, 0, 0, 0, 0, 0, 0], [0, 0, 0, 0, 0, 0, 0, 0, 0, 0], [0, 0, 0, 0, 0, 0, 0, 0, 0, 0], [0, 0, 0, 0, 0, 0, 0, 0, 0, 0]], ot_player = 1, ot_decision_level = 1, ot_end_game = False, ot_winner = None, ot_result = [0, 0, 0], ot_score = 3\<rparr>)) (ot_player (\<lparr>ot_grid = [[0, 0, 0, 0, 0, 0, 0, 0, 0, 0], [0, 0, 0, 0, 0, 0, 0, 0, 0, 0], [0, 0, 0, 0, 0, 0, 0, 0, 0, 0], [0, 0, 0, 0, 0, 1, 0, 0, 0, 0], [0, 0, 0, 0, 1, 1, 0, 0, 0, 0], [0, 0, 0, 0, -1, 1, 0, 0, 0, 0], [0, 0, 0, 0, 0, 0, 0, 0, 0, 0], [0, 0, 0, 0, 0, 0, 0, 0, 0, 0], [0, 0, 0, 0, 0, 0, 0, 0, 0, 0], [0, 0, 0, 0, 0, 0, 0, 0, 0, 0]], ot_player = 1, ot_decision_level = 1, ot_end_game = False, ot_winner = None, ot_result = [0, 0, 0], ot_score = 3\<rparr>)) (3, 6)\<rparr>)
      (update_grid (ot_grid (\<lparr>ot_grid = [[0, 0, 0, 0, 0, 0, 0, 0, 0, 0], [0, 0, 0, 0, 0, 0, 0, 0, 0, 0], [0, 0, 0, 0, 0, 0, 0, 0, 0, 0], [0, 0, 0, 0, 0, 1, 0, 0, 0, 0], [0, 0, 0, 0, 1, 1, 0, 0, 0, 0], [0, 0, 0, 0, -1, 1, 0, 0, 0, 0], [0, 0, 0, 0, 0, 0, 0, 0, 0, 0], [0, 0, 0, 0, 0, 0, 0, 0, 0, 0], [0, 0, 0, 0, 0, 0, 0, 0, 0, 0], [0, 0, 0, 0, 0, 0, 0, 0, 0, 0]], ot_player = 1, ot_decision_level = 1, ot_end_game = False, ot_winner = None, ot_result = [0, 0, 0], ot_score = 3\<rparr>)) (ot_player (\<lparr>ot_grid = [[0, 0, 0, 0, 0, 0, 0, 0, 0, 0], [0, 0, 0, 0, 0, 0, 0, 0, 0, 0], [0, 0, 0, 0, 0, 0, 0, 0, 0, 0], [0, 0, 0, 0, 0, 1, 0, 0, 0, 0], [0, 0, 0, 0, 1, 1, 0, 0, 0, 0], [0, 0, 0, 0, -1, 1, 0, 0, 0, 0], [0, 0, 0, 0, 0, 0, 0, 0, 0, 0], [0, 0, 0, 0, 0, 0, 0, 0, 0, 0], [0, 0, 0, 0, 0, 0, 0, 0, 0, 0], [0, 0, 0, 0, 0, 0, 0, 0, 0, 0]], ot_player = 1, ot_decision_level = 1, ot_end_game = False, ot_winner = None, ot_result = [0, 0, 0], ot_score = 3\<rparr>)) (3, 6)))) =
    \<lparr>ot_grid = [[0, 0, 0, 0, 0, 0, 0, 0, 0, 0], [0, 0, 0, 0, 0, 0, 0, 0, 0, 0], [0, 0, 0, 0, 0, 0, 0, 0, 0, 0], [0, 0, 0, 0, 0, 1, -1, 0, 0, 0], [0, 0, 0, 0, 1, -1, 0, 0, 0, 0], [0, 0, 0, 0, -1, 1, 0, 0, 0, 0], [0, 0, 0, 0, 0, 0, 0, 0, 0, 0], [0, 0, 0, 0, 0, 0, 0, 0, 0, 0], [0, 0, 0, 0, 0, 0, 0, 0, 0, 0], [0, 0, 0, 0, 0, 0, 0, 0, 0, 0]], ot_player = 0, ot_decision_level = 1, ot_end_game = False, ot_winner = None, ot_result = [0, 0, 0], ot_score = 0\<rparr>" by code_simp
  then show ?thesis using ot_frame_click_ai [OF wipe_click0 _ _ wipe_ai0] by simp
qed

lemma wipe_click1:
  "ot_handle_mouse_click \<lparr>ot_grid = [[0, 0, 0, 0, 0, 0, 0, 0, 0, 0], [0, 0, 0, 0, 0, 0, 0, 0, 0, 0], [0, 0, 0, 0, 0, 0, 0, 0, 0, 0], [0, 0, 0, 0, 0, 1, -1, 0, 0, 0], [0, 0, 0, 0, 1, -1, 0, 0, 0, 0], [0, 0, 0, 0, -1, 1, 0, 0, 0, 0], [0, 0, 0, 0, 0, 0, 0, 0, 0, 0], [0, 0, 0, 0, 0, 0, 0, 0, 0, 0], [0, 0, 0, 0, 0, 0, 0, 0, 0, 0], [0, 0, 0, 0, 0, 0, 0, 0, 0, 0]], ot_player = 0, ot_decision_level = 1, ot_end_game = False, ot_winner = None, ot_result = [0, 0, 0], ot_score = 0\<rparr> 325 125 =
   \<lparr>ot_grid = [[0, 0, 0, 0, 0, 0, 0, 0, 0, 0], [0, 0, 0, 0, 0, 0, 0, 0, 0, 0], [0, 0, 0, 0, 0, 0, 0, 0, 0, 0], [0, 0, 0, 0, 0, 1, 1, 1, 0, 0], [0, 0, 0, 0, 1, -1, 0, 0, 0, 0], [0, 0, 0, 0, -1, 1, 0, 0, 0, 0], [0, 0, 0, 0, 0, 0, 0, 0, 0, 0], [0, 0, 0, 0, 0, 0, 0, 0, 0, 0], [0, 0, 0, 0, 0, 0, 0, 0, 0, 0], [0, 0, 0, 0, 0, 0, 0, 0, 0, 0]], ot_player = 1, ot_decision_level = 1, ot_end_game = False, ot_winner = None, ot_result = [0, 0, 0], ot_score = 3\<rparr>"
  by code_simp

lemma wipe_ai1:
  "ot_decision_tree
   \<lparr>ot_grid = [[0, 0, 0, 0, 0, 0, 0, 0, 0, 0], [0, 0, 0, 0, 0, 0, 0, 0, 0, 0], [0, 0, 0, 0, 0, 0, 0, 0, 0, 0], [0, 0, 0, 0, 0, 1, 1, 1, 0, 0], [0, 0, 0, 0, 1, -1, 0, 0, 0, 0], [0, 0, 0, 0, -1, 1, 0, 0, 0, 0], [0, 0, 0, 0, 0, 0, 0, 0, 0, 0], [0, 0, 0, 0, 0, 0, 0, 0, 0, 0], [0, 0, 0, 0, 0, 0, 0, 0, 0, 0], [0, 0, 0, 0, 0, 0, 0, 0, 0, 0]], ot_player = 1, ot_decision_level = 1, ot_end_game = False, ot_winner = None, ot_result = [0, 0, 0], ot_score = 3\<rparr>
   (4 ## 4 ## 0 ## 0 ## 0 ## sconst 0) = Inr (Some (5, 6), 4 ## 0 ## 0 ## 0 ## sconst 0)"
proof -
  let ?s = "\<lparr>ot_grid = [[0, 0, 0, 0, 0, 0, 0, 0, 0, 0], [0, 0, 0, 0, 0, 0, 0, 0, 0, 0], [0, 0, 0, 0, 0, 0, 0, 0, 0, 0], [0, 0, 0, 0, 0, 1, 1, 1, 0, 0], [0, 0, 0, 0, 1, -1, 0, 0, 0, 0], [0, 0, 0, 0, -1, 1, 0, 0, 0, 0], [0, 0, 0, 0, 0, 0, 0, 0, 0, 0], [0, 0, 0, 0, 0, 0, 0, 0, 0, 0], [0, 0, 0, 0, 0, 0, 0, 0, 0, 0], [0, 0, 0, 0, 0, 0, 0, 0, 0, 0]], ot_player = 1, ot_decision_level = 1, ot_end_game = False, ot_winner = None, ot_result = [0, 0, 0], ot_score = 3\<rparr>"
  have sq: "square 10 (ot_grid ?s)" by code_simp
  have lvl: "ot_decision_level ?s = 1" by simp
  have vs: "get_valid_actions (ot_grid ?s) (ot_player ?s) = [(2, 5), (2, 7), (3, 4), (4, 3), (5, 6), (6, 5)]" by code_simp
  have ss: "map (move_score (ot_grid ?s) (ot_player ?s)) [(2, 5), (2, 7), (3, 4), (4, 3), (5, 6), (6, 5)] = [0, 0, 0, 0, 0, 0]" by code_simp
  show ?thesis unfolding ot_decision_tree_scores [OF sq lvl vs list.distinct(2) ss] by simp
qed

lemma wipe_frame1:
  "ot_frame \<lparr>ot_grid = [[0, 0, 0, 0, 0, 0, 0, 0, 0, 0], [0, 0, 0, 0, 0, 0, 0, 0, 0, 0], [0, 0, 0, 0, 0, 0, 0, 0, 0, 0], [0, 0, 0, 0, 0, 1, -1, 0, 0, 0], [0, 0, 0, 0, 1, -1, 0, 0, 0, 0], [0, 0, 0, 0, -1, 1, 0, 0, 0, 0], [0, 0, 0, 0, 0, 0, 0, 0, 0, 0], [0, 0, 0, 0, 0, 0, 0, 0, 0, 0], [0, 0, 0, 0, 0, 0, 0, 0, 0, 0], [0, 0, 0, 0, 0, 0, 0, 0, 0, 0]], ot_player = 0, ot_decision_level = 1, ot_end_game = False, ot_winner = None, ot_result = [0, 0, 0], ot_score = 0\<rparr> (4 ## 4 ## 0 ## 0 ## 0 ## sconst 0) [MouseDown 325 125] =
   Inr (Some (\<lparr>ot_grid = [[0, 0, 0, 0, 0, 0, 0, 0, 0, 0], [0, 0, 0, 0, 0, 0, 0, 0, 0, 0], [0, 0, 0, 0, 0, 0, 0, 0, 0, 0], [0, 0, 0, 0, 0, 1, 1, 1, 0, 0], [0, 0, 0, 0, 1, -1, 0, 0, 0, 0], [0, 0, 0, 0, -1, -1, -1, 0, 0, 0], [0, 0, 0, 0, 0, 0, 0, 0, 0, 0], [0, 0, 0, 0, 0, 0, 0, 0, 0, 0], [0, 0, 0, 0, 0, 0, 0, 0, 0, 0], [0, 0, 0, 0, 0, 0, 0, 0, 0, 0]], ot_player = 0, ot_decision_level = 1, ot_end_game = False, ot_winner = None, ot_result = [0, 0, 0], ot_score = 0\<rparr>, 4 ## 0 ## 0 ## 0 ## sconst 0))"
proof -
  have "ot_switch_player (ot_check_end_game (ot_overwrite_grid
      ((\<lparr>ot_grid = [[0, 0, 0, 0, 0, 0, 0, 0, 0, 0], [0, 0, 0, 0, 0, 0, 0, 0, 0, 0], [0, 0, 0, 0, 0, 0, 0, 0, 0, 0], [0, 0, 0, 0, 0, 1, 1, 1, 0, 0], [0, 0, 0, 0, 1, -1, 0, 0, 0, 0], [0, 0, 0, 0, -1, 1, 0, 0, 0, 0], [0, 0, 0, 0, 0, 0, 0, 0, 0, 0], [0, 0, 0, 0, 0, 0, 0, 0, 0, 0], [0, 0, 0, 0, 0, 0, 0, 0, 0, 0], [0, 0, 0, 0, 0, 0, 0, 0, 0, 0]], ot_player = 1, ot_decision_level = 1, ot_end_game = False, ot_winner = None, ot_result = [0, 0, 0], ot_score = 3\<rparr>)\<lparr>ot_grid := update_grid (ot_grid (\<lparr>ot_grid = [[0, 0, 0, 0, 0, 0, 0, 0, 0, 0], [0, 0, 0, 0, 0, 0, 0, 0, 0, 0], [0, 0, 0, 0, 0, 0, 0, 0, 0, 0], [0, 0, 0, 0, 0, 1, 1, 1, 0, 0], [0, 0, 0, 0, 1, -1, 0, 0, 0, 0], [0, 0, 0, 0, -1, 1, 0, 0, 0, 0], [0, 0, 0, 0, 0, 0, 0, 0, 0, 0], [0, 0, 0, 0, 0, 0, 0, 0, 0, 0], [0, 0, 0, 0, 0, 0, 0, 0, 0, 0], [0, 0, 0, 0, 0, 0, 0, 0, 0, 0]], ot_player = 1, ot_decision_level = 1, ot_end_game = False, ot_winner = None, ot_result = [0, 0, 0], ot_score = 3\<rparr>)) (ot_player (\<lparr>ot_grid = [[0, 0, 0, 0, 0, 0, 0, 0, 0, 0], [0, 0, 0, 0, 0, 0, 0, 0, 0, 0], [0, 0, 0, 0, 0, 0, 0, 0, 0, 0], [0, 0, 0, 0, 0, 1, 1, 1, 0, 0], [0, 0, 0, 0, 1, -1, 0, 0, 0, 0], [0, 0, 0, 0, -1, 1, 0, 0, 0, 0], [0, 0, 0, 0, 0, 0, 0, 0, 0, 0], [0, 0, 0, 0, 0, 0, 0, 0, 0, 0], [0, 0, 0, 0, 0, 0, 0, 0, 0, 0], [0, 0, 0, 0, 0, 0, 0, 0, 0, 0]], ot_player = 1, ot_decision_level = 1, ot_end_game = False, ot_winner = None, ot_result = [0, 0, 0], ot_score = 3\<rparr>)) (5, 6)\<rparr>)
      (update_grid (ot_grid (\<lparr>ot_grid = [[0, 0, 0, 0, 0, 0, 0, 0, 0, 0], [0, 0, 0, 0, 0, 0, 0, 0, 0, 0], [0, 0, 0, 0, 0, 0, 0, 0, 0, 0], [0, 0, 0, 0, 0, 1, 1, 1, 0, 0], [0, 0, 0, 0, 1, -1, 0, 0, 0, 0], [0, 0, 0, 0, -1, 1, 0, 0, 0, 0], [0, 0, 0, 0, 0, 0, 0, 0, 0, 0], [0, 0, 0, 0, 0, 0, 0, 0, 0, 0], [0, 0, 0, 0, 0, 0, 0, 0, 0, 0], [0, 0, 0, 0, 0, 0, 0, 0, 0, 0]], ot_player = 1, ot_decision_level = 1, ot_end_game = False, ot_winner = None, ot_result = [0, 0, 0], ot_score = 3\<rparr>)) (ot_player (\<lparr>ot_grid = [[0, 0, 0, 0, 0, 0, 0, 0, 0, 0], [0, 0, 0, 0, 0, 0, 0, 0, 0, 0], [0, 0, 0, 0, 0, 0, 0, 0, 0, 0], [0, 0, 0, 0, 0, 1, 1, 1, 0, 0], [0, 0, 0, 0, 1, -1, 0, 0, 0, 0], [0, 0, 0, 0, -1, 1, 0, 0, 0, 0], [0, 0, 0, 0, 0, 0, 0, 0, 0, 0], [0, 0, 0, 0, 0, 0, 0, 0, 0, 0], [0, 0, 0, 0, 0, 0, 0, 0, 0, 0], [0, 0, 0, 0, 0, 0, 0, 0, 0, 0]], ot_player = 1, ot_decision_level = 1, ot_end_game = False, ot_winner = None, ot_result = [0, 0, 0], ot_score = 3\<rparr>)) (5, 6)))) =
    \<lparr>ot_grid = [[0, 0, 0, 0, 0, 0, 0, 0, 0, 0], [0, 0, 0, 0, 0, 0, 0, 0, 0, 0], [0, 0, 0, 0, 0, 0, 0, 0, 0, 0], [0, 0, 0, 0, 0, 1, 1, 1, 0, 0], [0, 0, 0, 0, 1, -1, 0, 0, 0, 0], [0, 0, 0, 0, -1, -1, -1, 0, 0, 0], [0, 0, 0, 0, 0, 0, 0, 0, 0, 0], [0, 0, 0, 0, 0, 0, 0, 0, 0, 0], [0, 0, 0, 0, 0, 0, 0, 0, 0, 0], [0, 0, 0, 0, 0, 0, 0, 0, 0, 0]], ot_player = 0, ot_decision_level = 1, ot_end_game = False, ot_winner = None, ot_result = [0, 0, 0], ot_score = 0\<rparr>" by code_simp
  then show ?thesis using ot_frame_click_ai [OF wipe_click1 _ _ wipe_ai1] by simp
qed

lemma wipe_click2:
  "ot_handle_mouse_click \<lparr>ot_grid = [[0, 0, 0, 0, 0, 0, 0, 0, 0, 0], [0, 0, 0, 0, 0, 0, 0, 0, 0, 0], [0, 0, 0, 0, 0, 0, 0, 0, 0, 0], [0, 0, 0, 0, 0, 1, 1, 1, 0, 0], [0, 0, 0, 0, 1, -1, 0, 0, 0, 0], [0, 0, 0, 0, -1, -1, -1, 0, 0, 0], [0, 0, 0, 0, 0, 0, 0, 0, 0, 0], [0, 0, 0, 0, 0, 0, 0, 0, 0, 0], [0, 0, 0, 0, 0, 0, 0, 0, 0, 0], [0, 0, 0, 0, 0, 0, 0, 0, 0, 0]], ot_player = 0, ot_decision_level = 1, ot_end_game = False, ot_winner = None, ot_result = [0, 0, 0], ot_score = 0\<rparr> 175 275 =
   \<lparr>ot_grid = [[0, 0, 0, 0, 0, 0, 0, 0, 0, 0], [0, 0, 0, 0, 0, 0, 0, 0, 0, 0], [0, 0, 0, 0, 0, 0, 0, 0, 0, 0], [0, 0, 0, 0, 0, 1, 1, 1, 0, 0], [0, 0, 0, 0, 1, -1, 1, 0, 0, 0], [0, 0, 0, 0, 1, 1, -1, 0, 0, 0], [0, 0, 0, 0, 1, 0, 0, 0, 0, 0], [0, 0, 0, 0, 0, 0, 0, 0, 0, 0], [0, 0, 0, 0, 0, 0, 0, 0, 0, 0], [0, 0, 0, 0, 0, 0, 0, 0, 0, 0]], ot_player = 1, ot_decision_level = 1, ot_end_game = False, ot_winner = None, ot_result = [0, 0, 0], ot_score = 6\<rparr>"
  by code_simp

lemma wipe_ai2:
  "ot_decision_tree
   \<lparr>ot_grid = [[0, 0, 0, 0, 0, 0, 0, 0, 0, 0], [0, 0, 0, 0, 0, 0, 0, 0, 0, 0], [0, 0, 0, 0, 0, 0, 0, 0, 0, 0], [0, 0, 0, 0, 0, 1, 1, 1, 0, 0], [0, 0, 0, 0, 1, -1, 1, 0, 0, 0], [0, 0, 0, 0, 1, 1, -1, 0, 0, 0], [0, 0, 0, 0, 1, 0, 0, 0, 0, 0], [0, 0, 0, 0, 0, 0, 0, 0, 0, 0], [0, 0, 0, 0, 0, 0, 0, 0, 0, 0], [0, 0, 0, 0, 0, 0, 0, 0, 0, 0]], ot_player = 1, ot_decision_level = 1, ot_end_game = False, ot_winner = None, ot_result = [0, 0, 0], ot_score = 6\<rparr>
   (4 ## 0 ## 0 ## 0 ## sconst 0) = Inr (Some (4, 7), 0 ## 0 ## sconst 0)"
proof -
  let ?s = "\<lparr>ot_grid = [[0, 0, 0, 0, 0, 0, 0, 0, 0, 0], [0, 0, 0, 0, 0, 0, 0, 0, 0, 0], [0, 0, 0, 0, 0, 0, 0, 0, 0, 0], [0, 0, 0, 0, 0, 1, 1, 1, 0, 0], [0, 0, 0, 0, 1, -1, 1, 0, 0, 0], [0, 0, 0, 0, 1, 1, -1, 0, 0, 0], [0, 0, 0, 0, 1, 0, 0, 0, 0, 0], [0, 0, 0, 0, 0, 0, 0, 0, 0, 0], [0, 0, 0, 0, 0, 0, 0, 0, 0, 0], [0, 0, 0, 0, 0, 0, 0, 0, 0, 0]], ot_player = 1, ot_decision_level = 1, ot_end_game = False, ot_winner = None, ot_result = [0, 0, 0], ot_score = 6\<rparr>"
  have sq: "square 10 (ot_grid ?s)" by code_simp
  have lvl: "ot_decision_level ?s = 1" by simp
  have vs: "get_valid_actions (ot_grid ?s) (ot_player ?s) = [(2, 5), (2, 6), (2, 7), (4, 3), (4, 7), (5, 3), (6, 3), (6, 5)]" by code_simp
  have ss: "map (move_score (ot_grid ?s) (ot_player ?s)) [(2, 5), (2, 6), (2, 7), (4, 3), (4, 7), (5, 3), (6, 3), (6, 5)] = [3, 1, 3, 3, 3, 1, 3, 3]" by code_simp
  show ?thesis unfolding ot_decision_tree_scores [OF sq lvl vs list.distinct(2) ss] by simp
qed

lemma wipe_frame2:
  "ot_frame \<lparr>ot_grid = [[0, 0, 0, 0, 0, 0, 0, 0, 0, 0], [0, 0, 0, 0, 0, 0, 0, 0, 0, 0], [0, 0, 0, 0, 0, 0, 0, 0, 0, 0], [0, 0, 0, 0, 0, 1, 1, 1, 0, 0], [0, 0, 0, 0, 1, -1, 0, 0, 0, 0], [0, 0, 0, 0, -1, -1, -1, 0, 0, 0], [0, 0, 0, 0, 0, 0, 0, 0, 0, 0], [0, 0, 0, 0, 0, 0, 0, 0, 0, 0], [0, 0, 0, 0, 0, 0, 0, 0, 0, 0], [0, 0, 0, 0, 0, 0, 0, 0, 0, 0]], ot_player = 0, ot_decision_level = 1, ot_end_game = False, ot_winner = None, ot_result = [0, 0, 0], ot_score = 0\<rparr> (4 ## 0 ## 0 ## 0 ## sconst 0) [MouseDown 175 275] =
   Inr (Some (\<lparr>ot_grid = [[0, 0, 0, 0, 0, 0, 0, 0, 0, 0], [0, 0, 0, 0, 0, 0, 0, 0, 0, 0], [0, 0, 0, 0, 0, 0, 0, 0, 0, 0], [0, 0, 0, 0, 0, 1, 1, 1, 0, 0], [0, 0, 0, 0, 1, -1, -1, -1, 0, 0], [0, 0, 0, 0, 1, 1, -1, 0, 0, 0], [0, 0, 0, 0, 1, 0, 0, 0, 0, 0], [0, 0, 0, 0, 0, 0, 0, 0, 0, 0], [0, 0, 0, 0, 0, 0, 0, 0, 0, 0], [0, 0, 0, 0, 0, 0, 0, 0, 0, 0]], ot_player = 0, ot_decision_level = 1, ot_end_game = False, ot_winner = None, ot_result = [0, 0, 0], ot_score = 3\<rparr>, 0 ## 0 ## sconst 0))"
proof -
  have "ot_switch_player (ot_check_end_game (ot_overwrite_grid
      ((\<lparr>ot_grid = [[0, 0, 0, 0, 0, 0, 0, 0, 0, 0], [0, 0, 0, 0, 0, 0, 0, 0, 0, 0], [0, 0, 0, 0, 0, 0, 0, 0, 0, 0], [0, 0, 0, 0, 0, 1, 1, 1, 0, 0], [0, 0, 0, 0, 1, -1, 1, 0, 0, 0], [0, 0, 0, 0, 1, 1, -1, 0, 0, 0], [0, 0, 0, 0, 1, 0, 0, 0, 0, 0], [0, 0, 0, 0, 0, 0, 0, 0, 0, 0], [0, 0, 0, 0, 0, 0, 0, 0, 0, 0], [0, 0, 0, 0, 0, 0, 0, 0, 0, 0]], ot_player = 1, ot_decision_level = 1, ot_end_game = False, ot_winner = None, ot_result = [0, 0, 0], ot_score = 6\<rparr>)\<lparr>ot_grid := update_grid (ot_grid (\<lparr>ot_grid = [[0, 0, 0, 0, 0, 0, 0, 0, 0, 0], [0, 0, 0, 0, 0, 0, 0, 0, 0, 0], [0, 0, 0, 0, 0, 0, 0, 0, 0, 0], [0, 0, 0, 0, 0, 1, 1, 1, 0, 0], [0, 0, 0, 0, 1, -1, 1, 0, 0, 0], [0, 0, 0, 0, 1, 1, -1, 0, 0, 0], [0, 0, 0, 0, 1, 0, 0, 0, 0, 0], [0, 0, 0, 0, 0, 0, 0, 0, 0, 0], [0, 0, 0, 0, 0, 0, 0, 0, 0, 0], [0, 0, 0, 0, 0, 0, 0, 0, 0, 0]], ot_player = 1, ot_decision_level = 1, ot_end_game = False, ot_winner = None, ot_result = [0, 0, 0], ot_score = 6\<rparr>)) (ot_player (\<lparr>ot_grid = [[0, 0, 0, 0, 0, 0, 0, 0, 0, 0], [0, 0, 0, 0, 0, 0, 0, 0, 0, 0], [0, 0, 0, 0, 0, 0, 0, 0, 0, 0], [0, 0, 0, 0, 0, 1, 1, 1, 0, 0], [0, 0, 0, 0, 1, -1, 1, 0, 0, 0], [0, 0, 0, 0, 1, 1, -1, 0, 0, 0], [0, 0, 0, 0, 1, 0, 0, 0, 0, 0], [0, 0, 0, 0, 0, 0, 0, 0, 0, 0], [0, 0, 0, 0, 0, 0, 0, 0, 0, 0], [0, 0, 0, 0, 0, 0, 0, 0, 0, 0]], ot_player = 1, ot_decision_level = 1, ot_end_game = False, ot_winner = None, ot_result = [0, 0, 0], ot_score = 6\<rparr>)) (4, 7)\<rparr>)
      (update_grid (ot_grid (\<lparr>ot_grid = [[0, 0, 0, 0, 0, 0, 0, 0, 0, 0], [0, 0, 0, 0, 0, 0, 0, 0, 0, 0], [0, 0, 0, 0, 0, 0, 0, 0, 0, 0], [0, 0, 0, 0, 0, 1, 1, 1, 0, 0], [0, 0, 0, 0, 1, -1, 1, 0, 0, 0], [0, 0, 0, 0, 1, 1, -1, 0, 0, 0], [0, 0, 0, 0, 1, 0, 0, 0, 0, 0], [0, 0, 0, 0, 0, 0, 0, 0, 0, 0], [0, 0, 0, 0, 0, 0, 0, 0, 0, 0], [0, 0, 0, 0, 0, 0, 0, 0, 0, 0]], ot_player = 1, ot_decision_level = 1, ot_end_game = False, ot_winner = None, ot_result = [0, 0, 0], ot_score = 6\<rparr>)) (ot_player (\<lparr>ot_grid = [[0, 0, 0, 0, 0, 0, 0, 0, 0, 0], [0, 0, 0, 0, 0, 0, 0, 0, 0, 0], [0, 0, 0, 0, 0, 0, 0, 0, 0, 0], [0, 0, 0, 0, 0, 1, 1, 1, 0, 0], [0, 0, 0, 0, 1, -1, 1, 0, 0, 0], [0, 0, 0, 0, 1, 1, -1, 0, 0, 0], [0, 0, 0, 0, 1, 0, 0, 0, 0, 0], [0, 0, 0, 0, 0, 0, 0, 0, 0, 0], [0, 0, 0, 0, 0, 0, 0, 0, 0, 0], [0, 0, 0, 0, 0, 0, 0, 0, 0, 0]], ot_player = 1, ot_decision_level = 1, ot_end_game = False, ot_winner = None, ot_result = [0, 0, 0], ot_score = 6\<rparr>)) (4, 7)))) =
    \<lparr>ot_grid = [[0, 0, 0, 0, 0, 0, 0, 0, 0, 0], [0, 0, 0, 0, 0, 0, 0, 0, 0, 0], [0, 0, 0, 0, 0, 0, 0, 0, 0, 0], [0, 0, 0, 0, 0, 1, 1, 1, 0, 0], [0, 0, 0, 0, 1, -1, -1, -1, 0, 0], [0, 0, 0, 0, 1, 1, -1, 0, 0, 0], [0, 0, 0, 0, 1, 0, 0, 0, 0, 0], [0, 0, 0, 0, 0, 0, 0, 0, 0, 0], [0, 0, 0, 0, 0, 0, 0, 0, 0, 0], [0, 0, 0, 0, 0, 0, 0, 0, 0, 0]], ot_player = 0, ot_decision_level = 1, ot_end_game = False, ot_winner = None, ot_result = [0, 0, 0], ot_score = 3\<rparr>" by code_simp
  then show ?thesis using ot_frame_click_ai [OF wipe_click2 _ _ wipe_ai2] by simp
qed

lemma wipe_click3:
  "ot_handle_mouse_click \<lparr>ot_grid = [[0, 0, 0, 0, 0, 0, 0, 0, 0, 0], [0, 0, 0, 0, 0, 0, 0, 0, 0, 0], [0, 0, 0, 0, 0, 0, 0, 0, 0, 0], [0, 0, 0, 0, 0, 1, 1, 1, 0, 0], [0, 0, 0, 0, 1, -1, -1, -1, 0, 0], [0, 0, 0, 0, 1, 1, -1, 0, 0, 0], [0, 0, 0, 0, 1, 0, 0, 0, 0, 0], [0, 0, 0, 0, 0, 0, 0, 0, 0, 0], [0, 0, 0, 0, 0, 0, 0, 0, 0, 0], [0, 0, 0, 0, 0, 0, 0, 0, 0, 0]], ot_player = 0, ot_decision_level = 1, ot_end_game = False, ot_winner = None, ot_result = [0, 0, 0], ot_score = 3\<rparr> 325 225 =
   \<lparr>ot_grid = [[0, 0, 0, 0, 0, 0, 0, 0, 0, 0], [0, 0, 0, 0, 0, 0, 0, 0, 0, 0], [0, 0, 0, 0, 0, 0, 0, 0, 0, 0], [0, 0, 0, 0, 0, 1, 1, 1, 0, 0], [0, 0, 0, 0, 1, -1, 1, 1, 0, 0], [0, 0, 0, 0, 1, 1, 1, 1, 0, 0], [0, 0, 0, 0, 1, 0, 0, 0, 0, 0], [0, 0, 0, 0, 0, 0, 0, 0, 0, 0], [0, 0, 0, 0, 0, 0, 0, 0, 0, 0], [0, 0, 0, 0, 0, 0, 0, 0, 0, 0]], ot_player = 1, ot_decision_level = 1, ot_end_game = False, ot_winner = None, ot_result = [0, 0, 0], ot_score = 10\<rparr>"
  by code_simp

lemma wipe_ai3:
  "ot_decision_tree
   \<lparr>ot_grid = [[0, 0, 0, 0, 0, 0, 0, 0, 0, 0], [0, 0, 0, 0, 0, 0, 0, 0, 0, 0], [0, 0, 0, 0, 0, 0, 0, 0, 0, 0], [0, 0, 0, 0, 0, 1, 1, 1, 0, 0], [0, 0, 0, 0, 1, -1, 1, 1, 0, 0], [0, 0, 0, 0, 1, 1, 1, 1, 0, 0], [0, 0, 0, 0, 1, 0, 0, 0, 0, 0], [0, 0, 0, 0, 0, 0, 0, 0, 0, 0], [0, 0, 0, 0, 0, 0, 0, 0, 0, 0], [0, 0, 0, 0, 0, 0, 0, 0, 0, 0]], ot_player = 1, ot_decision_level = 1, ot_end_game = False, ot_winner = None, ot_result = [0, 0, 0], ot_score = 10\<rparr>
   (0 ## 0 ## sconst 0) = Inr (Some (2, 5), sconst 0)"
proof -
  let ?s = "\<lparr>ot_grid = [[0, 0, 0, 0, 0, 0, 0, 0, 0, 0], [0, 0, 0, 0, 0, 0, 0, 0, 0, 0], [0, 0, 0, 0, 0, 0, 0, 0, 0, 0], [0, 0, 0, 0, 0, 1, 1, 1, 0, 0], [0, 0, 0, 0, 1, -1, 1, 1, 0, 0], [0, 0, 0, 0, 1, 1, 1, 1, 0, 0], [0, 0, 0, 0, 1, 0, 0, 0, 0, 0], [0, 0, 0, 0, 0, 0, 0, 0, 0, 0], [0, 0, 0, 0, 0, 0, 0, 0, 0, 0], [0, 0, 0, 0, 0, 0, 0, 0, 0, 0]], ot_player = 1, ot_decision_level = 1, ot_end_game = False, ot_winner = None, ot_result = [0, 0, 0], ot_score = 10\<rparr>"
  have sq: "square 10 (ot_grid ?s)" by code_simp
  have lvl: "ot_decision_level ?s = 1" by simp
  have vs: "get_valid_actions (ot_grid ?s) (ot_player ?s) = [(2, 5), (2, 7), (4, 3), (4, 8), (6, 3), (6, 5), (6, 7)]" by code_simp
  have ss: "map (move_score (ot_grid ?s) (ot_player ?s)) [(2, 5), (2, 7), (4, 3), (4, 8), (6, 3), (6, 5), (6, 7)] = [7, 7, 7, 5, 7, 7, 7]" by code_simp
  show ?thesis unfolding ot_decision_tree_scores [OF sq lvl vs list.distinct(2) ss] by simp
qed

lemma wipe_frame3:
  "ot_frame \<lparr>ot_grid = [[0, 0, 0, 0, 0, 0, 0, 0, 0, 0], [0, 0, 0, 0, 0, 0, 0, 0, 0, 0], [0, 0, 0, 0, 0, 0, 0, 0, 0, 0], [0, 0, 0, 0, 0, 1, 1, 1, 0, 0], [0, 0, 0, 0, 1, -1, -1, -1, 0, 0], [0, 0, 0, 0, 1, 1, -1, 0, 0, 0], [0, 0, 0, 0, 1, 0, 0, 0, 0, 0], [0, 0, 0, 0, 0, 0, 0, 0, 0, 0], [0, 0, 0, 0, 0, 0, 0, 0, 0, 0], [0, 0, 0, 0, 0, 0, 0, 0, 0, 0]], ot_player = 0, ot_decision_level = 1, ot_end_game = False, ot_winner = None, ot_result = [0, 0, 0], ot_score = 3\<rparr> (0 ## 0 ## sconst 0) [MouseDown 325 225] =
   Inr (Some (\<lparr>ot_grid = [[0, 0, 0, 0, 0, 0, 0, 0, 0, 0], [0, 0, 0, 0, 0, 0, 0, 0, 0, 0], [0, 0, 0, 0, 0, -1, 0, 0, 0, 0], [0, 0, 0, 0, 0, -1, 1, 1, 0, 0], [0, 0, 0, 0, 1, -1, 1, 1, 0, 0], [0, 0, 0, 0, 1, 1, 1, 1, 0, 0], [0, 0, 0, 0, 1, 0, 0, 0, 0, 0], [0, 0, 0, 0, 0, 0, 0, 0, 0, 0], [0, 0, 0, 0, 0, 0, 0, 0, 0, 0], [0, 0, 0, 0, 0, 0, 0, 0, 0, 0]], ot_player = 0, ot_decision_level = 1, ot_end_game = False, ot_winner = None, ot_result = [0, 0, 0], ot_score = 7\<rparr>, sconst 0))"
proof -
  have "ot_switch_player (ot_check_end_game (ot_overwrite_grid
      ((\<lparr>ot_grid = [[0, 0, 0, 0, 0, 0, 0, 0, 0, 0], [0, 0, 0, 0, 0, 0, 0, 0, 0, 0], [0, 0, 0, 0, 0, 0, 0, 0, 0, 0], [0, 0, 0, 0, 0, 1, 1, 1, 0, 0], [0, 0, 0, 0, 1, -1, 1, 1, 0, 0], [0, 0, 0, 0, 1, 1, 1, 1, 0, 0], [0, 0, 0, 0, 1, 0, 0, 0, 0, 0], [0, 0, 0, 0, 0, 0, 0, 0, 0, 0], [0, 0, 0, 0, 0, 0, 0, 0, 0, 0], [0, 0, 0, 0, 0, 0, 0, 0, 0, 0]], ot_player = 1, ot_decision_level = 1, ot_end_game = False, ot_winner = None, ot_result = [0, 0, 0], ot_score = 10\<rparr>)\<lparr>ot_grid := update_grid (ot_grid (\<lparr>ot_grid = [[0, 0, 0, 0, 0, 0, 0, 0, 0, 0], [0, 0, 0, 0, 0, 0, 0, 0, 0, 0], [0, 0, 0, 0, 0, 0, 0, 0, 0, 0], [0, 0, 0, 0, 0, 1, 1, 1, 0, 0], [0, 0, 0, 0, 1, -1, 1, 1, 0, 0], [0, 0, 0, 0, 1, 1, 1, 1, 0, 0], [0, 0, 0, 0, 1, 0, 0, 0, 0, 0], [0, 0, 0, 0, 0, 0, 0, 0, 0, 0], [0, 0, 0, 0, 0, 0, 0, 0, 0, 0], [0, 0, 0, 0, 0, 0, 0, 0, 0, 0]], ot_player = 1, ot_decision_level = 1, ot_end_game = False, ot_winner = None, ot_result = [0, 0, 0], ot_score = 10\<rparr>)) (ot_player (\<lparr>ot_grid = [[0, 0, 0, 0, 0, 0, 0, 0, 0, 0], [0, 0, 0, 0, 0, 0, 0, 0, 0, 0], [0, 0, 0, 0, 0, 0, 0, 0, 0, 0], [0, 0, 0, 0, 0, 1, 1, 1, 0, 0], [0, 0, 0, 0, 1, -1, 1, 1, 0, 0], [0, 0, 0, 0, 1, 1, 1, 1, 0, 0], [0, 0, 0, 0, 1, 0, 0, 0, 0, 0], [0, 0, 0, 0, 0, 0, 0, 0, 0, 0], [0, 0, 0, 0, 0, 0, 0, 0, 0, 0], [0, 0, 0, 0, 0, 0, 0, 0, 0, 0]], ot_player = 1, ot_decision_level = 1, ot_end_game = False, ot_winner = None, ot_result = [0, 0, 0], ot_score = 10\<rparr>)) (2, 5)\<rparr>)
      (update_grid (ot_grid (\<lparr>ot_grid = [[0, 0, 0, 0, 0, 0, 0, 0, 0, 0], [0, 0, 0, 0, 0, 0, 0, 0, 0, 0], [0, 0, 0, 0, 0, 0, 0, 0, 0, 0], [0, 0, 0, 0, 0, 1, 1, 1, 0, 0], [0, 0, 0, 0, 1, -1, 1, 1, 0, 0], [0, 0, 0, 0, 1, 1, 1, 1, 0, 0], [0, 0, 0, 0, 1, 0, 0, 0, 0, 0], [0, 0, 0, 0, 0, 0, 0, 0, 0, 0], [0, 0, 0, 0, 0, 0, 0, 0, 0, 0], [0, 0, 0, 0, 0, 0, 0, 0, 0, 0]], ot_player = 1, ot_decision_level = 1, ot_end_game = False, ot_winner = None, ot_result = [0, 0, 0], ot_score = 10\<rparr>)) (ot_player (\<lparr>ot_grid = [[0, 0, 0, 0, 0, 0, 0, 0, 0, 0], [0, 0, 0, 0, 0, 0, 0, 0, 0, 0], [0, 0, 0, 0, 0, 0, 0, 0, 0, 0], [0, 0, 0, 0, 0, 1, 1, 1, 0, 0], [0, 0, 0, 0, 1, -1, 1, 1, 0, 0], [0, 0, 0, 0, 1, 1, 1, 1, 0, 0], [0, 0, 0, 0, 1, 0, 0, 0, 0, 0], [0, 0, 0, 0, 0, 0, 0, 0, 0, 0], [0, 0, 0, 0, 0, 0, 0, 0, 0, 0], [0, 0, 0, 0, 0, 0, 0, 0, 0, 0]], ot_player = 1, ot_decision_level = 1, ot_end_game = False, ot_winner = None, ot_result = [0, 0, 0], ot_score = 10\<rparr>)) (2, 5)))) =
    \<lparr>ot_grid = [[0, 0, 0, 0, 0, 0, 0, 0, 0, 0], [0, 0, 0, 0, 0, 0, 0, 0, 0, 0], [0, 0, 0, 0, 0, -1, 0, 0, 0, 0], [0, 0, 0, 0, 0, -1, 1, 1, 0, 0], [0, 0, 0, 0, 1, -1, 1, 1, 0, 0], [0, 0, 0, 0, 1, 1, 1, 1, 0, 0], [0, 0, 0, 0, 1, 0, 0, 0, 0, 0], [0, 0, 0, 0, 0, 0, 0, 0, 0, 0], [0, 0, 0, 0, 0, 0, 0, 0, 0, 0], [0, 0, 0, 0, 0, 0, 0, 0, 0, 0]], ot_player = 0, ot_decision_level = 1, ot_end_game = False, ot_winner = None, ot_result = [0, 0, 0], ot_score = 7\<rparr>" by code_simp
  then show ?thesis using ot_frame_click_ai [OF wipe_click3 _ _ wipe_ai3] by simp
qed

lemma wipe_click4:
  "ot_handle_mouse_click \<lparr>ot_grid = [[0, 0, 0, 0, 0, 0, 0, 0, 0, 0], [0, 0, 0, 0, 0, 0, 0, 0, 0, 0], [0, 0, 0, 0, 0, -1, 0, 0, 0, 0], [0, 0, 0, 0, 0, -1, 1, 1, 0, 0], [0, 0, 0, 0, 1, -1, 1, 1, 0, 0], [0, 0, 0, 0, 1, 1, 1, 1, 0, 0], [0, 0, 0, 0, 1, 0, 0, 0, 0, 0], [0, 0, 0, 0, 0, 0, 0, 0, 0, 0], [0, 0, 0, 0, 0, 0, 0, 0, 0, 0], [0, 0, 0, 0, 0, 0, 0, 0, 0, 0]], ot_player = 0, ot_decision_level = 1, ot_end_game = False, ot_winner = None, ot_result = [0, 0, 0], ot_score = 7\<rparr> 225 25 =
   \<lparr>ot_grid = [[0, 0, 0, 0, 0, 0, 0, 0, 0, 0], [0, 0, 0, 0, 0, 1, 0, 0, 0, 0], [0, 0, 0, 0, 0, 1, 0, 0, 0, 0], [0, 0, 0, 0, 0, 1, 1, 1, 0, 0], [0, 0, 0, 0, 1, 1, 1, 1, 0, 0], [0, 0, 0, 0, 1, 1, 1, 1, 0, 0], [0, 0, 0, 0, 1, 0, 0, 0, 0, 0], [0, 0, 0, 0, 0, 0, 0, 0, 0, 0], [0, 0, 0, 0, 0, 0, 0, 0, 0, 0], [0, 0, 0, 0, 0, 0, 0, 0, 0, 0]], ot_player = 1, ot_decision_level = 1, ot_end_game = False, ot_winner = None, ot_result = [0, 0, 0], ot_score = 14\<rparr>"
  by code_simp

lemma wipe_stuck:
  "ot_decision_tree
   \<lparr>ot_grid = [[0, 0, 0, 0, 0, 0, 0, 0, 0, 0], [0, 0, 0, 0, 0, 1, 0, 0, 0, 0], [0, 0, 0, 0, 0, 1, 0, 0, 0, 0], [0, 0, 0, 0, 0, 1, 1, 1, 0, 0], [0, 0, 0, 0, 1, 1, 1, 1, 0, 0], [0, 0, 0, 0, 1, 1, 1, 1, 0, 0], [0, 0, 0, 0, 1, 0, 0, 0, 0, 0], [0, 0, 0, 0, 0, 0, 0, 0, 0, 0], [0, 0, 0, 0, 0, 0, 0, 0, 0, 0], [0, 0, 0, 0, 0, 0, 0, 0, 0, 0]], ot_player = 1, ot_decision_level = 1, ot_end_game = False, ot_winner = None, ot_result = [0, 0, 0], ot_score = 14\<rparr>
   (sconst 0) = Inl IndexError"
proof -
  let ?s = "\<lparr>ot_grid = [[0, 0, 0, 0, 0, 0, 0, 0, 0, 0], [0, 0, 0, 0, 0, 1, 0, 0, 0, 0], [0, 0, 0, 0, 0, 1, 0, 0, 0, 0], [0, 0, 0, 0, 0, 1, 1, 1, 0, 0], [0, 0, 0, 0, 1, 1, 1, 1, 0, 0], [0, 0, 0, 0, 1, 1, 1, 1, 0, 0], [0, 0, 0, 0, 1, 0, 0, 0, 0, 0], [0, 0, 0, 0, 0, 0, 0, 0, 0, 0], [0, 0, 0, 0, 0, 0, 0, 0, 0, 0], [0, 0, 0, 0, 0, 0, 0, 0, 0, 0]], ot_player = 1, ot_decision_level = 1, ot_end_game = False, ot_winner = None, ot_result = [0, 0, 0], ot_score = 14\<rparr>"
  have sq: "square 10 (ot_grid ?s)" by code_simp
  have vs: "get_valid_actions (ot_grid ?s) (ot_player ?s) = []" by code_simp
  show ?thesis using ot_decision_tree_stuck [OF sq _ vs] by simp
qed

lemma wipe_reach:
  "ot_reach
   \<lparr>ot_grid = [[0, 0, 0, 0, 0, 0, 0, 0, 0, 0], [0, 0, 0, 0, 0, 0, 0, 0, 0, 0], [0, 0, 0, 0, 0, -1, 0, 0, 0, 0], [0, 0, 0, 0, 0, -1, 1, 1, 0, 0], [0, 0, 0, 0, 1, -1, 1, 1, 0, 0], [0, 0, 0, 0, 1, 1, 1, 1, 0, 0], [0, 0, 0, 0, 1, 0, 0, 0, 0, 0], [0, 0, 0, 0, 0, 0, 0, 0, 0, 0], [0, 0, 0, 0, 0, 0, 0, 0, 0, 0], [0, 0, 0, 0, 0, 0, 0, 0, 0, 0]], ot_player = 0, ot_decision_level = 1, ot_end_game = False, ot_winner = None, ot_result = [0, 0, 0], ot_score = 7\<rparr>
   (sconst 0)"
  by (rule ot_reach.step [OF ot_reach.step [OF ot_reach.step [OF ot_reach.step [OF ot_reach.start wipe_frame0] wipe_frame1] wipe_frame2] wipe_frame3])

subsection \<open>Painting through negative indices\<close>

lemma border_click0:
  "ot_handle_mouse_click init_othello 275 175 =
   \<lparr>ot_grid = [[0, 0, 0, 0, 0, 0, 0, 0, 0, 0], [0, 0, 0, 0, 0, 0, 0, 0, 0, 0], [0, 0, 0, 0, 0, 0, 0, 0, 0, 0], [0, 0, 0, 0, 0, 0, 0, 0, 0, 0], [0, 0, 0, 0, 1, 1, 1, 0, 0, 0], [0, 0, 0, 0, -1, 1, 0, 0, 0, 0], [0, 0, 0, 0, 0, 0, 0, 0, 0, 0], [0, 0, 0, 0, 0, 0, 0, 0, 0, 0], [0, 0, 0, 0, 0, 0, 0, 0, 0, 0], [0, 0, 0, 0, 0, 0, 0, 0, 0, 0]], ot_player = 1, ot_decision_level = 1, ot_end_game = False, ot_winner = None, ot_result = [0, 0, 0], ot_score = 3\<rparr>"
  by code_simp

lemma border_ai0:
  "ot_decision_tree
   \<lparr>ot_grid = [[0, 0, 0, 0, 0, 0, 0, 0, 0, 0], [0, 0, 0, 0, 0, 0, 0, 0, 0, 0], [0, 0, 0, 0, 0, 0, 0, 0, 0, 0], [0, 0, 0, 0, 0, 0, 0, 0, 0, 0], [0, 0, 0, 0, 1, 1, 1, 0, 0, 0], [0, 0, 0, 0, -1, 1, 0, 0, 0, 0], [0, 0, 0, 0, 0, 0, 0, 0, 0, 0], [0, 0, 0, 0, 0, 0, 0, 0, 0, 0], [0, 0, 0, 0, 0, 0, 0, 0, 0, 0], [0, 0, 0, 0, 0, 0, 0, 0, 0, 0]], ot_player = 1, ot_decision_level = 1, ot_end_game = False, ot_winner = None, ot_result = [0, 0, 0], ot_score = 3\<rparr>
   (2 ## 2 ## 0 ## 0 ## 1 ## 0 ## sconst 0) = Inr (Some (5, 6), 2 ## 0 ## 0 ## 1 ## 0 ## sconst 0)"
proof -
  let ?s = "\<lparr>ot_grid = [[0, 0, 0, 0, 0, 0, 0, 0, 0, 0], [0, 0, 0, 0, 0, 0, 0, 0, 0, 0], [0, 0, 0, 0, 0, 0, 0, 0, 0, 0], [0, 0, 0, 0, 0, 0, 0, 0, 0, 0], [0, 0, 0, 0, 1, 1, 1, 0, 0, 0], [0, 0, 0, 0, -1, 1, 0, 0, 0, 0], [0, 0, 0, 0, 0, 0, 0, 0, 0, 0], [0, 0, 0, 0, 0, 0, 0, 0, 0, 0], [0, 0, 0, 0, 0, 0, 0, 0, 0, 0], [0, 0, 0, 0, 0, 0, 0, 0, 0, 0]], ot_player = 1, ot_decision_level = 1, ot_end_game = False, ot_winner = None, ot_result = [0, 0, 0], ot_score = 3\<rparr>"
  have sq: "square 10 (ot_grid ?s)" by code_simp
  have lvl: "ot_decision_level ?s = 1" by simp
  have vs: "get_valid_actions (ot_grid ?s) (ot_player ?s) = [(3, 4), (3, 6), (5, 6)]" by code_simp
  have ss: "map (move_score (ot_grid ?s) (ot_player ?s)) [(3, 4), (3, 6), (5, 6)] = [0, 0, 0]" by code_simp
  show ?thesis unfolding ot_decision_tree_scores [OF sq lvl vs list.distinct(2) ss] by simp
qed

lemma border_frame0:
  "ot_frame init_othello (2 ## 2 ## 0 ## 0 ## 1 ## 0 ## sconst 0) [MouseDown 275 175] =
   Inr (Some (\<lparr>ot_grid = [[0, 0, 0, 0, 0, 0, 0, 0, 0, 0], [0, 0, 0, 0, 0, 0, 0, 0, 0, 0], [0, 0, 0, 0, 0, 0, 0, 0, 0, 0], [0, 0, 0, 0, 0, 0, 0, 0, 0, 0], [0, 0, 0, 0, 1, 1, 1, 0, 0, 0], [0, 0, 0, 0, -1, -1, -1, 0, 0, 0], [0, 0, 0, 0, 0, 0, 0, 0, 0, 0], [0, 0, 0, 0, 0, 0, 0, 0, 0, 0], [0, 0, 0, 0, 0, 0, 0, 0, 0, 0], [0, 0, 0, 0, 0, 0, 0, 0, 0, 0]], ot_player = 0, ot_decision_level = 1, ot_end_game = False, ot_winner = None, ot_result = [0, 0, 0], ot_score = 0\<rparr>, 2 ## 0 ## 0 ## 1 ## 0 ## sconst 0))"
proof -
  have "ot_switch_player (ot_check_end_game (ot_overwrite_grid
      ((\<lparr>ot_grid = [[0, 0, 0, 0, 0, 0, 0, 0, 0, 0], [0, 0, 0, 0, 0, 0, 0, 0, 0, 0], [0, 0, 0, 0, 0, 0, 0, 0, 0, 0], [0, 0, 0, 0, 0, 0, 0, 0, 0, 0], [0, 0, 0, 0, 1, 1, 1, 0, 0, 0], [0, 0, 0, 0, -1, 1, 0, 0, 0, 0], [0, 0, 0, 0, 0, 0, 0, 0, 0, 0], [0, 0, 0, 0, 0, 0, 0, 0, 0, 0], [0, 0, 0, 0, 0, 0, 0, 0, 0, 0], [0, 0, 0, 0, 0, 0, 0, 0, 0, 0]], ot_player = 1, ot_decision_level = 1, ot_end_game = False, ot_winner = None, ot_result = [0, 0, 0], ot_score = 3\<rparr>)\<lparr>ot_grid := update_grid (ot_grid (\<lparr>ot_grid = [[0, 0, 0, 0, 0, 0, 0, 0, 0, 0], [0, 0, 0, 0, 0, 0, 0, 0, 0, 0], [0, 0, 0, 0, 0, 0, 0, 0, 0, 0], [0, 0, 0, 0, 0, 0, 0, 0, 0, 0], [0, 0, 0, 0, 1, 1, 1, 0, 0, 0], [0, 0, 0, 0, -1, 1, 0, 0, 0, 0], [0, 0, 0, 0, 0, 0, 0, 0, 0, 0], [0, 0, 0, 0, 0, 0, 0, 0, 0, 0], [0, 0, 0, 0, 0, 0, 0, 0, 0, 0], [0, 0, 0, 0, 0, 0, 0, 0, 0, 0]], ot_player = 1, ot_decision_level = 1, ot_end_game = False, ot_winner = None, ot_result = [0, 0, 0], ot_score = 3\<rparr>)) (ot_player (\<lparr>ot_grid = [[0, 0, 0, 0, 0, 0, 0, 0, 0, 0], [0, 0, 0, 0, 0, 0, 0, 0, 0, 0], [0, 0, 0, 0, 0, 0, 0, 0, 0, 0], [0, 0, 0, 0, 0, 0, 0, 0, 0, 0], [0, 0, 0, 0, 1, 1, 1, 0, 0, 0], [0, 0, 0, 0, -1, 1, 0, 0, 0, 0], [0, 0, 0, 0, 0, 0, 0, 0, 0, 0], [0, 0, 0, 0, 0, 0, 0, 0, 0, 0], [0, 0, 0, 0, 0, 0, 0, 0, 0, 0], [0, 0, 0, 0, 0, 0, 0, 0, 0, 0]], ot_player = 1, ot_decision_level = 1, ot_end_game = False, ot_winner = None, ot_result = [0, 0, 0], ot_score = 3\<rparr>)) (5, 6)\<rparr>)
      (update_grid (ot_grid (\<lparr>ot_grid = [[0, 0, 0, 0, 0, 0, 0, 0, 0, 0], [0, 0, 0, 0, 0, 0, 0, 0, 0, 0], [0, 0, 0, 0, 0, 0, 0, 0, 0, 0], [0, 0, 0, 0, 0, 0, 0, 0, 0, 0], [0, 0, 0, 0, 1, 1, 1, 0, 0, 0], [0, 0, 0, 0, -1, 1, 0, 0, 0, 0], [0, 0, 0, 0, 0, 0, 0, 0, 0, 0], [0, 0, 0, 0, 0, 0, 0, 0, 0, 0], [0, 0, 0, 0, 0, 0, 0, 0, 0, 0], [0, 0, 0, 0, 0, 0, 0, 0, 0, 0]], ot_player = 1, ot_decision_level = 1, ot_end_game = False, ot_winner = None, ot_result = [0, 0, 0], ot_score = 3\<rparr>)) (ot_player (\<lparr>ot_grid = [[0, 0, 0, 0, 0, 0, 0, 0, 0, 0], [0, 0, 0, 0, 0, 0, 0, 0, 0, 0], [0, 0, 0, 0, 0, 0, 0, 0, 0, 0], [0, 0, 0, 0, 0, 0, 0, 0, 0, 0], [0, 0, 0, 0, 1, 1, 1, 0, 0, 0], [0, 0, 0, 0, -1, 1, 0, 0, 0, 0], [0, 0, 0, 0, 0, 0, 0, 0, 0, 0], [0, 0, 0, 0, 0, 0, 0, 0, 0, 0], [0, 0, 0, 0, 0, 0, 0, 0, 0, 0], [0, 0, 0, 0, 0, 0, 0, 0, 0, 0]], ot_player = 1, ot_decision_level = 1, ot_end_game = False, ot_winner = None, ot_result = [0, 0, 0], ot_score = 3\<rparr>)) (5, 6)))) =
    \<lparr>ot_grid = [[0, 0, 0, 0, 0, 0, 0, 0, 0, 0], [0, 0, 0, 0, 0, 0, 0, 0, 0, 0], [0, 0, 0, 0, 0, 0, 0, 0, 0, 0], [0, 0, 0, 0, 0, 0, 0, 0, 0, 0], [0, 0, 0, 0, 1, 1, 1, 0, 0, 0], [0, 0, 0, 0, -1, -1, -1, 0, 0, 0], [0, 0, 0, 0, 0, 0, 0, 0, 0, 0], [0, 0, 0, 0, 0, 0, 0, 0, 0, 0], [0, 0, 0, 0, 0, 0, 0, 0, 0, 0], [0, 0, 0, 0, 0, 0, 0, 0, 0, 0]], ot_player = 0, ot_decision_level = 1, ot_end_game = False, ot_winner = None, ot_result = [0, 0, 0], ot_score = 0\<rparr>" by code_simp
  then show ?thesis using ot_frame_click_ai [OF border_click0 _ _ border_ai0] by simp
qed

lemma border_click1:
  "ot_handle_mouse_click \<lparr>ot_grid = [[0, 0, 0, 0, 0, 0, 0, 0, 0, 0], [0, 0, 0, 0, 0, 0, 0, 0, 0, 0], [0, 0, 0, 0, 0, 0, 0, 0, 0, 0], [0, 0, 0, 0, 0, 0, 0, 0, 0, 0], [0, 0, 0, 0, 1, 1, 1, 0, 0, 0], [0, 0, 0, 0, -1, -1, -1, 0, 0, 0], [0, 0, 0, 0, 0, 0, 0, 0, 0, 0], [0, 0, 0, 0, 0, 0, 0, 0, 0, 0], [0, 0, 0, 0, 0, 0, 0, 0, 0, 0], [0, 0, 0, 0, 0, 0, 0, 0, 0, 0]], ot_player = 0, ot_decision_level = 1, ot_end_game = False, ot_winner = None, ot_result = [0, 0, 0], ot_score = 0\<rparr> 325 275 =
   \<lparr>ot_grid = [[0, 0, 0, 0, 0, 0, 0, 0, 0, 0], [0, 0, 0, 0, 0, 0, 0, 0, 0, 0], [0, 0, 0, 0, 0, 0, 0, 0, 0, 0], [0, 0, 0, 0, 0, 0, 0, 0, 0, 0], [0, 0, 0, 0, 1, 1, 1, 0, 0, 0], [0, 0, 0, 0, -1, -1, 1, 0, 0, 0], [0, 0, 0, 0, 0, 0, 0, 1, 0, 0], [0, 0, 0, 0, 0, 0, 0, 0, 0, 0], [0, 0, 0, 0, 0, 0, 0, 0, 0, 0], [0, 0, 0, 0, 0, 0, 0, 0, 0, 0]], ot_player = 1, ot_decision_level = 1, ot_end_game = False, ot_winner = None, ot_result = [0, 0, 0], ot_score = 3\<rparr>"
  by code_simp

lemma border_ai1:
  "ot_decision_tree
   \<lparr>ot_grid = [[0, 0, 0, 0, 0, 0, 0, 0, 0, 0], [0, 0, 0, 0, 0, 0, 0, 0, 0, 0], [0, 0, 0, 0, 0, 0, 0, 0, 0, 0], [0, 0, 0, 0, 0, 0, 0, 0, 0, 0], [0, 0, 0, 0, 1, 1, 1, 0, 0, 0], [0, 0, 0, 0, -1, -1, 1, 0, 0, 0], [0, 0, 0, 0, 0, 0, 0, 1, 0, 0], [0, 0, 0, 0, 0, 0, 0, 0, 0, 0], [0, 0, 0, 0, 0, 0, 0, 0, 0, 0], [0, 0, 0, 0, 0, 0, 0, 0, 0, 0]], ot_player = 1, ot_decision_level = 1, ot_end_game = False, ot_winner = None, ot_result = [0, 0, 0], ot_score = 3\<rparr>
   (2 ## 0 ## 0 ## 1 ## 0 ## sconst 0) = Inr (Some (3, 5), 0 ## 0 ## 1 ## 0 ## sconst 0)"
proof -
  let ?s = "\<lparr>ot_grid = [[0, 0, 0, 0, 0, 0, 0, 0, 0, 0], [0, 0, 0, 0, 0, 0, 0, 0, 0, 0], [0, 0, 0, 0, 0, 0, 0, 0, 0, 0], [0, 0, 0, 0, 0, 0, 0, 0, 0, 0], [0, 0, 0, 0, 1, 1, 1, 0, 0, 0], [0, 0, 0, 0, -1, -1, 1, 0, 0, 0], [0, 0, 0, 0, 0, 0, 0, 1, 0, 0], [0, 0, 0, 0, 0, 0, 0, 0, 0, 0], [0, 0, 0, 0, 0, 0, 0, 0, 0, 0], [0, 0, 0, 0, 0, 0, 0, 0, 0, 0]], ot_player = 1, ot_decision_level = 1, ot_end_game = False, ot_winner = None, ot_result = [0, 0, 0], ot_score = 3\<rparr>"
  have sq: "square 10 (ot_grid ?s)" by code_simp
  have lvl: "ot_decision_level ?s = 1" by simp
  have vs: "get_valid_actions (ot_grid ?s) (ot_player ?s) = [(3, 3), (3, 4), (3, 5), (3, 6), (3, 7), (5, 7)]" by code_simp
  have ss: "map (move_score (ot_grid ?s) (ot_player ?s)) [(3, 3), (3, 4), (3, 5), (3, 6), (3, 7), (5, 7)] = [0, 0, 0, 0, 0, 0]" by code_simp
  show ?thesis unfolding ot_decision_tree_scores [OF sq lvl vs list.distinct(2) ss] by simp
qed

lemma border_frame1:
  "ot_frame \<lparr>ot_grid = [[0, 0, 0, 0, 0, 0, 0, 0, 0, 0], [0, 0, 0, 0, 0, 0, 0, 0, 0, 0], [0, 0, 0, 0, 0, 0, 0, 0, 0, 0], [0, 0, 0, 0, 0, 0, 0, 0, 0, 0], [0, 0, 0, 0, 1, 1, 1, 0, 0, 0], [0, 0, 0, 0, -1, -1, -1, 0, 0, 0], [0, 0, 0, 0, 0, 0, 0, 0, 0, 0], [0, 0, 0, 0, 0, 0, 0, 0, 0, 0], [0, 0, 0, 0, 0, 0, 0, 0, 0, 0], [0, 0, 0, 0, 0, 0, 0, 0, 0, 0]], ot_player = 0, ot_decision_level = 1, ot_end_game = False, ot_winner = None, ot_result = [0, 0, 0], ot_score = 0\<rparr> (2 ## 0 ## 0 ## 1 ## 0 ## sconst 0) [MouseDown 325 275] =
   Inr (Some (\<lparr>ot_grid = [[0, 0, 0, 0, 0, 0, 0, 0, 0, 0], [0, 0, 0, 0, 0, 0, 0, 0, 0, 0], [0, 0, 0, 0, 0, 0, 0, 0, 0, 0], [0, 0, 0, 0, 0, -1, 0, 0, 0, 0], [0, 0, 0, 0, 1, -1, 1, 0, 0, 0], [0, 0, 0, 0, -1, -1, 1, 0, 0, 0], [0, 0, 0, 0, 0, 0, 0, 1, 0, 0], [0, 0, 0, 0, 0, 0, 0, 0, 0, 0], [0, 0, 0, 0, 0, 0, 0, 0, 0, 0], [0, 0, 0, 0, 0, 0, 0, 0, 0, 0]], ot_player = 0, ot_decision_level = 1, ot_end_game = False, ot_winner = None, ot_result = [0, 0, 0], ot_score = 0\<rparr>, 0 ## 0 ## 1 ## 0 ## sconst 0))"
proof -
  have "ot_switch_player (ot_check_end_game (ot_overwrite_grid
      ((\<lparr>ot_grid = [[0, 0, 0, 0, 0, 0, 0, 0, 0, 0], [0, 0, 0, 0, 0, 0, 0, 0, 0, 0], [0, 0, 0, 0, 0, 0, 0, 0, 0, 0], [0, 0, 0, 0, 0, 0, 0, 0, 0, 0], [0, 0, 0, 0, 1, 1, 1, 0, 0, 0], [0, 0, 0, 0, -1, -1, 1, 0, 0, 0], [0, 0, 0, 0, 0, 0, 0, 1, 0, 0], [0, 0, 0, 0, 0, 0, 0, 0, 0, 0], [0, 0, 0, 0, 0, 0, 0, 0, 0, 0], [0, 0, 0, 0, 0, 0, 0, 0, 0, 0]], ot_player = 1, ot_decision_level = 1, ot_end_game = False, ot_winner = None, ot_result = [0, 0, 0], ot_score = 3\<rparr>)\<lparr>ot_grid := update_grid (ot_grid (\<lparr>ot_grid = [[0, 0, 0, 0, 0, 0, 0, 0, 0, 0], [0, 0, 0, 0, 0, 0, 0, 0, 0, 0], [0, 0, 0, 0, 0, 0, 0, 0, 0, 0], [0, 0, 0, 0, 0, 0, 0, 0, 0, 0], [0, 0, 0, 0, 1, 1, 1, 0, 0, 0], [0, 0, 0, 0, -1, -1, 1, 0, 0, 0], [0, 0, 0, 0, 0, 0, 0, 1, 0, 0], [0, 0, 0, 0, 0, 0, 0, 0, 0, 0], [0, 0, 0, 0, 0, 0, 0, 0, 0, 0], [0, 0, 0, 0, 0, 0, 0, 0, 0, 0]], ot_player = 1, ot_decision_level = 1, ot_end_game = False, ot_winner = None, ot_result = [0, 0, 0], ot_score = 3\<rparr>)) (ot_player (\<lparr>ot_grid = [[0, 0, 0, 0, 0, 0, 0, 0, 0, 0], [0, 0, 0, 0, 0, 0, 0, 0, 0, 0], [0, 0, 0, 0, 0, 0, 0, 0, 0, 0], [0, 0, 0, 0, 0, 0, 0, 0, 0, 0], [0, 0, 0, 0, 1, 1, 1, 0, 0, 0], [0, 0, 0, 0, -1, -1, 1, 0, 0, 0], [0, 0, 0, 0, 0, 0, 0, 1, 0, 0], [0, 0, 0, 0, 0, 0, 0, 0, 0, 0], [0, 0, 0, 0, 0, 0, 0, 0, 0, 0], [0, 0, 0, 0, 0, 0, 0, 0, 0, 0]], ot_player = 1, ot_decision_level = 1, ot_end_game = False, ot_winner = None, ot_result = [0, 0, 0], ot_score = 3\<rparr>)) (3, 5)\<rparr>)
      (update_grid (ot_grid (\<lparr>ot_grid = [[0, 0, 0, 0, 0, 0, 0, 0, 0, 0], [0, 0, 0, 0, 0, 0, 0, 0, 0, 0], [0, 0, 0, 0, 0, 0, 0, 0, 0, 0], [0, 0, 0, 0, 0, 0, 0, 0, 0, 0], [0, 0, 0, 0, 1, 1, 1, 0, 0, 0], [0, 0, 0, 0, -1, -1, 1, 0, 0, 0], [0, 0, 0, 0, 0, 0, 0, 1, 0, 0], [0, 0, 0, 0, 0, 0, 0, 0, 0, 0], [0, 0, 0, 0, 0, 0, 0, 0, 0, 0], [0, 0, 0, 0, 0, 0, 0, 0, 0, 0]], ot_player = 1, ot_decision_level = 1, ot_end_game = False, ot_winner = None, ot_result = [0, 0, 0], ot_score = 3\<rparr>)) (ot_player (\<lparr>ot_grid = [[0, 0, 0, 0, 0, 0, 0, 0, 0, 0], [0, 0, 0, 0, 0, 0, 0, 0, 0, 0], [0, 0, 0, 0, 0, 0, 0, 0, 0, 0], [0, 0, 0, 0, 0, 0, 0, 0, 0, 0], [0, 0, 0, 0, 1, 1, 1, 0, 0, 0], [0, 0, 0, 0, -1, -1, 1, 0, 0, 0], [0, 0, 0, 0, 0, 0, 0, 1, 0, 0], [0, 0, 0, 0, 0, 0, 0, 0, 0, 0], [0, 0, 0, 0, 0, 0, 0, 0, 0, 0], [0, 0, 0, 0, 0, 0, 0, 0, 0, 0]], ot_player = 1, ot_decision_level = 1, ot_end_game = False, ot_winner = None, ot_result = [0, 0, 0], ot_score = 3\<rparr>)) (3, 5)))) =
    \<lparr>ot_grid = [[0, 0, 0, 0, 0, 0, 0, 0, 0, 0], [0, 0, 0, 0, 0, 0, 0, 0, 0, 0], [0, 0, 0, 0, 0, 0, 0, 0, 0, 0], [0, 0, 0, 0, 0, -1, 0, 0, 0, 0], [0, 0, 0, 0, 1, -1, 1, 0, 0, 0], [0, 0, 0, 0, -1, -1, 1, 0, 0, 0], [0, 0, 0, 0, 0, 0, 0, 1, 0, 0], [0, 0, 0, 0, 0, 0, 0, 0, 0, 0], [0, 0, 0, 0, 0, 0, 0, 0, 0, 0], [0, 0, 0, 0, 0, 0, 0, 0, 0, 0]], ot_player = 0, ot_decision_level = 1, ot_end_game = False, ot_winner = None, ot_result = [0, 0, 0], ot_score = 0\<rparr>" by code_simp
  then show ?thesis using ot_frame_click_ai [OF border_click1 _ _ border_ai1] by simp
qed

lemma border_click2:
  "ot_handle_mouse_click \<lparr>ot_grid = [[0, 0, 0, 0, 0, 0, 0, 0, 0, 0], [0, 0, 0, 0, 0, 0, 0, 0, 0, 0], [0, 0, 0, 0, 0, 0, 0, 0, 0, 0], [0, 0, 0, 0, 0, -1, 0, 0, 0, 0], [0, 0, 0, 0, 1, -1, 1, 0, 0, 0], [0, 0, 0, 0, -1, -1, 1, 0, 0, 0], [0, 0, 0, 0, 0, 0, 0, 1, 0, 0], [0, 0, 0, 0, 0, 0, 0, 0, 0, 0], [0, 0, 0, 0, 0, 0, 0, 0, 0, 0], [0, 0, 0, 0, 0, 0, 0, 0, 0, 0]], ot_player = 0, ot_decision_level = 1, ot_end_game = False, ot_winner = None, ot_result = [0, 0, 0], ot_score = 0\<rparr> 175 75 =
   \<lparr>ot_grid = [[0, 0, 0, 0, 0, 0, 0, 0, 0, 0], [0, 0, 0, 0, 0, 0, 0, 0, 0, 0], [0, 0, 0, 0, 1, 0, 0, 0, 0, 0], [0, 0, 0, 0, 0, 1, 0, 0, 0, 0], [0, 0, 0, 0, 1, -1, 1, 0, 0, 0], [0, 0, 0, 0, -1, -1, 1, 0, 0, 0], [0, 0, 0, 0, 0, 0, 0, 1, 0, 0], [0, 0, 0, 0, 0, 0, 0, 0, 0, 0], [0, 0, 0, 0, 0, 0, 0, 0, 0, 0], [0, 0, 0, 0, 0, 0, 0, 0, 0, 0]], ot_player = 1, ot_decision_level = 1, ot_end_game = False, ot_winner = None, ot_result = [0, 0, 0], ot_score = 3\<rparr>"
  by code_simp

lemma border_ai2:
  "ot_decision_tree
   \<lparr>ot_grid = [[0, 0, 0, 0, 0, 0, 0, 0, 0, 0], [0, 0, 0, 0, 0, 0, 0, 0, 0, 0], [0, 0, 0, 0, 1, 0, 0, 0, 0, 0], [0, 0, 0, 0, 0, 1, 0, 0, 0, 0], [0, 0, 0, 0, 1, -1, 1, 0, 0, 0], [0, 0, 0, 0, -1, -1, 1, 0, 0, 0], [0, 0, 0, 0, 0, 0, 0, 1, 0, 0], [0, 0, 0, 0, 0, 0, 0, 0, 0, 0], [0, 0, 0, 0, 0, 0, 0, 0, 0, 0], [0, 0, 0, 0, 0, 0, 0, 0, 0, 0]], ot_player = 1, ot_decision_level = 1, ot_end_game = False, ot_winner = None, ot_result = [0, 0, 0], ot_score = 3\<rparr>
   (0 ## 0 ## 1 ## 0 ## sconst 0) = Inr (Some (1, 4), 0 ## 1 ## 0 ## sconst 0)"
proof -
  let ?s = "\<lparr>ot_grid = [[0, 0, 0, 0, 0, 0, 0, 0, 0, 0], [0, 0, 0, 0, 0, 0, 0, 0, 0, 0], [0, 0, 0, 0, 1, 0, 0, 0, 0, 0], [0, 0, 0, 0, 0, 1, 0, 0, 0, 0], [0, 0, 0, 0, 1, -1, 1, 0, 0, 0], [0, 0, 0, 0, -1, -1, 1, 0, 0, 0], [0, 0, 0, 0, 0, 0, 0, 1, 0, 0], [0, 0, 0, 0, 0, 0, 0, 0, 0, 0], [0, 0, 0, 0, 0, 0, 0, 0, 0, 0], [0, 0, 0, 0, 0, 0, 0, 0, 0, 0]], ot_player = 1, ot_decision_level = 1, ot_end_game = False, ot_winner = None, ot_result = [0, 0, 0], ot_score = 3\<rparr>"
  have sq: "square 10 (ot_grid ?s)" by code_simp
  have lvl: "ot_decision_level ?s = 1" by simp
  have vs: "get_valid_actions (ot_grid ?s) (ot_player ?s) = [(1, 4), (2, 5), (3, 3), (3, 4), (3, 7), (4, 3), (4, 7), (5, 7), (7, 8)]" by code_simp
  have ss: "map (move_score (ot_grid ?s) (ot_player ?s)) [(1, 4), (2, 5), (3, 3), (3, 4), (3, 7), (4, 3), (4, 7), (5, 7), (7, 8)] = [-3, 0, 0, 0, 0, 0, 0, 0, 2]" by code_simp
  show ?thesis unfolding ot_decision_tree_scores [OF sq lvl vs list.distinct(2) ss] by simp
qed

lemma border_frame2:
  "ot_frame \<lparr>ot_grid = [[0, 0, 0, 0, 0, 0, 0, 0, 0, 0], [0, 0, 0, 0, 0, 0, 0, 0, 0, 0], [0, 0, 0, 0, 0, 0, 0, 0, 0, 0], [0, 0, 0, 0, 0, -1, 0, 0, 0, 0], [0, 0, 0, 0, 1, -1, 1, 0, 0, 0], [0, 0, 0, 0, -1, -1, 1, 0, 0, 0], [0, 0, 0, 0, 0, 0, 0, 1, 0, 0], [0, 0, 0, 0, 0, 0, 0, 0, 0, 0], [0, 0, 0, 0, 0, 0, 0, 0, 0, 0], [0, 0, 0, 0, 0, 0, 0, 0, 0, 0]], ot_player = 0, ot_decision_level = 1, ot_end_game = False, ot_winner = None, ot_result = [0, 0, 0], ot_score = 0\<rparr> (0 ## 0 ## 1 ## 0 ## sconst 0) [MouseDown 175 75] =
   Inr (Some (\<lparr>ot_grid = [[0, 0, 0, 0, 0, 0, 0, 0, 0, 0], [0, 0, 0, 0, -1, 0, 0, 0, 0, 0], [0, 0, 0, 0, -1, 0, 0, 0, 0, 0], [0, 0, 0, 0, -1, 1, 0, 0, 0, 0], [0, 0, 0, 0, -1, -1, 1, 0, 0, 0], [0, 0, 0, 0, -1, -1, 1, 0, 0, 0], [0, 0, 0, 0, 0, 0, 0, 1, 0, 0], [0, 0, 0, 0, 0, 0, 0, 0, 0, 0], [0, 0, 0, 0, 0, 0, 0, 0, 0, 0], [0, 0, 0, 0, 0, 0, 0, 0, 0, 0]], ot_player = 0, ot_decision_level = 1, ot_end_game = False, ot_winner = None, ot_result = [0, 0, 0], ot_score = -3\<rparr>, 0 ## 1 ## 0 ## sconst 0))"
proof -
  have "ot_switch_player (ot_check_end_game (ot_overwrite_grid
      ((\<lparr>ot_grid = [[0, 0, 0, 0, 0, 0, 0, 0, 0, 0], [0, 0, 0, 0, 0, 0, 0, 0, 0, 0], [0, 0, 0, 0, 1, 0, 0, 0, 0, 0], [0, 0, 0, 0, 0, 1, 0, 0, 0, 0], [0, 0, 0, 0, 1, -1, 1, 0, 0, 0], [0, 0, 0, 0, -1, -1, 1, 0, 0, 0], [0, 0, 0, 0, 0, 0, 0, 1, 0, 0], [0, 0, 0, 0, 0, 0, 0, 0, 0, 0], [0, 0, 0, 0, 0, 0, 0, 0, 0, 0], [0, 0, 0, 0, 0, 0, 0, 0, 0, 0]], ot_player = 1, ot_decision_level = 1, ot_end_game = False, ot_winner = None, ot_result = [0, 0, 0], ot_score = 3\<rparr>)\<lparr>ot_grid := update_grid (ot_grid (\<lparr>ot_grid = [[0, 0, 0, 0, 0, 0, 0, 0, 0, 0], [0, 0, 0, 0, 0, 0, 0, 0, 0, 0], [0, 0, 0, 0, 1, 0, 0, 0, 0, 0], [0, 0, 0, 0, 0, 1, 0, 0, 0, 0], [0, 0, 0, 0, 1, -1, 1, 0, 0, 0], [0, 0, 0, 0, -1, -1, 1, 0, 0, 0], [0, 0, 0, 0, 0, 0, 0, 1, 0, 0], [0, 0, 0, 0, 0, 0, 0, 0, 0, 0], [0, 0, 0, 0, 0, 0, 0, 0, 0, 0], [0, 0, 0, 0, 0, 0, 0, 0, 0, 0]], ot_player = 1, ot_decision_level = 1, ot_end_game = False, ot_winner = None, ot_result = [0, 0, 0], ot_score = 3\<rparr>)) (ot_player (\<lparr>ot_grid = [[0, 0, 0, 0, 0, 0, 0, 0, 0, 0], [0, 0, 0, 0, 0, 0, 0, 0, 0, 0], [0, 0, 0, 0, 1, 0, 0, 0, 0, 0], [0, 0, 0, 0, 0, 1, 0, 0, 0, 0], [0, 0, 0, 0, 1, -1, 1, 0, 0, 0], [0, 0, 0, 0, -1, -1, 1, 0, 0, 0], [0, 0, 0, 0, 0, 0, 0, 1, 0, 0], [0, 0, 0, 0, 0, 0, 0, 0, 0, 0], [0, 0, 0, 0, 0, 0, 0, 0, 0, 0], [0, 0, 0, 0, 0, 0, 0, 0, 0, 0]], ot_player = 1, ot_decision_level = 1, ot_end_game = False, ot_winner = None, ot_result = [0, 0, 0], ot_score = 3\<rparr>)) (1, 4)\<rparr>)
      (update_grid (ot_grid (\<lparr>ot_grid = [[0, 0, 0, 0, 0, 0, 0, 0, 0, 0], [0, 0, 0, 0, 0, 0, 0, 0, 0, 0], [0, 0, 0, 0, 1, 0, 0, 0, 0, 0], [0, 0, 0, 0, 0, 1, 0, 0, 0, 0], [0, 0, 0, 0, 1, -1, 1, 0, 0, 0], [0, 0, 0, 0, -1, -1, 1, 0, 0, 0], [0, 0, 0, 0, 0, 0, 0, 1, 0, 0], [0, 0, 0, 0, 0, 0, 0, 0, 0, 0], [0, 0, 0, 0, 0, 0, 0, 0, 0, 0], [0, 0, 0, 0, 0, 0, 0, 0, 0, 0]], ot_player = 1, ot_decision_level = 1, ot_end_game = False, ot_winner = None, ot_result = [0, 0, 0], ot_score = 3\<rparr>)) (ot_player (\<lparr>ot_grid = [[0, 0, 0, 0, 0, 0, 0, 0, 0, 0], [0, 0, 0, 0, 0, 0, 0, 0, 0, 0], [0, 0, 0, 0, 1, 0, 0, 0, 0, 0], [0, 0, 0, 0, 0, 1, 0, 0, 0, 0], [0, 0, 0, 0, 1, -1, 1, 0, 0, 0], [0, 0, 0, 0, -1, -1, 1, 0, 0, 0], [0, 0, 0, 0, 0, 0, 0, 1, 0, 0], [0, 0, 0, 0, 0, 0, 0, 0, 0, 0], [0, 0, 0, 0, 0, 0, 0, 0, 0, 0], [0, 0, 0, 0, 0, 0, 0, 0, 0, 0]], ot_player = 1, ot_decision_level = 1, ot_end_game = False, ot_winner = None, ot_result = [0, 0, 0], ot_score = 3\<rparr>)) (1, 4)))) =
    \<lparr>ot_grid = [[0, 0, 0, 0, 0, 0, 0, 0, 0, 0], [0, 0, 0, 0, -1, 0, 0, 0, 0, 0], [0, 0, 0, 0, -1, 0, 0, 0, 0, 0], [0, 0, 0, 0, -1, 1, 0, 0, 0, 0], [0, 0, 0, 0, -1, -1, 1, 0, 0, 0], [0, 0, 0, 0, -1, -1, 1, 0, 0, 0], [0, 0, 0, 0, 0, 0, 0, 1, 0, 0], [0, 0, 0, 0, 0, 0, 0, 0, 0, 0], [0, 0, 0, 0, 0, 0, 0, 0, 0, 0], [0, 0, 0, 0, 0, 0, 0, 0, 0, 0]], ot_player = 0, ot_decision_level = 1, ot_end_game = False, ot_winner = None, ot_result = [0, 0, 0], ot_score = -3\<rparr>" by code_simp
  then show ?thesis using ot_frame_click_ai [OF border_click2 _ _ border_ai2] by simp
qed

lemma border_click3:
  "ot_handle_mouse_click \<lparr>ot_grid = [[0, 0, 0, 0, 0, 0, 0, 0, 0, 0], [0, 0, 0, 0, -1, 0, 0, 0, 0, 0], [0, 0, 0, 0, -1, 0, 0, 0, 0, 0], [0, 0, 0, 0, -1, 1, 0, 0, 0, 0], [0, 0, 0, 0, -1, -1, 1, 0, 0, 0], [0, 0, 0, 0, -1, -1, 1, 0, 0, 0], [0, 0, 0, 0, 0, 0, 0, 1, 0, 0], [0, 0, 0, 0, 0, 0, 0, 0, 0, 0], [0, 0, 0, 0, 0, 0, 0, 0, 0, 0], [0, 0, 0, 0, 0, 0, 0, 0, 0, 0]], ot_player = 0, ot_decision_level = 1, ot_end_game = False, ot_winner = None, ot_result = [0, 0, 0], ot_score = -3\<rparr> 125 25 =
   \<lparr>ot_grid = [[0, 0, 0, 0, 0, 0, 0, 0, 0, 0], [0, 0, 0, 1, -1, 0, 0, 0, 0, 0], [0, 0, 0, 0, 1, 0, 0, 0, 0, 0], [0, 0, 0, 0, -1, 1, 0, 0, 0, 0], [0, 0, 0, 0, -1, -1, 1, 0, 0, 0], [0, 0, 0, 0, -1, -1, 1, 0, 0, 0], [0, 0, 0, 0, 0, 0, 0, 1, 0, 0], [0, 0, 0, 0, 0, 0, 0, 0, 0, 0], [0, 0, 0, 0, 0, 0, 0, 0, 0, 0], [0, 0, 0, 0, 0, 0, 0, 0, 0, 0]], ot_player = 1, ot_decision_level = 1, ot_end_game = False, ot_winner = None, ot_result = [0, 0, 0], ot_score = 0\<rparr>"
  by code_simp

lemma border_ai3:
  "ot_decision_tree
   \<lparr>ot_grid = [[0, 0, 0, 0, 0, 0, 0, 0, 0, 0], [0, 0, 0, 1, -1, 0, 0, 0, 0, 0], [0, 0, 0, 0, 1, 0, 0, 0, 0, 0], [0, 0, 0, 0, -1, 1, 0, 0, 0, 0], [0, 0, 0, 0, -1, -1, 1, 0, 0, 0], [0, 0, 0, 0, -1, -1, 1, 0, 0, 0], [0, 0, 0, 0, 0, 0, 0, 1, 0, 0], [0, 0, 0, 0, 0, 0, 0, 0, 0, 0], [0, 0, 0, 0, 0, 0, 0, 0, 0, 0], [0, 0, 0, 0, 0, 0, 0, 0, 0, 0]], ot_player = 1, ot_decision_level = 1, ot_end_game = False, ot_winner = None, ot_result = [0, 0, 0], ot_score = 0\<rparr>
   (0 ## 1 ## 0 ## sconst 0) = Inr (Some (1, 2), 1 ## 0 ## sconst 0)"
proof -
  let ?s = "\<lparr>ot_grid = [[0, 0, 0, 0, 0, 0, 0, 0, 0, 0], [0, 0, 0, 1, -1, 0, 0, 0, 0, 0], [0, 0, 0, 0, 1, 0, 0, 0, 0, 0], [0, 0, 0, 0, -1, 1, 0, 0, 0, 0], [0, 0, 0, 0, -1, -1, 1, 0, 0, 0], [0, 0, 0, 0, -1, -1, 1, 0, 0, 0], [0, 0, 0, 0, 0, 0, 0, 1, 0, 0], [0, 0, 0, 0, 0, 0, 0, 0, 0, 0], [0, 0, 0, 0, 0, 0, 0, 0, 0, 0], [0, 0, 0, 0, 0, 0, 0, 0, 0, 0]], ot_player = 1, ot_decision_level = 1, ot_end_game = False, ot_winner = None, ot_result = [0, 0, 0], ot_score = 0\<rparr>"
  have sq: "square 10 (ot_grid ?s)" by code_simp
  have lvl: "ot_decision_level ?s = 1" by simp
  have vs: "get_valid_actions (ot_grid ?s) (ot_player ?s) = [(1, 2), (2, 5), (2, 6), (3, 6), (3, 7), (4, 7), (5, 7), (7, 8)]" by code_simp
  have ss: "map (move_score (ot_grid ?s) (ot_player ?s)) [(1, 2), (2, 5), (2, 6), (3, 6), (3, 7), (4, 7), (5, 7), (7, 8)] = [-3, -3, -3, -3, -3, -3, -3, -1]" by code_simp
  show ?thesis unfolding ot_decision_tree_scores [OF sq lvl vs list.distinct(2) ss] by simp
qed

lemma border_frame3:
  "ot_frame \<lparr>ot_grid = [[0, 0, 0, 0, 0, 0, 0, 0, 0, 0], [0, 0, 0, 0, -1, 0, 0, 0, 0, 0], [0, 0, 0, 0, -1, 0, 0, 0, 0, 0], [0, 0, 0, 0, -1, 1, 0, 0, 0, 0], [0, 0, 0, 0, -1, -1, 1, 0, 0, 0], [0, 0, 0, 0, -1, -1, 1, 0, 0, 0], [0, 0, 0, 0, 0, 0, 0, 1, 0, 0], [0, 0, 0, 0, 0, 0, 0, 0, 0, 0], [0, 0, 0, 0, 0, 0, 0, 0, 0, 0], [0, 0, 0, 0, 0, 0, 0, 0, 0, 0]], ot_player = 0, ot_decision_level = 1, ot_end_game = False, ot_winner = None, ot_result = [0, 0, 0], ot_score = -3\<rparr> (0 ## 1 ## 0 ## sconst 0) [MouseDown 125 25] =
   Inr (Some (\<lparr>ot_grid = [[0, 0, 0, 0, 0, 0, 0, 0, 0, 0], [0, 0, -1, -1, -1, 0, 0, 0, 0, 0], [0, 0, 0, 0, 1, 0, 0, 0, 0, 0], [0, 0, 0, 0, -1, 1, 0, 0, 0, 0], [0, 0, 0, 0, -1, -1, 1, 0, 0, 0], [0, 0, 0, 0, -1, -1, 1, 0, 0, 0], [0, 0, 0, 0, 0, 0, 0, 1, 0, 0], [0, 0, 0, 0, 0, 0, 0, 0, 0, 0], [0, 0, 0, 0, 0, 0, 0, 0, 0, 0], [0, 0, 0, 0, 0, 0, 0, 0, 0, 0]], ot_player = 0, ot_decision_level = 1, ot_end_game = False, ot_winner = None, ot_result = [0, 0, 0], ot_score = -3\<rparr>, 1 ## 0 ## sconst 0))"
proof -
  have "ot_switch_player (ot_check_end_game (ot_overwrite_grid
      ((\<lparr>ot_grid = [[0, 0, 0, 0, 0, 0, 0, 0, 0, 0], [0, 0, 0, 1, -1, 0, 0, 0, 0, 0], [0, 0, 0, 0, 1, 0, 0, 0, 0, 0], [0, 0, 0, 0, -1, 1, 0, 0, 0, 0], [0, 0, 0, 0, -1, -1, 1, 0, 0, 0], [0, 0, 0, 0, -1, -1, 1, 0, 0, 0], [0, 0, 0, 0, 0, 0, 0, 1, 0, 0], [0, 0, 0, 0, 0, 0, 0, 0, 0, 0], [0, 0, 0, 0, 0, 0, 0, 0, 0, 0], [0, 0, 0, 0, 0, 0, 0, 0, 0, 0]], ot_player = 1, ot_decision_level = 1, ot_end_game = False, ot_winner = None, ot_result = [0, 0, 0], ot_score = 0\<rparr>)\<lparr>ot_grid := update_grid (ot_grid (\<lparr>ot_grid = [[0, 0, 0, 0, 0, 0, 0, 0, 0, 0], [0, 0, 0, 1, -1, 0, 0, 0, 0, 0], [0, 0, 0, 0, 1, 0, 0, 0, 0, 0], [0, 0, 0, 0, -1, 1, 0, 0, 0, 0], [0, 0, 0, 0, -1, -1, 1, 0, 0, 0], [0, 0, 0, 0, -1, -1, 1, 0, 0, 0], [0, 0, 0, 0, 0, 0, 0, 1, 0, 0], [0, 0, 0, 0, 0, 0, 0, 0, 0, 0], [0, 0, 0, 0, 0, 0, 0, 0, 0, 0], [0, 0, 0, 0, 0, 0, 0, 0, 0, 0]], ot_player = 1, ot_decision_level = 1, ot_end_game = False, ot_winner = None, ot_result = [0, 0, 0], ot_score = 0\<rparr>)) (ot_player (\<lparr>ot_grid = [[0, 0, 0, 0, 0, 0, 0, 0, 0, 0], [0, 0, 0, 1, -1, 0, 0, 0, 0, 0], [0, 0, 0, 0, 1, 0, 0, 0, 0, 0], [0, 0, 0, 0, -1, 1, 0, 0, 0, 0], [0, 0, 0, 0, -1, -1, 1, 0, 0, 0], [0, 0, 0, 0, -1, -1, 1, 0, 0, 0], [0, 0, 0, 0, 0, 0, 0, 1, 0, 0], [0, 0, 0, 0, 0, 0, 0, 0, 0, 0], [0, 0, 0, 0, 0, 0, 0, 0, 0, 0], [0, 0, 0, 0, 0, 0, 0, 0, 0, 0]], ot_player = 1, ot_decision_level = 1, ot_end_game = False, ot_winner = None, ot_result = [0, 0, 0], ot_score = 0\<rparr>)) (1, 2)\<rparr>)
      (update_grid (ot_grid (\<lparr>ot_grid = [[0, 0, 0, 0, 0, 0, 0, 0, 0, 0], [0, 0, 0, 1, -1, 0, 0, 0, 0, 0], [0, 0, 0, 0, 1, 0, 0, 0, 0, 0], [0, 0, 0, 0, -1, 1, 0, 0, 0, 0], [0, 0, 0, 0, -1, -1, 1, 0, 0, 0], [0, 0, 0, 0, -1, -1, 1, 0, 0, 0], [0, 0, 0, 0, 0, 0, 0, 1, 0, 0], [0, 0, 0, 0, 0, 0, 0, 0, 0, 0], [0, 0, 0, 0, 0, 0, 0, 0, 0, 0], [0, 0, 0, 0, 0, 0, 0, 0, 0, 0]], ot_player = 1, ot_decision_level = 1, ot_end_game = False, ot_winner = None, ot_result = [0, 0, 0], ot_score = 0\<rparr>)) (ot_player (\<lparr>ot_grid = [[0, 0, 0, 0, 0, 0, 0, 0, 0, 0], [0, 0, 0, 1, -1, 0, 0, 0, 0, 0], [0, 0, 0, 0, 1, 0, 0, 0, 0, 0], [0, 0, 0, 0, -1, 1, 0, 0, 0, 0], [0, 0, 0, 0, -1, -1, 1, 0, 0, 0], [0, 0, 0, 0, -1, -1, 1, 0, 0, 0], [0, 0, 0, 0, 0, 0, 0, 1, 0, 0], [0, 0, 0, 0, 0, 0, 0, 0, 0, 0], [0, 0, 0, 0, 0, 0, 0, 0, 0, 0], [0, 0, 0, 0, 0, 0, 0, 0, 0, 0]], ot_player = 1, ot_decision_level = 1, ot_end_game = False, ot_winner = None, ot_result = [0, 0, 0], ot_score = 0\<rparr>)) (1, 2)))) =
    \<lparr>ot_grid = [[0, 0, 0, 0, 0, 0, 0, 0, 0, 0], [0, 0, -1, -1, -1, 0, 0, 0, 0, 0], [0, 0, 0, 0, 1, 0, 0, 0, 0, 0], [0, 0, 0, 0, -1, 1, 0, 0, 0, 0], [0, 0, 0, 0, -1, -1, 1, 0, 0, 0], [0, 0, 0, 0, -1, -1, 1, 0, 0, 0], [0, 0, 0, 0, 0, 0, 0, 1, 0, 0], [0, 0, 0, 0, 0, 0, 0, 0, 0, 0], [0, 0, 0, 0, 0, 0, 0, 0, 0, 0], [0, 0, 0, 0, 0, 0, 0, 0, 0, 0]], ot_player = 0, ot_decision_level = 1, ot_end_game = False, ot_winner = None, ot_result = [0, 0, 0], ot_score = -3\<rparr>" by code_simp
  then show ?thesis using ot_frame_click_ai [OF border_click3 _ _ border_ai3] by simp
qed

lemma border_click4:
  "ot_handle_mouse_click \<lparr>ot_grid = [[0, 0, 0, 0, 0, 0, 0, 0, 0, 0], [0, 0, -1, -1, -1, 0, 0, 0, 0, 0], [0, 0, 0, 0, 1, 0, 0, 0, 0, 0], [0, 0, 0, 0, -1, 1, 0, 0, 0, 0], [0, 0, 0, 0, -1, -1, 1, 0, 0, 0], [0, 0, 0, 0, -1, -1, 1, 0, 0, 0], [0, 0, 0, 0, 0, 0, 0, 1, 0, 0], [0, 0, 0, 0, 0, 0, 0, 0, 0, 0], [0, 0, 0, 0, 0, 0, 0, 0, 0, 0], [0, 0, 0, 0, 0, 0, 0, 0, 0, 0]], ot_player = 0, ot_decision_level = 1, ot_end_game = False, ot_winner = None, ot_result = [0, 0, 0], ot_score = -3\<rparr> 125 75 =
   \<lparr>ot_grid = [[0, 1, 0, 0, 0, 0, 0, 0, 0, 0], [0, 0, 1, -1, -1, 0, 0, 0, 0, 0], [0, 0, 0, 1, 1, 0, 0, 0, 0, 0], [0, 0, 0, 0, 1, 1, 0, 0, 0, 0], [0, 0, 0, 0, -1, 1, 1, 0, 0, 0], [0, 0, 0, 0, -1, -1, 1, 0, 0, 0], [0, 0, 0, 0, 0, 0, 0, 1, 0, 0], [0, 0, 0, 0, 0, 0, 0, 0, 1, 0], [0, 0, 0, 0, 0, 0, 0, 0, 0, 1], [1, 0, 0, 0, 0, 0, 0, 0, 0, 0]], ot_player = 1, ot_decision_level = 1, ot_end_game = False, ot_winner = None, ot_result = [0, 0, 0], ot_score = 8\<rparr>"
  by code_simp

lemma border_ai4:
  "ot_decision_tree
   \<lparr>ot_grid = [[0, 1, 0, 0, 0, 0, 0, 0, 0, 0], [0, 0, 1, -1, -1, 0, 0, 0, 0, 0], [0, 0, 0, 1, 1, 0, 0, 0, 0, 0], [0, 0, 0, 0, 1, 1, 0, 0, 0, 0], [0, 0, 0, 0, -1, 1, 1, 0, 0, 0], [0, 0, 0, 0, -1, -1, 1, 0, 0, 0], [0, 0, 0, 0, 0, 0, 0, 1, 0, 0], [0, 0, 0, 0, 0, 0, 0, 0, 1, 0], [0, 0, 0, 0, 0, 0, 0, 0, 0, 1], [1, 0, 0, 0, 0, 0, 0, 0, 0, 0]], ot_player = 1, ot_decision_level = 1, ot_end_game = False, ot_winner = None, ot_result = [0, 0, 0], ot_score = 8\<rparr>
   (1 ## 0 ## sconst 0) = Inr (Some (2, 5), sconst 0)"
proof -
  let ?s = "\<lparr>ot_grid = [[0, 1, 0, 0, 0, 0, 0, 0, 0, 0], [0, 0, 1, -1, -1, 0, 0, 0, 0, 0], [0, 0, 0, 1, 1, 0, 0, 0, 0, 0], [0, 0, 0, 0, 1, 1, 0, 0, 0, 0], [0, 0, 0, 0, -1, 1, 1, 0, 0, 0], [0, 0, 0, 0, -1, -1, 1, 0, 0, 0], [0, 0, 0, 0, 0, 0, 0, 1, 0, 0], [0, 0, 0, 0, 0, 0, 0, 0, 1, 0], [0, 0, 0, 0, 0, 0, 0, 0, 0, 1], [1, 0, 0, 0, 0, 0, 0, 0, 0, 0]], ot_player = 1, ot_decision_level = 1, ot_end_game = False, ot_winner = None, ot_result = [0, 0, 0], ot_score = 8\<rparr>"
  have sq: "square 10 (ot_grid ?s)" by code_simp
  have lvl: "ot_decision_level ?s = 1" by simp
  have vs: "get_valid_actions (ot_grid ?s) (ot_player ?s) = [(1, 1), (2, 5), (2, 6), (3, 3), (3, 6), (3, 7), (4, 7), (5, 7)]" by code_simp
  have ss: "map (move_score (ot_grid ?s) (ot_player ?s)) [(1, 1), (2, 5), (2, 6), (3, 3), (3, 6), (3, 7), (4, 7), (5, 7)] = [5, 3, 5, 5, 5, 5, 3, 5]" by code_simp
  show ?thesis unfolding ot_decision_tree_scores [OF sq lvl vs list.distinct(2) ss] by simp
qed

lemma border_frame4:
  "ot_frame \<lparr>ot_grid = [[0, 0, 0, 0, 0, 0, 0, 0, 0, 0], [0, 0, -1, -1, -1, 0, 0, 0, 0, 0], [0, 0, 0, 0, 1, 0, 0, 0, 0, 0], [0, 0, 0, 0, -1, 1, 0, 0, 0, 0], [0, 0, 0, 0, -1, -1, 1, 0, 0, 0], [0, 0, 0, 0, -1, -1, 1, 0, 0, 0], [0, 0, 0, 0, 0, 0, 0, 1, 0, 0], [0, 0, 0, 0, 0, 0, 0, 0, 0, 0], [0, 0, 0, 0, 0, 0, 0, 0, 0, 0], [0, 0, 0, 0, 0, 0, 0, 0, 0, 0]], ot_player = 0, ot_decision_level = 1, ot_end_game = False, ot_winner = None, ot_result = [0, 0, 0], ot_score = -3\<rparr> (1 ## 0 ## sconst 0) [MouseDown 125 75] =
   Inr (Some (\<lparr>ot_grid = [[0, 1, 0, 0, 0, 0, 0, 0, 0, 0], [0, 0, 1, -1, -1, 0, 0, 0, 0, 0], [0, 0, 0, 1, 1, -1, 0, 0, 0, 0], [0, 0, 0, 0, 1, -1, 0, 0, 0, 0], [0, 0, 0, 0, -1, -1, 1, 0, 0, 0], [0, 0, 0, 0, -1, -1, 1, 0, 0, 0], [0, 0, 0, 0, 0, 0, 0, 1, 0, 0], [0, 0, 0, 0, 0, 0, 0, 0, 1, 0], [0, 0, 0, 0, 0, 0, 0, 0, 0, 1], [1, 0, 0, 0, 0, 0, 0, 0, 0, 0]], ot_player = 0, ot_decision_level = 1, ot_end_game = False, ot_winner = None, ot_result = [0, 0, 0], ot_score = 3\<rparr>, sconst 0))"
proof -
  have "ot_switch_player (ot_check_end_game (ot_overwrite_grid
      ((\<lparr>ot_grid = [[0, 1, 0, 0, 0, 0, 0, 0, 0, 0], [0, 0, 1, -1, -1, 0, 0, 0, 0, 0], [0, 0, 0, 1, 1, 0, 0, 0, 0, 0], [0, 0, 0, 0, 1, 1, 0, 0, 0, 0], [0, 0, 0, 0, -1, 1, 1, 0, 0, 0], [0, 0, 0, 0, -1, -1, 1, 0, 0, 0], [0, 0, 0, 0, 0, 0, 0, 1, 0, 0], [0, 0, 0, 0, 0, 0, 0, 0, 1, 0], [0, 0, 0, 0, 0, 0, 0, 0, 0, 1], [1, 0, 0, 0, 0, 0, 0, 0, 0, 0]], ot_player = 1, ot_decision_level = 1, ot_end_game = False, ot_winner = None, ot_result = [0, 0, 0], ot_score = 8\<rparr>)\<lparr>ot_grid := update_grid (ot_grid (\<lparr>ot_grid = [[0, 1, 0, 0, 0, 0, 0, 0, 0, 0], [0, 0, 1, -1, -1, 0, 0, 0, 0, 0], [0, 0, 0, 1, 1, 0, 0, 0, 0, 0], [0, 0, 0, 0, 1, 1, 0, 0, 0, 0], [0, 0, 0, 0, -1, 1, 1, 0, 0, 0], [0, 0, 0, 0, -1, -1, 1, 0, 0, 0], [0, 0, 0, 0, 0, 0, 0, 1, 0, 0], [0, 0, 0, 0, 0, 0, 0, 0, 1, 0], [0, 0, 0, 0, 0, 0, 0, 0, 0, 1], [1, 0, 0, 0, 0, 0, 0, 0, 0, 0]], ot_player = 1, ot_decision_level = 1, ot_end_game = False, ot_winner = None, ot_result = [0, 0, 0], ot_score = 8\<rparr>)) (ot_player (\<lparr>ot_grid = [[0, 1, 0, 0, 0, 0, 0, 0, 0, 0], [0, 0, 1, -1, -1, 0, 0, 0, 0, 0], [0, 0, 0, 1, 1, 0, 0, 0, 0, 0], [0, 0, 0, 0, 1, 1, 0, 0, 0, 0], [0, 0, 0, 0, -1, 1, 1, 0, 0, 0], [0, 0, 0, 0, -1, -1, 1, 0, 0, 0], [0, 0, 0, 0, 0, 0, 0, 1, 0, 0], [0, 0, 0, 0, 0, 0, 0, 0, 1, 0], [0, 0, 0, 0, 0, 0, 0, 0, 0, 1], [1, 0, 0, 0, 0, 0, 0, 0, 0, 0]], ot_player = 1, ot_decision_level = 1, ot_end_game = False, ot_winner = None, ot_result = [0, 0, 0], ot_score = 8\<rparr>)) (2, 5)\<rparr>)
      (update_grid (ot_grid (\<lparr>ot_grid = [[0, 1, 0, 0, 0, 0, 0, 0, 0, 0], [0, 0, 1, -1, -1, 0, 0, 0, 0, 0], [0, 0, 0, 1, 1, 0, 0, 0, 0, 0], [0, 0, 0, 0, 1, 1, 0, 0, 0, 0], [0, 0, 0, 0, -1, 1, 1, 0, 0, 0], [0, 0, 0, 0, -1, -1, 1, 0, 0, 0], [0, 0, 0, 0, 0, 0, 0, 1, 0, 0], [0, 0, 0, 0, 0, 0, 0, 0, 1, 0], [0, 0, 0, 0, 0, 0, 0, 0, 0, 1], [1, 0, 0, 0, 0, 0, 0, 0, 0, 0]], ot_player = 1, ot_decision_level = 1, ot_end_game = False, ot_winner = None, ot_result = [0, 0, 0], ot_score = 8\<rparr>)) (ot_player (\<lparr>ot_grid = [[0, 1, 0, 0, 0, 0, 0, 0, 0, 0], [0, 0, 1, -1, -1, 0, 0, 0, 0, 0], [0, 0, 0, 1, 1, 0, 0, 0, 0, 0], [0, 0, 0, 0, 1, 1, 0, 0, 0, 0], [0, 0, 0, 0, -1, 1, 1, 0, 0, 0], [0, 0, 0, 0, -1, -1, 1, 0, 0, 0], [0, 0, 0, 0, 0, 0, 0, 1, 0, 0], [0, 0, 0, 0, 0, 0, 0, 0, 1, 0], [0, 0, 0, 0, 0, 0, 0, 0, 0, 1], [1, 0, 0, 0, 0, 0, 0, 0, 0, 0]], ot_player = 1, ot_decision_level = 1, ot_end_game = False, ot_winner = None, ot_result = [0, 0, 0], ot_score = 8\<rparr>)) (2, 5)))) =
    \<lparr>ot_grid = [[0, 1, 0, 0, 0, 0, 0, 0, 0, 0], [0, 0, 1, -1, -1, 0, 0, 0, 0, 0], [0, 0, 0, 1, 1, -1, 0, 0, 0, 0], [0, 0, 0, 0, 1, -1, 0, 0, 0, 0], [0, 0, 0, 0, -1, -1, 1, 0, 0, 0], [0, 0, 0, 0, -1, -1, 1, 0, 0, 0], [0, 0, 0, 0, 0, 0, 0, 1, 0, 0], [0, 0, 0, 0, 0, 0, 0, 0, 1, 0], [0, 0, 0, 0, 0, 0, 0, 0, 0, 1], [1, 0, 0, 0, 0, 0, 0, 0, 0, 0]], ot_player = 0, ot_decision_level = 1, ot_end_game = False, ot_winner = None, ot_result = [0, 0, 0], ot_score = 3\<rparr>" by code_simp
  then show ?thesis using ot_frame_click_ai [OF border_click4 _ _ border_ai4] by simp
qed

lemma border_reach:
  "ot_reach
   \<lparr>ot_grid = [[0, 1, 0, 0, 0, 0, 0, 0, 0, 0], [0, 0, 1, -1, -1, 0, 0, 0, 0, 0], [0, 0, 0, 1, 1, -1, 0, 0, 0, 0], [0, 0, 0, 0, 1, -1, 0, 0, 0, 0], [0, 0, 0, 0, -1, -1, 1, 0, 0, 0], [0, 0, 0, 0, -1, -1, 1, 0, 0, 0], [0, 0, 0, 0, 0, 0, 0, 1, 0, 0], [0, 0, 0, 0, 0, 0, 0, 0, 1, 0], [0, 0, 0, 0, 0, 0, 0, 0, 0, 1], [1, 0, 0, 0, 0, 0, 0, 0, 0, 0]], ot_player = 0, ot_decision_level = 1, ot_end_game = False, ot_winner = None, ot_result = [0, 0, 0], ot_score = 3\<rparr>
   (sconst 0)"
  by (rule ot_reach.step [OF ot_reach.step [OF ot_reach.step [OF ot_reach.step [OF ot_reach.step [OF ot_reach.start border_frame0] border_frame1] border_frame2] border_frame3] border_frame4])

subsection \<open>A move across empty cells\<close>

lemma fill_click0:
  "ot_handle_mouse_click init_othello 225 125 =
   \<lparr>ot_grid = [[0, 0, 0, 0, 0, 0, 0, 0, 0, 0], [0, 0, 0, 0, 0, 0, 0, 0, 0, 0], [0, 0, 0, 0, 0, 0, 0, 0, 0, 0], [0, 0, 0, 0, 0, 1, 0, 0, 0, 0], [0, 0, 0, 0, 1, 1, 0, 0, 0, 0], [0, 0, 0, 0, -1, 1, 0, 0, 0, 0], [0, 0, 0, 0, 0, 0, 0, 0, 0, 0], [0, 0, 0, 0, 0, 0, 0, 0, 0, 0], [0, 0, 0, 0, 0, 0, 0, 0, 0, 0], [0, 0, 0, 0, 0, 0, 0, 0, 0, 0]], ot_player = 1, ot_decision_level = 1, ot_end_game = False, ot_winner = None, ot_result = [0, 0, 0], ot_score = 3\<rparr>"
  by code_simp

lemma fill_ai0:
  "ot_decision_tree
   \<lparr>ot_grid = [[0, 0, 0, 0, 0, 0, 0, 0, 0, 0], [0, 0, 0, 0, 0, 0, 0, 0, 0, 0], [0, 0, 0, 0, 0, 0, 0, 0, 0, 0], [0, 0, 0, 0, 0, 1, 0, 0, 0, 0], [0, 0, 0, 0, 1, 1, 0, 0, 0, 0], [0, 0, 0, 0, -1, 1, 0, 0, 0, 0], [0, 0, 0, 0, 0, 0, 0, 0, 0, 0], [0, 0, 0, 0, 0, 0, 0, 0, 0, 0], [0, 0, 0, 0, 0, 0, 0, 0, 0, 0], [0, 0, 0, 0, 0, 0, 0, 0, 0, 0]], ot_player = 1, ot_decision_level = 1, ot_end_game = False, ot_winner = None, ot_result = [0, 0, 0], ot_score = 3\<rparr>
   (0 ## 1 ## sconst 0) = Inr (Some (3, 4), 1 ## sconst 0)"
proof -
  let ?s = "\<lparr>ot_grid = [[0, 0, 0, 0, 0, 0, 0, 0, 0, 0], [0, 0, 0, 0, 0, 0, 0, 0, 0, 0], [0, 0, 0, 0, 0, 0, 0, 0, 0, 0], [0, 0, 0, 0, 0, 1, 0, 0, 0, 0], [0, 0, 0, 0, 1, 1, 0, 0, 0, 0], [0, 0, 0, 0, -1, 1, 0, 0, 0, 0], [0, 0, 0, 0, 0, 0, 0, 0, 0, 0], [0, 0, 0, 0, 0, 0, 0, 0, 0, 0], [0, 0, 0, 0, 0, 0, 0, 0, 0, 0], [0, 0, 0, 0, 0, 0, 0, 0, 0, 0]], ot_player = 1, ot_decision_level = 1, ot_end_game = False, ot_winner = None, ot_result = [0, 0, 0], ot_score = 3\<rparr>"
  have sq: "square 10 (ot_grid ?s)" by code_simp
  have lvl: "ot_decision_level ?s = 1" by simp
  have vs: "get_valid_actions (ot_grid ?s) (ot_player ?s) = [(3, 4), (3, 6), (5, 6)]" by code_simp
  have ss: "map (move_score (ot_grid ?s) (ot_player ?s)) [(3, 4), (3, 6), (5, 6)] = [0, 0, 0]" by code_simp
  show ?thesis unfolding ot_decision_tree_scores [OF sq lvl vs list.distinct(2) ss] by simp
qed

lemma fill_frame0:
  "ot_frame init_othello (0 ## 1 ## sconst 0) [MouseDown 225 125] =
   Inr (Some (\<lparr>ot_grid = [[0, 0, 0, 0, 0, 0, 0, 0, 0, 0], [0, 0, 0, 0, 0, 0, 0, 0, 0, 0], [0, 0, 0, 0, 0, 0, 0, 0, 0, 0], [0, 0, 0, 0, -1, 1, 0, 0, 0, 0], [0, 0, 0, 0, -1, 1, 0, 0, 0, 0], [0, 0, 0, 0, -1, 1, 0, 0, 0, 0], [0, 0, 0, 0, 0, 0, 0, 0, 0, 0], [0, 0, 0, 0, 0, 0, 0, 0, 0, 0], [0, 0, 0, 0, 0, 0, 0, 0, 0, 0], [0, 0, 0, 0, 0, 0, 0, 0, 0, 0]], ot_player = 0, ot_decision_level = 1, ot_end_game = False, ot_winner = None, ot_result = [0, 0, 0], ot_score = 0\<rparr>, 1 ## sconst 0))"
proof -
  have "ot_switch_player (ot_check_end_game (ot_overwrite_grid
      ((\<lparr>ot_grid = [[0, 0, 0, 0, 0, 0, 0, 0, 0, 0], [0, 0, 0, 0, 0, 0, 0, 0, 0, 0], [0, 0, 0, 0, 0, 0, 0, 0, 0, 0], [0, 0, 0, 0, 0, 1, 0, 0, 0, 0], [0, 0, 0, 0, 1, 1, 0, 0, 0, 0], [0, 0, 0, 0, -1, 1, 0, 0, 0, 0], [0, 0, 0, 0, 0, 0, 0, 0, 0, 0], [0, 0, 0, 0, 0, 0, 0, 0, 0, 0], [0, 0, 0, 0, 0, 0, 0, 0, 0, 0], [0, 0, 0, 0, 0, 0, 0, 0, 0, 0]], ot_player = 1, ot_decision_level = 1, ot_end_game = False, ot_winner = None, ot_result = [0, 0, 0], ot_score = 3\<rparr>)\<lparr>ot_grid := update_grid (ot_grid (\<lparr>ot_grid = [[0, 0, 0, 0, 0, 0, 0, 0, 0, 0], [0, 0, 0, 0, 0, 0, 0, 0, 0, 0], [0, 0, 0, 0, 0, 0, 0, 0, 0, 0], [0, 0, 0, 0, 0, 1, 0, 0, 0, 0], [0, 0, 0, 0, 1, 1, 0, 0, 0, 0], [0, 0, 0, 0, -1, 1, 0, 0, 0, 0], [0, 0, 0, 0, 0, 0, 0, 0, 0, 0], [0, 0, 0, 0, 0, 0, 0, 0, 0, 0], [0, 0, 0, 0, 0, 0, 0, 0, 0, 0], [0, 0, 0, 0, 0, 0, 0, 0, 0, 0]], ot_player = 1, ot_decision_level = 1, ot_end_game = False, ot_winner = None, ot_result = [0, 0, 0], ot_score = 3\<rparr>)) (ot_player (\<lparr>ot_grid = [[0, 0, 0, 0, 0, 0, 0, 0, 0, 0], [0, 0, 0, 0, 0, 0, 0, 0, 0, 0], [0, 0, 0, 0, 0, 0, 0, 0, 0, 0], [0, 0, 0, 0, 0, 1, 0, 0, 0, 0], [0, 0, 0, 0, 1, 1, 0, 0, 0, 0], [0, 0, 0, 0, -1, 1, 0, 0, 0, 0], [0, 0, 0, 0, 0, 0, 0, 0, 0, 0], [0, 0, 0, 0, 0, 0, 0, 0, 0, 0], [0, 0, 0, 0, 0, 0, 0, 0, 0, 0], [0, 0, 0, 0, 0, 0, 0, 0, 0, 0]], ot_player = 1, ot_decision_level = 1, ot_end_game = False, ot_winner = None, ot_result = [0, 0, 0], ot_score = 3\<rparr>)) (3, 4)\<rparr>)
      (update_grid (ot_grid (\<lparr>ot_grid = [[0, 0, 0, 0, 0, 0, 0, 0, 0, 0], [0, 0, 0, 0, 0, 0, 0, 0, 0, 0], [0, 0, 0, 0, 0, 0, 0, 0, 0, 0], [0, 0, 0, 0, 0, 1, 0, 0, 0, 0], [0, 0, 0, 0, 1, 1, 0, 0, 0, 0], [0, 0, 0, 0, -1, 1, 0, 0, 0, 0], [0, 0, 0, 0, 0, 0, 0, 0, 0, 0], [0, 0, 0, 0, 0, 0, 0, 0, 0, 0], [0, 0, 0, 0, 0, 0, 0, 0, 0, 0], [0, 0, 0, 0, 0, 0, 0, 0, 0, 0]], ot_player = 1, ot_decision_level = 1, ot_end_game = False, ot_winner = None, ot_result = [0, 0, 0], ot_score = 3\<rparr>)) (ot_player (\<lparr>ot_grid = [[0, 0, 0, 0, 0, 0, 0, 0, 0, 0], [0, 0, 0, 0, 0, 0, 0, 0, 0, 0], [0, 0, 0, 0, 0, 0, 0, 0, 0, 0], [0, 0, 0, 0, 0, 1, 0, 0, 0, 0], [0, 0, 0, 0, 1, 1, 0, 0, 0, 0], [0, 0, 0, 0, -1, 1, 0, 0, 0, 0], [0, 0, 0, 0, 0, 0, 0, 0, 0, 0], [0, 0, 0, 0, 0, 0, 0, 0, 0, 0], [0, 0, 0, 0, 0, 0, 0, 0, 0, 0], [0, 0, 0, 0, 0, 0, 0, 0, 0, 0]], ot_player = 1, ot_decision_level = 1, ot_end_game = False, ot_winner = None, ot_result = [0, 0, 0], ot_score = 3\<rparr>)) (3, 4)))) =
    \<lparr>ot_grid = [[0, 0, 0, 0, 0, 0, 0, 0, 0, 0], [0, 0, 0, 0, 0, 0, 0, 0, 0, 0], [0, 0, 0, 0, 0, 0, 0, 0, 0, 0], [0, 0, 0, 0, -1, 1, 0, 0, 0, 0], [0, 0, 0, 0, -1, 1, 0, 0, 0, 0], [0, 0, 0, 0, -1, 1, 0, 0, 0, 0], [0, 0, 0, 0, 0, 0, 0, 0, 0, 0], [0, 0, 0, 0, 0, 0, 0, 0, 0, 0], [0, 0, 0, 0, 0, 0, 0, 0, 0, 0], [0, 0, 0, 0, 0, 0, 0, 0, 0, 0]], ot_player = 0, ot_decision_level = 1, ot_end_game = False, ot_winner = None, ot_result = [0, 0, 0], ot_score = 0\<rparr>" by code_simp
  then show ?thesis using ot_frame_click_ai [OF fill_click0 _ _ fill_ai0] by simp
qed

lemma fill_click1:
  "ot_handle_mouse_click \<lparr>ot_grid = [[0, 0, 0, 0, 0, 0, 0, 0, 0, 0], [0, 0, 0, 0, 0, 0, 0, 0, 0, 0], [0, 0, 0, 0, 0, 0, 0, 0, 0, 0], [0, 0, 0, 0, -1, 1, 0, 0, 0, 0], [0, 0, 0, 0, -1, 1, 0, 0, 0, 0], [0, 0, 0, 0, -1, 1, 0, 0, 0, 0], [0, 0, 0, 0, 0, 0, 0, 0, 0, 0], [0, 0, 0, 0, 0, 0, 0, 0, 0, 0], [0, 0, 0, 0, 0, 0, 0, 0, 0, 0], [0, 0, 0, 0, 0, 0, 0, 0, 0, 0]], ot_player = 0, ot_decision_level = 1, ot_end_game = False, ot_winner = None, ot_result = [0, 0, 0], ot_score = 0\<rparr> 125 75 =
   \<lparr>ot_grid = [[0, 0, 0, 0, 0, 0, 0, 0, 0, 0], [0, 0, 0, 0, 0, 0, 0, 0, 0, 0], [0, 0, 0, 1, 0, 0, 0, 0, 0, 0], [0, 0, 0, 0, 1, 1, 0, 0, 0, 0], [0, 0, 0, 0, -1, 1, 0, 0, 0, 0], [0, 0, 0, 0, -1, 1, 0, 0, 0, 0], [0, 0, 0, 0, 0, 0, 0, 0, 0, 0], [0, 0, 0, 0, 0, 0, 0, 0, 0, 0], [0, 0, 0, 0, 0, 0, 0, 0, 0, 0], [0, 0, 0, 0, 0, 0, 0, 0, 0, 0]], ot_player = 1, ot_decision_level = 1, ot_end_game = False, ot_winner = None, ot_result = [0, 0, 0], ot_score = 3\<rparr>"
  by code_simp

lemma fill_ai1:
  "ot_decision_tree
   \<lparr>ot_grid = [[0, 0, 0, 0, 0, 0, 0, 0, 0, 0], [0, 0, 0, 0, 0, 0, 0, 0, 0, 0], [0, 0, 0, 1, 0, 0, 0, 0, 0, 0], [0, 0, 0, 0, 1, 1, 0, 0, 0, 0], [0, 0, 0, 0, -1, 1, 0, 0, 0, 0], [0, 0, 0, 0, -1, 1, 0, 0, 0, 0], [0, 0, 0, 0, 0, 0, 0, 0, 0, 0], [0, 0, 0, 0, 0, 0, 0, 0, 0, 0], [0, 0, 0, 0, 0, 0, 0, 0, 0, 0], [0, 0, 0, 0, 0, 0, 0, 0, 0, 0]], ot_player = 1, ot_decision_level = 1, ot_end_game = False, ot_winner = None, ot_result = [0, 0, 0], ot_score = 3\<rparr>
   (1 ## sconst 0) = Inr (Some (2, 6), sconst 0)"
proof -
  let ?s = "\<lparr>ot_grid = [[0, 0, 0, 0, 0, 0, 0, 0, 0, 0], [0, 0, 0, 0, 0, 0, 0, 0, 0, 0], [0, 0, 0, 1, 0, 0, 0, 0, 0, 0], [0, 0, 0, 0, 1, 1, 0, 0, 0, 0], [0, 0, 0, 0, -1, 1, 0, 0, 0, 0], [0, 0, 0, 0, -1, 1, 0, 0, 0, 0], [0, 0, 0, 0, 0, 0, 0, 0, 0, 0], [0, 0, 0, 0, 0, 0, 0, 0, 0, 0], [0, 0, 0, 0, 0, 0, 0, 0, 0, 0], [0, 0, 0, 0, 0, 0, 0, 0, 0, 0]], ot_player = 1, ot_decision_level = 1, ot_end_game = False, ot_winner = None, ot_result = [0, 0, 0], ot_score = 3\<rparr>"
  have sq: "square 10 (ot_grid ?s)" by code_simp
  have lvl: "ot_decision_level ?s = 1" by simp
  have vs: "get_valid_actions (ot_grid ?s) (ot_player ?s) = [(2, 4), (2, 6), (3, 6), (4, 6), (5, 6), (6, 6)]" by code_simp
  have ss: "map (move_score (ot_grid ?s) (ot_player ?s)) [(2, 4), (2, 6), (3, 6), (4, 6), (5, 6), (6, 6)] = [0, 0, 0, 0, 0, 0]" by code_simp
  show ?thesis unfolding ot_decision_tree_scores [OF sq lvl vs list.distinct(2) ss] by simp
qed

lemma fill_frame1:
  "ot_frame \<lparr>ot_grid = [[0, 0, 0, 0, 0, 0, 0, 0, 0, 0], [0, 0, 0, 0, 0, 0, 0, 0, 0, 0], [0, 0, 0, 0, 0, 0, 0, 0, 0, 0], [0, 0, 0, 0, -1, 1, 0, 0, 0, 0], [0, 0, 0, 0, -1, 1, 0, 0, 0, 0], [0, 0, 0, 0, -1, 1, 0, 0, 0, 0], [0, 0, 0, 0, 0, 0, 0, 0, 0, 0], [0, 0, 0, 0, 0, 0, 0, 0, 0, 0], [0, 0, 0, 0, 0, 0, 0, 0, 0, 0], [0, 0, 0, 0, 0, 0, 0, 0, 0, 0]], ot_player = 0, ot_decision_level = 1, ot_end_game = False, ot_winner = None, ot_result = [0, 0, 0], ot_score = 0\<rparr> (1 ## sconst 0) [MouseDown 125 75] =
   Inr (Some (\<lparr>ot_grid = [[0, 0, 0, 0, 0, 0, 0, 0, 0, 0], [0, 0, 0, 0, 0, 0, 0, 0, 0, 0], [0, 0, 0, 1, 0, 0, -1, 0, 0, 0], [0, 0, 0, 0, 1, -1, 0, 0, 0, 0], [0, 0, 0, 0, -1, 1, 0, 0, 0, 0], [0, 0, 0, 0, -1, 1, 0, 0, 0, 0], [0, 0, 0, 0, 0, 0, 0, 0, 0, 0], [0, 0, 0, 0, 0, 0, 0, 0, 0, 0], [0, 0, 0, 0, 0, 0, 0, 0, 0, 0], [0, 0, 0, 0, 0, 0, 0, 0, 0, 0]], ot_player = 0, ot_decision_level = 1, ot_end_game = False, ot_winner = None, ot_result = [0, 0, 0], ot_score = 0\<rparr>, sconst 0))"
proof -
  have "ot_switch_player (ot_check_end_game (ot_overwrite_grid
      ((\<lparr>ot_grid = [[0, 0, 0, 0, 0, 0, 0, 0, 0, 0], [0, 0, 0, 0, 0, 0, 0, 0, 0, 0], [0, 0, 0, 1, 0, 0, 0, 0, 0, 0], [0, 0, 0, 0, 1, 1, 0, 0, 0, 0], [0, 0, 0, 0, -1, 1, 0, 0, 0, 0], [0, 0, 0, 0, -1, 1, 0, 0, 0, 0], [0, 0, 0, 0, 0, 0, 0, 0, 0, 0], [0, 0, 0, 0, 0, 0, 0, 0, 0, 0], [0, 0, 0, 0, 0, 0, 0, 0, 0, 0], [0, 0, 0, 0, 0, 0, 0, 0, 0, 0]], ot_player = 1, ot_decision_level = 1, ot_end_game = False, ot_winner = None, ot_result = [0, 0, 0], ot_score = 3\<rparr>)\<lparr>ot_grid := update_grid (ot_grid (\<lparr>ot_grid = [[0, 0, 0, 0, 0, 0, 0, 0, 0, 0], [0, 0, 0, 0, 0, 0, 0, 0, 0, 0], [0, 0, 0, 1, 0, 0, 0, 0, 0, 0], [0, 0, 0, 0, 1, 1, 0, 0, 0, 0], [0, 0, 0, 0, -1, 1, 0, 0, 0, 0], [0, 0, 0, 0, -1, 1, 0, 0, 0, 0], [0, 0, 0, 0, 0, 0, 0, 0, 0, 0], [0, 0, 0, 0, 0, 0, 0, 0, 0, 0], [0, 0, 0, 0, 0, 0, 0, 0, 0, 0], [0, 0, 0, 0, 0, 0, 0, 0, 0, 0]], ot_player = 1, ot_decision_level = 1, ot_end_game = False, ot_winner = None, ot_result = [0, 0, 0], ot_score = 3\<rparr>)) (ot_player (\<lparr>ot_grid = [[0, 0, 0, 0, 0, 0, 0, 0, 0, 0], [0, 0, 0, 0, 0, 0, 0, 0, 0, 0], [0, 0, 0, 1, 0, 0, 0, 0, 0, 0], [0, 0, 0, 0, 1, 1, 0, 0, 0, 0], [0, 0, 0, 0, -1, 1, 0, 0, 0, 0], [0, 0, 0, 0, -1, 1, 0, 0, 0, 0], [0, 0, 0, 0, 0, 0, 0, 0, 0, 0], [0, 0, 0, 0, 0, 0, 0, 0, 0, 0], [0, 0, 0, 0, 0, 0, 0, 0, 0, 0], [0, 0, 0, 0, 0, 0, 0, 0, 0, 0]], ot_player = 1, ot_decision_level = 1, ot_end_game = False, ot_winner = None, ot_result = [0, 0, 0], ot_score = 3\<rparr>)) (2, 6)\<rparr>)
      (update_grid (ot_grid (\<lparr>ot_grid = [[0, 0, 0, 0, 0, 0, 0, 0, 0, 0], [0, 0, 0, 0, 0, 0, 0, 0, 0, 0], [0, 0, 0, 1, 0, 0, 0, 0, 0, 0], [0, 0, 0, 0, 1, 1, 0, 0, 0, 0], [0, 0, 0, 0, -1, 1, 0, 0, 0, 0], [0, 0, 0, 0, -1, 1, 0, 0, 0, 0], [0, 0, 0, 0, 0, 0, 0, 0, 0, 0], [0, 0, 0, 0, 0, 0, 0, 0, 0, 0], [0, 0, 0, 0, 0, 0, 0, 0, 0, 0], [0, 0, 0, 0, 0, 0, 0, 0, 0, 0]], ot_player = 1, ot_decision_level = 1, ot_end_game = False, ot_winner = None, ot_result = [0, 0, 0], ot_score = 3\<rparr>)) (ot_player (\<lparr>ot_grid = [[0, 0, 0, 0, 0, 0, 0, 0, 0, 0], [0, 0, 0, 0, 0, 0, 0, 0, 0, 0], [0, 0, 0, 1, 0, 0, 0, 0, 0, 0], [0, 0, 0, 0, 1, 1, 0, 0, 0, 0], [0, 0, 0, 0, -1, 1, 0, 0, 0, 0], [0, 0, 0, 0, -1, 1, 0, 0, 0, 0], [0, 0, 0, 0, 0, 0, 0, 0, 0, 0], [0, 0, 0, 0, 0, 0, 0, 0, 0, 0], [0, 0, 0, 0, 0, 0, 0, 0, 0, 0], [0, 0, 0, 0, 0, 0, 0, 0, 0, 0]], ot_player = 1, ot_decision_level = 1, ot_end_game = False, ot_winner = None, ot_result = [0, 0, 0], ot_score = 3\<rparr>)) (2, 6)))) =
    \<lparr>ot_grid = [[0, 0, 0, 0, 0, 0, 0, 0, 0, 0], [0, 0, 0, 0, 0, 0, 0, 0, 0, 0], [0, 0, 0, 1, 0, 0, -1, 0, 0, 0], [0, 0, 0, 0, 1, -1, 0, 0, 0, 0], [0, 0, 0, 0, -1, 1, 0, 0, 0, 0], [0, 0, 0, 0, -1, 1, 0, 0, 0, 0], [0, 0, 0, 0, 0, 0, 0, 0, 0, 0], [0, 0, 0, 0, 0, 0, 0, 0, 0, 0], [0, 0, 0, 0, 0, 0, 0, 0, 0, 0], [0, 0, 0, 0, 0, 0, 0, 0, 0, 0]], ot_player = 0, ot_decision_level = 1, ot_end_game = False, ot_winner = None, ot_result = [0, 0, 0], ot_score = 0\<rparr>" by code_simp
  then show ?thesis using ot_frame_click_ai [OF fill_click1 _ _ fill_ai1] by simp
qed

lemma fill_reach:
  "ot_reach
   \<lparr>ot_grid = [[0, 0, 0, 0, 0, 0, 0, 0, 0, 0], [0, 0, 0, 0, 0, 0, 0, 0, 0, 0], [0, 0, 0, 1, 0, 0, -1, 0, 0, 0], [0, 0, 0, 0, 1, -1, 0, 0, 0, 0], [0, 0, 0, 0, -1, 1, 0, 0, 0, 0], [0, 0, 0, 0, -1, 1, 0, 0, 0, 0], [0, 0, 0, 0, 0, 0, 0, 0, 0, 0], [0, 0, 0, 0, 0, 0, 0, 0, 0, 0], [0, 0, 0, 0, 0, 0, 0, 0, 0, 0], [0, 0, 0, 0, 0, 0, 0, 0, 0, 0]], ot_player = 0, ot_decision_level = 1, ot_end_game = False, ot_winner = None, ot_result = [0, 0, 0], ot_score = 0\<rparr>
   (sconst 0)"
  by (rule ot_reach.step [OF ot_reach.step [OF ot_reach.start fill_frame0] fill_frame1])

subsection \<open>Properties\<close>

text \<open>
  C5: a session can crash: after five clicks of the human and four replies of the AI,
  all of them moves the program accepts, the AI has no disc and no valid action left,
  and the next frame raises \<open>IndexError\<close>.
\<close>

theorem ot_session_can_crash: "\<exists>s rs es. ot_reach s rs \<and> ot_frame s rs es = Inl IndexError"
  using wipe_reach ot_frame_click_crash [OF wipe_click4 _ _ wipe_stuck] by auto

theorem ot_frame_error_witness:
  "ot_inv (\<lparr>ot_grid = [[0, 0, 0, 0, 0, 0, 0, 0, 0, 0], [0, 0, 0, 0, 0, 0, 0, 0, 0, 0], [0, 0, 0, 0, 0, -1, 0, 0, 0, 0], [0, 0, 0, 0, 0, -1, 1, 1, 0, 0], [0, 0, 0, 0, 1, -1, 1, 1, 0, 0], [0, 0, 0, 0, 1, 1, 1, 1, 0, 0], [0, 0, 0, 0, 1, 0, 0, 0, 0, 0], [0, 0, 0, 0, 0, 0, 0, 0, 0, 0], [0, 0, 0, 0, 0, 0, 0, 0, 0, 0], [0, 0, 0, 0, 0, 0, 0, 0, 0, 0]], ot_player = 0, ot_decision_level = 1, ot_end_game = False, ot_winner = None, ot_result = [0, 0, 0], ot_score = 7\<rparr>) \<and> ot_frame (\<lparr>ot_grid = [[0, 0, 0, 0, 0, 0, 0, 0, 0, 0], [0, 0, 0, 0, 0, 0, 0, 0, 0, 0], [0, 0, 0, 0, 0, -1, 0, 0, 0, 0], [0, 0, 0, 0, 0, -1, 1, 1, 0, 0], [0, 0, 0, 0, 1, -1, 1, 1, 0, 0], [0, 0, 0, 0, 1, 1, 1, 1, 0, 0], [0, 0, 0, 0, 1, 0, 0, 0, 0, 0], [0, 0, 0, 0, 0, 0, 0, 0, 0, 0], [0, 0, 0, 0, 0, 0, 0, 0, 0, 0], [0, 0, 0, 0, 0, 0, 0, 0, 0, 0]], ot_player = 0, ot_decision_level = 1, ot_end_game = False, ot_winner = None, ot_result = [0, 0, 0], ot_score = 7\<rparr>) (sconst 0) [MouseDown 225 25] = Inl IndexError"
proof -
  have inv: "ot_inv (\<lparr>ot_grid = [[0, 0, 0, 0, 0, 0, 0, 0, 0, 0], [0, 0, 0, 0, 0, 0, 0, 0, 0, 0], [0, 0, 0, 0, 0, -1, 0, 0, 0, 0], [0, 0, 0, 0, 0, -1, 1, 1, 0, 0], [0, 0, 0, 0, 1, -1, 1, 1, 0, 0], [0, 0, 0, 0, 1, 1, 1, 1, 0, 0], [0, 0, 0, 0, 1, 0, 0, 0, 0, 0], [0, 0, 0, 0, 0, 0, 0, 0, 0, 0], [0, 0, 0, 0, 0, 0, 0, 0, 0, 0], [0, 0, 0, 0, 0, 0, 0, 0, 0, 0]], ot_player = 0, ot_decision_level = 1, ot_end_game = False, ot_winner = None, ot_result = [0, 0, 0], ot_score = 7\<rparr>)" by (rule ot_reach_inv [OF wipe_reach])
  have vs: "get_valid_actions (ot_grid (\<lparr>ot_grid = [[0, 0, 0, 0, 0, 0, 0, 0, 0, 0], [0, 0, 0, 0, 0, 1, 0, 0, 0, 0], [0, 0, 0, 0, 0, 1, 0, 0, 0, 0], [0, 0, 0, 0, 0, 1, 1, 1, 0, 0], [0, 0, 0, 0, 1, 1, 1, 1, 0, 0], [0, 0, 0, 0, 1, 1, 1, 1, 0, 0], [0, 0, 0, 0, 1, 0, 0, 0, 0, 0], [0, 0, 0, 0, 0, 0, 0, 0, 0, 0], [0, 0, 0, 0, 0, 0, 0, 0, 0, 0], [0, 0, 0, 0, 0, 0, 0, 0, 0, 0]], ot_player = 1, ot_decision_level = 1, ot_end_game = False, ot_winner = None, ot_result = [0, 0, 0], ot_score = 14\<rparr>)) 1 = []" by code_simp
  have "ot_run_events (\<lparr>ot_grid = [[0, 0, 0, 0, 0, 0, 0, 0, 0, 0], [0, 0, 0, 0, 0, 0, 0, 0, 0, 0], [0, 0, 0, 0, 0, -1, 0, 0, 0, 0], [0, 0, 0, 0, 0, -1, 1, 1, 0, 0], [0, 0, 0, 0, 1, -1, 1, 1, 0, 0], [0, 0, 0, 0, 1, 1, 1, 1, 0, 0], [0, 0, 0, 0, 1, 0, 0, 0, 0, 0], [0, 0, 0, 0, 0, 0, 0, 0, 0, 0], [0, 0, 0, 0, 0, 0, 0, 0, 0, 0], [0, 0, 0, 0, 0, 0, 0, 0, 0, 0]], ot_player = 0, ot_decision_level = 1, ot_end_game = False, ot_winner = None, ot_result = [0, 0, 0], ot_score = 7\<rparr>) [MouseDown 225 25] = Some (\<lparr>ot_grid = [[0, 0, 0, 0, 0, 0, 0, 0, 0, 0], [0, 0, 0, 0, 0, 1, 0, 0, 0, 0], [0, 0, 0, 0, 0, 1, 0, 0, 0, 0], [0, 0, 0, 0, 0, 1, 1, 1, 0, 0], [0, 0, 0, 0, 1, 1, 1, 1, 0, 0], [0, 0, 0, 0, 1, 1, 1, 1, 0, 0], [0, 0, 0, 0, 1, 0, 0, 0, 0, 0], [0, 0, 0, 0, 0, 0, 0, 0, 0, 0], [0, 0, 0, 0, 0, 0, 0, 0, 0, 0], [0, 0, 0, 0, 0, 0, 0, 0, 0, 0]], ot_player = 1, ot_decision_level = 1, ot_end_game = False, ot_winner = None, ot_result = [0, 0, 0], ot_score = 14\<rparr>)" by (simp only: ot_run_events.simps wipe_click4)
  then show ?thesis using ot_frame_error [OF inv, of "sconst 0" "[MouseDown 225 25]" IndexError] inv vs by auto
qed

text \<open>
  C12: the score the app shows (\<open>"You: {}"\<close>) is not the disc differential of the
  board it draws: a reachable session paints border cells through the up-left scan of
  \<open>update_grid\<close>, whose bound \<open>min(10-i, 10-j)\<close> runs into negative indices;
  \<open>check_score\<close> counts them and \<open>draw_game_board\<close> does not show them.
\<close>

theorem ot_shown_score_differs:
  "\<exists>s rs. ot_reach s rs \<and> list_ex (\<lambda>(i, j). ot_grid s ! i ! j \<noteq> 0) border_cells \<and>
          ot_score s \<noteq> drawn_diff (ot_draw_game_board s)"
proof -
  have "list_ex (\<lambda>(i, j). ot_grid (\<lparr>ot_grid = [[0, 1, 0, 0, 0, 0, 0, 0, 0, 0], [0, 0, 1, -1, -1, 0, 0, 0, 0, 0], [0, 0, 0, 1, 1, -1, 0, 0, 0, 0], [0, 0, 0, 0, 1, -1, 0, 0, 0, 0], [0, 0, 0, 0, -1, -1, 1, 0, 0, 0], [0, 0, 0, 0, -1, -1, 1, 0, 0, 0], [0, 0, 0, 0, 0, 0, 0, 1, 0, 0], [0, 0, 0, 0, 0, 0, 0, 0, 1, 0], [0, 0, 0, 0, 0, 0, 0, 0, 0, 1], [1, 0, 0, 0, 0, 0, 0, 0, 0, 0]], ot_player = 0, ot_decision_level = 1, ot_end_game = False, ot_winner = None, ot_result = [0, 0, 0], ot_score = 3\<rparr>) ! i ! j \<noteq> 0) border_cells \<and> ot_score (\<lparr>ot_grid = [[0, 1, 0, 0, 0, 0, 0, 0, 0, 0], [0, 0, 1, -1, -1, 0, 0, 0, 0, 0], [0, 0, 0, 1, 1, -1, 0, 0, 0, 0], [0, 0, 0, 0, 1, -1, 0, 0, 0, 0], [0, 0, 0, 0, -1, -1, 1, 0, 0, 0], [0, 0, 0, 0, -1, -1, 1, 0, 0, 0], [0, 0, 0, 0, 0, 0, 0, 1, 0, 0], [0, 0, 0, 0, 0, 0, 0, 0, 1, 0], [0, 0, 0, 0, 0, 0, 0, 0, 0, 1], [1, 0, 0, 0, 0, 0, 0, 0, 0, 0]], ot_player = 0, ot_decision_level = 1, ot_end_game = False, ot_winner = None, ot_result = [0, 0, 0], ot_score = 3\<rparr>) \<noteq> drawn_diff (ot_draw_game_board (\<lparr>ot_grid = [[0, 1, 0, 0, 0, 0, 0, 0, 0, 0], [0, 0, 1, -1, -1, 0, 0, 0, 0, 0], [0, 0, 0, 1, 1, -1, 0, 0, 0, 0], [0, 0, 0, 0, 1, -1, 0, 0, 0, 0], [0, 0, 0, 0, -1, -1, 1, 0, 0, 0], [0, 0, 0, 0, -1, -1, 1, 0, 0, 0], [0, 0, 0, 0, 0, 0, 0, 1, 0, 0], [0, 0, 0, 0, 0, 0, 0, 0, 1, 0], [0, 0, 0, 0, 0, 0, 0, 0, 0, 1], [1, 0, 0, 0, 0, 0, 0, 0, 0, 0]], ot_player = 0, ot_decision_level = 1, ot_end_game = False, ot_winner = None, ot_result = [0, 0, 0], ot_score = 3\<rparr>))"
    by code_simp
  then show ?thesis using border_reach by blast
qed

text \<open>
  C13: a reachable board on which the human's click at row 2, column 7 is accepted by
  \<open>is_valid_action\<close> although the spec's rule forbids it: the scan to the left jumps
  over two empty cells to the human's disc at column 3.
\<close>

theorem ot_reachable_nonstandard_move:
  "\<exists>s rs. ot_reach s rs \<and> \<not> ot_end_game s \<and> ot_player s = 0 \<and>
          is_valid_action (ot_grid s) 0 (2, 7) \<and> \<not> othello_legal (ot_grid s) 0 (2, 7)"
proof -
  have "\<not> ot_end_game (\<lparr>ot_grid = [[0, 0, 0, 0, 0, 0, 0, 0, 0, 0], [0, 0, 0, 0, 0, 0, 0, 0, 0, 0], [0, 0, 0, 1, 0, 0, -1, 0, 0, 0], [0, 0, 0, 0, 1, -1, 0, 0, 0, 0], [0, 0, 0, 0, -1, 1, 0, 0, 0, 0], [0, 0, 0, 0, -1, 1, 0, 0, 0, 0], [0, 0, 0, 0, 0, 0, 0, 0, 0, 0], [0, 0, 0, 0, 0, 0, 0, 0, 0, 0], [0, 0, 0, 0, 0, 0, 0, 0, 0, 0], [0, 0, 0, 0, 0, 0, 0, 0, 0, 0]], ot_player = 0, ot_decision_level = 1, ot_end_game = False, ot_winner = None, ot_result = [0, 0, 0], ot_score = 0\<rparr>) \<and> ot_player (\<lparr>ot_grid = [[0, 0, 0, 0, 0, 0, 0, 0, 0, 0], [0, 0, 0, 0, 0, 0, 0, 0, 0, 0], [0, 0, 0, 1, 0, 0, -1, 0, 0, 0], [0, 0, 0, 0, 1, -1, 0, 0, 0, 0], [0, 0, 0, 0, -1, 1, 0, 0, 0, 0], [0, 0, 0, 0, -1, 1, 0, 0, 0, 0], [0, 0, 0, 0, 0, 0, 0, 0, 0, 0], [0, 0, 0, 0, 0, 0, 0, 0, 0, 0], [0, 0, 0, 0, 0, 0, 0, 0, 0, 0], [0, 0, 0, 0, 0, 0, 0, 0, 0, 0]], ot_player = 0, ot_decision_level = 1, ot_end_game = False, ot_winner = None, ot_result = [0, 0, 0], ot_score = 0\<rparr>) = 0 \<and> is_valid_action (ot_grid (\<lparr>ot_grid = [[0, 0, 0, 0, 0, 0, 0, 0, 0, 0], [0, 0, 0, 0, 0, 0, 0, 0, 0, 0], [0, 0, 0, 1, 0, 0, -1, 0, 0, 0], [0, 0, 0, 0, 1, -1, 0, 0, 0, 0], [0, 0, 0, 0, -1, 1, 0, 0, 0, 0], [0, 0, 0, 0, -1, 1, 0, 0, 0, 0], [0, 0, 0, 0, 0, 0, 0, 0, 0, 0], [0, 0, 0, 0, 0, 0, 0, 0, 0, 0], [0, 0, 0, 0, 0, 0, 0, 0, 0, 0], [0, 0, 0, 0, 0, 0, 0, 0, 0, 0]], ot_player = 0, ot_decision_level = 1, ot_end_game = False, ot_winner = None, ot_result = [0, 0, 0], ot_score = 0\<rparr>)) 0 (2, 7) \<and>
        \<not> othello_legal (ot_grid (\<lparr>ot_grid = [[0, 0, 0, 0, 0, 0, 0, 0, 0, 0], [0, 0, 0, 0, 0, 0, 0, 0, 0, 0], [0, 0, 0, 1, 0, 0, -1, 0, 0, 0], [0, 0, 0, 0, 1, -1, 0, 0, 0, 0], [0, 0, 0, 0, -1, 1, 0, 0, 0, 0], [0, 0, 0, 0, -1, 1, 0, 0, 0, 0], [0, 0, 0, 0, 0, 0, 0, 0, 0, 0], [0, 0, 0, 0, 0, 0, 0, 0, 0, 0], [0, 0, 0, 0, 0, 0, 0, 0, 0, 0], [0, 0, 0, 0, 0, 0, 0, 0, 0, 0]], ot_player = 0, ot_decision_level = 1, ot_end_game = False, ot_winner = None, ot_result = [0, 0, 0], ot_score = 0\<rparr>)) 0 (2, 7)"
    by code_simp
  then show ?thesis using fill_reach by blast
qed

text \<open>
  in the same session that click fills the two empty cells between the new disc
  and the human's disc, where the spec says flips change ownership and never emptiness.
\<close>

theorem ot_reachable_fill:
  "\<exists>s rs. ot_reach s rs \<and> ot_grid s ! 2 ! 4 = 0 \<and> ot_grid s ! 2 ! 5 = 0 \<and>
          ot_grid (ot_handle_mouse_click s 325 75) ! 2 ! 4 = 1 \<and>
          ot_grid (ot_handle_mouse_click s 325 75) ! 2 ! 5 = 1"
proof -
  have "ot_grid (\<lparr>ot_grid = [[0, 0, 0, 0, 0, 0, 0, 0, 0, 0], [0, 0, 0, 0, 0, 0, 0, 0, 0, 0], [0, 0, 0, 1, 0, 0, -1, 0, 0, 0], [0, 0, 0, 0, 1, -1, 0, 0, 0, 0], [0, 0, 0, 0, -1, 1, 0, 0, 0, 0], [0, 0, 0, 0, -1, 1, 0, 0, 0, 0], [0, 0, 0, 0, 0, 0, 0, 0, 0, 0], [0, 0, 0, 0, 0, 0, 0, 0, 0, 0], [0, 0, 0, 0, 0, 0, 0, 0, 0, 0], [0, 0, 0, 0, 0, 0, 0, 0, 0, 0]], ot_player = 0, ot_decision_level = 1, ot_end_game = False, ot_winner = None, ot_result = [0, 0, 0], ot_score = 0\<rparr>) ! 2 ! 4 = 0 \<and> ot_grid (\<lparr>ot_grid = [[0, 0, 0, 0, 0, 0, 0, 0, 0, 0], [0, 0, 0, 0, 0, 0, 0, 0, 0, 0], [0, 0, 0, 1, 0, 0, -1, 0, 0, 0], [0, 0, 0, 0, 1, -1, 0, 0, 0, 0], [0, 0, 0, 0, -1, 1, 0, 0, 0, 0], [0, 0, 0, 0, -1, 1, 0, 0, 0, 0], [0, 0, 0, 0, 0, 0, 0, 0, 0, 0], [0, 0, 0, 0, 0, 0, 0, 0, 0, 0], [0, 0, 0, 0, 0, 0, 0, 0, 0, 0], [0, 0, 0, 0, 0, 0, 0, 0, 0, 0]], ot_player = 0, ot_decision_level = 1, ot_end_game = False, ot_winner = None, ot_result = [0, 0, 0], ot_score = 0\<rparr>) ! 2 ! 5 = 0 \<and>
        ot_grid (ot_handle_mouse_click (\<lparr>ot_grid = [[0, 0, 0, 0, 0, 0, 0, 0, 0, 0], [0, 0, 0, 0, 0, 0, 0, 0, 0, 0], [0, 0, 0, 1, 0, 0, -1, 0, 0, 0], [0, 0, 0, 0, 1, -1, 0, 0, 0, 0], [0, 0, 0, 0, -1, 1, 0, 0, 0, 0], [0, 0, 0, 0, -1, 1, 0, 0, 0, 0], [0, 0, 0, 0, 0, 0, 0, 0, 0, 0], [0, 0, 0, 0, 0, 0, 0, 0, 0, 0], [0, 0, 0, 0, 0, 0, 0, 0, 0, 0], [0, 0, 0, 0, 0, 0, 0, 0, 0, 0]], ot_player = 0, ot_decision_level = 1, ot_end_game = False, ot_winner = None, ot_result = [0, 0, 0], ot_score = 0\<rparr>) 325 75) ! 2 ! 4 = 1 \<and>
        ot_grid (ot_handle_mouse_click (\<lparr>ot_grid = [[0, 0, 0, 0, 0, 0, 0, 0, 0, 0], [0, 0, 0, 0, 0, 0, 0, 0, 0, 0], [0, 0, 0, 1, 0, 0, -1, 0, 0, 0], [0, 0, 0, 0, 1, -1, 0, 0, 0, 0], [0, 0, 0, 0, -1, 1, 0, 0, 0, 0], [0, 0, 0, 0, -1, 1, 0, 0, 0, 0], [0, 0, 0, 0, 0, 0, 0, 0, 0, 0], [0, 0, 0, 0, 0, 0, 0, 0, 0, 0], [0, 0, 0, 0, 0, 0, 0, 0, 0, 0], [0, 0, 0, 0, 0, 0, 0, 0, 0, 0]], ot_player = 0, ot_decision_level = 1, ot_end_game = False, ot_winner = None, ot_result = [0, 0, 0], ot_score = 0\<rparr>) 325 75) ! 2 ! 5 = 1"
    by code_simp
  then show ?thesis using fill_reach by blast
qed

end
