(* ===== verification/Ledger.thy ===== *)
theory Ledger
  imports Prelude "HOL-Library.Product_Lexorder" "HOL-Library.Multiset"
begin

text \<open>
  The bookkeeping backend of src/account_manager.py: class \<open>AccountManager\<close>
  (lines 14-111) and the handlers of \<open>AccountManagerApps\<close> that call it.  The
  pandas DataFrame \<open>database_df\<close> is a list of rows in frame order, each with its
  index label (the CSV's first column) and its fields; \<open>df.loc[k]\<close>, \<open>k in
  df["ID"]\<close> and \<open>df.drop(k)\<close> work on the index labels, as pandas does.  Dates are
  \<open>(year, month, day)\<close> ordered lexicographically, as \<open>datetime.date\<close> compares;
  amounts are exact integers (the float rounding of pandas is not modelled).  Reading
  and writing CSV files is not modelled.
\<close>

record entry =
  e_id :: int
  e_date :: "nat \<times> nat \<times> nat"
  e_purpose :: string
  e_from :: string
  e_to :: string
  e_amount :: int
  e_remark :: string

type_synonym ledger = "(int \<times> entry) list"

text \<open>The columns the viewer sorts by (\<open>sort_database_by_id/date/amount\<close>).\<close>

datatype sort_key = SortID | SortDate | SortAmount

subsection \<open>Class \<open>AccountManager\<close>\<close>

text \<open>\<open>get_accounts()\<close>: the union of the \<open>From\<close> and \<open>To\<close> columns; Python
  turns the set into a list in an unspecified order, so the model returns the set.\<close>

definition get_accounts :: "ledger \<Rightarrow> string set" where
  "get_accounts df = set (map (e_from \<circ> snd) df) \<union> set (map (e_to \<circ> snd) df)"

definition get_inflow_from :: "string \<Rightarrow> string \<Rightarrow> int \<Rightarrow> int" where
  "get_inflow_from acct acct_target amount = (if acct = acct_target then - amount else amount)"

text \<open>\<open>Series.cumsum()\<close>: the running sums.\<close>

fun cumsum_from :: "int \<Rightarrow> int list \<Rightarrow> int list" where
  "cumsum_from acc [] = []"
| "cumsum_from acc (x # xs) = (acc + x) # cumsum_from (acc + x) xs"

text \<open>
  \<open>df_out.sort_values(sort_key)\<close> on the rows annotated with their total.  pandas
  sorts with an unstable quicksort; the model sorts stably, and no theorem depends on
  the order of rows with equal keys.
\<close>

definition sort_rows :: "sort_key \<Rightarrow> (entry \<times> int) list \<Rightarrow> (entry \<times> int) list" where
  "sort_rows k rows =
     (case k of
        SortID \<Rightarrow> sort_key (e_id \<circ> fst) rows
      | SortDate \<Rightarrow> sort_key (e_date \<circ> fst) rows
      | SortAmount \<Rightarrow> sort_key (e_amount \<circ> fst) rows)"

text \<open>
  \<open>get_records(account, sort_key)\<close>: the rows from or to the account in frame
  order, the column \<open>Total\<close> as the running sum of their inflows, then the sort.
\<close>

definition get_records :: "ledger \<Rightarrow> string \<Rightarrow> sort_key \<Rightarrow> (entry \<times> int) list" where
  "get_records df account k =
     (let df_out = map snd (filter (\<lambda>(_, r). e_from r = account \<or> e_to r = account) df);
          total = cumsum_from 0 (map (\<lambda>r. get_inflow_from (e_from r) account (e_amount r)) df_out)
      in sort_rows k (zip df_out total))"

text \<open>\<open>df.loc[k] = entry\<close>: overwrite the rows labelled \<open>k\<close>, or append one.\<close>

definition loc_set :: "ledger \<Rightarrow> int \<Rightarrow> entry \<Rightarrow> ledger" where
  "loc_set df k r =
     (if k \<in> set (map fst df) then map (\<lambda>(k', r'). if k' = k then (k', r) else (k', r')) df
      else df @ [(k, r)])"

text \<open>\<open>remove_entry(entry)\<close>: \<open>id in df["ID"]\<close> tests the index labels of the
  Series, and \<open>drop(id)\<close> removes the rows with that label.\<close>

definition remove_entry :: "ledger \<Rightarrow> int \<Rightarrow> ledger \<times> bool" where
  "remove_entry df entry_id =
     (if entry_id \<in> set (map fst df) then (filter (\<lambda>(k, _). k \<noteq> entry_id) df, True) else (df, False))"

text \<open>\<open>create_entry(entry)\<close>: the new id is one more than the largest \<open>ID\<close>;
  \<open>max\<close> of an empty column raises \<open>ValueError\<close>.\<close>

definition create_entry :: "ledger \<Rightarrow> entry \<Rightarrow> py_error + ledger" where
  "create_entry df e =
     (if df = [] then Inl ValueError
      else (let new_id = Max (set (map (e_id \<circ> snd) df)) + 1
            in Inr (loc_set df new_id (e\<lparr>e_id := new_id\<rparr>))))"

definition update_entry :: "ledger \<Rightarrow> entry \<Rightarrow> ledger" where
  "update_entry df e = loc_set df (e_id e) e"

subsection \<open>The viewer\<close>

text \<open>
  The state of \<open>AccountManagerApps\<close> the handlers use: the frame, the account list
  read when the file was loaded (\<open>self.accounts\<close>), and the account typed into the
  viewer.  \<open>populate_tree\<close> shows nothing for an account not in that list.
\<close>

record ledger_app =
  la_df :: ledger
  la_accounts :: "string list"
  la_view :: string

definition populate_tree :: "ledger_app \<Rightarrow> sort_key \<Rightarrow> (entry \<times> int) list" where
  "populate_tree s k =
     (if la_view s \<notin> set (la_accounts s) then [] else get_records (la_df s) (la_view s) k)"

text \<open>\<open>AccountManagerApps.remove_entry()\<close>: nothing without a selection, else
  \<open>AM.remove_entry\<close> for every selected row, then the view sorted by \<open>ID\<close>.\<close>

definition app_remove_entry :: "ledger_app \<Rightarrow> int list \<Rightarrow> ledger_app \<times> (entry \<times> int) list option" where
  "app_remove_entry s ids =
     (if ids = [] then (s, None)
      else (let s = s\<lparr>la_df := fold (\<lambda>i df. fst (remove_entry df i)) ids (la_df s)\<rparr>
            in (s, Some (populate_tree s SortID))))"

definition app_create_entry ::
  "ledger_app \<Rightarrow> entry \<Rightarrow> py_error + (ledger_app \<times> (entry \<times> int) list)" where
  "app_create_entry s e =
     (case create_entry (la_df s) e of
        Inl err \<Rightarrow> Inl err
      | Inr df \<Rightarrow> (let s = s\<lparr>la_df := df\<rparr> in Inr (s, populate_tree s SortID)))"

definition app_update_entry :: "ledger_app \<Rightarrow> entry \<Rightarrow> ledger_app \<times> (entry \<times> int) list" where
  "app_update_entry s e = (let s = s\<lparr>la_df := update_entry (la_df s) e\<rparr> in (s, populate_tree s SortID))"

subsection \<open>Specification vocabulary\<close>

text \<open>A frame whose index labels are distinct and equal to the \<open>ID\<close> of their row,
  as \<open>create_entry\<close> and \<open>update_entry\<close> write them.\<close>

definition ledger_ok :: "ledger \<Rightarrow> bool" where
  "ledger_ok df \<longleftrightarrow> distinct (map fst df) \<and> list_all (\<lambda>(k, r). e_id r = k) df"

text \<open>The rows of an account in frame order and their inflows.\<close>

definition acct_rows :: "ledger \<Rightarrow> string \<Rightarrow> entry list" where
  "acct_rows df a = map snd (filter (\<lambda>(_, r). e_from r = a \<or> e_to r = a) df)"

definition inflows :: "ledger \<Rightarrow> string \<Rightarrow> int list" where
  "inflows df a = map (\<lambda>r. get_inflow_from (e_from r) a (e_amount r)) (acct_rows df a)"

subsection \<open>Lemmas\<close>

lemma length_cumsum [simp]: "length (cumsum_from acc xs) = length xs"
  by (induction xs arbitrary: acc) simp_all

lemma nth_cumsum: "n < length xs \<Longrightarrow> cumsum_from acc xs ! n = acc + sum_list (take (Suc n) xs)"
proof (induction xs arbitrary: acc n)
  case (Cons x xs)
  then show ?case by (cases n) (simp_all add: algebra_simps)
qed simp

lemma mset_sort_rows [simp]: "mset (sort_rows k rows) = mset rows"
  by (cases k) (simp_all add: sort_rows_def mset_sort)

lemma get_records_rows:
  "get_records df a k = sort_rows k (zip (acct_rows df a) (cumsum_from 0 (inflows df a)))"
  by (simp add: get_records_def acct_rows_def inflows_def Let_def)

lemma ledger_ok_ids: "ledger_ok df \<Longrightarrow> set (map (e_id \<circ> snd) df) = set (map fst df)"
  by (force simp: ledger_ok_def list_all_iff)

lemma loc_set_new: "k \<notin> set (map fst df) \<Longrightarrow> loc_set df k r = df @ [(k, r)]"
  by (simp add: loc_set_def)

lemma create_entry_Inr:
  assumes "ledger_ok df" "df \<noteq> []"
  shows "create_entry df e =
    Inr (df @ [(Max (set (map fst df)) + 1, e\<lparr>e_id := Max (set (map fst df)) + 1\<rparr>)])
    \<and> Max (set (map fst df)) + 1 \<notin> set (map fst df)"
proof -
  have fin: "finite (set (map fst df))" "set (map fst df) \<noteq> {}" using assms(2) by auto
  have fresh: "Max (set (map fst df)) + 1 \<notin> set (map fst df)"
    using Max_ge [OF fin(1)] by fastforce
  have "Max (set (map (e_id \<circ> snd) df)) = Max (set (map fst df))"
    by (simp only: ledger_ok_ids [OF assms(1)])
  then show ?thesis
    using assms(2) fresh by (simp add: create_entry_def Let_def loc_set_new del: set_map)
qed

lemma ledger_ok_append:
  "ledger_ok df \<Longrightarrow> k \<notin> set (map fst df) \<Longrightarrow> e_id r = k \<Longrightarrow> ledger_ok (df @ [(k, r)])"
  by (simp add: ledger_ok_def)

lemma ledger_ok_filter: "ledger_ok df \<Longrightarrow> ledger_ok (filter P df)"
  unfolding ledger_ok_def list_all_iff by (simp add: distinct_map_filter)

lemma map_fst_relabel:
  "map fst (map (\<lambda>(k', r'). if k' = k then (k', r) else (k', r')) df) = map fst df"
  by (induction df) (simp_all add: case_prod_unfold)

lemma ledger_ok_loc_set: "ledger_ok df \<Longrightarrow> e_id r = k \<Longrightarrow> ledger_ok (loc_set df k r)"
proof (cases "k \<in> set (map fst df)")
  case True
  assume ok: "ledger_ok df" and r: "e_id r = k"
  have "list_all (\<lambda>(k, r). e_id r = k) (map (\<lambda>(k', r'). if k' = k then (k', r) else (k', r')) df)"
    using ok r by (fastforce simp: ledger_ok_def list_all_iff split: if_splits)
  moreover have "distinct (map fst (map (\<lambda>(k', r'). if k' = k then (k', r) else (k', r')) df))"
    using ok by (simp only: map_fst_relabel ledger_ok_def)
  ultimately show ?thesis using True by (simp add: loc_set_def ledger_ok_def del: map_map)
next
  case False
  assume "ledger_ok df" "e_id r = k"
  with False show ?thesis by (simp add: loc_set_new ledger_ok_append)
qed

subsection \<open>Properties\<close>

text \<open>
  the handlers keep the index labels distinct and equal to the row's \<open>ID\<close>:
  \<open>remove_entry\<close>, \<open>update_entry\<close> and a successful \<open>create_entry\<close> preserve
  \<open>ledger_ok\<close>.
\<close>

theorem ledger_ok_preserved:
  assumes "ledger_ok df"
  shows "ledger_ok (fst (remove_entry df i)) \<and> ledger_ok (update_entry df e) \<and>
         (\<forall>df'. create_entry df e = Inr df' \<longrightarrow> ledger_ok df')"
proof -
  have "ledger_ok (fst (remove_entry df i))"
    using assms ledger_ok_filter [OF assms] by (simp add: remove_entry_def)
  moreover have "ledger_ok (update_entry df e)"
    using ledger_ok_loc_set [OF assms] by (simp add: update_entry_def)
  moreover have "ledger_ok df'" if "create_entry df e = Inr df'" for df'
  proof -
    have ne: "df \<noteq> []" using that by (auto simp: create_entry_def)
    show ?thesis using create_entry_Inr [OF assms ne, of e] that ledger_ok_append [OF assms] by simp
  qed
  ultimately show ?thesis by blast
qed

theorem ledger_ok_preserved_witness:
  "ledger_ok [(1, \<lparr>e_id = 1, e_date = (2021, 9, 1), e_purpose = ''pay'', e_from = ''Job'', e_to = ''Bank'', e_amount = 100, e_remark = ''-''\<rparr>)] \<and> create_entry [(1, \<lparr>e_id = 1, e_date = (2021, 9, 1), e_purpose = ''pay'', e_from = ''Job'', e_to = ''Bank'', e_amount = 100, e_remark = ''-''\<rparr>)] \<lparr>e_id = 2, e_date = (2021, 9, 2), e_purpose = ''rent'', e_from = ''Bank'', e_to = ''Home'', e_amount = 30, e_remark = ''-''\<rparr> = Inr [(1, \<lparr>e_id = 1, e_date = (2021, 9, 1), e_purpose = ''pay'', e_from = ''Job'', e_to = ''Bank'', e_amount = 100, e_remark = ''-''\<rparr>), (2, \<lparr>e_id = 2, e_date = (2021, 9, 2), e_purpose = ''rent'', e_from = ''Bank'', e_to = ''Home'', e_amount = 30, e_remark = ''-''\<rparr>)] \<and> ledger_ok [(1, \<lparr>e_id = 1, e_date = (2021, 9, 1), e_purpose = ''pay'', e_from = ''Job'', e_to = ''Bank'', e_amount = 100, e_remark = ''-''\<rparr>), (2, \<lparr>e_id = 2, e_date = (2021, 9, 2), e_purpose = ''rent'', e_from = ''Bank'', e_to = ''Home'', e_amount = 30, e_remark = ''-''\<rparr>)]"
proof -
  have ok: "ledger_ok [(1, \<lparr>e_id = 1, e_date = (2021, 9, 1), e_purpose = ''pay'', e_from = ''Job'', e_to = ''Bank'', e_amount = 100, e_remark = ''-''\<rparr>)]" by code_simp
  have c: "create_entry [(1, \<lparr>e_id = 1, e_date = (2021, 9, 1), e_purpose = ''pay'', e_from = ''Job'', e_to = ''Bank'', e_amount = 100, e_remark = ''-''\<rparr>)] \<lparr>e_id = 2, e_date = (2021, 9, 2), e_purpose = ''rent'', e_from = ''Bank'', e_to = ''Home'', e_amount = 30, e_remark = ''-''\<rparr> = Inr [(1, \<lparr>e_id = 1, e_date = (2021, 9, 1), e_purpose = ''pay'', e_from = ''Job'', e_to = ''Bank'', e_amount = 100, e_remark = ''-''\<rparr>), (2, \<lparr>e_id = 2, e_date = (2021, 9, 2), e_purpose = ''rent'', e_from = ''Bank'', e_to = ''Home'', e_amount = 30, e_remark = ''-''\<rparr>)]" by code_simp
  show ?thesis using ok c ledger_ok_preserved [OF ok, of 1 "\<lparr>e_id = 2, e_date = (2021, 9, 2), e_purpose = ''rent'', e_from = ''Bank'', e_to = ''Home'', e_amount = 30, e_remark = ''-''\<rparr>"] by blast
qed

text \<open>
  \<open>create_entry\<close> then \<open>remove_entry\<close> of the new id gives back the frame: the
  new id \<open>max(ID) + 1\<close> is fresh, the row is appended, and removing that label
  removes exactly it.
\<close>

theorem create_remove_roundtrip:
  assumes "ledger_ok df" "create_entry df e = Inr df'"
  shows "remove_entry df' (Max (set (map fst df)) + 1) = (df, True)"
proof -
  have ne: "df \<noteq> []" using assms(2) by (auto simp: create_entry_def)
  note c = create_entry_Inr [OF assms(1) ne, of e]
  have "filter (\<lambda>(k, _). k \<noteq> Max (set (map fst df)) + 1) df = df"
    using c by (force simp: filter_id_conv)
  then show ?thesis using c assms(2) by (simp add: remove_entry_def)
qed

theorem create_remove_roundtrip_witness:
  "ledger_ok [(1, \<lparr>e_id = 1, e_date = (2021, 9, 1), e_purpose = ''pay'', e_from = ''Job'', e_to = ''Bank'', e_amount = 100, e_remark = ''-''\<rparr>)] \<and> create_entry [(1, \<lparr>e_id = 1, e_date = (2021, 9, 1), e_purpose = ''pay'', e_from = ''Job'', e_to = ''Bank'', e_amount = 100, e_remark = ''-''\<rparr>)] \<lparr>e_id = 2, e_date = (2021, 9, 2), e_purpose = ''rent'', e_from = ''Bank'', e_to = ''Home'', e_amount = 30, e_remark = ''-''\<rparr> = Inr [(1, \<lparr>e_id = 1, e_date = (2021, 9, 1), e_purpose = ''pay'', e_from = ''Job'', e_to = ''Bank'', e_amount = 100, e_remark = ''-''\<rparr>), (2, \<lparr>e_id = 2, e_date = (2021, 9, 2), e_purpose = ''rent'', e_from = ''Bank'', e_to = ''Home'', e_amount = 30, e_remark = ''-''\<rparr>)] \<and>
   remove_entry [(1, \<lparr>e_id = 1, e_date = (2021, 9, 1), e_purpose = ''pay'', e_from = ''Job'', e_to = ''Bank'', e_amount = 100, e_remark = ''-''\<rparr>), (2, \<lparr>e_id = 2, e_date = (2021, 9, 2), e_purpose = ''rent'', e_from = ''Bank'', e_to = ''Home'', e_amount = 30, e_remark = ''-''\<rparr>)] 2 = ([(1, \<lparr>e_id = 1, e_date = (2021, 9, 1), e_purpose = ''pay'', e_from = ''Job'', e_to = ''Bank'', e_amount = 100, e_remark = ''-''\<rparr>)], True)"
proof -
  have ok: "ledger_ok [(1, \<lparr>e_id = 1, e_date = (2021, 9, 1), e_purpose = ''pay'', e_from = ''Job'', e_to = ''Bank'', e_amount = 100, e_remark = ''-''\<rparr>)]" by code_simp
  have c: "create_entry [(1, \<lparr>e_id = 1, e_date = (2021, 9, 1), e_purpose = ''pay'', e_from = ''Job'', e_to = ''Bank'', e_amount = 100, e_remark = ''-''\<rparr>)] \<lparr>e_id = 2, e_date = (2021, 9, 2), e_purpose = ''rent'', e_from = ''Bank'', e_to = ''Home'', e_amount = 30, e_remark = ''-''\<rparr> = Inr [(1, \<lparr>e_id = 1, e_date = (2021, 9, 1), e_purpose = ''pay'', e_from = ''Job'', e_to = ''Bank'', e_amount = 100, e_remark = ''-''\<rparr>), (2, \<lparr>e_id = 2, e_date = (2021, 9, 2), e_purpose = ''rent'', e_from = ''Bank'', e_to = ''Home'', e_amount = 30, e_remark = ''-''\<rparr>)]" by code_simp
  show ?thesis using ok c create_remove_roundtrip [OF ok c] by simp
qed

text \<open>
  every row \<open>get_records\<close> shows carries as \<open>Total\<close> the net inflow of the
  account over the rows up to it in frame order, whatever the sort key.
\<close>

theorem get_records_total:
  assumes "(r, t) \<in> set (get_records df a k)"
  shows "\<exists>n < length (acct_rows df a). acct_rows df a ! n = r \<and> t = sum_list (take (Suc n) (inflows df a))"
proof -
  have "(r, t) \<in> set (zip (acct_rows df a) (cumsum_from 0 (inflows df a)))"
    using assms unfolding get_records_rows by (metis mset_sort_rows set_mset_mset)
  then obtain n where n: "n < length (acct_rows df a)" "acct_rows df a ! n = r"
    "cumsum_from 0 (inflows df a) ! n = t"
    by (auto simp: in_set_zip inflows_def)
  have "n < length (inflows df a)" using n(1) by (simp add: inflows_def)
  then show ?thesis using n nth_cumsum [of n "inflows df a" 0] by auto
qed

theorem get_records_total_witness:
  "(\<lparr>e_id = 2, e_date = (2021, 9, 2), e_purpose = ''rent'', e_from = ''Bank'', e_to = ''Home'', e_amount = 30, e_remark = ''-''\<rparr>, 70) \<in> set (get_records [(1, \<lparr>e_id = 1, e_date = (2021, 9, 1), e_purpose = ''pay'', e_from = ''Job'', e_to = ''Bank'', e_amount = 100, e_remark = ''-''\<rparr>), (2, \<lparr>e_id = 2, e_date = (2021, 9, 2), e_purpose = ''rent'', e_from = ''Bank'', e_to = ''Home'', e_amount = 30, e_remark = ''-''\<rparr>)] ''Bank'' SortAmount) \<and>
   acct_rows [(1, \<lparr>e_id = 1, e_date = (2021, 9, 1), e_purpose = ''pay'', e_from = ''Job'', e_to = ''Bank'', e_amount = 100, e_remark = ''-''\<rparr>), (2, \<lparr>e_id = 2, e_date = (2021, 9, 2), e_purpose = ''rent'', e_from = ''Bank'', e_to = ''Home'', e_amount = 30, e_remark = ''-''\<rparr>)] ''Bank'' ! 1 = \<lparr>e_id = 2, e_date = (2021, 9, 2), e_purpose = ''rent'', e_from = ''Bank'', e_to = ''Home'', e_amount = 30, e_remark = ''-''\<rparr> \<and>
   sum_list (take 2 (inflows [(1, \<lparr>e_id = 1, e_date = (2021, 9, 1), e_purpose = ''pay'', e_from = ''Job'', e_to = ''Bank'', e_amount = 100, e_remark = ''-''\<rparr>), (2, \<lparr>e_id = 2, e_date = (2021, 9, 2), e_purpose = ''rent'', e_from = ''Bank'', e_to = ''Home'', e_amount = 30, e_remark = ''-''\<rparr>)] ''Bank'')) = 70"
proof -
  have m: "(\<lparr>e_id = 2, e_date = (2021, 9, 2), e_purpose = ''rent'', e_from = ''Bank'', e_to = ''Home'', e_amount = 30, e_remark = ''-''\<rparr>, 70) \<in> set (get_records [(1, \<lparr>e_id = 1, e_date = (2021, 9, 1), e_purpose = ''pay'', e_from = ''Job'', e_to = ''Bank'', e_amount = 100, e_remark = ''-''\<rparr>), (2, \<lparr>e_id = 2, e_date = (2021, 9, 2), e_purpose = ''rent'', e_from = ''Bank'', e_to = ''Home'', e_amount = 30, e_remark = ''-''\<rparr>)] ''Bank'' SortAmount)" by code_simp
  have "acct_rows [(1, \<lparr>e_id = 1, e_date = (2021, 9, 1), e_purpose = ''pay'', e_from = ''Job'', e_to = ''Bank'', e_amount = 100, e_remark = ''-''\<rparr>), (2, \<lparr>e_id = 2, e_date = (2021, 9, 2), e_purpose = ''rent'', e_from = ''Bank'', e_to = ''Home'', e_amount = 30, e_remark = ''-''\<rparr>)] ''Bank'' ! 1 = \<lparr>e_id = 2, e_date = (2021, 9, 2), e_purpose = ''rent'', e_from = ''Bank'', e_to = ''Home'', e_amount = 30, e_remark = ''-''\<rparr> \<and> sum_list (take 2 (inflows [(1, \<lparr>e_id = 1, e_date = (2021, 9, 1), e_purpose = ''pay'', e_from = ''Job'', e_to = ''Bank'', e_amount = 100, e_remark = ''-''\<rparr>), (2, \<lparr>e_id = 2, e_date = (2021, 9, 2), e_purpose = ''rent'', e_from = ''Bank'', e_to = ''Home'', e_amount = 30, e_remark = ''-''\<rparr>)] ''Bank'')) = 70"
    by code_simp
  with get_records_total [OF m] show ?thesis using m by blast
qed

text \<open>
  the \<open>Total\<close> column is computed before the sort, so in the displayed order it
  is not a running balance: sorted by amount, the rent of 30 is shown first with the
  total 70, not -30.
\<close>

theorem get_records_total_not_running:
  "get_records [(1, \<lparr>e_id = 1, e_date = (2021, 9, 1), e_purpose = ''pay'', e_from = ''Job'', e_to = ''Bank'', e_amount = 100, e_remark = ''-''\<rparr>), (2, \<lparr>e_id = 2, e_date = (2021, 9, 2), e_purpose = ''rent'', e_from = ''Bank'', e_to = ''Home'', e_amount = 30, e_remark = ''-''\<rparr>)] ''Bank'' SortAmount = [(\<lparr>e_id = 2, e_date = (2021, 9, 2), e_purpose = ''rent'', e_from = ''Bank'', e_to = ''Home'', e_amount = 30, e_remark = ''-''\<rparr>, 70), (\<lparr>e_id = 1, e_date = (2021, 9, 1), e_purpose = ''pay'', e_from = ''Job'', e_to = ''Bank'', e_amount = 100, e_remark = ''-''\<rparr>, 100)] \<and>
   map snd (get_records [(1, \<lparr>e_id = 1, e_date = (2021, 9, 1), e_purpose = ''pay'', e_from = ''Job'', e_to = ''Bank'', e_amount = 100, e_remark = ''-''\<rparr>), (2, \<lparr>e_id = 2, e_date = (2021, 9, 2), e_purpose = ''rent'', e_from = ''Bank'', e_to = ''Home'', e_amount = 30, e_remark = ''-''\<rparr>)] ''Bank'' SortAmount) \<noteq>
   cumsum_from 0 (map (\<lambda>(r, _). get_inflow_from (e_from r) ''Bank'' (e_amount r))
     (get_records [(1, \<lparr>e_id = 1, e_date = (2021, 9, 1), e_purpose = ''pay'', e_from = ''Job'', e_to = ''Bank'', e_amount = 100, e_remark = ''-''\<rparr>), (2, \<lparr>e_id = 2, e_date = (2021, 9, 2), e_purpose = ''rent'', e_from = ''Bank'', e_to = ''Home'', e_amount = 30, e_remark = ''-''\<rparr>)] ''Bank'' SortAmount))"
  by code_simp

text \<open>
  the account list of the viewer is read only when a file is loaded: after
  \<open>create_entry\<close> the list is unchanged, and an account that is not in it shows no
  rows, even when the new entry mentions it.
\<close>

theorem app_create_stale_accounts:
  assumes "app_create_entry s e = Inr (s', rows)"
  shows "la_accounts s' = la_accounts s \<and> (la_view s \<notin> set (la_accounts s) \<longrightarrow> rows = [])"
  using assms by (auto simp: app_create_entry_def populate_tree_def Let_def split: sum.splits)

theorem app_create_stale_accounts_witness:
  "app_create_entry \<lparr>la_df = [(1, \<lparr>e_id = 1, e_date = (2021, 9, 1), e_purpose = ''pay'', e_from = ''Job'', e_to = ''Bank'', e_amount = 100, e_remark = ''-''\<rparr>), (2, \<lparr>e_id = 2, e_date = (2021, 9, 2), e_purpose = ''rent'', e_from = ''Bank'', e_to = ''Home'', e_amount = 30, e_remark = ''-''\<rparr>)], la_accounts = [''Job'', ''Bank'', ''Home''], la_view = ''Shop''\<rparr> \<lparr>e_id = 3, e_date = (2021, 9, 3), e_purpose = ''food'', e_from = ''Bank'', e_to = ''Shop'', e_amount = 20, e_remark = ''-''\<rparr> =
     Inr (\<lparr>la_df = [(1, \<lparr>e_id = 1, e_date = (2021, 9, 1), e_purpose = ''pay'', e_from = ''Job'', e_to = ''Bank'', e_amount = 100, e_remark = ''-''\<rparr>), (2, \<lparr>e_id = 2, e_date = (2021, 9, 2), e_purpose = ''rent'', e_from = ''Bank'', e_to = ''Home'', e_amount = 30, e_remark = ''-''\<rparr>), (3, \<lparr>e_id = 3, e_date = (2021, 9, 3), e_purpose = ''food'', e_from = ''Bank'', e_to = ''Shop'', e_amount = 20, e_remark = ''-''\<rparr>)], la_accounts = [''Job'', ''Bank'', ''Home''], la_view = ''Shop''\<rparr>, []) \<and>
   get_records [(1, \<lparr>e_id = 1, e_date = (2021, 9, 1), e_purpose = ''pay'', e_from = ''Job'', e_to = ''Bank'', e_amount = 100, e_remark = ''-''\<rparr>), (2, \<lparr>e_id = 2, e_date = (2021, 9, 2), e_purpose = ''rent'', e_from = ''Bank'', e_to = ''Home'', e_amount = 30, e_remark = ''-''\<rparr>), (3, \<lparr>e_id = 3, e_date = (2021, 9, 3), e_purpose = ''food'', e_from = ''Bank'', e_to = ''Shop'', e_amount = 20, e_remark = ''-''\<rparr>)] ''Shop'' SortID \<noteq> []"
proof -
  have c: "app_create_entry \<lparr>la_df = [(1, \<lparr>e_id = 1, e_date = (2021, 9, 1), e_purpose = ''pay'', e_from = ''Job'', e_to = ''Bank'', e_amount = 100, e_remark = ''-''\<rparr>), (2, \<lparr>e_id = 2, e_date = (2021, 9, 2), e_purpose = ''rent'', e_from = ''Bank'', e_to = ''Home'', e_amount = 30, e_remark = ''-''\<rparr>)], la_accounts = [''Job'', ''Bank'', ''Home''], la_view = ''Shop''\<rparr> \<lparr>e_id = 3, e_date = (2021, 9, 3), e_purpose = ''food'', e_from = ''Bank'', e_to = ''Shop'', e_amount = 20, e_remark = ''-''\<rparr> =
     Inr (\<lparr>la_df = [(1, \<lparr>e_id = 1, e_date = (2021, 9, 1), e_purpose = ''pay'', e_from = ''Job'', e_to = ''Bank'', e_amount = 100, e_remark = ''-''\<rparr>), (2, \<lparr>e_id = 2, e_date = (2021, 9, 2), e_purpose = ''rent'', e_from = ''Bank'', e_to = ''Home'', e_amount = 30, e_remark = ''-''\<rparr>), (3, \<lparr>e_id = 3, e_date = (2021, 9, 3), e_purpose = ''food'', e_from = ''Bank'', e_to = ''Shop'', e_amount = 20, e_remark = ''-''\<rparr>)], la_accounts = [''Job'', ''Bank'', ''Home''], la_view = ''Shop''\<rparr>, [])"
    by code_simp
  have "get_records [(1, \<lparr>e_id = 1, e_date = (2021, 9, 1), e_purpose = ''pay'', e_from = ''Job'', e_to = ''Bank'', e_amount = 100, e_remark = ''-''\<rparr>), (2, \<lparr>e_id = 2, e_date = (2021, 9, 2), e_purpose = ''rent'', e_from = ''Bank'', e_to = ''Home'', e_amount = 30, e_remark = ''-''\<rparr>), (3, \<lparr>e_id = 3, e_date = (2021, 9, 3), e_purpose = ''food'', e_from = ''Bank'', e_to = ''Shop'', e_amount = 20, e_remark = ''-''\<rparr>)] ''Shop'' SortID \<noteq> []" by code_simp
  with c app_create_stale_accounts [OF c] show ?thesis by blast
qed

text \<open>
  \<open>remove_entry\<close> removes by index label, not by \<open>ID\<close>: on a frame saved with
  a 0-based index and 1-based IDs, removing the entry with ID 2 deletes the entry with
  ID 3.
\<close>

theorem remove_entry_by_label:
  "remove_entry [(0, \<lparr>e_id = 1, e_date = (2021, 9, 1), e_purpose = ''pay'', e_from = ''Job'', e_to = ''Bank'', e_amount = 100, e_remark = ''-''\<rparr>), (1, \<lparr>e_id = 2, e_date = (2021, 9, 2), e_purpose = ''rent'', e_from = ''Bank'', e_to = ''Home'', e_amount = 30, e_remark = ''-''\<rparr>), (2, \<lparr>e_id = 3, e_date = (2021, 9, 3), e_purpose = ''food'', e_from = ''Bank'', e_to = ''Shop'', e_amount = 20, e_remark = ''-''\<rparr>)] (e_id \<lparr>e_id = 2, e_date = (2021, 9, 2), e_purpose = ''rent'', e_from = ''Bank'', e_to = ''Home'', e_amount = 30, e_remark = ''-''\<rparr>) = ([(0, \<lparr>e_id = 1, e_date = (2021, 9, 1), e_purpose = ''pay'', e_from = ''Job'', e_to = ''Bank'', e_amount = 100, e_remark = ''-''\<rparr>), (1, \<lparr>e_id = 2, e_date = (2021, 9, 2), e_purpose = ''rent'', e_from = ''Bank'', e_to = ''Home'', e_amount = 30, e_remark = ''-''\<rparr>)], True)"
  by code_simp

end
