(* ===== verification/Ledger_Editor.thy ===== *)
theory Ledger_Editor
  imports Ledger
begin

text \<open>
  The parts of \<open>AccountManagerApps\<close> (src/account_manager.py) around the tree view
  and the transaction editor: the rows the tree shows as the strings Tk holds, the seven
  editor fields, \<open>clear_entry\<close>, \<open>edit_entry\<close>, \<open>load_database\<close> and the file name
  \<open>save_database\<close> writes to.  The frame read from or written to the CSV file is an
  input; the parsing of dates and floats in \<open>create_entry\<close> and \<open>update_entry\<close> is
  not modelled (the handlers of Ledger take the parsed entry).
\<close>

subsection \<open>Values in the tree\<close>

text \<open>\<open>str\<close> of a \<open>datetime.date\<close>: \<open>YYYY-MM-DD\<close>, zero padded.\<close>

definition pad_digits :: "nat \<Rightarrow> nat \<Rightarrow> string" where
  "pad_digits w n = replicate (w - length (digits n)) (CHR ''0'') @ digits n"

definition date_str :: "nat \<times> nat \<times> nat \<Rightarrow> string" where
  "date_str = (\<lambda>(y, m, d). pad_digits 4 y @ ''-'' @ pad_digits 2 m @ ''-'' @ pad_digits 2 d)"

text \<open>
  \<open>self.tree.insert('', tk.END, values=entry)\<close> stores \<open>str\<close> of each value of a row
  of \<open>get_records\<close> (columns ID, Date, Purpose, From, To, Amount, Total, Remark).
\<close>

definition row_values :: "entry \<times> int \<Rightarrow> string list" where
  "row_values r = (case r of (e, tot) \<Rightarrow>
     [py_str (e_id e), date_str (e_date e), e_purpose e, e_from e, e_to e,
      py_str (e_amount e), py_str tot, e_remark e])"

definition show_rows :: "(entry \<times> int) list \<Rightarrow> string list list" where
  "show_rows rows = map row_values rows"

text \<open>
  \<open>self.tree.item(entry_ID)['values']\<close> converts every value with ttk's
  \<open>_convert_stringval\<close>, which returns \<open>int(value)\<close> when that succeeds, and
  \<open>StringVar.set\<close> stores \<open>str\<close> of it: a value \<open>int\<close> accepts comes back in
  \<open>str\<close>'s normal form.
\<close>

definition tk_item_value :: "string \<Rightarrow> string" where
  "tk_item_value s = (case py_int s of Inr i \<Rightarrow> py_str i | Inl _ \<Rightarrow> s)"

subsection \<open>The viewer with its tree and editor\<close>

text \<open>The seven \<open>StringVar\<close>s of the transaction editor.\<close>

record editor =
  ed_id :: string
  ed_date :: string
  ed_purpose :: string
  ed_from :: string
  ed_to :: string
  ed_amount :: string
  ed_remark :: string

definition empty_editor :: editor where
  "empty_editor = \<lparr>ed_id = [], ed_date = [], ed_purpose = [], ed_from = [], ed_to = [],
                   ed_amount = [], ed_remark = []\<rparr>"

text \<open>The viewer state of Ledger with the rows of its tree and its editor.\<close>

record ledger_gui =
  lg_app :: ledger_app
  lg_tree :: "string list list"
  lg_editor :: editor

text \<open>\<open>populate_tree(sort_key)\<close>: the tree is emptied and refilled.\<close>

definition gui_populate :: "ledger_gui \<Rightarrow> sort_key \<Rightarrow> ledger_gui" where
  "gui_populate s k = s\<lparr>lg_tree := show_rows (populate_tree (lg_app s) k)\<rparr>"

text \<open>\<open>clear_entry()\<close>: every editor field is emptied.\<close>

definition clear_entry :: "ledger_gui \<Rightarrow> ledger_gui" where
  "clear_entry s = s\<lparr>lg_editor := empty_editor\<rparr>"

text \<open>
  \<open>edit_entry()\<close>: with exactly one selected row (an index into the tree), the editor
  fields get its values 0 to 5 and 7; the \<open>Total\<close> (value 6) is skipped.  Any other
  selection leaves everything unchanged.
\<close>

definition edit_entry :: "ledger_gui \<Rightarrow> nat list \<Rightarrow> ledger_gui" where
  "edit_entry s sel =
     (if length sel = 0 \<or> length sel > 1 then s
      else (let item = map tk_item_value (lg_tree s ! hd sel)
            in s\<lparr>lg_editor := \<lparr>ed_id = item ! 0, ed_date = item ! 1, ed_purpose = item ! 2,
                                ed_from = item ! 3, ed_to = item ! 4, ed_amount = item ! 5,
                                ed_remark = item ! 7\<rparr>\<rparr>))"

text \<open>
  \<open>load_database()\<close>: the frame read from the chosen file (an input, as is the list
  \<open>get_accounts\<close> makes of its account set), then the account lists are refreshed,
  the view combo box and the tree emptied.
\<close>

definition load_database :: "ledger_gui \<Rightarrow> ledger \<Rightarrow> string list \<Rightarrow> ledger_gui" where
  "load_database s df accounts =
     s\<lparr>lg_app := lg_app s\<lparr>la_df := df, la_accounts := accounts, la_view := []\<rparr>, lg_tree := []\<rparr>"

text \<open>\<open>save_database()\<close>: the name the frame is written to.\<close>

definition save_name :: "string \<Rightarrow> string" where
  "save_name filename = (if drop (length filename - 4) filename = ''.csv'' then filename else filename @ ''.csv'')"

subsection \<open>Properties\<close>

lemma digits_value_dash:
  "list_all ascii_digit ds \<Longrightarrow> digits_value acc b (ds @ CHR ''-'' # rest) = None"
  by (induction ds arbitrary: acc b) (auto simp: ascii_digit_def)

lemma pad_digits_digits: "list_all ascii_digit (pad_digits w n)"
  using digits_all_digit [of n] by (auto simp: pad_digits_def ascii_digit_def list_all_iff)

lemma pad_digits_not_Nil: "pad_digits w n \<noteq> []"
  using digits_not_Nil [of n] by (simp add: pad_digits_def)

lemma ascii_digit_not_space: "ascii_digit c \<Longrightarrow> \<not> py_space c \<and> c \<noteq> CHR ''-'' \<and> c \<noteq> CHR ''+''"
  by (auto simp: ascii_digit_def py_space_def)

lemma py_int_date_str: "py_int (date_str d) = Inl ValueError"
proof -
  obtain y m dd where d: "d = (y, m, dd)" by (cases d) auto
  let ?s = "pad_digits 4 y @ CHR ''-'' # pad_digits 2 m @ CHR ''-'' # pad_digits 2 dd"
  have s: "date_str d = ?s" by (simp add: date_str_def d)
  obtain c cs where c: "pad_digits 4 y = c # cs"
    using pad_digits_not_Nil by (cases "pad_digits 4 y") auto
  have hd: "ascii_digit c" using pad_digits_digits [of 4 y] by (simp add: c)
  have "ascii_digit (last (pad_digits 2 dd))"
    using pad_digits_digits [of 2 dd] pad_digits_not_Nil [of 2 dd] by (simp add: list_all_iff)
  then have "\<not> py_space (last ?s)" using pad_digits_not_Nil [of 2 dd] ascii_digit_not_space by simp
  moreover have "\<not> py_space (hd ?s)" using hd c ascii_digit_not_space by simp
  ultimately have strip: "py_strip ?s = ?s"
    using py_strip_pad [of "[]" "[]" ?s] by simp
  have "digits_value 0 False ?s = None"
    using digits_value_dash [OF pad_digits_digits] by simp
  then show ?thesis
    using hd ascii_digit_not_space [OF hd] unfolding s py_int_def strip by (simp add: c)
qed

lemma tk_item_value_date [simp]: "tk_item_value (date_str d) = date_str d"
  by (simp add: tk_item_value_def py_int_date_str)

lemma tk_item_value_str [simp]: "tk_item_value (py_str i) = py_str i"
  by (simp add: tk_item_value_def)

lemma tk_item_value_normal_form: "tk_item_value ''007'' = ''7''"
  by (simp add: tk_item_value_def py_int_def py_strip_def py_space_def ascii_digit_def
      py_str_def digits.simps char_of_digit)

text \<open>
  Edit fills the editor with the selected row: its ID, date and amount as \<open>str\<close>
  writes them, its texts as Tk returns them, and not its Total; the ID field is a text
  \<open>int()\<close> in \<open>update_entry\<close> reads back.
\<close>

theorem edit_entry_fields:
  assumes "lg_tree s = show_rows rows" "i < length rows" "rows ! i = (e, t)"
  shows "lg_editor (edit_entry s [i]) =
           \<lparr>ed_id = py_str (e_id e), ed_date = date_str (e_date e),
            ed_purpose = tk_item_value (e_purpose e), ed_from = tk_item_value (e_from e),
            ed_to = tk_item_value (e_to e), ed_amount = py_str (e_amount e),
            ed_remark = tk_item_value (e_remark e)\<rparr> \<and>
         py_int (ed_id (lg_editor (edit_entry s [i]))) = Inr (e_id e)"
  using assms by (simp add: edit_entry_def show_rows_def row_values_def)

theorem edit_entry_fields_witness:
  "lg_editor (edit_entry \<lparr>lg_app = \<lparr>la_df = [], la_accounts = [], la_view = []\<rparr>,
       lg_tree = show_rows [(\<lparr>e_id = 3, e_date = (2021, 9, 14), e_purpose = ''Food'', e_from = ''Cash'',
                              e_to = ''Shop'', e_amount = 12, e_remark = ''007''\<rparr>, -12)],
       lg_editor = empty_editor\<rparr> [0]) =
     \<lparr>ed_id = ''3'', ed_date = ''2021-09-14'', ed_purpose = ''Food'', ed_from = ''Cash'',
      ed_to = ''Shop'', ed_amount = ''12'', ed_remark = ''7''\<rparr> \<and>
   py_int (ed_id (lg_editor (edit_entry \<lparr>lg_app = \<lparr>la_df = [], la_accounts = [], la_view = []\<rparr>,
       lg_tree = show_rows [(\<lparr>e_id = 3, e_date = (2021, 9, 14), e_purpose = ''Food'', e_from = ''Cash'',
                              e_to = ''Shop'', e_amount = 12, e_remark = ''007''\<rparr>, -12)],
       lg_editor = empty_editor\<rparr> [0]))) = Inr 3"
proof -
  have tk: "tk_item_value ''Food'' = ''Food''" "tk_item_value ''Cash'' = ''Cash''"
    "tk_item_value ''Shop'' = ''Shop''"
    by (simp_all add: tk_item_value_def py_int_def py_strip_def py_space_def ascii_digit_def)
  have "py_str 3 = ''3''" "py_str 12 = ''12''" "date_str (2021, 9, 14) = ''2021-09-14''"
    by (simp_all add: py_str_def digits.simps date_str_def pad_digits_def char_of_digit)
  moreover have "py_int ''3'' = Inr 3" using py_int_str [of 3] calculation(1) by simp
  ultimately show ?thesis
    using edit_entry_fields [of "\<lparr>lg_app = \<lparr>la_df = [], la_accounts = [], la_view = []\<rparr>,
       lg_tree = show_rows [(\<lparr>e_id = 3, e_date = (2021, 9, 14), e_purpose = ''Food'', e_from = ''Cash'',
                              e_to = ''Shop'', e_amount = 12, e_remark = ''007''\<rparr>, -12)],
       lg_editor = empty_editor\<rparr>"
       "[(\<lparr>e_id = 3, e_date = (2021, 9, 14), e_purpose = ''Food'', e_from = ''Cash'',
                              e_to = ''Shop'', e_amount = 12, e_remark = ''007''\<rparr>, -12)]" 0]
    by (simp add: tk tk_item_value_normal_form)
qed

lemma save_name_csv: "drop (length (save_name f) - 4) (save_name f) = ''.csv''"
  by (simp add: save_name_def)

lemma save_name_idem: "save_name (save_name f) = save_name f"
  by (simp add: save_name_def save_name_csv [unfolded save_name_def])

lemma save_name_cancel: "save_name [] = ''.csv''"
  by (simp add: save_name_def)

lemma load_database_view:
  "a \<in> set accounts \<Longrightarrow>
   populate_tree ((lg_app (load_database s df accounts))\<lparr>la_view := a\<rparr>) k = get_records df a k"
  by (simp add: load_database_def populate_tree_def)

lemma lg_app_edit_entry [simp]: "lg_app (edit_entry s sel) = lg_app s"
  by (simp add: edit_entry_def Let_def)

end
