(* ===== verification/Ledger_Input.thy ===== *)
theory Ledger_Input
  imports Ledger_Editor
begin

text \<open>
  The Create and Update handlers of \<open>AccountManagerApps\<close> (src/account_manager.py,
  lines 324-361) from the editor fields: \<open>int()\<close> of the ID, \<open>datetime.strptime\<close>
  of the date with the format \<open>"%Y-%m-%d"\<close>, as CPython's \<open>_strptime\<close> matches it
  with a regular expression, and \<open>float()\<close> of the amount.  The ledger holds amounts as
  exact integers, so \<open>float()\<close> (and \<open>round(., 2)\<close>, which leaves an integer as it is)
  is a parameter \<open>amount_of\<close> of the handlers.  An exception aborts the Tk callback
  before any state has changed.
\<close>

subsection \<open>\<open>datetime.strptime(s, "%Y-%m-%d")\<close>\<close>

definition digit_val :: "char \<Rightarrow> nat" where
  "digit_val c = of_char c - 48"

text \<open>\<open>int()\<close> of a run of ASCII digits.\<close>

definition digits_nat :: "string \<Rightarrow> nat" where
  "digits_nat cs = foldl (\<lambda>n c. 10 * n + digit_val c) 0 cs"

definition one_of :: "string \<Rightarrow> char \<Rightarrow> bool" where
  "one_of cs c \<longleftrightarrow> c \<in> set cs"

text \<open>
  One alternative of a group of the regular expression is a sequence of character
  classes; a group is the list of its alternatives in the order \<open>re\<close> tries them.  A
  match at the front of the string gives \<open>int()\<close> of the matched text (a leading space
  is skipped, as \<open>int(" 5")\<close> does) and the rest of the string.
\<close>

definition re_chars :: "(char \<Rightarrow> bool) list \<Rightarrow> string \<Rightarrow> (nat \<times> string) list" where
  "re_chars ps s =
     (if length ps \<le> length s \<and> list_all2 (\<lambda>p c. p c) ps (take (length ps) s)
      then [(digits_nat (filter ascii_digit (take (length ps) s)), drop (length ps) s)] else [])"

definition re_group :: "(char \<Rightarrow> bool) list list \<Rightarrow> string \<Rightarrow> (nat \<times> string) list" where
  "re_group alts s = concat (map (\<lambda>ps. re_chars ps s) alts)"

text \<open>The groups of \<open>_strptime\<close>'s \<open>TimeRE\<close>: \<open>Y\<close> is \<open>\d\d\d\d\<close>, \<open>m\<close> is
  \<open>1[0-2]|0[1-9]|[1-9]\<close>, \<open>d\<close> is \<open>3[01]|[12]\d|0[1-9]|[1-9]| [1-9]\<close>.\<close>

definition re_Y :: "(char \<Rightarrow> bool) list list" where
  "re_Y = [[ascii_digit, ascii_digit, ascii_digit, ascii_digit]]"

definition re_m :: "(char \<Rightarrow> bool) list list" where
  "re_m = [[one_of ''1'', one_of ''012''], [one_of ''0'', one_of ''123456789''], [one_of ''123456789'']]"

definition re_d :: "(char \<Rightarrow> bool) list list" where
  "re_d = [[one_of ''3'', one_of ''01''], [one_of ''12'', ascii_digit], [one_of ''0'', one_of ''123456789''],
           [one_of ''123456789''], [one_of '' '', one_of ''123456789'']]"

definition re_lit :: "char \<Rightarrow> string \<Rightarrow> string list" where
  "re_lit c s = (if s \<noteq> [] \<and> hd s = c then [tl s] else [])"

text \<open>The matches of \<open>Y-m-d\<close> at the front of the string, in the order the regular
  expression engine finds them; \<open>re.match\<close> returns the first.\<close>

definition date_matches :: "string \<Rightarrow> ((nat \<times> nat \<times> nat) \<times> string) list" where
  "date_matches s =
     [((y, m, d), r). (y, r1) \<leftarrow> re_group re_Y s, r1' \<leftarrow> re_lit CHR ''-'' r1,
                      (m, r2) \<leftarrow> re_group re_m r1', r2' \<leftarrow> re_lit CHR ''-'' r2,
                      (d, r) \<leftarrow> re_group re_d r2']"

text \<open>\<open>datetime.date(year, month, day)\<close> accepts years 1 to 9999 and the days of the
  month in the Gregorian calendar.\<close>

definition leap_year :: "nat \<Rightarrow> bool" where
  "leap_year y \<longleftrightarrow> 4 dvd y \<and> (\<not> 100 dvd y \<or> 400 dvd y)"

definition days_in_month :: "nat \<Rightarrow> nat \<Rightarrow> nat" where
  "days_in_month y m =
     (if m = 2 then (if leap_year y then 29 else 28) else if m \<in> {4, 6, 9, 11} then 30 else 31)"

definition valid_date :: "nat \<times> nat \<times> nat \<Rightarrow> bool" where
  "valid_date = (\<lambda>(y, m, d). 1 \<le> y \<and> y \<le> 9999 \<and> 1 \<le> m \<and> m \<le> 12 \<and> 1 \<le> d \<and> d \<le> days_in_month y m)"

text \<open>
  \<open>strptime(s, "%Y-%m-%d").date()\<close>: no match (\<open>"time data ... does not match
  format"\<close>), text left after the match (\<open>"unconverted data remains"\<close>) and a day the
  month does not have all raise \<open>ValueError\<close>.
\<close>

definition strptime_date :: "string \<Rightarrow> py_error + (nat \<times> nat \<times> nat)" where
  "strptime_date s =
     (case date_matches s of
        [] \<Rightarrow> Inl ValueError
      | (d, r) # _ \<Rightarrow> (if r \<noteq> [] then Inl ValueError else if valid_date d then Inr d else Inl ValueError))"

subsection \<open>The Create and Update handlers\<close>

text \<open>
  \<open>create_entry()\<close>: the date, then the amount, are parsed; the entry
  \<open>[None, date, purpose, from, to, amount, remark]\<close> goes to \<open>AM.create_entry\<close>, whose
  id replaces the \<open>None\<close>, and the tree is filled again sorted by \<open>ID\<close>.
\<close>

definition gui_create_entry ::
  "(string \<Rightarrow> py_error + int) \<Rightarrow> ledger_gui \<Rightarrow> ledger_gui \<times> py_error option" where
  "gui_create_entry amount_of s =
     (let ed = lg_editor s in
      case strptime_date (ed_date ed) of
        Inl err \<Rightarrow> (s, Some err)
      | Inr d \<Rightarrow>
          (case amount_of (ed_amount ed) of
             Inl err \<Rightarrow> (s, Some err)
           | Inr a \<Rightarrow>
               (case app_create_entry (lg_app s)
                       \<lparr>e_id = 0, e_date = d, e_purpose = ed_purpose ed, e_from = ed_from ed,
                        e_to = ed_to ed, e_amount = a, e_remark = ed_remark ed\<rparr> of
                  Inl err \<Rightarrow> (s, Some err)
                | Inr (app, rows) \<Rightarrow> (s\<lparr>lg_app := app, lg_tree := show_rows rows\<rparr>, None))))"

text \<open>\<open>update_entry()\<close>: \<open>int()\<close> of the ID, the date, then the amount; the entry
  \<open>(id, date, purpose, from, to, amount, remark)\<close> goes to \<open>AM.update_entry\<close>.\<close>

definition gui_update_entry ::
  "(string \<Rightarrow> py_error + int) \<Rightarrow> ledger_gui \<Rightarrow> ledger_gui \<times> py_error option" where
  "gui_update_entry amount_of s =
     (let ed = lg_editor s in
      case py_int (ed_id ed) of
        Inl err \<Rightarrow> (s, Some err)
      | Inr i \<Rightarrow>
          (case strptime_date (ed_date ed) of
             Inl err \<Rightarrow> (s, Some err)
           | Inr d \<Rightarrow>
               (case amount_of (ed_amount ed) of
                  Inl err \<Rightarrow> (s, Some err)
                | Inr a \<Rightarrow>
                    (let (app, rows) = app_update_entry (lg_app s)
                           \<lparr>e_id = i, e_date = d, e_purpose = ed_purpose ed, e_from = ed_from ed,
                            e_to = ed_to ed, e_amount = a, e_remark = ed_remark ed\<rparr>
                     in (s\<lparr>lg_app := app, lg_tree := show_rows rows\<rparr>, None)))))"

subsection \<open>Properties\<close>

lemma digits_nat_append: "digits_nat (xs @ ys) = digits_nat xs * 10 ^ length ys + digits_nat ys"
proof (induction ys rule: rev_induct)
  case (snoc c ys)
  then show ?case by (simp add: digits_nat_def algebra_simps)
qed (simp add: digits_nat_def)

lemma digit_val_char: "k < 10 \<Longrightarrow> digit_val (char_of (48 + k)) = k"
  by (simp add: digit_val_def of_char_digit)

lemma digits_nat_digits: "digits_nat (digits n) = n"
proof (induction n rule: digits.induct)
  case (1 n)
  show ?case
  proof (cases "n < 10")
    case True
    then show ?thesis by (subst digits.simps) (simp add: digits_nat_def digit_val_char)
  next
    case False
    then have "digits_nat (digits n) = digits_nat (digits (n div 10)) * 10 + n mod 10"
      by (subst digits.simps) (simp add: digits_nat_append digits_nat_def digit_val_char)
    with 1 False show ?thesis by simp
  qed
qed

lemma digits_nat_zeros: "digits_nat (replicate k (CHR ''0'') @ xs) = digits_nat xs"
  by (induction k) (simp_all add: digits_nat_def digit_val_def)

lemma length_digits_le: "n < 10 ^ k \<Longrightarrow> 0 < k \<Longrightarrow> length (digits n) \<le> k"
proof (induction n arbitrary: k rule: digits.induct)
  case (1 n)
  show ?case
  proof (cases "n < 10")
    case True
    then show ?thesis using 1 by (subst digits.simps) simp
  next
    case False
    obtain j where k: "k = Suc j" using 1 by (cases k) auto
    have "n div 10 < 10 ^ j" using 1(2) by (simp add: k less_mult_imp_div_less mult.commute)
    moreover have "0 < j" using False 1(2) k by (cases j) auto
    ultimately have "length (digits (n div 10)) \<le> j" using 1(1) False by blast
    then show ?thesis using False k by (subst digits.simps) simp
  qed
qed

lemma pad_digits_length: "n < 10 ^ w \<Longrightarrow> 0 < w \<Longrightarrow> length (pad_digits w n) = w"
  using length_digits_le [of n w] by (simp add: pad_digits_def)

lemma digits_nat_pad: "digits_nat (pad_digits w n) = n"
  by (simp add: pad_digits_def digits_nat_zeros digits_nat_digits)

lemma filter_digits_pad: "filter ascii_digit (pad_digits w n) = pad_digits w n"
  using pad_digits_digits [of w n] by (simp add: list_all_iff)

lemma re_Y_pad:
  assumes "y < 10000"
  shows "re_group re_Y (pad_digits 4 y @ rest) = [(y, rest)]"
proof -
  have l: "length (pad_digits 4 y) = 4" using assms by (simp add: pad_digits_length)
  then obtain a b c d where p: "pad_digits 4 y = [a, b, c, d]"
    using l by (auto simp: length_Suc_conv eval_nat_numeral)
  have "list_all ascii_digit [a, b, c, d]" using pad_digits_digits [of 4 y] by (simp add: p)
  then show ?thesis
    using digits_nat_pad [of 4 y] filter_digits_pad [of 4 y]
    by (simp add: re_group_def re_Y_def re_chars_def p)
qed


lemma re_m_pad:
  assumes "1 \<le> m" "m \<le> 12"
  shows "\<exists>xs. re_group re_m (pad_digits 2 m @ CHR ''-'' # rest) = (m, CHR ''-'' # rest) # xs"
proof -
  have "m = 1 \<or> m = 2 \<or> m = 3 \<or> m = 4 \<or> m = 5 \<or> m = 6 \<or> m = 7 \<or> m = 8 \<or> m = 9 \<or>
             m = 10 \<or> m = 11 \<or> m = 12" using assms by presburger
  then show ?thesis
    by (elim disjE) (simp_all add: re_group_def re_m_def re_chars_def pad_digits_def digits.simps
        char_of_digit one_of_def digits_nat_def digit_val_def ascii_digit_def)
qed

lemma re_d_pad:
  assumes "1 \<le> d" "d \<le> 31"
  shows "\<exists>xs. re_group re_d (pad_digits 2 d) = (d, []) # xs"
proof -
  have "d = 1 \<or> d = 2 \<or> d = 3 \<or> d = 4 \<or> d = 5 \<or> d = 6 \<or> d = 7 \<or> d = 8 \<or> d = 9 \<or>
        d = 10 \<or> d = 11 \<or> d = 12 \<or> d = 13 \<or> d = 14 \<or> d = 15 \<or> d = 16 \<or> d = 17 \<or>
        d = 18 \<or> d = 19 \<or> d = 20 \<or> d = 21 \<or> d = 22 \<or> d = 23 \<or> d = 24 \<or> d = 25 \<or>
        d = 26 \<or> d = 27 \<or> d = 28 \<or> d = 29 \<or> d = 30 \<or> d = 31" using assms by presburger
  then show ?thesis
    by (elim disjE) (simp_all add: re_group_def re_d_def re_chars_def pad_digits_def digits.simps
        char_of_digit one_of_def digits_nat_def digit_val_def ascii_digit_def)
qed

lemma days_in_month_le: "days_in_month y m \<le> 31"
  by (simp add: days_in_month_def)

lemma date_matches_date_str:
  assumes "valid_date d"
  shows "\<exists>zs. date_matches (date_str d) = (d, []) # zs"
proof -
  obtain y m dd where d: "d = (y, m, dd)" by (cases d)
  have v: "1 \<le> y" "y \<le> 9999" "1 \<le> m" "m \<le> 12" "1 \<le> dd" "dd \<le> 31"
    using assms days_in_month_le [of y m] by (auto simp: valid_date_def d)
  obtain xs where xm: "re_group re_m (pad_digits 2 m @ CHR ''-'' # pad_digits 2 dd) =
                         (m, CHR ''-'' # pad_digits 2 dd) # xs"
    using re_m_pad [OF v(3,4)] by blast
  obtain ys where xd: "re_group re_d (pad_digits 2 dd) = (dd, []) # ys"
    using re_d_pad [OF v(5,6)] by blast
  have "re_group re_Y (date_str d) = [(y, CHR ''-'' # pad_digits 2 m @ CHR ''-'' # pad_digits 2 dd)]"
    using re_Y_pad [of y "CHR ''-'' # pad_digits 2 m @ CHR ''-'' # pad_digits 2 dd"] v(2)
    by (simp add: date_str_def d)
  then show ?thesis
    using xm xd by (simp add: date_matches_def re_lit_def d)
qed

lemma strptime_date_first:
  "date_matches s = (d, []) # zs \<Longrightarrow> valid_date d \<Longrightarrow> strptime_date s = Inr d"
  by (simp add: strptime_date_def)

text \<open>
  C20: \<open>strptime\<close> with \<open>"%Y-%m-%d"\<close> reads back \<open>str\<close> of every valid date: the
  date Edit puts into the editor is the date Update parses.
\<close>

theorem strptime_date_str:
  assumes "valid_date d"
  shows "strptime_date (date_str d) = Inr d"
proof -
  obtain zs where "date_matches (date_str d) = (d, []) # zs"
    using date_matches_date_str [OF assms] by blast
  then show ?thesis using strptime_date_first assms by blast
qed

theorem strptime_date_str_witness:
  "valid_date (2020, 2, 29) \<and> strptime_date (date_str (2020, 2, 29)) = Inr (2020, 2, 29)"
proof -
  have v: "valid_date (2020, 2, 29)" by (simp add: valid_date_def days_in_month_def leap_year_def)
  show ?thesis using strptime_date_str [OF v] v by simp
qed

lemma loc_set_same: "ledger_ok df \<Longrightarrow> (k, e) \<in> set df \<Longrightarrow> loc_set df k e = df"
  unfolding ledger_ok_def loc_set_def
  by (force intro!: map_idI dest: eq_key_imp_eq_value)

lemma populate_tree_in_df:
  assumes "i < length (populate_tree a k)" "populate_tree a k ! i = (e, t)"
  shows "e \<in> snd ` set (la_df a)"
proof -
  have "(e, t) \<in> set (populate_tree a k)" using assms by (metis nth_mem)
  then have "(e, t) \<in> set (zip (acct_rows (la_df a) (la_view a)) (cumsum_from 0 (inflows (la_df a) (la_view a))))"
    by (auto simp: populate_tree_def get_records_rows split: if_splits
        dest: arg_cong [of _ _ set_mset] simp flip: set_mset_mset)
  then have "e \<in> set (acct_rows (la_df a) (la_view a))" by (blast dest: set_zip_leftD)
  then show ?thesis by (auto simp: acct_rows_def)
qed

lemma ledger_ok_label: "ledger_ok df \<Longrightarrow> e \<in> snd ` set df \<Longrightarrow> (e_id e, e) \<in> set df"
  by (auto simp: ledger_ok_def list_all_iff)

lemma update_entry_same: "ledger_ok df \<Longrightarrow> e \<in> snd ` set df \<Longrightarrow> update_entry df e = df"
  by (simp add: update_entry_def loc_set_same ledger_ok_label)

lemma lg_app_update_same: "lg_app r = a \<Longrightarrow> r\<lparr>lg_app := a, lg_tree := x\<rparr> = r\<lparr>lg_tree := x\<rparr>"
  by (cases r) auto

lemma entry_eta:
  "\<lparr>e_id = e_id e, e_date = e_date e, e_purpose = e_purpose e, e_from = e_from e, e_to = e_to e,
    e_amount = e_amount e, e_remark = e_remark e\<rparr> = e"
  by (cases e) simp

text \<open>
  C19: Edit of a row in the tree followed by Update, with the editor left as Edit filled
  it, raises nothing and leaves the ledger and the viewer as they were, when the row's
  texts come back from Tk unchanged, its date is valid and \<open>float()\<close> reads back its
  amount.
\<close>

theorem edit_update_unchanged:
  assumes ok: "ledger_ok (la_df (lg_app s))"
    and tree: "lg_tree s = show_rows (populate_tree (lg_app s) k)"
    and row: "i < length (populate_tree (lg_app s) k)" "populate_tree (lg_app s) k ! i = (e, t)"
    and date: "valid_date (e_date e)"
    and amount: "amount_of (py_str (e_amount e)) = Inr (e_amount e)"
    and texts: "tk_item_value (e_purpose e) = e_purpose e" "tk_item_value (e_from e) = e_from e"
      "tk_item_value (e_to e) = e_to e" "tk_item_value (e_remark e) = e_remark e"
  shows "gui_update_entry amount_of (edit_entry s [i]) =
           ((edit_entry s [i])\<lparr>lg_tree := show_rows (populate_tree (lg_app s) SortID)\<rparr>, None)"
proof -
  have ed: "lg_editor (edit_entry s [i]) =
           \<lparr>ed_id = py_str (e_id e), ed_date = date_str (e_date e), ed_purpose = e_purpose e,
            ed_from = e_from e, ed_to = e_to e, ed_amount = py_str (e_amount e), ed_remark = e_remark e\<rparr>"
    using edit_entry_fields [OF tree row] texts by simp
  have df: "update_entry (la_df (lg_app s)) e = la_df (lg_app s)"
    using update_entry_same [OF ok populate_tree_in_df [OF row]] .
  obtain zs where "date_matches (date_str (e_date e)) = (e_date e, []) # zs"
    using date_matches_date_str [OF date] by blast
  then have "strptime_date (date_str (e_date e)) = Inr (e_date e)"
    using strptime_date_first date by blast
  then show ?thesis
    using ed df amount
    by (simp add: gui_update_entry_def app_update_entry_def entry_eta Let_def lg_app_update_same)
qed

theorem edit_update_unchanged_witness:
  "snd (gui_update_entry py_int (edit_entry \<lparr>lg_app = \<lparr>la_df = [(1, \<lparr>e_id = 1, e_date = (2021, 9, 14), e_purpose = ''Food'', e_from = ''Cash'', e_to = ''Shop'', e_amount = 12, e_remark = ''-''\<rparr>)], la_accounts = [''Cash''], la_view = ''Cash''\<rparr>, lg_tree = show_rows [(\<lparr>e_id = 1, e_date = (2021, 9, 14), e_purpose = ''Food'', e_from = ''Cash'', e_to = ''Shop'', e_amount = 12, e_remark = ''-''\<rparr>, -12)], lg_editor = empty_editor\<rparr> [0])) = None \<and>
   la_df (lg_app (fst (gui_update_entry py_int (edit_entry \<lparr>lg_app = \<lparr>la_df = [(1, \<lparr>e_id = 1, e_date = (2021, 9, 14), e_purpose = ''Food'', e_from = ''Cash'', e_to = ''Shop'', e_amount = 12, e_remark = ''-''\<rparr>)], la_accounts = [''Cash''], la_view = ''Cash''\<rparr>, lg_tree = show_rows [(\<lparr>e_id = 1, e_date = (2021, 9, 14), e_purpose = ''Food'', e_from = ''Cash'', e_to = ''Shop'', e_amount = 12, e_remark = ''-''\<rparr>, -12)], lg_editor = empty_editor\<rparr> [0])))) = [(1, \<lparr>e_id = 1, e_date = (2021, 9, 14), e_purpose = ''Food'', e_from = ''Cash'', e_to = ''Shop'', e_amount = 12, e_remark = ''-''\<rparr>)]"
proof -
  have p: "populate_tree \<lparr>la_df = [(1, \<lparr>e_id = 1, e_date = (2021, 9, 14), e_purpose = ''Food'', e_from = ''Cash'', e_to = ''Shop'', e_amount = 12, e_remark = ''-''\<rparr>)], la_accounts = [''Cash''], la_view = ''Cash''\<rparr> SortID = [(\<lparr>e_id = 1, e_date = (2021, 9, 14), e_purpose = ''Food'', e_from = ''Cash'', e_to = ''Shop'', e_amount = 12, e_remark = ''-''\<rparr>, -12)]"
    by (simp add: populate_tree_def get_records_def sort_rows_def get_inflow_from_def)
  have tk: "tk_item_value ''Food'' = ''Food''" "tk_item_value ''Cash'' = ''Cash''"
    "tk_item_value ''Shop'' = ''Shop''" "tk_item_value ''-'' = ''-''"
    by (simp_all add: tk_item_value_def py_int_def py_strip_def py_space_def ascii_digit_def)
  have v: "valid_date (2021, 9, 14)" by (simp add: valid_date_def days_in_month_def)
  have ok: "ledger_ok [(1, \<lparr>e_id = 1, e_date = (2021, 9, 14), e_purpose = ''Food'', e_from = ''Cash'', e_to = ''Shop'', e_amount = 12, e_remark = ''-''\<rparr>)]" by (simp add: ledger_ok_def)
  show ?thesis
    using edit_update_unchanged [of "\<lparr>lg_app = \<lparr>la_df = [(1, \<lparr>e_id = 1, e_date = (2021, 9, 14), e_purpose = ''Food'', e_from = ''Cash'', e_to = ''Shop'', e_amount = 12, e_remark = ''-''\<rparr>)], la_accounts = [''Cash''], la_view = ''Cash''\<rparr>, lg_tree = show_rows [(\<lparr>e_id = 1, e_date = (2021, 9, 14), e_purpose = ''Food'', e_from = ''Cash'', e_to = ''Shop'', e_amount = 12, e_remark = ''-''\<rparr>, -12)], lg_editor = empty_editor\<rparr>" SortID 0 "\<lparr>e_id = 1, e_date = (2021, 9, 14), e_purpose = ''Food'', e_from = ''Cash'', e_to = ''Shop'', e_amount = 12, e_remark = ''-''\<rparr>" "-12" py_int] p tk v ok
    by (simp add: edit_entry_def Let_def)
qed

lemma edit_update_rewrites_remark:
  "la_df (lg_app (fst (gui_update_entry py_int (edit_entry \<lparr>lg_app = \<lparr>la_df = [(1, \<lparr>e_id = 1, e_date = (2021, 9, 14), e_purpose = ''Food'', e_from = ''Cash'', e_to = ''Shop'', e_amount = 12, e_remark = ''007''\<rparr>)], la_accounts = [''Cash''], la_view = ''Cash''\<rparr>, lg_tree = show_rows [(\<lparr>e_id = 1, e_date = (2021, 9, 14), e_purpose = ''Food'', e_from = ''Cash'', e_to = ''Shop'', e_amount = 12, e_remark = ''007''\<rparr>, -12)], lg_editor = empty_editor\<rparr> [0])))) =
     [(1, \<lparr>e_id = 1, e_date = (2021, 9, 14), e_purpose = ''Food'', e_from = ''Cash'', e_to = ''Shop'', e_amount = 12, e_remark = ''007''\<rparr>\<lparr>e_remark := ''7''\<rparr>)]"
proof -
  have tk: "tk_item_value ''Food'' = ''Food''" "tk_item_value ''Cash'' = ''Cash''"
    "tk_item_value ''Shop'' = ''Shop''"
    by (simp_all add: tk_item_value_def py_int_def py_strip_def py_space_def ascii_digit_def)
  have v: "valid_date (2021, 9, 14)" by (simp add: valid_date_def days_in_month_def)
  have ed: "lg_editor (edit_entry \<lparr>lg_app = \<lparr>la_df = [(1, \<lparr>e_id = 1, e_date = (2021, 9, 14), e_purpose = ''Food'', e_from = ''Cash'', e_to = ''Shop'', e_amount = 12, e_remark = ''007''\<rparr>)], la_accounts = [''Cash''], la_view = ''Cash''\<rparr>, lg_tree = show_rows [(\<lparr>e_id = 1, e_date = (2021, 9, 14), e_purpose = ''Food'', e_from = ''Cash'', e_to = ''Shop'', e_amount = 12, e_remark = ''007''\<rparr>, -12)], lg_editor = empty_editor\<rparr> [0]) =
      \<lparr>ed_id = py_str 1, ed_date = date_str (2021, 9, 14), ed_purpose = ''Food'', ed_from = ''Cash'',
       ed_to = ''Shop'', ed_amount = py_str 12, ed_remark = ''7''\<rparr>"
    using edit_entry_fields [of "\<lparr>lg_app = \<lparr>la_df = [(1, \<lparr>e_id = 1, e_date = (2021, 9, 14), e_purpose = ''Food'', e_from = ''Cash'', e_to = ''Shop'', e_amount = 12, e_remark = ''007''\<rparr>)], la_accounts = [''Cash''], la_view = ''Cash''\<rparr>, lg_tree = show_rows [(\<lparr>e_id = 1, e_date = (2021, 9, 14), e_purpose = ''Food'', e_from = ''Cash'', e_to = ''Shop'', e_amount = 12, e_remark = ''007''\<rparr>, -12)], lg_editor = empty_editor\<rparr>" "[(\<lparr>e_id = 1, e_date = (2021, 9, 14), e_purpose = ''Food'', e_from = ''Cash'', e_to = ''Shop'', e_amount = 12, e_remark = ''007''\<rparr>, -12)]" 0 "\<lparr>e_id = 1, e_date = (2021, 9, 14), e_purpose = ''Food'', e_from = ''Cash'', e_to = ''Shop'', e_amount = 12, e_remark = ''007''\<rparr>" "-12"] tk tk_item_value_normal_form by simp
  obtain zs where "date_matches (date_str (2021, 9, 14)) = ((2021, 9, 14), []) # zs"
    using date_matches_date_str [OF v] by blast
  then have "strptime_date (date_str (2021, 9, 14)) = Inr (2021, 9, 14)"
    using strptime_date_first v by blast
  then show ?thesis
    using ed
    by (simp add: gui_update_entry_def app_update_entry_def update_entry_def loc_set_def Let_def)
qed

end
