(* ===== verification/Ledger_Session.thy ===== *)
theory Ledger_Session
  imports Ledger_Input
begin

text \<open>
  A session of the account manager's viewer (src/account_manager.py): the buttons of
  \<open>AccountManagerApps.create_widget\<close> and the fields the user types into, as a datatype of
  commands, one step per command, and the states a session reaches from a frame whose
  labels are the IDs.  The step of each button is the handler of Ledger_Editor or
  Ledger_Input it is bound to; a handler that raises leaves the state as it was.
\<close>

subsection \<open>Remove from the tree\<close>

text \<open>
  \<open>AccountManagerApps.remove_entry()\<close>: nothing without a selection; otherwise
  \<open>AM.remove_entry(item)\<close> for each selected row, whose \<open>item[0]\<close> Tk returns as an int
  when \<open>int()\<close> accepts it (a string is never in the integer index and removes
  nothing), then the tree is filled again sorted by \<open>ID\<close>.
\<close>

definition selected_ids :: "string list list \<Rightarrow> nat list \<Rightarrow> int list" where
  "selected_ids tree sel = concat (map (\<lambda>i. case py_int (tree ! i ! 0) of Inr n \<Rightarrow> [n] | Inl _ \<Rightarrow> []) sel)"

definition gui_remove_entry :: "ledger_gui \<Rightarrow> nat list \<Rightarrow> ledger_gui" where
  "gui_remove_entry s sel =
     (if sel = [] then s
      else (let a = fst (app_remove_entry (lg_app s) (selected_ids (lg_tree s) sel))
            in s\<lparr>lg_app := a, lg_tree := show_rows (populate_tree a SortID)\<rparr>))"

subsection \<open>Commands and steps\<close>

text \<open>The View button and the three sortable headings (\<open>populate_tree\<close> with a key),
  Edit and Remove with the tree's selection, Clear, Create, Update, File/Load with the frame
  read and its account list, and the text typed into the view combo box or the editor.\<close>

datatype ledger_cmd =
    ViewCmd sort_key | EditCmd "nat list" | RemoveCmd "nat list" | ClearCmd | CreateCmd | UpdateCmd
  | LoadCmd ledger "string list" | TypeView string | TypeEditor editor

fun ledger_step ::
  "(string \<Rightarrow> py_error + int) \<Rightarrow> ledger_gui \<Rightarrow> ledger_cmd \<Rightarrow> ledger_gui \<times> py_error option" where
  "ledger_step amount_of s (ViewCmd k) = (gui_populate s k, None)"
| "ledger_step amount_of s (EditCmd sel) = (edit_entry s sel, None)"
| "ledger_step amount_of s (RemoveCmd sel) = (gui_remove_entry s sel, None)"
| "ledger_step amount_of s ClearCmd = (clear_entry s, None)"
| "ledger_step amount_of s CreateCmd = gui_create_entry amount_of s"
| "ledger_step amount_of s UpdateCmd = gui_update_entry amount_of s"
| "ledger_step amount_of s (LoadCmd df accounts) = (load_database s df accounts, None)"
| "ledger_step amount_of s (TypeView a) = (s\<lparr>lg_app := (lg_app s)\<lparr>la_view := a\<rparr>\<rparr>, None)"
| "ledger_step amount_of s (TypeEditor ed) = (s\<lparr>lg_editor := ed\<rparr>, None)"

subsection \<open>Specification vocabulary\<close>

text \<open>A file the session loads has its labels equal to the IDs.\<close>

fun ledger_cmd_ok :: "ledger_cmd \<Rightarrow> bool" where
  "ledger_cmd_ok (LoadCmd df accounts) = ledger_ok df"
| "ledger_cmd_ok _ = True"

inductive ledger_reach :: "(string \<Rightarrow> py_error + int) \<Rightarrow> ledger_gui \<Rightarrow> bool"
  for amount_of where
  init: "ledger_ok (la_df (lg_app s)) \<Longrightarrow> lg_tree s = [] \<Longrightarrow> ledger_reach amount_of s"
| step: "ledger_reach amount_of s \<Longrightarrow> ledger_cmd_ok c \<Longrightarrow> ledger_reach amount_of (fst (ledger_step amount_of s c))"

text \<open>The tree shows nothing, or the rows \<open>get_records\<close> gives for some account and key on
  the current frame: it never shows rows of an older frame.\<close>

definition tree_current :: "ledger_gui \<Rightarrow> bool" where
  "tree_current s \<longleftrightarrow> lg_tree s = [] \<or> (\<exists>a k. lg_tree s = show_rows (get_records (la_df (lg_app s)) a k))"

subsection \<open>Properties\<close>

lemma tree_current_shown:
  "lg_tree s = show_rows (populate_tree (lg_app s) k) \<Longrightarrow> tree_current s"
  by (auto simp: tree_current_def populate_tree_def show_rows_def)

lemma ledger_ok_remove_fold:
  "ledger_ok df \<Longrightarrow> ledger_ok (fold (\<lambda>i df. fst (remove_entry df i)) ids df)"
  by (induction ids arbitrary: df) (simp_all add: remove_entry_def ledger_ok_filter)

lemma ledger_ok_app_remove:
  "ledger_ok (la_df a) \<Longrightarrow> ledger_ok (la_df (fst (app_remove_entry a ids)))"
  by (simp add: app_remove_entry_def Let_def ledger_ok_remove_fold)

lemma ledger_ok_create:
  assumes "ledger_ok df" "create_entry df e = Inr df'"
  shows "ledger_ok df'"
proof -
  have ne: "df \<noteq> []" using assms(2) by (auto simp: create_entry_def)
  show ?thesis using create_entry_Inr [OF assms(1) ne, of e] assms(2) ledger_ok_append [OF assms(1)] by simp
qed


lemma gui_create_inv:
  assumes "ledger_ok (la_df (lg_app s))" "tree_current s"
  shows "ledger_ok (la_df (lg_app (fst (gui_create_entry f s)))) \<and> tree_current (fst (gui_create_entry f s))"
  using assms
  by (auto simp: gui_create_entry_def app_create_entry_def Let_def split: sum.splits
      intro: ledger_ok_create tree_current_shown)

lemma gui_update_inv:
  assumes "ledger_ok (la_df (lg_app s))" "tree_current s"
  shows "ledger_ok (la_df (lg_app (fst (gui_update_entry f s)))) \<and> tree_current (fst (gui_update_entry f s))"
  using assms
  by (auto simp: gui_update_entry_def app_update_entry_def update_entry_def Let_def split: sum.splits
      intro: ledger_ok_loc_set tree_current_shown)

lemma ledger_step_inv:
  assumes "ledger_ok (la_df (lg_app s))" "tree_current s" "ledger_cmd_ok c"
  shows "ledger_ok (la_df (lg_app (fst (ledger_step f s c)))) \<and> tree_current (fst (ledger_step f s c))"
proof (cases c)
  case (ViewCmd k)
  then show ?thesis using assms(1) by (simp add: gui_populate_def tree_current_shown)
next
  case (RemoveCmd sel)
  then show ?thesis
    using assms(1,2) ledger_ok_app_remove [OF assms(1)]
    by (auto simp: gui_remove_entry_def Let_def intro: tree_current_shown)
next
  case CreateCmd
  then show ?thesis using gui_create_inv [OF assms(1,2)] by simp
next
  case UpdateCmd
  then show ?thesis using gui_update_inv [OF assms(1,2)] by simp
next
  case (LoadCmd df accounts)
  then show ?thesis using assms(3) by (simp add: load_database_def tree_current_def)
qed (insert assms, simp_all add: edit_entry_def clear_entry_def Let_def tree_current_def)

text \<open>
  C18: in every state a session of the viewer reaches from a frame whose labels are the
  IDs, loading only such files, the labels stay the IDs and the tree never shows rows of an
  older frame: it is empty or shows the current frame's records of some account.
\<close>

theorem ledger_session_inv:
  assumes "ledger_reach f s"
  shows "ledger_ok (la_df (lg_app s)) \<and> tree_current s"
  using assms
proof (induction rule: ledger_reach.induct)
  case (init s)
  then show ?case by (simp add: tree_current_def)
next
  case (step s c)
  then show ?case using ledger_step_inv by blast
qed

theorem ledger_session_inv_witness:
  "ledger_reach py_int (fst (ledger_step py_int (fst (ledger_step py_int \<lparr>lg_app = \<lparr>la_df = [(1, \<lparr>e_id = 1, e_date = (2021, 9, 14), e_purpose = ''Food'', e_from = ''Cash'', e_to = ''Shop'', e_amount = 12, e_remark = ''-''\<rparr>)], la_accounts = [''Cash''], la_view = ''Cash''\<rparr>, lg_tree = [], lg_editor = empty_editor\<rparr> (TypeEditor \<lparr>ed_id = [], ed_date = ''2021-09-15'', ed_purpose = ''Rent'', ed_from = ''Cash'', ed_to = ''Home'', ed_amount = ''30'', ed_remark = ''-''\<rparr>))) CreateCmd)) \<and>
   ledger_ok (la_df (lg_app (fst (ledger_step py_int (fst (ledger_step py_int \<lparr>lg_app = \<lparr>la_df = [(1, \<lparr>e_id = 1, e_date = (2021, 9, 14), e_purpose = ''Food'', e_from = ''Cash'', e_to = ''Shop'', e_amount = 12, e_remark = ''-''\<rparr>)], la_accounts = [''Cash''], la_view = ''Cash''\<rparr>, lg_tree = [], lg_editor = empty_editor\<rparr> (TypeEditor \<lparr>ed_id = [], ed_date = ''2021-09-15'', ed_purpose = ''Rent'', ed_from = ''Cash'', ed_to = ''Home'', ed_amount = ''30'', ed_remark = ''-''\<rparr>))) CreateCmd)))) \<and> tree_current (fst (ledger_step py_int (fst (ledger_step py_int \<lparr>lg_app = \<lparr>la_df = [(1, \<lparr>e_id = 1, e_date = (2021, 9, 14), e_purpose = ''Food'', e_from = ''Cash'', e_to = ''Shop'', e_amount = 12, e_remark = ''-''\<rparr>)], la_accounts = [''Cash''], la_view = ''Cash''\<rparr>, lg_tree = [], lg_editor = empty_editor\<rparr> (TypeEditor \<lparr>ed_id = [], ed_date = ''2021-09-15'', ed_purpose = ''Rent'', ed_from = ''Cash'', ed_to = ''Home'', ed_amount = ''30'', ed_remark = ''-''\<rparr>))) CreateCmd))"
proof -
  have r0: "ledger_reach py_int (\<lparr>lg_app = \<lparr>la_df = [(1, \<lparr>e_id = 1, e_date = (2021, 9, 14), e_purpose = ''Food'', e_from = ''Cash'', e_to = ''Shop'', e_amount = 12, e_remark = ''-''\<rparr>)], la_accounts = [''Cash''], la_view = ''Cash''\<rparr>, lg_tree = [], lg_editor = empty_editor\<rparr>)"
    by (rule ledger_reach.init) (simp_all add: ledger_ok_def)
  have r1: "ledger_reach py_int (fst (ledger_step py_int (\<lparr>lg_app = \<lparr>la_df = [(1, \<lparr>e_id = 1, e_date = (2021, 9, 14), e_purpose = ''Food'', e_from = ''Cash'', e_to = ''Shop'', e_amount = 12, e_remark = ''-''\<rparr>)], la_accounts = [''Cash''], la_view = ''Cash''\<rparr>, lg_tree = [], lg_editor = empty_editor\<rparr>) (TypeEditor \<lparr>ed_id = [], ed_date = ''2021-09-15'', ed_purpose = ''Rent'', ed_from = ''Cash'', ed_to = ''Home'', ed_amount = ''30'', ed_remark = ''-''\<rparr>)))"
    by (rule ledger_reach.step [OF r0]) simp
  have r: "ledger_reach py_int (fst (ledger_step py_int (fst (ledger_step py_int \<lparr>lg_app = \<lparr>la_df = [(1, \<lparr>e_id = 1, e_date = (2021, 9, 14), e_purpose = ''Food'', e_from = ''Cash'', e_to = ''Shop'', e_amount = 12, e_remark = ''-''\<rparr>)], la_accounts = [''Cash''], la_view = ''Cash''\<rparr>, lg_tree = [], lg_editor = empty_editor\<rparr> (TypeEditor \<lparr>ed_id = [], ed_date = ''2021-09-15'', ed_purpose = ''Rent'', ed_from = ''Cash'', ed_to = ''Home'', ed_amount = ''30'', ed_remark = ''-''\<rparr>))) CreateCmd))"
    by (rule ledger_reach.step [OF r1]) simp
  then show ?thesis using ledger_session_inv [OF r] by blast
qed

end
