(* ===== verification/Image_Converter.thy ===== *)
theory Image_Converter
  imports Prelude Complex_Main
begin

text \<open>
  src/image_converter.py: class \<open>ImageConverter\<close> (the image, its shape and the
  four 3x3 filter kernels, \<open>filter_image\<close>, the colour-channel and grey-scale
  filters) and the tkinter handlers of \<open>ImageConverterApp\<close> that call it.  Pixel
  values are exact rationals (numpy computes in floating point; the model has no
  rounding).  A numpy array of rank 2 is a rectangular list of rows, of rank 3 a list
  of rows of pixels, each pixel the list of its channels.  The handlers return the
  state after every effect made before a raise together with the exception, because
  tkinter reports an exception of a callback and keeps the main loop running.
\<close>

type_synonym matrix = "rat list list"

text \<open>What \<open>mplimg.imread\<close> returns: a grey-scale PNG is a rank-2 array, an RGB or
  RGBA PNG a rank-3 array.\<close>

datatype ndimage = Gray matrix | Color "rat list list list"

definition nd_rows :: "ndimage \<Rightarrow> nat" where
  "nd_rows img = (case img of Gray m \<Rightarrow> length m | Color p \<Rightarrow> length p)"

definition nd_cols :: "ndimage \<Rightarrow> nat" where
  "nd_cols img =
     (case img of Gray m \<Rightarrow> (case m of [] \<Rightarrow> 0 | r # _ \<Rightarrow> length r)
      | Color p \<Rightarrow> (case p of [] \<Rightarrow> 0 | r # _ \<Rightarrow> length r))"

record image_converter =
  ic_image :: ndimage
  image_row :: nat
  image_col :: nat
  X_edge_filter :: matrix
  Y_edge_filter :: matrix
  Blur_filter :: matrix
  Laplacian_filter :: matrix

text \<open>\<open>ImageConverter.__init__\<close>, on the array the file holds.\<close>

definition ImageConverter :: "ndimage \<Rightarrow> image_converter" where
  "ImageConverter img =
     \<lparr>ic_image = img, image_row = nd_rows img, image_col = nd_cols img,
      X_edge_filter = [[1, 2, 1], [0, 0, 0], [-1, -2, -1]],
      Y_edge_filter = [[1, 0, -1], [2, 0, -2], [1, 0, -1]],
      Blur_filter = replicate 3 (replicate 3 (1 / 9)),
      Laplacian_filter = [[0, 1, 0], [1, -4, 1], [0, 1, 0]]\<rparr>"

text \<open>numpy broadcasting of one axis: a length-\<open>n\<close> axis takes an axis of length
  \<open>n\<close> or \<open>1\<close> (repeated); anything else raises.\<close>

definition bcast :: "nat \<Rightarrow> 'a list \<Rightarrow> 'a list option" where
  "bcast n xs =
     (if length xs = n then Some xs
      else if length xs = 1 then Some (replicate n (hd xs)) else None)"

text \<open>The right-hand side \<open>image[:,:]\<close> broadcast to the \<open>r x c\<close> slice of
  \<open>imgPadded[1:r+1,1:c+1] = image[:,:]\<close>: columns first, then rows.\<close>

definition bcast2 :: "nat \<Rightarrow> nat \<Rightarrow> matrix \<Rightarrow> matrix option" where
  "bcast2 r c m = (case those (map (bcast c) m) of None \<Rightarrow> None | Some m' \<Rightarrow> bcast r m')"

text \<open>\<open>np.zeros((r+2, c+2))\<close> with the \<open>r x c\<close> block \<open>m\<close> written at offset
  (1, 1).\<close>

definition pad :: "nat \<Rightarrow> matrix \<Rightarrow> matrix" where
  "pad c m = replicate (c + 2) 0 # map (\<lambda>row. 0 # row @ [0]) m @ [replicate (c + 2) 0]"

text \<open>The filter chosen by the \<open>if\<close>/\<open>elif\<close> chain; for any other string
  \<open>my_filter\<close> stays unbound.\<close>

definition choose_filter :: "image_converter \<Rightarrow> string \<Rightarrow> matrix option" where
  "choose_filter s choice =
     (if choice = ''X_edge'' then Some (X_edge_filter s)
      else if choice = ''Y_edge'' then Some (Y_edge_filter s)
      else if choice = ''Blur'' then Some (Blur_filter s)
      else if choice = ''Laplacian'' then Some (Laplacian_filter s) else None)"

text \<open>\<open>imgPadded[i:i+3,j:j+3]\<close>.\<close>

definition window :: "matrix \<Rightarrow> nat \<Rightarrow> nat \<Rightarrow> matrix" where
  "window P i j = map (\<lambda>row. take 3 (drop j row)) (take 3 (drop i P))"

text \<open>\<open>sum(np.reshape(my_filter[0:3,0:3] * imgPadded[i:i+3,j:j+3], (-1)))\<close>:
  the element-wise product, flattened and summed.\<close>

definition filter_cell :: "matrix \<Rightarrow> matrix \<Rightarrow> nat \<Rightarrow> nat \<Rightarrow> rat" where
  "filter_cell K P i j = sum_list (concat (map2 (map2 (*)) (map (take 3) (take 3 K)) (window P i j)))"

text \<open>\<open>ImageConverter.filter_image\<close>.  The padding comes first and raises
  \<open>ValueError\<close> when the image does not broadcast to the stored shape; an unknown
  \<open>filter_choice\<close> raises \<open>UnboundLocalError\<close> at the first use of
  \<open>my_filter\<close> inside the loops, so not at all when the image has no pixel.\<close>

definition filter_image :: "image_converter \<Rightarrow> matrix \<Rightarrow> string \<Rightarrow> py_error + matrix" where
  "filter_image s img choice =
     (case bcast2 (image_row s) (image_col s) img of
        None \<Rightarrow> Inl ValueError
      | Some m \<Rightarrow>
          (let P = pad (image_col s) m in
           if image_row s = 0 \<or> image_col s = 0
           then Inr (replicate (image_row s) (replicate (image_col s) 0))
           else (case choose_filter s choice of
                   None \<Rightarrow> Inl UnboundLocalError
                 | Some K \<Rightarrow>
                     Inr (map (\<lambda>i. map (\<lambda>j. filter_cell K P i j) [0..<image_col s])
                            [0..<image_row s]))))"

text \<open>\<open>self.image[:,:,k]\<close>: a rank-2 array has no third axis, and a pixel with
  fewer than \<open>k + 1\<close> channels has no entry \<open>k\<close>; both raise \<open>IndexError\<close>.\<close>

definition channel :: "ndimage \<Rightarrow> nat \<Rightarrow> py_error + matrix" where
  "channel img k =
     (case img of Gray m \<Rightarrow> Inl IndexError
      | Color p \<Rightarrow>
          (if list_all (list_all (\<lambda>px. k < length px)) p
           then Inr (map (map (\<lambda>px. px ! k)) p) else Inl IndexError))"

text \<open>Element-wise \<open>a * M\<close> and \<open>M + N\<close> on arrays of one shape.\<close>

definition mscale :: "rat \<Rightarrow> matrix \<Rightarrow> matrix" where
  "mscale a M = map (map ((*) a)) M"

definition madd :: "matrix \<Rightarrow> matrix \<Rightarrow> matrix" where
  "madd M N = map2 (map2 (+)) M N"

text \<open>\<open>imgGray = (0.2989 * R + 0.5870 * G + 0.1140 * B)\<close>.\<close>

definition gray :: "matrix \<Rightarrow> matrix \<Rightarrow> matrix \<Rightarrow> matrix" where
  "gray R G B = madd (madd (mscale 0.2989 R) (mscale 0.5870 G)) (mscale 0.1140 B)"

text \<open>What \<open>mplimg.imsave("tmp.png", R, cmap=...)\<close> writes: the array and its
  colour map (matplotlib's default is viridis).\<close>

datatype cmap = Reds | Greens | Blues | Viridis

datatype png = PNG matrix cmap

text \<open>\<open>apply_red_filter\<close>, \<open>apply_green_filter\<close>, \<open>apply_blue_filter\<close>: one
  channel saved with its colour map.\<close>

definition apply_channel_filter :: "image_converter \<Rightarrow> nat \<Rightarrow> cmap \<Rightarrow> py_error + png" where
  "apply_channel_filter s k cm =
     (case channel (ic_image s) k of Inl e \<Rightarrow> Inl e | Inr R \<Rightarrow> Inr (PNG R cm))"

text \<open>\<open>apply_xedge_filter\<close>, \<open>apply_yedge_filter\<close>, \<open>apply_blur_filter\<close>,
  \<open>apply_laplacian_filter\<close>: the same four lines with the filter's name.\<close>

definition apply_gray_filter :: "image_converter \<Rightarrow> string \<Rightarrow> py_error + png" where
  "apply_gray_filter s choice =
     (case channel (ic_image s) 0 of Inl e \<Rightarrow> Inl e | Inr R \<Rightarrow>
      (case channel (ic_image s) 1 of Inl e \<Rightarrow> Inl e | Inr G \<Rightarrow>
       (case channel (ic_image s) 2 of Inl e \<Rightarrow> Inl e | Inr B \<Rightarrow>
        (case filter_image s (gray R G B) choice of
           Inl e \<Rightarrow> Inl e
         | Inr out \<Rightarrow> Inr (PNG out Viridis)))))"

subsection \<open>The application\<close>

text \<open>What the canvas shows: the \<open>tk.PhotoImage\<close> of the opened file, or the
  one of \<open>tmp.png\<close>.\<close>

datatype canvas_item = PhotoItem ndimage | FileItem png

text \<open>The fields of \<open>ImageConverterApp\<close> the handlers read and write
  (\<open>imageConverter\<close>, \<open>image\<close>, which exists only once a file is opened), the
  file \<open>tmp.png\<close> on disk, and the items on the canvas.\<close>

record ic_app =
  imageConverter :: "image_converter option"
  app_image :: "ndimage option"
  tmp_png :: "png option"
  canvas :: "canvas_item list"

definition ImageConverterApp :: ic_app where
  "ImageConverterApp = \<lparr>imageConverter = None, app_image = None, tmp_png = None, canvas = []\<rparr>"

text \<open>\<open>open_file\<close> on the file the dialog returns, given by its contents.\<close>

definition open_file :: "ic_app \<Rightarrow> ndimage \<Rightarrow> ic_app" where
  "open_file a img = a\<lparr>app_image := Some img, imageConverter := Some (ImageConverter img)\<rparr>"

text \<open>\<open>show_figure\<close>: the canvas is cleared before \<open>self.image\<close> is read.\<close>

definition show_figure :: "ic_app \<Rightarrow> ic_app \<times> py_error option" where
  "show_figure a =
     (let a = a\<lparr>canvas := []\<rparr> in
      case app_image a of
        None \<Rightarrow> (a, Some AttributeError)
      | Some img \<Rightarrow> (a\<lparr>canvas := [PhotoItem img]\<rparr>, None))"

text \<open>The handlers \<open>red_filter\<close> to \<open>laplacian_filter\<close>: clear the canvas, call
  the converter (\<open>None.apply_...\<close> raises \<open>AttributeError\<close>), which writes
  \<open>tmp.png\<close>, then show that file.\<close>

definition run_filter :: "ic_app \<Rightarrow> (image_converter \<Rightarrow> py_error + png) \<Rightarrow> ic_app \<times> py_error option" where
  "run_filter a f =
     (let a = a\<lparr>canvas := []\<rparr> in
      case imageConverter a of
        None \<Rightarrow> (a, Some AttributeError)
      | Some ic \<Rightarrow>
          (case f ic of
             Inl e \<Rightarrow> (a, Some e)
           | Inr file \<Rightarrow> (a\<lparr>tmp_png := Some file, canvas := [FileItem file]\<rparr>, None)))"

text \<open>\<open>save_file\<close>: after the dialog it reads \<open>self.IC\<close>, an attribute the class
  never sets.\<close>

definition save_file :: "ic_app \<Rightarrow> ic_app \<times> py_error option" where
  "save_file a = (a, Some AttributeError)"

text \<open>The menu entries and buttons of \<open>create_widget\<close> that change the state.\<close>

datatype ic_cmd = OpenCmd ndimage | ShowCmd | RedCmd | GreenCmd | BlueCmd
  | XEdgeCmd | YEdgeCmd | BlurCmd | LaplacianCmd | SaveCmd

fun ic_step :: "ic_app \<Rightarrow> ic_cmd \<Rightarrow> ic_app \<times> py_error option" where
  "ic_step a (OpenCmd img) = (open_file a img, None)"
| "ic_step a ShowCmd = show_figure a"
| "ic_step a RedCmd = run_filter a (\<lambda>ic. apply_channel_filter ic 0 Reds)"
| "ic_step a GreenCmd = run_filter a (\<lambda>ic. apply_channel_filter ic 1 Greens)"
| "ic_step a BlueCmd = run_filter a (\<lambda>ic. apply_channel_filter ic 2 Blues)"
| "ic_step a XEdgeCmd = run_filter a (\<lambda>ic. apply_gray_filter ic ''X_edge'')"
| "ic_step a YEdgeCmd = run_filter a (\<lambda>ic. apply_gray_filter ic ''Y_edge'')"
| "ic_step a BlurCmd = run_filter a (\<lambda>ic. apply_gray_filter ic ''Blur'')"
| "ic_step a LaplacianCmd = run_filter a (\<lambda>ic. apply_gray_filter ic ''Laplacian'')"
| "ic_step a SaveCmd = save_file a"

text \<open>The tkinter main loop over a sequence of commands: the final state and the
  exceptions reported, in order.\<close>

fun ic_run :: "ic_app \<Rightarrow> ic_cmd list \<Rightarrow> ic_app \<times> py_error list" where
  "ic_run a [] = (a, [])"
| "ic_run a (c # cs) =
     (let (a', e) = ic_step a c; (a'', es) = ic_run a' cs
      in (a'', (case e of None \<Rightarrow> es | Some x \<Rightarrow> x # es)))"


subsection \<open>Specification vocabulary\<close>

text \<open>\<open>pix m i j\<close> is the pixel at row \<open>i\<close>, column \<open>j\<close>, and 0 outside the image;
  \<open>correlate K m i j\<close> is the 3x3 correlation of \<open>m\<close> with \<open>K\<close> centred on
  \<open>(i, j)\<close>, the textbook definition of the filter with zero padding.  \<open>mat_shape r c\<close>
  is a rectangular \<open>r x c\<close> array, \<open>rgb_ok\<close> an RGB or RGBA image as imread returns
  it, \<open>unit_pixels\<close> the value range of a PNG read by imread, \<open>luma\<close> the grey value of
  one pixel, \<open>cmd_ok\<close> a command that opens such an image or is not Save, and
  \<open>ic_inv\<close> a state in which such an image is open.\<close>

definition pix :: "matrix \<Rightarrow> int \<Rightarrow> int \<Rightarrow> rat" where
  "pix m i j =
     (if 0 \<le> i \<and> i < int (length m) \<and> 0 \<le> j \<and> j < int (length (m ! nat i))
      then m ! nat i ! nat j else 0)"

definition correlate :: "matrix \<Rightarrow> matrix \<Rightarrow> nat \<Rightarrow> nat \<Rightarrow> rat" where
  "correlate K m i j = (\<Sum>a<3. \<Sum>b<3. K ! a ! b * pix m (int i + int a - 1) (int j + int b - 1))"

definition mat_shape :: "nat \<Rightarrow> nat \<Rightarrow> matrix \<Rightarrow> bool" where
  "mat_shape r c m \<longleftrightarrow> length m = r \<and> list_all (\<lambda>row. length row = c) m"

definition kernels_ok :: "image_converter \<Rightarrow> bool" where
  "kernels_ok s \<longleftrightarrow> mat_shape 3 3 (X_edge_filter s) \<and> mat_shape 3 3 (Y_edge_filter s) \<and>
     mat_shape 3 3 (Blur_filter s) \<and> mat_shape 3 3 (Laplacian_filter s)"

definition rgb_ok :: "ndimage \<Rightarrow> bool" where
  "rgb_ok img =
     (case img of Gray m \<Rightarrow> False
      | Color p \<Rightarrow> list_all (\<lambda>row. length row = nd_cols img \<and> list_all (\<lambda>px. 3 \<le> length px) row) p)"

definition unit_pixels :: "ndimage \<Rightarrow> bool" where
  "unit_pixels img =
     (case img of Gray m \<Rightarrow> list_all (list_all (\<lambda>v. 0 \<le> v \<and> v \<le> 1)) m
      | Color p \<Rightarrow> list_all (list_all (list_all (\<lambda>v. 0 \<le> v \<and> v \<le> 1))) p)"

definition luma :: "rat list \<Rightarrow> rat" where
  "luma px = 0.2989 * px ! 0 + 0.5870 * px ! 1 + 0.1140 * px ! 2"

definition cmd_ok :: "ic_cmd \<Rightarrow> bool" where
  "cmd_ok c = (case c of OpenCmd img \<Rightarrow> rgb_ok img | SaveCmd \<Rightarrow> False | _ \<Rightarrow> True)"

definition ic_inv :: "ic_app \<Rightarrow> bool" where
  "ic_inv a \<longleftrightarrow>
     (\<exists>img. rgb_ok img \<and> app_image a = Some img \<and> imageConverter a = Some (ImageConverter img))"

subsection \<open>Filters\<close>

lemma those_bcast_rows:
  "list_all (\<lambda>row. length row = c) m \<Longrightarrow> those (map (bcast c) m) = Some m"
  by (induction m) (simp_all add: bcast_def)

lemma bcast2_shape: "mat_shape r c m \<Longrightarrow> bcast2 r c m = Some m"
  by (simp add: mat_shape_def bcast2_def those_bcast_rows bcast_def)

lemma length_pad: "length (pad c m) = length m + 2"
  by (simp add: pad_def)

lemma pad_nth:
  assumes "mat_shape r c m" "a < r + 2" "b < c + 2"
  shows "pad c m ! a ! b = pix m (int a - 1) (int b - 1)"
proof -
  have len: "length m = r" and rows: "\<And>k. k < r \<Longrightarrow> length (m ! k) = c"
    using assms(1) by (auto simp: mat_shape_def list_all_length)
  consider "a = 0" | "0 < a" "a \<le> r" | "a = r + 1" using assms(2) by linarith
  then show ?thesis
  proof cases
    case 1
    have "pad c m ! a = replicate (c + 2) 0" using 1 by (simp only: pad_def nth_Cons_0)
    then show ?thesis using 1 assms(3) by (simp add: pix_def del: replicate.simps)
  next
    case 2
    have lt: "a - 1 < length m" using 2 len by simp
    have row: "pad c m ! a = 0 # m ! (a - 1) @ [0]"
      using 2 lt by (simp add: pad_def nth_append nth_Cons')
    have lr: "length (m ! (a - 1)) = c" using rows 2 by simp
    show ?thesis using 2 len lr assms(3)
      by (auto simp: row pix_def nth_append nth_Cons' nat_diff_distrib)
  next
    case 3
    have "pad c m ! a = replicate (c + 2) 0"
      using 3 len by (simp add: pad_def nth_append del: replicate.simps)
    then show ?thesis using 3 len assms(3) by (simp add: pix_def del: replicate.simps)
  qed
qed


lemma take3_drop:
  "j + 3 \<le> length xs \<Longrightarrow> take 3 (drop j xs) = [xs ! j, xs ! (j + 1), xs ! (j + 2)]"
  by (simp add: take_Suc_conv_app_nth numeral_3_eq_3)

lemma length_pad_row:
  assumes "mat_shape r c m" "k < r + 2"
  shows "length (pad c m ! k) = c + 2"
proof -
  have len: "length m = r" and rows: "\<And>k. k < r \<Longrightarrow> length (m ! k) = c"
    using assms(1) by (auto simp: mat_shape_def list_all_length)
  show ?thesis using assms(2) len rows
    by (cases k) (auto simp: pad_def nth_append less_Suc_eq)
qed

lemma window_pad:
  assumes "mat_shape r c m" "i < r" "j < c"
  shows "window (pad c m) i j =
     map (\<lambda>a. map (\<lambda>b. pix m (int i + int a - 1) (int j + int b - 1)) [0, 1, 2]) [0, 1, 2]"
proof -
  have len: "length m = r" using assms(1) by (simp add: mat_shape_def)
  have rows: "take 3 (drop i (pad c m)) = [pad c m ! i, pad c m ! (i + 1), pad c m ! (i + 2)]"
    using assms(2) len by (intro take3_drop) (simp add: length_pad)
  have cell: "take 3 (drop j (pad c m ! k)) = [pad c m ! k ! j, pad c m ! k ! (j + 1), pad c m ! k ! (j + 2)]"
    if "k < r + 2" for k
    using assms(3) length_pad_row [OF assms(1) that] by (intro take3_drop) simp
  show ?thesis
    using assms by (simp add: window_def rows cell pad_nth algebra_simps)
qed

lemma mat3_cases:
  assumes "mat_shape 3 3 K"
  obtains k00 k01 k02 k10 k11 k12 k20 k21 k22
  where "K = [[k00, k01, k02], [k10, k11, k12], [k20, k21, k22]]"
proof -
  have "length K = 3" using assms by (simp add: mat_shape_def)
  then obtain r0 r1 r2 where K: "K = [r0, r1, r2]"
    using length3_cases by blast
  then have "length r0 = 3" "length r1 = 3" "length r2 = 3"
    using assms by (auto simp: mat_shape_def)
  then show ?thesis using K that length3_cases by metis
qed

lemma filter_cell_correlate:
  assumes "mat_shape 3 3 K" "mat_shape r c m" "i < r" "j < c"
  shows "filter_cell K (pad c m) i j = correlate K m i j"
proof -
  obtain k00 k01 k02 k10 k11 k12 k20 k21 k22
    where K: "K = [[k00, k01, k02], [k10, k11, k12], [k20, k21, k22]]"
    using assms(1) by (rule mat3_cases)
  show ?thesis
    by (simp add: filter_cell_def window_pad [OF assms(2-4)] correlate_def K numeral_3_eq_3
          algebra_simps)
qed


lemma map_grid_empty:
  "r = 0 \<or> c = 0 \<Longrightarrow> map (\<lambda>i. map (f i) [0..<c]) [0..<r] = replicate r (replicate c 0)"
  by (auto simp: map_replicate_const)

lemma choose_filter_shape: "kernels_ok s \<Longrightarrow> choose_filter s ch = Some K \<Longrightarrow> mat_shape 3 3 K"
  by (auto simp: choose_filter_def kernels_ok_def split: if_splits)

lemma kernels_ok_init: "kernels_ok (ImageConverter img)"
  by (simp add: kernels_ok_def ImageConverter_def mat_shape_def numeral_3_eq_3)

text \<open>
  C21: refinement of the textbook filter: with the converter's 3x3 kernels and an image
  of the stored shape, \<open>filter_image\<close> returns, for every filter name it knows, the
  image whose pixel \<open>(i, j)\<close> is the zero-padded 3x3 correlation of the input with the
  kernel centred on \<open>(i, j)\<close>.
\<close>

theorem filter_image_correlate:
  assumes "kernels_ok s" "mat_shape (image_row s) (image_col s) img" "choose_filter s ch = Some K"
  shows "filter_image s img ch =
           Inr (map (\<lambda>i. map (\<lambda>j. correlate K img i j) [0..<image_col s]) [0..<image_row s])"
proof (cases "image_row s = 0 \<or> image_col s = 0")
  case True
  then show ?thesis using assms(2) by (simp add: filter_image_def bcast2_shape map_grid_empty)
next
  case False
  have "filter_cell K (pad (image_col s) img) i j = correlate K img i j"
    if "i < image_row s" "j < image_col s" for i j
    using filter_cell_correlate [OF choose_filter_shape [OF assms(1,3)] assms(2) that] .
  then show ?thesis using False assms(2,3)
    by (simp add: filter_image_def bcast2_shape)
qed

text \<open>
  \<open>filter_image\<close> raises exactly in two cases: \<open>ValueError\<close> when the image does
  not broadcast to the stored shape, and \<open>UnboundLocalError\<close> when the image has at
  least one pixel and the filter name is none of the four; an unknown name on an empty
  image returns the empty result.
\<close>

theorem filter_image_error:
  "filter_image s img ch = Inl e \<longleftrightarrow>
     (bcast2 (image_row s) (image_col s) img = None \<and> e = ValueError) \<or>
     (bcast2 (image_row s) (image_col s) img \<noteq> None \<and> 0 < image_row s \<and> 0 < image_col s \<and>
      ch \<notin> {''X_edge'', ''Y_edge'', ''Blur'', ''Laplacian''} \<and> e = UnboundLocalError)"
  by (auto simp: filter_image_def choose_filter_def Let_def split: option.splits)


lemma pix_replicate:
  "pix (replicate r (replicate c v)) a b = (if 0 \<le> a \<and> a < int r \<and> 0 \<le> b \<and> b < int c then v else 0)"
  by (auto simp: pix_def)

lemma nd_shape_replicate:
  "nd_rows (Gray (replicate r (replicate c v))) = r"
  "0 < r \<Longrightarrow> nd_cols (Gray (replicate r (replicate c v))) = c"
  by (simp_all add: nd_rows_def nd_cols_def split: list.split) (cases r; simp)

text \<open>
  the zero padding shows up as a frame: on a uniform image of value \<open>v\<close> the
  Laplacian filter returns 0 inside and \<open>-v\<close> times the number of missing 4-neighbours
  on the border rows and columns.
\<close>

theorem laplacian_uniform_frame:
  "filter_image (ImageConverter (Gray (replicate r (replicate c v)))) (replicate r (replicate c v))
      ''Laplacian'' =
   Inr (map (\<lambda>i. map (\<lambda>j. - v * (of_bool (i = 0) + of_bool (i = r - 1) + of_bool (j = 0) +
                                      of_bool (j = c - 1))) [0..<c]) [0..<r])"
proof (cases "r = 0")
  case True
  then show ?thesis by (simp add: filter_image_def ImageConverter_def nd_rows_def bcast2_def bcast_def)
next
  case False
  let ?m = "replicate r (replicate c v)"
  let ?s = "ImageConverter (Gray ?m)"
  have shape: "mat_shape (image_row ?s) (image_col ?s) ?m"
    using False by (simp add: ImageConverter_def nd_shape_replicate mat_shape_def list_all_iff)
  have ch: "choose_filter ?s ''Laplacian'' = Some [[0, 1, 0], [1, -4, 1], [0, 1, 0]]"
    by (simp add: choose_filter_def ImageConverter_def)
  have cell: "correlate [[0, 1, 0], [1, -4, 1], [0, 1, 0]] ?m i j =
      - v * (of_bool (i = 0) + of_bool (i = r - 1) + of_bool (j = 0) + of_bool (j = c - 1))"
    if "i < r" "j < c" for i j
    using that by (simp add: correlate_def pix_replicate numeral_3_eq_3) (auto simp: algebra_simps)
  show ?thesis
    using filter_image_correlate [OF kernels_ok_init shape ch] False
    by (simp add: ImageConverter_def nd_shape_replicate cell)
qed


lemma map2_map_same: "map2 f (map g xs) (map h xs) = map (\<lambda>x. f (g x) (h x)) xs"
  by (induction xs) auto

lemma channel_rgb:
  "rgb_ok (Color p) \<Longrightarrow> k < 3 \<Longrightarrow> channel (Color p) k = Inr (map (map (\<lambda>px. px ! k)) p)"
  unfolding channel_def rgb_ok_def list_all_iff by (fastforce intro: less_le_trans)

lemma gray_channels:
  "gray (map (map (\<lambda>px. px ! 0)) p) (map (map (\<lambda>px. px ! 1)) p) (map (map (\<lambda>px. px ! 2)) p) =
   map (map luma) p"
  by (simp add: gray_def madd_def mscale_def map2_map_same luma_def)

lemma luma_shape:
  "rgb_ok (Color p) \<Longrightarrow> mat_shape (nd_rows (Color p)) (nd_cols (Color p)) (map (map luma) p)"
  by (simp add: rgb_ok_def mat_shape_def nd_rows_def list_all_iff)

lemma apply_gray_filter_rgb:
  assumes "rgb_ok (Color p)" "choose_filter (ImageConverter (Color p)) ch = Some K"
  shows "apply_gray_filter (ImageConverter (Color p)) ch =
    Inr (PNG (map (\<lambda>i. map (\<lambda>j. correlate K (map (map luma) p) i j) [0..<nd_cols (Color p)])
                 [0..<nd_rows (Color p)]) Viridis)"
proof -
  have "filter_image (ImageConverter (Color p)) (map (map luma) p) ch =
    Inr (map (\<lambda>i. map (\<lambda>j. correlate K (map (map luma) p) i j) [0..<nd_cols (Color p)])
           [0..<nd_rows (Color p)])"
    using filter_image_correlate [OF kernels_ok_init _ assms(2)] luma_shape [OF assms(1)]
    by (simp add: ImageConverter_def)
  moreover have "channel (Color p) 0 = Inr (map (map (\<lambda>px. px ! 0)) p)"
    "channel (Color p) 1 = Inr (map (map (\<lambda>px. px ! 1)) p)"
    "channel (Color p) 2 = Inr (map (map (\<lambda>px. px ! 2)) p)"
    using channel_rgb [OF assms(1)] by simp_all
  ultimately show ?thesis
    by (simp only: apply_gray_filter_def image_converter.simps ImageConverter_def sum.case
          gray_channels)
qed

lemma pix_bounds:
  "list_all (list_all (\<lambda>v. lo \<le> v \<and> v \<le> hi)) m \<Longrightarrow> lo \<le> 0 \<Longrightarrow> 0 \<le> hi \<Longrightarrow>
   lo \<le> pix m a b \<and> pix m a b \<le> hi"
  by (auto simp: pix_def list_all_length)

lemma luma_px_bounds:
  assumes "3 \<le> length px" "\<forall>v\<in>set px. 0 \<le> v \<and> v \<le> 1"
  shows "0 \<le> luma px \<and> luma px \<le> 0.9999"
proof -
  have "px ! 0 \<in> set px" "px ! 1 \<in> set px" "px ! 2 \<in> set px"
    using assms(1) by (auto intro!: nth_mem)
  then have "0 \<le> px ! 0" "px ! 0 \<le> 1" "0 \<le> px ! 1" "px ! 1 \<le> 1" "0 \<le> px ! 2" "px ! 2 \<le> 1"
    using assms(2) by blast+
  then show ?thesis unfolding luma_def by simp
qed

lemma luma_bounds:
  assumes "unit_pixels (Color p)" "rgb_ok (Color p)"
  shows "list_all (list_all (\<lambda>v. 0 \<le> v \<and> v \<le> 0.9999)) (map (map luma) p)"
proof -
  have "0 \<le> luma px \<and> luma px \<le> 0.9999" if "row \<in> set p" "px \<in> set row" for row px
    using luma_px_bounds [of px] assms that unfolding unit_pixels_def rgb_ok_def list_all_iff
    by simp
  then show ?thesis by (simp add: list_all_iff)
qed

lemma correlate_blur_bounds:
  assumes "list_all (list_all (\<lambda>v. 0 \<le> v \<and> v \<le> h)) m" "0 \<le> h"
  shows "0 \<le> correlate (replicate 3 (replicate 3 (1 / 9))) m i j \<and>
         correlate (replicate 3 (replicate 3 (1 / 9))) m i j \<le> h"
proof -
  have t: "0 \<le> pix m a b \<and> pix m a b \<le> h" for a b using pix_bounds [OF assms(1)] assms(2) by simp
  have eq: "correlate (replicate 3 (replicate 3 (1 / 9))) m i j =
      (\<Sum>a<3. \<Sum>b<3. pix m (int i + int a - 1) (int j + int b - 1) / 9)"
    unfolding correlate_def by (intro sum.cong refl) simp
  have "(\<Sum>a<3. \<Sum>b<3. pix m (int i + int a - 1) (int j + int b - 1) / 9) \<le> (\<Sum>a<(3::nat). \<Sum>b<(3::nat). h / 9)"
    using t by (intro sum_mono) (simp add: divide_right_mono)
  moreover have "0 \<le> (\<Sum>a<3. \<Sum>b<3. pix m (int i + int a - 1) (int j + int b - 1) / 9)"
    using t by (intro sum_nonneg) simp
  ultimately show ?thesis unfolding eq by simp
qed

text \<open>
  bounds of the blur pipeline: on an RGB(A) image with channel values in [0, 1],
  \<open>apply_blur_filter\<close> succeeds and every value it saves lies in [0, 0.9999]; the
  grey-scale weights sum to 0.9999, so white never reaches 1.
\<close>

theorem blur_filter_bounds:
  assumes "rgb_ok img" "unit_pixels img"
  shows "\<exists>out. apply_gray_filter (ImageConverter img) ''Blur'' = Inr (PNG out Viridis) \<and>
               list_all (list_all (\<lambda>v. 0 \<le> v \<and> v \<le> 0.9999)) out"
proof -
  obtain p where p: "img = Color p" using assms(1) by (cases img) (simp_all add: rgb_ok_def)
  have ch: "choose_filter (ImageConverter (Color p)) ''Blur'' = Some (replicate 3 (replicate 3 (1 / 9)))"
    by (simp add: choose_filter_def ImageConverter_def)
  show ?thesis
    using apply_gray_filter_rgb [OF _ ch] correlate_blur_bounds [OF luma_bounds] assms
    by (simp add: p list_all_iff)
qed


lemma choose_filter_names:
  "ch \<in> {''X_edge'', ''Y_edge'', ''Blur'', ''Laplacian''} \<Longrightarrow> \<exists>K. choose_filter s ch = Some K"
  by (auto simp: choose_filter_def)

lemma apply_filters_rgb:
  assumes "rgb_ok img"
  shows "k < 3 \<Longrightarrow> \<exists>f. apply_channel_filter (ImageConverter img) k cm = Inr f"
    and "ch \<in> {''X_edge'', ''Y_edge'', ''Blur'', ''Laplacian''} \<Longrightarrow>
         \<exists>f. apply_gray_filter (ImageConverter img) ch = Inr f"
proof -
  obtain p where p: "img = Color p" using assms by (cases img) (simp_all add: rgb_ok_def)
  show "k < 3 \<Longrightarrow> \<exists>f. apply_channel_filter (ImageConverter img) k cm = Inr f"
    using assms channel_rgb by (simp add: p apply_channel_filter_def ImageConverter_def)
  assume "ch \<in> {''X_edge'', ''Y_edge'', ''Blur'', ''Laplacian''}"
  then obtain K where "choose_filter (ImageConverter (Color p)) ch = Some K"
    using choose_filter_names by blast
  then show "\<exists>f. apply_gray_filter (ImageConverter img) ch = Inr f"
    using apply_gray_filter_rgb assms unfolding p by blast
qed

lemma ic_step_ok:
  assumes "ic_inv a" "cmd_ok c"
  shows "snd (ic_step a c) = None \<and> ic_inv (fst (ic_step a c))"
proof -
  obtain img where img: "rgb_ok img" "app_image a = Some img"
    "imageConverter a = Some (ImageConverter img)"
    using assms(1) by (auto simp: ic_inv_def)
  have run: "snd (run_filter a f) = None \<and> ic_inv (fst (run_filter a f))"
    if "\<exists>file. f (ImageConverter img) = Inr file" for f
    using that img by (auto simp: run_filter_def ic_inv_def)
  have ch: "snd (run_filter a (\<lambda>ic. apply_channel_filter ic k cm)) = None \<and>
             ic_inv (fst (run_filter a (\<lambda>ic. apply_channel_filter ic k cm)))"
    if "k < 3" for k cm
    using run [of "\<lambda>ic. apply_channel_filter ic k cm"] apply_filters_rgb(1) [OF img(1) that] by simp
  have gr: "snd (run_filter a (\<lambda>ic. apply_gray_filter ic ch)) = None \<and>
      ic_inv (fst (run_filter a (\<lambda>ic. apply_gray_filter ic ch)))"
    if "ch \<in> {''X_edge'', ''Y_edge'', ''Blur'', ''Laplacian''}" for ch
    using run [of "\<lambda>ic. apply_gray_filter ic ch"] apply_filters_rgb(2) [OF img(1) that] by simp
  show ?thesis
  proof (cases c)
    case (OpenCmd i)
    then show ?thesis using assms(2) by (auto simp: cmd_ok_def open_file_def ic_inv_def)
  next
    case ShowCmd
    then show ?thesis using img by (auto simp: show_figure_def ic_inv_def)
  qed (use assms(2) ch gr in \<open>simp_all add: cmd_ok_def\<close>)
qed

lemma ic_run_ok:
  "ic_inv a \<Longrightarrow> list_all cmd_ok cs \<Longrightarrow> snd (ic_run a cs) = [] \<and> ic_inv (fst (ic_run a cs))"
proof (induction cs arbitrary: a)
  case Nil
  then show ?case by simp
next
  case (Cons c cs)
  have ok: "snd (ic_step a c) = None \<and> ic_inv (fst (ic_step a c))"
    using ic_step_ok [OF Cons.prems(1)] Cons.prems(2) by simp
  then obtain a' where st: "ic_step a c = (a', None)" "ic_inv a'"
    by (metis prod.collapse)
  then show ?case using Cons.IH [OF st(2)] Cons.prems(2) by (auto split: prod.splits)
qed

text \<open>
  once an RGB(A) image is opened, no sequence of Show, colour-filter and grey-filter
  commands, and further opens of RGB(A) images, raises an exception.
\<close>

theorem ic_session_no_error:
  assumes "rgb_ok img" "list_all cmd_ok cs"
  shows "snd (ic_run ImageConverterApp (OpenCmd img # cs)) = []"
proof -
  have "ic_inv (open_file ImageConverterApp img)"
    using assms(1) by (simp add: ic_inv_def open_file_def)
  then show ?thesis using ic_run_ok [OF _ assms(2)] by (simp split: prod.splits)
qed

text \<open>
  C22: the filter buttons raise where the code does not guard: before a file is
  opened each raises \<open>AttributeError\<close> on \<open>None\<close> and changes nothing; after a
  grey-scale PNG is opened each clears the canvas and raises \<open>IndexError\<close> from
  \<open>self.image[:,:,k]\<close>, leaving the rest of the state as it was.
\<close>

theorem ic_filter_errors:
  assumes "c \<in> {RedCmd, GreenCmd, BlueCmd, XEdgeCmd, YEdgeCmd, BlurCmd, LaplacianCmd}"
  shows "ic_step ImageConverterApp c = (ImageConverterApp, Some AttributeError) \<and>
         ic_step (open_file a (Gray m)) c = ((open_file a (Gray m))\<lparr>canvas := []\<rparr>, Some IndexError)"
  using assms
  by (auto simp: ImageConverterApp_def open_file_def run_filter_def apply_channel_filter_def
        apply_gray_filter_def channel_def ImageConverter_def)

lemma show_before_open:
  "show_figure ImageConverterApp = (ImageConverterApp, Some AttributeError)"
  by (simp add: ImageConverterApp_def show_figure_def)

theorem filter_image_correlate_witness:
  "kernels_ok (ImageConverter (Gray [[1, 2], [3, 4]])) \<and> mat_shape 2 2 [[1, 2], [3, 4]] \<and>
   filter_image (ImageConverter (Gray [[1, 2], [3, 4]])) [[1, 2], [3, 4]] ''Blur'' =
     Inr [[10 / 9, 10 / 9], [10 / 9, 10 / 9]]"
  using filter_image_correlate [of "ImageConverter (Gray [[1, 2], [3, 4]])" "[[1, 2], [3, 4]]"
      "''Blur''" "replicate 3 (replicate 3 (1 / 9))"]
  by (simp add: kernels_ok_def ImageConverter_def mat_shape_def nd_rows_def nd_cols_def
        choose_filter_def correlate_def pix_def numeral_3_eq_3 upt_rec)

theorem filter_image_error_witness:
  "filter_image (ImageConverter (Gray [[1]])) [[1]] ''Sharpen'' = Inl UnboundLocalError \<and>
   filter_image (ImageConverter (Gray [[1]])) [[1, 2]] ''Blur'' = Inl ValueError"
  using filter_image_error [of "ImageConverter (Gray [[1]])" "[[1]]" "''Sharpen''" UnboundLocalError]
    filter_image_error [of "ImageConverter (Gray [[1]])" "[[1, 2]]" "''Blur''" ValueError]
  by (simp add: ImageConverter_def nd_rows_def nd_cols_def bcast2_def bcast_def)

theorem blur_filter_bounds_witness:
  "rgb_ok (Color [[[1, 1, 1]]]) \<and> unit_pixels (Color [[[1, 1, 1]]]) \<and>
   (\<exists>out. apply_gray_filter (ImageConverter (Color [[[1, 1, 1]]])) ''Blur'' = Inr (PNG out Viridis) \<and>
          list_all (list_all (\<lambda>v. 0 \<le> v \<and> v \<le> 0.9999)) out)"
  using blur_filter_bounds [of "Color [[[1, 1, 1]]]"]
  by (simp add: rgb_ok_def unit_pixels_def nd_cols_def)

theorem ic_session_no_error_witness:
  "rgb_ok (Color [[[1 / 2, 1 / 2, 1 / 2]]]) \<and>
   list_all cmd_ok [XEdgeCmd, ShowCmd, BlurCmd, OpenCmd (Color [[[1 / 2, 1 / 2, 1 / 2]]]), RedCmd] \<and>
   snd (ic_run ImageConverterApp (OpenCmd (Color [[[1 / 2, 1 / 2, 1 / 2]]]) #
     [XEdgeCmd, ShowCmd, BlurCmd, OpenCmd (Color [[[1 / 2, 1 / 2, 1 / 2]]]), RedCmd])) = []"
  using ic_session_no_error [of "Color [[[1 / 2, 1 / 2, 1 / 2]]]"
      "[XEdgeCmd, ShowCmd, BlurCmd, OpenCmd (Color [[[1 / 2, 1 / 2, 1 / 2]]]), RedCmd]"]
  by (simp add: rgb_ok_def nd_cols_def cmd_ok_def)

theorem ic_filter_errors_witness:
  "ic_step ImageConverterApp BlurCmd = (ImageConverterApp, Some AttributeError) \<and>
   ic_step (open_file ImageConverterApp (Gray [[0]])) BlurCmd =
     ((open_file ImageConverterApp (Gray [[0]]))\<lparr>canvas := []\<rparr>, Some IndexError)"
  using ic_filter_errors [of BlurCmd ImageConverterApp "[[0]]"] by simp

end
