(* ===== verification/Weather.thy ===== *)
theory Weather
  imports Prelude Complex_Main
begin

text \<open>
  src/weatherapp.py: class \<open>WeatherBackend\<close> (the city list, the city id, the
  request URL) and the handlers of class \<open>WeatherFrontend\<close> that fill the list of
  candidate cities and display the weather the OpenWeather API returns.  The HTTP
  response is an input of the handler, given as the JSON value \<open>responses.json()\<close>
  decodes; numbers are exact rationals (the model has no float rounding), and a JSON
  \<open>true\<close> counts as the number 1, as a Python \<open>bool\<close> does in arithmetic.  The state
  after a handler is the state after every effect made before a raise, returned with the
  exception tkinter then reports.
\<close>

datatype json = JNull | JBool bool | JNum rat | JStr string | JList "json list"
  | JObj "(string \<times> json) list"

text \<open>Sequencing of fallible Python expressions: the first exception wins.\<close>

definition sbind :: "py_error + 'a \<Rightarrow> ('a \<Rightarrow> py_error + 'b) \<Rightarrow> py_error + 'b" where
  "sbind r f = (case r of Inl e \<Rightarrow> Inl e | Inr x \<Rightarrow> f x)"

text \<open>A statement of a handler that may raise: on an exception the handler stops with
  the state reached so far.\<close>

definition try_then :: "'s \<Rightarrow> py_error + 'a \<Rightarrow> ('a \<Rightarrow> 's \<times> py_error option) \<Rightarrow> 's \<times> py_error option" where
  "try_then s r f = (case r of Inl e \<Rightarrow> (s, Some e) | Inr x \<Rightarrow> f x)"

text \<open>\<open>v[k]\<close> for a string key: a dict decoded by \<open>json.loads\<close> keeps the last of
  duplicate keys; every other JSON value raises \<open>TypeError\<close>.\<close>

definition jget :: "json \<Rightarrow> string \<Rightarrow> py_error + json" where
  "jget v k =
     (case v of JObj kvs \<Rightarrow> (case map_of (rev kvs) k of Some x \<Rightarrow> Inr x | None \<Rightarrow> Inl KeyError)
      | _ \<Rightarrow> Inl TypeError)"

text \<open>\<open>v[i]\<close> for an int index: lists and strings index, a dict has no int keys.\<close>

definition jidx :: "json \<Rightarrow> nat \<Rightarrow> py_error + json" where
  "jidx v i =
     (case v of JList xs \<Rightarrow> (if i < length xs then Inr (xs ! i) else Inl IndexError)
      | JStr cs \<Rightarrow> (if i < length cs then Inr (JStr [cs ! i]) else Inl IndexError)
      | JObj _ \<Rightarrow> Inl KeyError
      | _ \<Rightarrow> Inl TypeError)"

text \<open>A JSON value used as a number in arithmetic.\<close>

definition jnum :: "json \<Rightarrow> py_error + rat" where
  "jnum v = (case v of JNum r \<Rightarrow> Inr r | JBool b \<Rightarrow> Inr (of_bool b) | _ \<Rightarrow> Inl TypeError)"

text \<open>Python's \<open>round(x, 2)\<close>: to the nearest multiple of 1/100, ties to even.\<close>

definition round_half_even :: "rat \<Rightarrow> int" where
  "round_half_even y =
     (let f = \<lfloor>y\<rfloor>; d = y - of_int f
      in if d < 1 / 2 then f else if 1 / 2 < d then f + 1 else if even f then f else f + 1)"

definition py_round2 :: "rat \<Rightarrow> rat" where
  "py_round2 x = of_int (round_half_even (x * 100)) / 100"

text \<open>\<open>round(y[k] - 273.15, 2)\<close>: a temperature in Kelvin shown in Celsius.\<close>

definition kelvin_label :: "json \<Rightarrow> string \<Rightarrow> py_error + rat" where
  "kelvin_label y k = sbind (jget y k) (\<lambda>v. sbind (jnum v) (\<lambda>t. Inr (py_round2 (t - 273.15))))"

text \<open>The range of \<open>datetime\<close>: years 1 to 9999, as seconds since 1970.\<close>

definition dt_ok :: "rat \<Rightarrow> bool" where
  "dt_ok t \<longleftrightarrow> -62135596800 \<le> t \<and> t < 253402300800"

text \<open>\<open>'%H:%M'\<close> of the time of day of a timestamp.\<close>

definition two_digits :: "int \<Rightarrow> string" where
  "two_digits n = [char_of (48 + nat (n div 10)), char_of (48 + nat (n mod 10))]"

definition strftime_HM :: "rat \<Rightarrow> string" where
  "strftime_HM t =
     (let d = \<lfloor>t\<rfloor> mod 86400 in two_digits (d div 3600) @ '':'' @ two_digits (d mod 3600 div 60))"

text \<open>\<open>(datetime.utcfromtimestamp(z[k]) + timedelta(seconds=timezone)).strftime('%H:%M')\<close>:
  the timestamp is read and converted first, then the offset; a timestamp outside the
  range of \<open>datetime\<close> raises \<open>ValueError\<close> (CPython raises \<open>OverflowError\<close> instead
  beyond the platform's \<open>time_t\<close>), a sum outside it \<open>OverflowError\<close>.\<close>

definition local_time :: "json \<Rightarrow> string \<Rightarrow> json \<Rightarrow> py_error + string" where
  "local_time z k tz =
     sbind (jget z k) (\<lambda>v. sbind (jnum v) (\<lambda>ts.
       if \<not> dt_ok ts then Inl ValueError
       else sbind (jnum tz) (\<lambda>d.
         if \<not> dt_ok (ts + d) then Inl OverflowError else Inr (strftime_HM (ts + d)))))"

text \<open>The images of the weather canvas.\<close>

datatype icon = RainImg | SnowImg | CloudImg | SunImg

text \<open>The \<open>if\<close>/\<open>elif\<close> chain on \<open>y["id"] // 100\<close>; it has no \<open>else\<close>.\<close>

definition weather_icon :: "int \<Rightarrow> bool \<Rightarrow> icon option" where
  "weather_icon g clear =
     (if g \<le> 5 then Some RainImg
      else if g = 6 then Some SnowImg
      else if g = 7 then Some CloudImg
      else if 8 \<le> g then Some (if clear then SunImg else CloudImg)
      else None)"

text \<open>What a label shows: its initial empty text, a number, \<open>str(v) + "%"\<close>, or a
  string.\<close>

datatype label = LNum rat | LPercent json | LText string

text \<open>A row of \<open>df_city_list.to_numpy()\<close>: the first three columns are strings
  (\<open>state\<close> after \<open>fillna("")\<close>) and the fourth is the city id; \<open>city_name\<close>
  is the value of the column \<open>"name"\<close>, one of the first three.\<close>

record city_row =
  col0 :: string
  col1 :: string
  col2 :: string
  col3 :: int
  city_name :: string

text \<open>The fields of both classes the handlers use: the backend's city list and
  \<open>city_id\<close>, the URLs it requested, the list box, the six value labels, and the
  images created on the canvas (which is never cleared).\<close>

record weather_app =
  df_city_list :: "city_row list"
  city_id :: "string option"
  requested :: "string list"
  citylist_listbox :: "string list"
  temp_value_label :: label
  humidity_value_label :: label
  max_temp_value_label :: label
  min_temp_value_label :: label
  sunrise_value_label :: label
  sunset_value_label :: label
  canvas_images :: "icon list"

definition WeatherFrontend :: "city_row list \<Rightarrow> weather_app" where
  "WeatherFrontend cities =
     \<lparr>df_city_list = cities, city_id = None, requested = [], citylist_listbox = [],
      temp_value_label = LText [], humidity_value_label = LText [], max_temp_value_label = LText [],
      min_temp_value_label = LText [], sunrise_value_label = LText [], sunset_value_label = LText [],
      canvas_images = []\<rparr>"

definition set_city_id :: "weather_app \<Rightarrow> string \<Rightarrow> weather_app" where
  "set_city_id s i = s\<lparr>city_id := Some i\<rparr>"

definition get_candidates :: "weather_app \<Rightarrow> string \<Rightarrow> city_row list" where
  "get_candidates s name = filter (\<lambda>r. city_name r = name) (df_city_list s)"

text \<open>\<open>base_url + "id=" + str(self.city_id) + "&appid=" + weather_api_key\<close>; the key
  comes from a module that is not part of the repository.\<close>

definition owm_url :: "string \<Rightarrow> string \<Rightarrow> string" where
  "owm_url key cid = ''http://api.openweathermap.org/data/2.5/weather?'' @ ''id='' @ cid @ ''&appid='' @ key"

text \<open>\<open>WeatherBackend.get_weather\<close>: the request it sends; its answer is the handler's
  input.\<close>

definition backend_get_weather :: "string \<Rightarrow> weather_app \<Rightarrow> weather_app" where
  "backend_get_weather key s =
     s\<lparr>requested := requested s @ [owm_url key (case city_id s of Some i \<Rightarrow> i | None \<Rightarrow> ''None'')]\<rparr>"

text \<open>\<open>re.search(r"([0-9]+)", s).group(0)\<close>: the first maximal run of ASCII digits.\<close>

definition first_digits :: "string \<Rightarrow> string option" where
  "first_digits s =
     (let r = dropWhile (\<lambda>c. \<not> ascii_digit c) s in if r = [] then None else Some (takeWhile ascii_digit r))"

text \<open>The entry \<open>fill_candidate_city_listbox\<close> builds for a row.\<close>

definition entry_name :: "city_row \<Rightarrow> string" where
  "entry_name r = col2 r @ '', '' @ col1 r @ '', '' @ col0 r @ '' ('' @ py_str (col3 r) @ '')''"

text \<open>\<open>Listbox.insert(i, x)\<close>: before position \<open>i\<close>, at the end when \<open>i\<close> is past it.\<close>

definition tk_insert :: "nat \<Rightarrow> 'a \<Rightarrow> 'a list \<Rightarrow> 'a list" where
  "tk_insert i x xs = take i xs @ x # drop i xs"

definition fill_candidate_city_listbox :: "weather_app \<Rightarrow> city_row list \<Rightarrow> weather_app" where
  "fill_candidate_city_listbox s candidates =
     fold (\<lambda>(i, r) s. s\<lparr>citylist_listbox := tk_insert i (entry_name r) (citylist_listbox s)\<rparr>)
       (enumerate 0 candidates) s"

definition get_cityid :: "weather_app \<Rightarrow> string \<Rightarrow> weather_app" where
  "get_cityid s choice = fill_candidate_city_listbox s (get_candidates s choice)"

text \<open>The branch \<open>if weather["cod"] != "404"\<close> of \<open>WeatherFrontend.get_weather\<close>,
  statement by statement.\<close>

definition show_weather :: "weather_app \<Rightarrow> json \<Rightarrow> weather_app \<times> py_error option" where
  "show_weather s weather =
     try_then s (jget weather ''main'') (\<lambda>y.
     try_then s (kelvin_label y ''temp'') (\<lambda>t. let s = s\<lparr>temp_value_label := LNum t\<rparr> in
     try_then s (jget y ''humidity'') (\<lambda>h. let s = s\<lparr>humidity_value_label := LPercent h\<rparr> in
     try_then s (kelvin_label y ''temp_max'') (\<lambda>t. let s = s\<lparr>max_temp_value_label := LNum t\<rparr> in
     try_then s (kelvin_label y ''temp_min'') (\<lambda>t. let s = s\<lparr>min_temp_value_label := LNum t\<rparr> in
     try_then s (jget weather ''timezone'') (\<lambda>tz.
     try_then s (jget weather ''sys'') (\<lambda>z.
     try_then s (local_time z ''sunrise'' tz) (\<lambda>sr.
     try_then s (local_time z ''sunset'' tz) (\<lambda>ss.
     let s = s\<lparr>sunrise_value_label := LText sr, sunset_value_label := LText ss\<rparr> in
     try_then s (sbind (jget weather ''weather'') (\<lambda>w. sbind (jidx w 0) (\<lambda>w0. jget w0 ''main'')))
       (\<lambda>main.
     try_then s (sbind (jget weather ''weather'') (\<lambda>w. jidx w 0)) (\<lambda>y.
     try_then s (sbind (jget y ''id'') jnum) (\<lambda>i.
       (case weather_icon \<lfloor>i / 100\<rfloor> (main = JStr ''Clear'') of
          None \<Rightarrow> (s, None)
        | Some ic \<Rightarrow> (s\<lparr>canvas_images := canvas_images s @ [ic]\<rparr>, None))))))))))))))"

text \<open>\<open>WeatherFrontend.get_weather\<close>, with the index of the selected entry
  (\<open>selection_get\<close> raises \<open>TclError\<close> when nothing is selected).  \<open>weather.keys()\<close>
  raises \<open>AttributeError\<close> unless the response is a dict.\<close>

definition get_weather :: "string \<Rightarrow> weather_app \<Rightarrow> nat option \<Rightarrow> json \<Rightarrow> weather_app \<times> py_error option" where
  "get_weather key s sel weather =
     (case sel of None \<Rightarrow> (s, Some TclError) | Some k \<Rightarrow>
      if length (citylist_listbox s) \<le> k then (s, Some TclError) else
      (case first_digits (citylist_listbox s ! k) of None \<Rightarrow> (s, Some AttributeError) | Some cid \<Rightarrow>
       let s = backend_get_weather key (set_city_id s cid) in
       (case weather of
          JObj _ \<Rightarrow> try_then s (jget weather ''cod'') (\<lambda>cod.
                      if cod \<noteq> JStr ''404'' then show_weather s weather else (s, None))
        | _ \<Rightarrow> (s, Some AttributeError))))"

text \<open>The two buttons, \<open>Add City ID\<close> with the text of the entry and \<open>Get Weather\<close>
  with the selection and the server's answer.\<close>

datatype weather_cmd = AddCityCmd string | GetWeatherCmd "nat option" json

fun weather_step :: "string \<Rightarrow> weather_app \<Rightarrow> weather_cmd \<Rightarrow> weather_app \<times> py_error option" where
  "weather_step key s (AddCityCmd name) = (get_cityid s name, None)"
| "weather_step key s (GetWeatherCmd sel resp) = get_weather key s sel resp"


subsection \<open>Specification vocabulary\<close>

text \<open>\<open>no_digit\<close>: a text without ASCII digits; \<open>digit_free_row\<close>: a city row whose
  three text columns have no digit and whose id is not negative.  \<open>owm_reply\<close> is a
  reply of the documented shape of the OpenWeather current-weather call, and
  \<open>owm_icon\<close> the picture the OpenWeather condition groups call for: thunderstorm,
  drizzle and rain (codes below 600), snow (6xx), atmosphere (7xx), clear (800 with
  main "Clear") and clouds.\<close>

definition no_digit :: "string \<Rightarrow> bool" where
  "no_digit xs \<longleftrightarrow> list_all (\<lambda>c. \<not> ascii_digit c) xs"

definition digit_free_row :: "city_row \<Rightarrow> bool" where
  "digit_free_row r \<longleftrightarrow> no_digit (col0 r) \<and> no_digit (col1 r) \<and> no_digit (col2 r) \<and> 0 \<le> col3 r"

definition owm_reply :: "rat \<Rightarrow> json \<Rightarrow> rat \<Rightarrow> rat \<Rightarrow> rat \<Rightarrow> rat \<Rightarrow> rat \<Rightarrow> rat \<Rightarrow> string \<Rightarrow> json" where
  "owm_reply t h tmax tmin tz sr ss i main =
     JObj [(''cod'', JNum 200),
           (''main'', JObj [(''temp'', JNum t), (''humidity'', h), (''temp_max'', JNum tmax),
                            (''temp_min'', JNum tmin)]),
           (''timezone'', JNum tz),
           (''sys'', JObj [(''sunrise'', JNum sr), (''sunset'', JNum ss)]),
           (''weather'', JList [JObj [(''id'', JNum i), (''main'', JStr main)]])]"

definition owm_icon :: "rat \<Rightarrow> string \<Rightarrow> icon" where
  "owm_icon i main =
     (if i < 600 then RainImg else if i < 700 then SnowImg else if i < 800 then CloudImg
      else if main = ''Clear'' then SunImg else CloudImg)"

subsection \<open>Handlers\<close>

lemma first_digits_entry:
  assumes "digit_free_row r"
  shows "first_digits (entry_name r) = Some (py_str (col3 r))"
proof -
  let ?D = "digits (nat (col3 r))"
  have D: "py_str (col3 r) = ?D" using assms by (simp add: digit_free_row_def py_str_def)
  have nd: "\<forall>c\<in>set (col2 r @ '', '' @ col1 r @ '', '' @ col0 r @ '' (''). \<not> ascii_digit c"
    using assms by (auto simp: digit_free_row_def no_digit_def list_all_iff ascii_digit_def)
  obtain d ds where dd: "?D = d # ds" using digits_not_Nil by (cases ?D) auto
  have ad: "\<forall>c\<in>set ?D. ascii_digit c" using digits_all_digit by (simp add: list_all_iff)
  have e: "entry_name r = (col2 r @ '', '' @ col1 r @ '', '' @ col0 r @ '' ('') @ ?D @ '')''"
    by (simp add: entry_name_def D)
  have drop: "dropWhile (\<lambda>c. \<not> ascii_digit c) (entry_name r) = ?D @ '')''"
  proof -
    have "dropWhile (\<lambda>c. \<not> ascii_digit c) (entry_name r) = dropWhile (\<lambda>c. \<not> ascii_digit c) (?D @ '')'')"
      unfolding e by (rule dropWhile_append2) (use nd in blast)
    then show ?thesis using ad dd by simp
  qed
  have take: "takeWhile ascii_digit (?D @ '')'') = ?D"
    using ad by (simp add: takeWhile_append2 ascii_digit_def)
  show ?thesis using drop take dd by (simp add: first_digits_def D)
qed


lemma fill_fold:
  "length P = n \<Longrightarrow> citylist_listbox s = P @ old \<Longrightarrow>
   fold (\<lambda>(i, r) s. s\<lparr>citylist_listbox := tk_insert i (entry_name r) (citylist_listbox s)\<rparr>)
       (enumerate n xs) s = s\<lparr>citylist_listbox := P @ map entry_name xs @ old\<rparr>"
proof (induction xs arbitrary: n P s)
  case Nil
  then show ?case by simp
next
  case (Cons x xs)
  let ?s = "s\<lparr>citylist_listbox := tk_insert n (entry_name x) (citylist_listbox s)\<rparr>"
  have "citylist_listbox ?s = (P @ [entry_name x]) @ old"
    using Cons.prems by (simp add: tk_insert_def)
  then have "fold (\<lambda>(i, r) s. s\<lparr>citylist_listbox := tk_insert i (entry_name r) (citylist_listbox s)\<rparr>)
       (enumerate (Suc n) xs) ?s = ?s\<lparr>citylist_listbox := (P @ [entry_name x]) @ map entry_name xs @ old\<rparr>"
    using Cons.IH [of "P @ [entry_name x]" "Suc n" ?s] Cons.prems(1) by simp
  then show ?case by simp
qed

text \<open>
  Add City ID never clears the list box: it puts the entries of the new candidates,
  in order, in front of the entries already there.
\<close>

theorem get_cityid_prepends:
  "get_cityid s name =
     s\<lparr>citylist_listbox := map entry_name (get_candidates s name) @ citylist_listbox s\<rparr>"
  unfolding get_cityid_def fill_candidate_city_listbox_def
  using fill_fold [of "[]" 0 s "citylist_listbox s"] by simp

lemma get_weather_select:
  assumes "k < length (citylist_listbox s)" "first_digits (citylist_listbox s ! k) = Some cid"
  shows "get_weather key s (Some k) resp =
    (let s' = backend_get_weather key (set_city_id s cid) in
     case resp of
       JObj _ \<Rightarrow> try_then s' (jget resp ''cod'') (\<lambda>cod. if cod \<noteq> JStr ''404'' then show_weather s' resp else (s', None))
     | _ \<Rightarrow> (s', Some AttributeError))"
  using assms by (simp add: get_weather_def)

lemma try_then_inv: "(\<And>e. P (s, Some e)) \<Longrightarrow> (\<And>x. P (f x)) \<Longrightarrow> P (try_then s r f)"
  by (cases r) (simp_all add: try_then_def)

lemma show_weather_keeps:
  "city_id (fst (show_weather s w)) = city_id s \<and> requested (fst (show_weather s w)) = requested s"
  unfolding show_weather_def Let_def
  by (rule try_then_inv [where P = "\<lambda>r. city_id (fst r) = city_id s \<and> requested (fst r) = requested s"];
      simp?)+ (simp split: option.split)

text \<open>
  C23: round trip through the list box: after Add City ID, selecting the entry of a
  candidate whose text columns have no digit and pressing Get Weather stores that city's
  id in the backend and requests exactly its URL, whatever the server answers.
\<close>

theorem add_city_then_select:
  assumes "k < length (get_candidates s name)" "digit_free_row (get_candidates s name ! k)"
  shows "city_id (fst (get_weather key (get_cityid s name) (Some k) resp)) =
           Some (py_str (col3 (get_candidates s name ! k))) \<and>
         requested (fst (get_weather key (get_cityid s name) (Some k) resp)) =
           requested s @ [owm_url key (py_str (col3 (get_candidates s name ! k)))]"
proof -
  let ?s = "get_cityid s name" and ?r = "get_candidates s name ! k"
  have lb: "citylist_listbox ?s ! k = entry_name ?r" "k < length (citylist_listbox ?s)"
    using assms(1) by (simp_all add: get_cityid_prepends nth_append)
  have fd: "first_digits (citylist_listbox ?s ! k) = Some (py_str (col3 ?r))"
    using lb first_digits_entry [OF assms(2)] by simp
  show ?thesis
    unfolding get_weather_select [OF lb(2) fd] Let_def
    by (simp add: show_weather_keeps backend_get_weather_def set_city_id_def get_cityid_prepends
          try_then_def split: json.split sum.split)
qed


lemma weather_icon_owm: "weather_icon \<lfloor>i / 100\<rfloor> clear = Some (owm_icon i (if clear then ''Clear'' else []))"
proof -
  have a: "\<lfloor>i / 100\<rfloor> \<le> 5 \<longleftrightarrow> i < 600" by (simp add: floor_le_iff)
  have b: "\<lfloor>i / 100\<rfloor> = 6 \<longleftrightarrow> 600 \<le> i \<and> i < 700" by (simp add: floor_eq_iff)
  have c: "\<lfloor>i / 100\<rfloor> = 7 \<longleftrightarrow> 700 \<le> i \<and> i < 800" by (simp add: floor_eq_iff)
  have d: "8 \<le> \<lfloor>i / 100\<rfloor> \<longleftrightarrow> 800 \<le> i" by (simp add: le_floor_iff)
  show ?thesis unfolding weather_icon_def owm_icon_def a b c d by auto
qed

text \<open>
  on a reply of the documented shape whose times lie in the range of
  \<open>datetime\<close>, Get Weather shows the three temperatures in Celsius rounded to two
  places, the humidity, sunrise and sunset as local \<open>HH:MM\<close>, and adds the picture of
  the OpenWeather condition group to the canvas.
\<close>

theorem get_weather_reply:
  assumes "k < length (citylist_listbox s)" "first_digits (citylist_listbox s ! k) = Some cid"
    "dt_ok sr" "dt_ok ss" "dt_ok (sr + tz)" "dt_ok (ss + tz)"
  shows "get_weather key s (Some k) (owm_reply t h tmax tmin tz sr ss i main) =
    ((backend_get_weather key (set_city_id s cid))\<lparr>
       temp_value_label := LNum (py_round2 (t - 273.15)), humidity_value_label := LPercent h,
       max_temp_value_label := LNum (py_round2 (tmax - 273.15)),
       min_temp_value_label := LNum (py_round2 (tmin - 273.15)),
       sunrise_value_label := LText (strftime_HM (sr + tz)),
       sunset_value_label := LText (strftime_HM (ss + tz)),
       canvas_images := canvas_images s @ [owm_icon i main]\<rparr>, None)"
proof -
  have icon: "weather_icon \<lfloor>i / 100\<rfloor> (JStr main = JStr ''Clear'') = Some (owm_icon i main)"
    using weather_icon_owm [of i "main = ''Clear''"] by (simp add: owm_icon_def)
  show ?thesis
    unfolding get_weather_select [OF assms(1,2)]
    using assms(3-6) icon
    by (simp add: owm_reply_def show_weather_def try_then_def sbind_def jget_def jidx_def jnum_def
          kelvin_label_def local_time_def backend_get_weather_def set_city_id_def)
qed

text \<open>
  C24: every error reply other than the string \<open>"404"\<close> crashes the handler: when
  \<open>cod\<close> is missing or any other value (the API sends the number 401 for a bad key)
  and there is no \<open>main\<close>, Get Weather raises \<open>KeyError\<close> after storing the id and
  sending the request, and no label changes.
\<close>

theorem get_weather_error_reply:
  assumes "k < length (citylist_listbox s)" "first_digits (citylist_listbox s ! k) = Some cid"
    "map_of (rev kvs) ''cod'' \<noteq> Some (JStr ''404'')" "map_of (rev kvs) ''main'' = None"
  shows "get_weather key s (Some k) (JObj kvs) = (backend_get_weather key (set_city_id s cid), Some KeyError)"
  unfolding get_weather_select [OF assms(1,2)]
  using assms(3,4)
  by (auto simp: try_then_def jget_def show_weather_def split: option.split)

lemma two_digits_digits: "0 \<le> n \<Longrightarrow> n < 100 \<Longrightarrow> list_all ascii_digit (two_digits n)"
proof -
  assume "0 \<le> n" "n < 100"
  then have "nat (n div 10) < 10" "nat (n mod 10) < 10" by auto
  then show ?thesis by (simp add: two_digits_def ascii_digit_char_of)
qed

text \<open>
  bounds of the clock labels: \<open>'%H:%M'\<close> of any timestamp is two ASCII digits of
  an hour below 24, a colon and two digits of a minute below 60, and that hour and minute
  are the time of day the timestamp names.
\<close>

theorem strftime_HM_bounds:
  "\<exists>h m. strftime_HM t = two_digits h @ '':'' @ two_digits m \<and>
     list_all ascii_digit (two_digits h) \<and> list_all ascii_digit (two_digits m) \<and>
     0 \<le> h \<and> h < 24 \<and> 0 \<le> m \<and> m < 60 \<and>
     3600 * h + 60 * m \<le> \<lfloor>t\<rfloor> mod 86400 \<and> \<lfloor>t\<rfloor> mod 86400 < 3600 * h + 60 * (m + 1)"
proof -
  define d where "d = \<lfloor>t\<rfloor> mod 86400"
  have d: "0 \<le> d" "d < 86400" by (simp_all add: d_def)
  have h: "0 \<le> d div 3600" "d div 3600 < 24" using d by simp_all
  have m: "0 \<le> d mod 3600 div 60" "d mod 3600 div 60 < 60" by simp_all
  have e1: "d = 3600 * (d div 3600) + d mod 3600" by simp
  have e2: "d mod 3600 = 60 * (d mod 3600 div 60) + d mod 3600 mod 60" by simp
  have r: "0 \<le> d mod 3600 mod 60" "d mod 3600 mod 60 < 60" by simp_all
  have ar: "3600 * (d div 3600) + 60 * (d mod 3600 div 60) \<le> d"
    "d < 3600 * (d div 3600) + 60 * (d mod 3600 div 60 + 1)"
    using e1 e2 r unfolding distrib_left by linarith+
  have str: "strftime_HM t = two_digits (d div 3600) @ '':'' @ two_digits (d mod 3600 div 60)"
    by (simp add: strftime_HM_def d_def Let_def)
  show ?thesis
    unfolding d_def [symmetric]
    using str ar h m two_digits_digits [of "d div 3600"] two_digits_digits [of "d mod 3600 div 60"]
    by (intro exI [of _ "d div 3600"] exI [of _ "d mod 3600 div 60"]) simp
qed


lemma entry_name_digit_in_name:
  "first_digits (entry_name \<lparr>col0 = ''US'', col1 = ''CA'', col2 = ''Twentynine Palms 2'', col3 = 5404476,
      city_name = ''Twentynine Palms 2''\<rparr>) = Some ''2''"
  by (simp add: first_digits_def entry_name_def ascii_digit_def py_str_def digits.simps char_of_digit)

theorem add_city_then_select_witness:
  "0 < length (get_candidates (WeatherFrontend [\<lparr>col0 = ''US'', col1 = ''CA'', col2 = ''Los Angeles'',
      col3 = 5368361, city_name = ''Los Angeles''\<rparr>]) ''Los Angeles'') \<and>
   digit_free_row \<lparr>col0 = ''US'', col1 = ''CA'', col2 = ''Los Angeles'', col3 = 5368361,
      city_name = ''Los Angeles''\<rparr> \<and>
   city_id (fst (get_weather ''KEY'' (get_cityid (WeatherFrontend [\<lparr>col0 = ''US'', col1 = ''CA'',
      col2 = ''Los Angeles'', col3 = 5368361, city_name = ''Los Angeles''\<rparr>]) ''Los Angeles'') (Some 0) JNull)) =
     Some ''5368361''"
  using add_city_then_select [of 0 "WeatherFrontend [\<lparr>col0 = ''US'', col1 = ''CA'', col2 = ''Los Angeles'',
      col3 = 5368361, city_name = ''Los Angeles''\<rparr>]" "''Los Angeles''" "''KEY''" JNull]
  by (simp add: get_candidates_def WeatherFrontend_def digit_free_row_def no_digit_def ascii_digit_def
        py_str_def digits.simps char_of_digit)

theorem get_weather_reply_witness:
  "0 < length (citylist_listbox ((WeatherFrontend [])\<lparr>citylist_listbox := [''Los Angeles, CA, US (5368361)'']\<rparr>)) \<and>
   first_digits (''Los Angeles, CA, US (5368361)'') = Some ''5368361'' \<and>
   dt_ok 1700000000 \<and> dt_ok 1700040000 \<and> dt_ok (1700000000 + -28800) \<and> dt_ok (1700040000 + -28800) \<and>
   get_weather ''KEY'' ((WeatherFrontend [])\<lparr>citylist_listbox := [''Los Angeles, CA, US (5368361)'']\<rparr>) (Some 0)
     (owm_reply 293.15 (JNum 40) 295.15 290.15 (-28800) 1700000000 1700040000 800 ''Clear'') =
   (((WeatherFrontend [])\<lparr>citylist_listbox := [''Los Angeles, CA, US (5368361)''], city_id := Some ''5368361'',
       requested := [owm_url ''KEY'' ''5368361'']\<rparr>)\<lparr>
       temp_value_label := LNum 20, humidity_value_label := LPercent (JNum 40),
       max_temp_value_label := LNum 22, min_temp_value_label := LNum 17,
       sunrise_value_label := LText ''14:13'', sunset_value_label := LText ''01:20'',
       canvas_images := [SunImg]\<rparr>, None)"
proof -
  have fd: "first_digits (''Los Angeles, CA, US (5368361)'') = Some ''5368361''"
    by (simp add: first_digits_def ascii_digit_def)
  have dt: "dt_ok 1700000000" "dt_ok 1700040000" "dt_ok (1700000000 + -28800)" "dt_ok (1700040000 + -28800)"
    by (simp_all add: dt_ok_def)
  have r: "py_round2 20 = 20" "py_round2 22 = 22" "py_round2 17 = 17"
    by (simp_all add: py_round2_def round_half_even_def Let_def)
  have t: "strftime_HM 1699971200 = ''14:13''" "strftime_HM 1700011200 = ''01:20''"
    by (simp_all add: strftime_HM_def two_digits_def Let_def char_of_digit)
  show ?thesis
    using get_weather_reply [where k = 0 and s = "(WeatherFrontend [])\<lparr>citylist_listbox := [''Los Angeles, CA, US (5368361)'']\<rparr>"
        and cid = "''5368361''" and sr = 1700000000 and ss = 1700040000 and tz = "-28800" and key = "''KEY''"
        and t = "293.15" and h = "JNum 40" and tmax = "295.15" and tmin = "290.15" and i = 800 and main = "''Clear''"]
      fd dt
    by (simp add: r t owm_icon_def WeatherFrontend_def backend_get_weather_def set_city_id_def)
qed

theorem get_weather_error_reply_witness:
  "get_weather ''KEY'' ((WeatherFrontend [])\<lparr>citylist_listbox := [''Los Angeles, CA, US (5368361)'']\<rparr>) (Some 0)
     (JObj [(''cod'', JNum 401), (''message'', JStr ''Invalid API key'')]) =
   (((WeatherFrontend [])\<lparr>citylist_listbox := [''Los Angeles, CA, US (5368361)''], city_id := Some ''5368361'',
       requested := [owm_url ''KEY'' ''5368361'']\<rparr>), Some KeyError)"
proof -
  have fd: "first_digits (''Los Angeles, CA, US (5368361)'') = Some ''5368361''"
    by (simp add: first_digits_def ascii_digit_def)
  show ?thesis
    using get_weather_error_reply [of 0 "(WeatherFrontend [])\<lparr>citylist_listbox := [''Los Angeles, CA, US (5368361)'']\<rparr>"
        "''5368361''" "[(''cod'', JNum 401), (''message'', JStr ''Invalid API key'')]" "''KEY''"] fd
    by (simp add: WeatherFrontend_def backend_get_weather_def set_city_id_def)
qed

end
