(* ===== verification/Forex.thy ===== *)
theory Forex
  imports Prelude Complex_Main
begin

text \<open>
  src/forex_hist.py: class \<open>ForexHist\<close> (the downloaded price frame and the
  indicators it adds: two exponential moving averages and Bollinger's band) and the
  handlers of class \<open>ForexHistApp\<close> that fetch the data and show, hide and refresh the
  plotted lines.  Prices are reals; a pandas \<open>NaN\<close> is \<open>None\<close>.  The pandas
  operations are modelled from their documentation: \<open>ewm(span=n).mean()\<close> with the
  default \<open>adjust=True\<close> is the weighted mean with weights \<open>(1 - a)^k\<close>,
  \<open>a = 2 / (n + 1)\<close>; \<open>rolling(window=n)\<close> gives \<open>NaN\<close> until \<open>n\<close> values are
  there, and \<open>std\<close> is the sample deviation (\<open>ddof=1\<close>).  \<open>yf.download\<close> is an
  input: a function from the pair and the two dates to the rows (date, close) it returns.
  A matplotlib line is its data and whether its style is \<open>"None"\<close>; the handlers
  return the state after the effects made before a raise with the exception.
\<close>

subsection \<open>The backend\<close>

text \<open>The columns of \<open>self.df\<close> the program uses; the indicator columns are empty
  until computed.\<close>

record fx_frame =
  fr_index :: "int list"
  fr_close :: "real list"
  fr_ema9 :: "real list"
  fr_ema20 :: "real list"
  fr_mean :: "real option list"
  fr_std :: "real option list"
  fr_bol_hi :: "real option list"
  fr_bol_lo :: "real option list"

type_synonym download = "string option \<Rightarrow> string option \<Rightarrow> string option \<Rightarrow> (int \<times> real) list"

record forex_hist =
  df :: "fx_frame option"
  pair :: "string option"
  start_date :: "string option"
  end_date :: "string option"

definition ForexHist :: forex_hist where
  "ForexHist = \<lparr>df = None, pair = None, start_date = None, end_date = None\<rparr>"

definition set_pair :: "forex_hist \<Rightarrow> string \<Rightarrow> forex_hist" where
  "set_pair h p = h\<lparr>pair := Some p\<rparr>"

definition set_start_date :: "forex_hist \<Rightarrow> string \<Rightarrow> forex_hist" where
  "set_start_date h d = h\<lparr>start_date := Some d\<rparr>"

definition set_end_date :: "forex_hist \<Rightarrow> string \<Rightarrow> forex_hist" where
  "set_end_date h d = h\<lparr>end_date := Some d\<rparr>"

text \<open>\<open>Series.ewm(span=n).mean()\<close> (\<open>adjust=True\<close>, no missing values).\<close>

definition ewm_mean :: "nat \<Rightarrow> real list \<Rightarrow> real list" where
  "ewm_mean n xs =
     (let w = 1 - 2 / (real n + 1)
      in map (\<lambda>t. (\<Sum>i\<le>t. w ^ (t - i) * xs ! i) / (\<Sum>i\<le>t. w ^ (t - i))) [0..<length xs])"

text \<open>\<open>Series.rolling(window=n).mean()\<close> and \<open>.std()\<close>.\<close>

definition rolling_mean :: "nat \<Rightarrow> real list \<Rightarrow> real option list" where
  "rolling_mean n xs =
     map (\<lambda>t. if t + 1 < n then None else Some ((\<Sum>i = t + 1 - n..t. xs ! i) / real n)) [0..<length xs]"

definition rolling_std :: "nat \<Rightarrow> real list \<Rightarrow> real option list" where
  "rolling_std n xs =
     map (\<lambda>t. if t + 1 < n then None
              else let m = (\<Sum>i = t + 1 - n..t. xs ! i) / real n
                   in Some (sqrt ((\<Sum>i = t + 1 - n..t. (xs ! i - m)\<^sup>2) / (real n - 1))))
       [0..<length xs]"

text \<open>Element-wise \<open>a + b * k\<close> of two columns; \<open>NaN\<close> propagates.\<close>

definition col_add_scaled :: "real option list \<Rightarrow> real option list \<Rightarrow> real \<Rightarrow> real option list" where
  "col_add_scaled as bs k =
     map2 (\<lambda>a b. case (a, b) of (Some x, Some y) \<Rightarrow> Some (x + y * k) | _ \<Rightarrow> None) as bs"

definition get_EMA9 :: "fx_frame \<Rightarrow> fx_frame" where
  "get_EMA9 f = f\<lparr>fr_ema9 := ewm_mean 9 (fr_close f)\<rparr>"

definition get_EMA20 :: "fx_frame \<Rightarrow> fx_frame" where
  "get_EMA20 f = f\<lparr>fr_ema20 := ewm_mean 20 (fr_close f)\<rparr>"

definition get_Bollinger :: "fx_frame \<Rightarrow> fx_frame" where
  "get_Bollinger f =
     (let f = f\<lparr>fr_mean := rolling_mean 20 (fr_close f), fr_std := rolling_std 20 (fr_close f)\<rparr>;
          f = f\<lparr>fr_bol_hi := col_add_scaled (fr_mean f) (fr_std f) 2\<rparr>
      in f\<lparr>fr_bol_lo := col_add_scaled (fr_mean f) (fr_std f) (-2)\<rparr>)"

text \<open>The frame \<open>yf.download\<close> returns, before the indicators are added.\<close>

definition downloaded :: "(int \<times> real) list \<Rightarrow> fx_frame" where
  "downloaded rows =
     \<lparr>fr_index = map fst rows, fr_close = map snd rows, fr_ema9 = [], fr_ema20 = [],
      fr_mean = [], fr_std = [], fr_bol_hi = [], fr_bol_lo = []\<rparr>"

definition fh_get_data :: "download \<Rightarrow> forex_hist \<Rightarrow> forex_hist" where
  "fh_get_data dl h =
     h\<lparr>df := Some (get_Bollinger (get_EMA20 (get_EMA9
                  (downloaded (dl (pair h) (start_date h) (end_date h))))))\<rparr>"

subsection \<open>The application\<close>

text \<open>A \<open>Line2D\<close>: its data and whether it is drawn (linestyle not \<open>"None"\<close>).\<close>

record line =
  ln_x :: "int list"
  ln_y :: "real option list"
  ln_visible :: bool

definition mk_line :: "int list \<Rightarrow> real option list \<Rightarrow> line" where
  "mk_line xs ys = \<lparr>ln_x = xs, ln_y = ys, ln_visible = True\<rparr>"

record forex_app =
  forex_hist :: forex_hist
  price_line :: "line option"
  ema9_line :: "line option"
  ema20_line :: "line option"
  bolhi_line :: "line option"
  bollo_line :: "line option"
  indicators_enabled :: bool
  xlim :: "(int \<times> int) option"
  ylim :: "(real \<times> real) option"

text \<open>\<open>ForexHistApp.__init__\<close>: the lines are \<open>None\<close> and the three indicator buttons
  are disabled.\<close>

definition ForexHistApp :: forex_app where
  "ForexHistApp =
     \<lparr>forex_hist = ForexHist, price_line = None, ema9_line = None, ema20_line = None,
      bolhi_line = None, bollo_line = None, indicators_enabled = False, xlim = None, ylim = None\<rparr>"

text \<open>The \<open>if\<close>/\<open>elif\<close> chain of \<open>get_data\<close> on the combobox value.\<close>

definition ticker :: "string \<Rightarrow> string option" where
  "ticker p =
     (if p = ''USDJPY'' then Some ''USDJPY=X''
      else if p = ''EURJPY'' then Some ''EURJPY=X''
      else if p = ''AUDJPY'' then Some ''AUDJPY=X'' else None)"

definition hide :: "line option \<Rightarrow> line option" where
  "hide l = map_option (\<lambda>l. l\<lparr>ln_visible := False\<rparr>) l"

text \<open>\<open>plot_data\<close>: the first call plots the close; later calls replace the data,
  rescale the axes (\<open>min\<close> of an empty index raises \<open>ValueError\<close>) and then hide
  the indicator lines.\<close>

definition plot_data :: "forex_app \<Rightarrow> forex_app \<times> py_error option" where
  "plot_data a =
     (case df (forex_hist a) of None \<Rightarrow> (a, Some AttributeError) | Some f \<Rightarrow>
      (case price_line a of
         None \<Rightarrow> (a\<lparr>price_line := Some (mk_line (fr_index f) (map Some (fr_close f)))\<rparr>, None)
       | Some l \<Rightarrow>
           (let a = a\<lparr>price_line := Some (l\<lparr>ln_x := fr_index f, ln_y := map Some (fr_close f)\<rparr>)\<rparr>
            in if fr_index f = [] then (a, Some ValueError)
               else (a\<lparr>xlim := Some (Min (set (fr_index f)), Max (set (fr_index f))),
                       ylim := Some (Min (set (fr_close f)), Max (set (fr_close f))),
                       ema9_line := hide (ema9_line a), ema20_line := hide (ema20_line a),
                       bolhi_line := hide (bolhi_line a), bollo_line := hide (bollo_line a)\<rparr>, None))))"

text \<open>\<open>ForexHistApp.get_data\<close>.\<close>

definition app_get_data :: "download \<Rightarrow> forex_app \<Rightarrow> string \<Rightarrow> string \<Rightarrow> string \<Rightarrow> forex_app \<times> py_error option" where
  "app_get_data dl a choice start stop =
     (case ticker choice of None \<Rightarrow> (a, Some UnboundLocalError) | Some name \<Rightarrow>
      let h = fh_get_data dl (set_end_date (set_start_date (set_pair (forex_hist a) name) start) stop)
      in plot_data (a\<lparr>forex_hist := h, indicators_enabled := True\<rparr>))"

text \<open>The toggle of \<open>plot_ema9\<close>, \<open>plot_ema20\<close> and each half of
  \<open>plot_bollinger\<close>: plot a new line, or show a hidden line with the current data, or
  hide a shown one.\<close>

definition toggle_line :: "line option \<Rightarrow> int list \<Rightarrow> real option list \<Rightarrow> line option" where
  "toggle_line l xs ys =
     (case l of None \<Rightarrow> Some (mk_line xs ys)
      | Some l \<Rightarrow> if \<not> ln_visible l then Some (l\<lparr>ln_x := xs, ln_y := ys, ln_visible := True\<rparr>)
                  else Some (l\<lparr>ln_visible := False\<rparr>))"

definition plot_ema9 :: "forex_app \<Rightarrow> forex_app \<times> py_error option" where
  "plot_ema9 a =
     (case df (forex_hist a) of None \<Rightarrow> (a, Some AttributeError) | Some f \<Rightarrow>
      (a\<lparr>ema9_line := toggle_line (ema9_line a) (fr_index f) (map Some (fr_ema9 f))\<rparr>, None))"

definition plot_ema20 :: "forex_app \<Rightarrow> forex_app \<times> py_error option" where
  "plot_ema20 a =
     (case df (forex_hist a) of None \<Rightarrow> (a, Some AttributeError) | Some f \<Rightarrow>
      (a\<lparr>ema20_line := toggle_line (ema20_line a) (fr_index f) (map Some (fr_ema20 f))\<rparr>, None))"

definition plot_bollinger :: "forex_app \<Rightarrow> forex_app \<times> py_error option" where
  "plot_bollinger a =
     (case df (forex_hist a) of None \<Rightarrow> (a, Some AttributeError) | Some f \<Rightarrow>
      (a\<lparr>bolhi_line := toggle_line (bolhi_line a) (fr_index f) (fr_bol_hi f),
         bollo_line := toggle_line (bollo_line a) (fr_index f) (fr_bol_lo f)\<rparr>, None))"

text \<open>The Get Data! button with the combobox value and the two dates, and the three
  indicator buttons, which do nothing while disabled.\<close>

datatype fx_cmd = GetDataCmd string string string | EMA9Cmd | EMA20Cmd | BollingerCmd

fun fx_step :: "download \<Rightarrow> forex_app \<Rightarrow> fx_cmd \<Rightarrow> forex_app \<times> py_error option" where
  "fx_step dl a (GetDataCmd p s e) = app_get_data dl a p s e"
| "fx_step dl a EMA9Cmd = (if indicators_enabled a then plot_ema9 a else (a, None))"
| "fx_step dl a EMA20Cmd = (if indicators_enabled a then plot_ema20 a else (a, None))"
| "fx_step dl a BollingerCmd = (if indicators_enabled a then plot_bollinger a else (a, None))"

fun fx_run :: "download \<Rightarrow> forex_app \<Rightarrow> fx_cmd list \<Rightarrow> forex_app \<times> py_error list" where
  "fx_run dl a [] = (a, [])"
| "fx_run dl a (c # cs) =
     (let (a', e) = fx_step dl a c; (a'', es) = fx_run dl a' cs
      in (a'', (case e of None \<Rightarrow> es | Some x \<Rightarrow> x # es)))"


subsection \<open>Specification vocabulary\<close>

text \<open>\<open>shows_data l xs ys\<close>: the line, when drawn, plots \<open>ys\<close> over \<open>xs\<close>;
  \<open>line_mode\<close>: not plotted yet, hidden or drawn.  \<open>fx_inv\<close> is the consistency of
  the screen: before any data nothing is plotted and the indicator buttons are disabled;
  afterwards the price line exists, and every drawn line shows its column of the current
  frame, with both Bollinger lines in the same mode.  \<open>fx_cmd_ok\<close>: a Get Data! with a
  pair of the combobox for which the download is not empty, or an indicator button.\<close>

definition shows_data :: "line option \<Rightarrow> int list \<Rightarrow> real option list \<Rightarrow> bool" where
  "shows_data l xs ys = (case l of None \<Rightarrow> True | Some l \<Rightarrow> ln_visible l \<longrightarrow> ln_x l = xs \<and> ln_y l = ys)"

definition line_mode :: "line option \<Rightarrow> nat" where
  "line_mode l = (case l of None \<Rightarrow> 0 | Some l \<Rightarrow> if ln_visible l then 2 else 1)"

definition fx_inv :: "forex_app \<Rightarrow> bool" where
  "fx_inv a \<longleftrightarrow>
     (case df (forex_hist a) of
        None \<Rightarrow> price_line a = None \<and> ema9_line a = None \<and> ema20_line a = None \<and>
                bolhi_line a = None \<and> bollo_line a = None \<and> \<not> indicators_enabled a
      | Some f \<Rightarrow> price_line a \<noteq> None \<and> indicators_enabled a \<and>
                shows_data (price_line a) (fr_index f) (map Some (fr_close f)) \<and>
                shows_data (ema9_line a) (fr_index f) (map Some (fr_ema9 f)) \<and>
                shows_data (ema20_line a) (fr_index f) (map Some (fr_ema20 f)) \<and>
                shows_data (bolhi_line a) (fr_index f) (fr_bol_hi f) \<and>
                shows_data (bollo_line a) (fr_index f) (fr_bol_lo f) \<and>
                line_mode (bolhi_line a) = line_mode (bollo_line a))"

definition fx_cmd_ok :: "download \<Rightarrow> fx_cmd \<Rightarrow> bool" where
  "fx_cmd_ok dl c =
     (case c of GetDataCmd p s e \<Rightarrow> (\<exists>name. ticker p = Some name \<and> dl (Some name) (Some s) (Some e) \<noteq> [])
      | _ \<Rightarrow> True)"

subsection \<open>Properties\<close>

lemma fx_inv_init: "fx_inv ForexHistApp"
  by (simp add: fx_inv_def ForexHistApp_def ForexHist_def)

lemma shows_data_hide: "shows_data (hide l) xs ys"
  by (cases l) (simp_all add: shows_data_def hide_def)

lemma line_mode_hide: "line_mode (hide l) = (if l = None then 0 else 1)"
  by (cases l) (simp_all add: line_mode_def hide_def)

lemma shows_data_set: "shows_data (Some (l\<lparr>ln_x := xs, ln_y := ys\<rparr>)) xs ys"
  by (simp add: shows_data_def)

lemma line_mode_None: "line_mode l = 0 \<longleftrightarrow> l = None"
  by (cases l) (simp_all add: line_mode_def)

lemma shows_data_toggle: "shows_data (toggle_line l xs ys) xs ys"
  by (cases l) (simp_all add: shows_data_def toggle_line_def mk_line_def)

lemma line_mode_toggle: "line_mode (toggle_line l xs ys) = (if line_mode l = 2 then 1 else 2)"
  by (cases l) (simp_all add: line_mode_def toggle_line_def mk_line_def)

lemma fh_get_data_df: "\<exists>f. df (fh_get_data dl h) = Some f \<and>
   fr_index f = map fst (dl (pair h) (start_date h) (end_date h))"
  by (simp add: fh_get_data_def get_Bollinger_def get_EMA20_def get_EMA9_def downloaded_def Let_def)

lemma get_data_ok:
  assumes "fx_inv a" "ticker p = Some name" "dl (Some name) (Some s) (Some e) \<noteq> []"
  shows "snd (fx_step dl a (GetDataCmd p s e)) = None \<and> fx_inv (fst (fx_step dl a (GetDataCmd p s e)))"
proof -
  let ?h = "fh_get_data dl (set_end_date (set_start_date (set_pair (forex_hist a) name) s) e)"
  obtain f where f: "df ?h = Some f" "fr_index f = map fst (dl (Some name) (Some s) (Some e))"
    using fh_get_data_df [of dl "set_end_date (set_start_date (set_pair (forex_hist a) name) s) e"]
    by (auto simp: set_end_date_def set_start_date_def set_pair_def)
  have ne: "fr_index f \<noteq> []" using f(2) assms(3) by simp
  show ?thesis
  proof (cases "price_line a")
    case None
    then have "df (forex_hist a) = None" using assms(1) by (auto simp: fx_inv_def split: option.splits)
    then show ?thesis using assms None f
      by (simp add: fx_inv_def app_get_data_def plot_data_def shows_data_def mk_line_def line_mode_def)
  next
    case (Some l)
    have "df (forex_hist a) \<noteq> None" using assms(1) Some by (auto simp: fx_inv_def split: option.splits)
    then have "line_mode (bolhi_line a) = line_mode (bollo_line a)"
      using assms(1) by (auto simp: fx_inv_def split: option.splits)
    then have "bolhi_line a = None \<longleftrightarrow> bollo_line a = None" by (metis line_mode_None)
    then show ?thesis using assms f ne Some
      by (simp add: fx_inv_def app_get_data_def plot_data_def shows_data_set shows_data_hide line_mode_hide)
  qed
qed

lemma fx_step_ok:
  assumes "fx_inv a" "fx_cmd_ok dl c"
  shows "snd (fx_step dl a c) = None \<and> fx_inv (fst (fx_step dl a c))"
proof (cases c)
  case (GetDataCmd p s e)
  then show ?thesis using assms get_data_ok by (auto simp: fx_cmd_ok_def)
next
  case EMA9Cmd
  then show ?thesis using assms
    by (auto simp: fx_inv_def plot_ema9_def shows_data_toggle split: option.splits)
next
  case EMA20Cmd
  then show ?thesis using assms
    by (auto simp: fx_inv_def plot_ema20_def shows_data_toggle split: option.splits)
next
  case BollingerCmd
  then show ?thesis using assms
    by (auto simp: fx_inv_def plot_bollinger_def shows_data_toggle line_mode_toggle split: option.splits)
qed

lemma fx_run_ok:
  "fx_inv a \<Longrightarrow> list_all (fx_cmd_ok dl) cs \<Longrightarrow> snd (fx_run dl a cs) = [] \<and> fx_inv (fst (fx_run dl a cs))"
proof (induction cs arbitrary: a)
  case Nil
  then show ?case by simp
next
  case (Cons c cs)
  have ok: "snd (fx_step dl a c) = None \<and> fx_inv (fst (fx_step dl a c))"
    using fx_step_ok [OF Cons.prems(1)] Cons.prems(2) by simp
  then obtain a' where st: "fx_step dl a c = (a', None)" "fx_inv a'"
    by (metis prod.collapse)
  then show ?case using Cons.IH [OF st(2)] Cons.prems(2) by (auto split: prod.splits)
qed

text \<open>
  C25: as long as every download returns rows, no sequence of Get Data! and indicator
  clicks raises, and every drawn line shows its indicator of the frame last downloaded:
  \<open>plot_data\<close> hides the old indicator lines and each toggle redraws with the current
  data.
\<close>

theorem fx_session_ok:
  "list_all (fx_cmd_ok dl) cs \<Longrightarrow>
   snd (fx_run dl ForexHistApp cs) = [] \<and> fx_inv (fst (fx_run dl ForexHistApp cs))"
  using fx_run_ok [OF fx_inv_init] .

text \<open>
  C26: a Get Data! whose download is empty, once a price line exists, empties the price
  line and raises \<open>ValueError\<close> at \<open>set_xlim(min(...))\<close> before the indicator lines
  are hidden: they stay drawn with the previous frame's data.
\<close>

theorem fx_empty_download:
  assumes "price_line a = Some l" "ticker p = Some name" "dl (Some name) (Some s) (Some e) = []"
  shows "fx_step dl a (GetDataCmd p s e) =
    (a\<lparr>forex_hist := fh_get_data dl (set_end_date (set_start_date (set_pair (forex_hist a) name) s) e),
       indicators_enabled := True, price_line := Some (l\<lparr>ln_x := [], ln_y := []\<rparr>)\<rparr>, Some ValueError)"
proof -
  obtain f where f: "df (fh_get_data dl (set_end_date (set_start_date (set_pair (forex_hist a) name) s) e)) = Some f"
    "fr_index f = []"
    using fh_get_data_df [of dl "set_end_date (set_start_date (set_pair (forex_hist a) name) s) e"] assms(3)
    by (auto simp: set_end_date_def set_start_date_def set_pair_def)
  have "fr_close f = []"
    using f assms(3) by (auto simp: fh_get_data_def get_Bollinger_def get_EMA20_def get_EMA9_def
        downloaded_def Let_def set_end_date_def set_start_date_def set_pair_def)
  then show ?thesis using assms f by (simp add: app_get_data_def plot_data_def)
qed


lemma length_rolling: "length (rolling_mean n xs) = length xs" "length (rolling_std n xs) = length xs"
  by (simp_all add: rolling_mean_def rolling_std_def)

lemma nth_col_add_scaled:
  "t < length as \<Longrightarrow> t < length bs \<Longrightarrow>
   col_add_scaled as bs k ! t = (case (as ! t, bs ! t) of (Some x, Some y) \<Rightarrow> Some (x + y * k) | _ \<Rightarrow> None)"
  by (simp add: col_add_scaled_def)

text \<open>
  C27: bounds of Bollinger's band: both band columns have one entry per close; the first
  19 are \<open>NaN\<close>, and from the 20th on the band is the rolling mean plus and minus twice
  a non-negative rolling deviation, so the lower band never exceeds the upper one.
\<close>

theorem bollinger_band:
  assumes "t < length (fr_close f)"
  shows "length (fr_bol_hi (get_Bollinger f)) = length (fr_close f) \<and>
    length (fr_bol_lo (get_Bollinger f)) = length (fr_close f) \<and>
    (t < 19 \<longrightarrow> fr_bol_hi (get_Bollinger f) ! t = None \<and> fr_bol_lo (get_Bollinger f) ! t = None) \<and>
    (19 \<le> t \<longrightarrow> (\<exists>m sd. fr_mean (get_Bollinger f) ! t = Some m \<and> fr_std (get_Bollinger f) ! t = Some sd \<and>
       0 \<le> sd \<and> fr_bol_hi (get_Bollinger f) ! t = Some (m + sd * 2) \<and>
       fr_bol_lo (get_Bollinger f) ! t = Some (m - sd * 2)))"
  using assms
proof -
  let ?xs = "fr_close f"
  let ?m = "(\<Sum>i = t + 1 - 20..t. ?xs ! i) / real 20"
  let ?sd = "sqrt ((\<Sum>i = t + 1 - 20..t. (?xs ! i - ?m)\<^sup>2) / (real 20 - 1))"
  have m: "rolling_mean 20 ?xs ! t = (if t + 1 < 20 then None else Some ?m)"
    using assms by (simp add: rolling_mean_def)
  have sd: "rolling_std 20 ?xs ! t = (if t + 1 < 20 then None else Some ?sd)"
    using assms by (simp add: rolling_std_def Let_def)
  have pos: "0 \<le> ?sd" by (intro real_sqrt_ge_zero divide_nonneg_pos sum_nonneg) simp_all
  show ?thesis
    using assms pos
    by (simp add: get_Bollinger_def Let_def nth_col_add_scaled length_rolling m sd)
       (simp add: col_add_scaled_def length_rolling,
        intro impI exI [of _ "sum ((!) (fr_close f)) {t - 19..t} / 20"], simp)
qed

theorem fx_session_ok_witness:
  "list_all (fx_cmd_ok (\<lambda>p s e. [(1, 100), (2, 101)]))
     [GetDataCmd ''USDJPY'' ''2020-01-01'' ''2020-12-31'', EMA9Cmd, BollingerCmd,
      GetDataCmd ''EURJPY'' ''2020-01-01'' ''2020-12-31'', EMA9Cmd] \<and>
   snd (fx_run (\<lambda>p s e. [(1, 100), (2, 101)]) ForexHistApp
     [GetDataCmd ''USDJPY'' ''2020-01-01'' ''2020-12-31'', EMA9Cmd, BollingerCmd,
      GetDataCmd ''EURJPY'' ''2020-01-01'' ''2020-12-31'', EMA9Cmd]) = []"
  using fx_session_ok [of "\<lambda>p s e. [(1, 100), (2, 101)]"
      "[GetDataCmd ''USDJPY'' ''2020-01-01'' ''2020-12-31'', EMA9Cmd, BollingerCmd,
        GetDataCmd ''EURJPY'' ''2020-01-01'' ''2020-12-31'', EMA9Cmd]"]
  by (simp add: fx_cmd_ok_def ticker_def)


theorem bollinger_band_witness:
  "0 < length (fr_close (downloaded [(1, 100)])) \<and>
   fr_bol_hi (get_Bollinger (downloaded [(1, 100)])) ! 0 = None \<and>
   fr_bol_lo (get_Bollinger (downloaded [(1, 100)])) ! 0 = None"
  using bollinger_band [of 0 "downloaded [(1, 100)]"] by (simp add: downloaded_def)

theorem fx_empty_download_witness:
  "let dl = (\<lambda>p s e. if p = Some ''USDJPY=X'' then [(1, 100), (2, 101)] else []);
       a = fst (fx_run dl ForexHistApp [GetDataCmd ''USDJPY'' ''2020-01-01'' ''2020-12-31'', EMA9Cmd])
   in price_line a = Some (mk_line [1, 2] [Some 100, Some 101]) \<and>
      snd (fx_step dl a (GetDataCmd ''EURJPY'' ''2020-01-01'' ''2020-12-31'')) = Some ValueError \<and>
      ema9_line (fst (fx_step dl a (GetDataCmd ''EURJPY'' ''2020-01-01'' ''2020-12-31''))) =
        ema9_line a \<and>
      (\<exists>l. ema9_line a = Some l \<and> ln_visible l \<and> ln_x l = [1, 2])"
proof -
  define dl :: download where "dl = (\<lambda>p s e. if p = Some ''USDJPY=X'' then [(1, 100), (2, 101)] else [])"
  define a where "a = fst (fx_run dl ForexHistApp [GetDataCmd ''USDJPY'' ''2020-01-01'' ''2020-12-31'', EMA9Cmd])"
  have pl: "price_line a = Some (mk_line [1, 2] [Some 100, Some 101])"
    and e9: "\<exists>l. ema9_line a = Some l \<and> ln_visible l \<and> ln_x l = [1, 2]"
    by (simp_all add: a_def dl_def ForexHistApp_def ForexHist_def app_get_data_def ticker_def
          fh_get_data_def set_pair_def set_start_date_def set_end_date_def plot_data_def
          plot_ema9_def toggle_line_def mk_line_def get_Bollinger_def get_EMA9_def get_EMA20_def
          downloaded_def Let_def)
  have st: "fx_step dl a (GetDataCmd ''EURJPY'' ''2020-01-01'' ''2020-12-31'') =
    (a\<lparr>forex_hist := fh_get_data dl (set_end_date (set_start_date (set_pair (forex_hist a) ''EURJPY=X'')
          ''2020-01-01'') ''2020-12-31''),
       indicators_enabled := True,
       price_line := Some ((mk_line [1, 2] [Some 100, Some 101])\<lparr>ln_x := [], ln_y := []\<rparr>)\<rparr>, Some ValueError)"
    using fx_empty_download [OF pl, of "''EURJPY''" "''EURJPY=X''" dl "''2020-01-01''" "''2020-12-31''"]
    by (simp add: ticker_def dl_def)
  show ?thesis using pl e9 st unfolding Let_def dl_def [symmetric] a_def [symmetric] by simp
qed

end
