(* ===== verification/SQL_Manager.thy ===== *)
theory SQL_Manager
  imports Prelude
begin

text \<open>
  The SQL table browser, src/sqlmanager/sqlmanager.py, a PySimpleGUI script run at module
  level.  \<open>get_database_path\<close> (lines 13-45) reads events of the file dialog until one ends
  it; the script then connects with \<open>sqlite3.connect\<close> (lines 79-86), lists the tables
  (lines 90-91) and runs the event loop of the table window (lines 139-179), whose
  \<open>Show\<close> handler fetches a table and retitles the columns by \<open>update_title\<close> (lines
  127-136), and whose \<open>Extract\<close> handler copies a selected row into the ten inputs of the
  data editor.  The database is an input: the connection either fails or gives the list of
  tables, the result of \<open>SELECT * FROM t;\<close> for each plainly named table \<open>t\<close> (an error
  or the column descriptions and the rows), and the unspecified result of any other
  statement, which is what the spliced statement becomes for a name that needs quoting
  (\<open>cur_execute\<close>).  Cells are the strings PySimpleGUI shows.  An
  exception that the script does not catch ends it, so it is the \<open>Inl\<close> result of the
  whole run; \<open>None\<close> is a window still waiting in \<open>window.read()\<close>.
\<close>

type_synonym sql_row = "string list"

text \<open>The open database: \<open>db_query\<close> is what \<open>cur.execute\<close> gives for a statement SQLite
  parses otherwise than a plain \<open>SELECT\<close> (left unspecified), \<open>db_tables\<close> the table names
  \<open>sqlite_master\<close> lists, and \<open>db_select\<close> the result of \<open>SELECT * FROM t;\<close> for a table
  name \<open>t\<close> written as a plain identifier: the column descriptions and the rows, or the
  error of a name no table has.\<close>

record sql_db =
  db_query :: "string \<Rightarrow> py_error + (string option list \<times> sql_row list)"
  db_tables :: "string list"
  db_select :: "string \<Rightarrow> py_error + (string option list \<times> sql_row list)"

text \<open>The events of the file dialog: the window closed, the \<open>Exit\<close> button, and
  \<open>Create/Open\<close> with the path the \<open>FileBrowse\<close> button has put in \<open>values\<close>.\<close>

datatype path_event = PathClosed | PathExit | CreateOpen string

text \<open>\<open>database_path\<close> is assigned in the body of \<open>get_database_path\<close>, so it is a local
  variable there, and \<open>return database_path\<close> after a \<open>break\<close> on the close or \<open>Exit\<close>
  event raises \<open>UnboundLocalError\<close>.\<close>

fun get_database_path :: "path_event list \<Rightarrow> (py_error + string) option" where
  "get_database_path [] = None"
| "get_database_path (PathClosed # es) = Some (Inl UnboundLocalError)"
| "get_database_path (PathExit # es) = Some (Inl UnboundLocalError)"
| "get_database_path (CreateOpen p # es) = Some (Inr p)"

text \<open>The table window: the rows of the \<open>-tabledata\<close> table, its ten headings, the ten
  titles \<open>-columnt0\<close>..\<open>-columnt9\<close> and inputs \<open>-columnip0\<close>..\<open>-columnip9\<close> of the
  editor, the globals \<open>viewing_table\<close> and \<open>current_tables\<close>, and \<open>headers\<close>, which is
  not defined (\<open>None\<close>) until the first \<open>Show\<close>.\<close>

record sql_window =
  sw_values :: "sql_row list"
  sw_headings :: "string list"
  sw_titles :: "string list"
  sw_inputs :: "string list"
  sw_viewing :: "string option"
  sw_headers :: "string list option"
  sw_tables :: "string list"

definition default_headings :: "string list" where
  "default_headings = map (\<lambda>i. py_str (int i)) [0..<10]"

text \<open>The window as built at lines 93-125: \<open>sg.Table([[]], ...)\<close> holds one empty row,
  the editor titles read \<open>Column i\<close> and its inputs are empty.\<close>

definition sql_window_init :: "string list \<Rightarrow> sql_window" where
  "sql_window_init current_tables =
     \<lparr>sw_values = [[]], sw_headings = default_headings,
      sw_titles = map (\<lambda>i. ''Column '' @ py_str (int i)) [0..<10],
      sw_inputs = replicate 10 '''', sw_viewing = None, sw_headers = None,
      sw_tables = current_tables\<rparr>"

text \<open>\<open>update_title\<close>: the first loop runs over \<open>enumerate(zip(default_headings,
  new_headings))\<close>, the second resets the remaining columns to their number.\<close>

definition update_title :: "string list \<Rightarrow> sql_window \<Rightarrow> sql_window" where
  "update_title new_headings w =
     (let header_size = min (length default_headings) (length new_headings);
          w = foldl (\<lambda>w (i, cid, text).
                       w\<lparr>sw_headings := (sw_headings w)[i := text], sw_titles := (sw_titles w)[i := text]\<rparr>)
                w (enumerate 0 (zip default_headings new_headings))
      in foldl (\<lambda>w i. w\<lparr>sw_headings := (sw_headings w)[i := default_headings ! i],
                         sw_titles := (sw_titles w)[i := py_str (int i)]\<rparr>)
           w [header_size..<10])"

text \<open>\<open>cur.execute("SELECT * FROM " + viewing_table + ";")\<close> (line 153): the name is spliced
  into the statement unquoted.  SQLite reads the statement as a \<open>SELECT\<close> from the table of
  that name when the name is a plain identifier, an ASCII letter or \<open>_\<close> followed by
  letters, digits and \<open>_\<close>, that is none of SQLite's 147 keywords (compared without
  case); any other name (with a space, a hyphen or a quote, or a keyword such as
  \<open>order\<close>) makes another statement, a syntax error or a select from another table
  (\<open>a b\<close> selects from \<open>a\<close> under the alias \<open>b\<close>), whose result is \<open>db_query\<close>.\<close>

definition sql_ident_char :: "char \<Rightarrow> bool" where
  "sql_ident_char c \<longleftrightarrow> ascii_digit c \<or> c = CHR ''_'' \<or>
     ((65 :: nat) \<le> of_char c \<and> of_char c \<le> (90 :: nat)) \<or> ((97 :: nat) \<le> of_char c \<and> of_char c \<le> (122 :: nat))"

definition ascii_lower :: "char \<Rightarrow> char" where
  "ascii_lower c = (if (65 :: nat) \<le> of_char c \<and> of_char c \<le> (90 :: nat) then char_of (of_char c + (32 :: nat)) else c)"

definition sqlite_keywords :: "string list" where
  "sqlite_keywords = [
    ''abort'', ''action'', ''add'', ''after'', ''all'', ''alter'', ''always'', ''analyze'',
    ''and'', ''as'', ''asc'', ''attach'', ''autoincrement'', ''before'', ''begin'',
    ''between'', ''by'', ''cascade'', ''case'', ''cast'', ''check'', ''collate'', ''column'',
    ''commit'', ''conflict'', ''constraint'', ''create'', ''cross'', ''current'',
    ''current_date'', ''current_time'', ''current_timestamp'', ''database'', ''default'',
    ''deferrable'', ''deferred'', ''delete'', ''desc'', ''detach'', ''distinct'', ''do'',
    ''drop'', ''each'', ''else'', ''end'', ''escape'', ''except'', ''exclude'', ''exclusive'',
    ''exists'', ''explain'', ''fail'', ''filter'', ''first'', ''following'', ''for'',
    ''foreign'', ''from'', ''full'', ''generated'', ''glob'', ''group'', ''groups'',
    ''having'', ''if'', ''ignore'', ''immediate'', ''in'', ''index'', ''indexed'',
    ''initially'', ''inner'', ''insert'', ''instead'', ''intersect'', ''into'', ''is'',
    ''isnull'', ''join'', ''key'', ''last'', ''left'', ''like'', ''limit'', ''match'',
    ''materialized'', ''natural'', ''no'', ''not'', ''nothing'', ''notnull'', ''null'',
    ''nulls'', ''of'', ''offset'', ''on'', ''or'', ''order'', ''others'', ''outer'', ''over'',
    ''partition'', ''plan'', ''pragma'', ''preceding'', ''primary'', ''query'', ''raise'',
    ''range'', ''recursive'', ''references'', ''regexp'', ''reindex'', ''release'', ''rename'',
    ''replace'', ''restrict'', ''returning'', ''right'', ''rollback'', ''row'', ''rows'',
    ''savepoint'', ''select'', ''set'', ''table'', ''temp'', ''temporary'', ''then'', ''ties'',
    ''to'', ''transaction'', ''trigger'', ''unbounded'', ''union'', ''unique'', ''update'',
    ''using'', ''vacuum'', ''values'', ''view'', ''virtual'', ''when'', ''where'', ''window'',
    ''with'', ''without'']"

definition sql_plain_name :: "string \<Rightarrow> bool" where
  "sql_plain_name t \<longleftrightarrow>
     t \<noteq> [] \<and> \<not> ascii_digit (hd t) \<and> list_all sql_ident_char t \<and> map ascii_lower t \<notin> set sqlite_keywords"

definition select_star_name :: "string \<Rightarrow> string option" where
  "select_star_name q =
     (let t = butlast (drop 14 q)
      in if take 14 q = ''SELECT * FROM '' \<and> 15 \<le> length q \<and> last q = CHR '';'' \<and> sql_plain_name t
         then Some t else None)"

definition cur_execute :: "sql_db \<Rightarrow> string \<Rightarrow> py_error + (string option list \<times> sql_row list)" where
  "cur_execute db q = (case select_star_name q of Some t \<Rightarrow> db_select db t | None \<Rightarrow> db_query db q)"

text \<open>The \<open>Show\<close> handler, with the listbox selection \<open>values["-tablelistbox"]\<close>.\<close>

definition show_table :: "sql_db \<Rightarrow> string list \<Rightarrow> sql_window \<Rightarrow> py_error + sql_window" where
  "show_table db sel w =
     (if sel = [] then Inr w
      else
        (let viewing_table = hd sel in
         case cur_execute db (''SELECT * FROM '' @ viewing_table @ '';'') of
           Inl e \<Rightarrow> Inl e
         | Inr (description, table_data) \<Rightarrow>
             (let headers = [h. Some h \<leftarrow> description];
                  w = w\<lparr>sw_viewing := Some viewing_table, sw_headers := Some headers,
                        sw_values := table_data\<rparr>;
                  w = update_title headers w
              in Inr (foldl (\<lambda>w i. w\<lparr>sw_inputs := (sw_inputs w)[i := '''']\<rparr>) w [0..<10]))))"

text \<open>The loop \<open>for i in range(len(headers))\<close> of \<open>Extract\<close>: \<open>window["-columnip"+str(i)]\<close>
  is looked up before \<open>data[i]\<close> is read; the window has no input past \<open>-columnip9\<close>, and a
  lookup of a missing key is PySimpleGUI's \<open>KeyError\<close>.\<close>

fun set_inputs :: "sql_row \<Rightarrow> nat list \<Rightarrow> sql_window \<Rightarrow> py_error + sql_window" where
  "set_inputs data [] w = Inr w"
| "set_inputs data (i # is) w =
     (if 10 \<le> i then Inl KeyError
      else if length data \<le> i then Inl IndexError
      else set_inputs data is (w\<lparr>sw_inputs := (sw_inputs w)[i := data ! i]\<rparr>))"

text \<open>The \<open>Extract\<close> handler, with the selected row numbers \<open>values["-tabledata"]\<close>;
  \<open>headers\<close> is read after the row, and is an undefined name before the first \<open>Show\<close>.\<close>

definition extract_row :: "nat list \<Rightarrow> sql_window \<Rightarrow> py_error + sql_window" where
  "extract_row sel w =
     (if sel = [] then Inr w
      else
        (let row = hd sel in
         if length (sw_values w) \<le> row then Inl IndexError
         else
           (let data = sw_values w ! row in
            case sw_headers w of
              None \<Rightarrow> Inl NameError
            | Some headers \<Rightarrow> set_inputs data [0..<length headers] w)))"

text \<open>The events \<open>window.read()\<close> returns: the window closed, \<open>Exit\<close>, \<open>Show\<close> and
  \<open>Extract\<close> with the current selections, \<open>Help\<close>, and any other event (the disabled
  \<open>Delete\<close> button, a click in the table or the listbox), which the loop ignores.\<close>

datatype sql_event = WinClosed | ExitEv | ShowEv "string list" | ExtractEv "nat list" | HelpEv | OtherEv

text \<open>\<open>help_window\<close>: its own loop reads events until the window is closed (or \<open>Exit\<close>);
  the events in between go to the help window.  \<open>None\<close>: it is still open.\<close>

definition help_window :: "sql_event list \<Rightarrow> sql_event list option" where
  "help_window es =
     (case dropWhile (\<lambda>e. e \<noteq> WinClosed \<and> e \<noteq> ExitEv) es of
        [] \<Rightarrow> None
      | e # es' \<Rightarrow> Some es')"

text \<open>The \<open>while True\<close> loop of lines 139-179.\<close>

function sql_loop :: "sql_db \<Rightarrow> sql_window \<Rightarrow> sql_event list \<Rightarrow> (py_error + sql_window) option" where
  "sql_loop db w [] = None"
| "sql_loop db w (WinClosed # es) = Some (Inr w)"
| "sql_loop db w (ExitEv # es) = Some (Inr w)"
| "sql_loop db w (HelpEv # es) =
     (case help_window es of None \<Rightarrow> None | Some es' \<Rightarrow> sql_loop db w es')"
| "sql_loop db w (ShowEv sel # es) =
     (case show_table db sel w of Inl e \<Rightarrow> Some (Inl e) | Inr w' \<Rightarrow> sql_loop db w' es)"
| "sql_loop db w (ExtractEv sel # es) =
     (case extract_row sel w of Inl e \<Rightarrow> Some (Inl e) | Inr w' \<Rightarrow> sql_loop db w' es)"
| "sql_loop db w (OtherEv # es) = sql_loop db w es"
  by pat_completeness auto
termination
proof (relation "measure (\<lambda>(db, w, es). length es)")
  fix db w es es'
  assume "help_window es = Some es'"
  then obtain e where d: "dropWhile (\<lambda>e. e \<noteq> WinClosed \<and> e \<noteq> ExitEv) es = e # es'"
    by (auto simp: help_window_def split: list.splits)
  have "length (dropWhile (\<lambda>e. e \<noteq> WinClosed \<and> e \<noteq> ExitEv) es) \<le> length es"
    by (rule length_dropWhile_le)
  with d show "((db, w, es'), db, w, HelpEv # es) \<in> measure (\<lambda>(db, w, es). length es)" by simp
qed auto

text \<open>The whole script: the file dialog, \<open>sqlite3.connect\<close> (an error is printed and
  \<open>conn\<close> stays \<open>None\<close>, so \<open>conn.cursor()\<close> raises \<open>AttributeError\<close>), the table list,
  and the main loop.\<close>

definition sqlmanager ::
  "(string \<Rightarrow> py_error + sql_db) \<Rightarrow> path_event list \<Rightarrow> sql_event list \<Rightarrow> (py_error + sql_window) option" where
  "sqlmanager connect pes es =
     (case get_database_path pes of
        None \<Rightarrow> None
      | Some (Inl e) \<Rightarrow> Some (Inl e)
      | Some (Inr database_path) \<Rightarrow>
          (case connect database_path of
             Inl _ \<Rightarrow> Some (Inl AttributeError)
           | Inr db \<Rightarrow> sql_loop db (sql_window_init (db_tables db)) es))"

subsection \<open>Specification vocabulary\<close>

text \<open>The titles \<open>update_title\<close> gives the columns from \<open>n\<close> on: their numbers.\<close>

definition numbered :: "nat \<Rightarrow> string list" where
  "numbered n = map (\<lambda>i. py_str (int i)) [n..<10]"

text \<open>The column names of a fetched table, as \<open>headers\<close> collects them.\<close>

definition col_names :: "string option list \<Rightarrow> string list" where
  "col_names description = [h. Some h \<leftarrow> description]"

text \<open>A database the editor can show: every listed table has a plain name, can be selected,
  has at most ten columns, and its rows have one cell per column.\<close>

definition db_ok :: "sql_db \<Rightarrow> bool" where
  "db_ok db \<longleftrightarrow>
     list_all (\<lambda>t. sql_plain_name t \<and> (case db_select db t of
                     Inl _ \<Rightarrow> False
                   | Inr (description, rows) \<Rightarrow>
                       length (col_names description) \<le> 10 \<and>
                       list_all (\<lambda>row. length row = length (col_names description)) rows))
       (db_tables db)"

text \<open>The invariant of the table window: ten headings, titles and inputs, the listbox
  holding the tables of the database, and the shown rows either the initial empty row
  before the first \<open>Show\<close> or rows of one cell per header.\<close>

definition sql_inv :: "sql_db \<Rightarrow> sql_window \<Rightarrow> bool" where
  "sql_inv db w \<longleftrightarrow>
     length (sw_headings w) = 10 \<and> length (sw_titles w) = 10 \<and> length (sw_inputs w) = 10 \<and>
     sw_tables w = db_tables db \<and>
     (case sw_headers w of
        None \<Rightarrow> sw_values w = [[]]
      | Some hs \<Rightarrow> length hs \<le> 10 \<and> list_all (\<lambda>row. length row = length hs) (sw_values w))"

text \<open>The windows a session reaches by \<open>Show\<close> and \<open>Extract\<close> events whose selections the
  widgets allow: table names of the listbox and row numbers of the table.\<close>

inductive sql_reach :: "sql_db \<Rightarrow> sql_window \<Rightarrow> bool" for db where
  init: "sql_reach db (sql_window_init (db_tables db))"
| show_ev: "sql_reach db w \<Longrightarrow> set sel \<subseteq> set (sw_tables w) \<Longrightarrow> show_table db sel w = Inr w' \<Longrightarrow>
         sql_reach db w'"
| extract_ev: "sql_reach db w \<Longrightarrow> list_all (\<lambda>r. r < length (sw_values w)) sel \<Longrightarrow>
            extract_row sel w = Inr w' \<Longrightarrow> sql_reach db w'"

subsection \<open>Handlers\<close>

lemma update_title_loop1:
  "k + length ts \<le> length (sw_headings w) \<Longrightarrow> k + length ts \<le> length (sw_titles w) \<Longrightarrow>
   length ts \<le> length ds \<Longrightarrow>
   foldl (\<lambda>w (i, cid, text). w\<lparr>sw_headings := (sw_headings w)[i := text], sw_titles := (sw_titles w)[i := text]\<rparr>)
     w (enumerate k (zip ds ts)) =
   w\<lparr>sw_headings := foldl (\<lambda>xs (i, t). xs[i := t]) (sw_headings w) (enumerate k ts),
     sw_titles := foldl (\<lambda>xs (i, t). xs[i := t]) (sw_titles w) (enumerate k ts)\<rparr>"
proof (induction ts arbitrary: ds k w)
  case (Cons t ts)
  then obtain d ds' where "ds = d # ds'" by (cases ds) auto
  with Cons show ?case by simp
qed simp

lemma update_title_loop2:
  "foldl (\<lambda>w i. w\<lparr>sw_headings := (sw_headings w)[i := f i], sw_titles := (sw_titles w)[i := g i]\<rparr>) w is =
   w\<lparr>sw_headings := foldl (\<lambda>xs i. xs[i := f i]) (sw_headings w) is,
     sw_titles := foldl (\<lambda>xs i. xs[i := g i]) (sw_titles w) is\<rparr>"
  by (induction "is" arbitrary: w) simp_all

lemma clear_inputs:
  "foldl (\<lambda>w i. w\<lparr>sw_inputs := (sw_inputs w)[i := f i]\<rparr>) w is =
   w\<lparr>sw_inputs := foldl (\<lambda>xs i. xs[i := f i]) (sw_inputs w) is\<rparr>"
  by (induction "is" arbitrary: w) simp_all

lemma default_headings_nth: "i < 10 \<Longrightarrow> default_headings ! i = py_str (int i)"
  by (simp add: default_headings_def)

lemma length_default_headings [simp]: "length default_headings = 10"
  by (simp add: default_headings_def)

lemma update_title_eq:
  assumes "length (sw_headings w) = 10" "length (sw_titles w) = 10"
  shows "update_title hs w =
    w\<lparr>sw_headings := take 10 hs @ numbered (length hs), sw_titles := take 10 hs @ numbered (length hs)\<rparr>"
proof -
  let ?n = "min 10 (length hs)"
  have z: "zip default_headings hs = zip default_headings (take 10 hs)"
    by (metis length_default_headings order_refl take_all take_zip length_zip min.cobounded1)
  have m: "map (\<lambda>i. default_headings ! i) [?n..<10] = map (\<lambda>i. py_str (int i)) [?n..<10]"
    by (simp add: default_headings_nth)
  have "numbered (length hs) = map (\<lambda>i. py_str (int i)) [?n..<10]"
    by (simp add: numbered_def min_def)
  with assms z m show ?thesis
    unfolding update_title_def Let_def
    by (simp add: update_title_loop1 update_title_loop2 foldl_update_enumerate foldl_update_upt
                  min_def del: map_eq_conv)
qed

lemma set_inputs_upt:
  "k \<le> n \<Longrightarrow> n \<le> 10 \<Longrightarrow> n \<le> length data \<Longrightarrow>
   set_inputs data [k..<n] w = Inr (w\<lparr>sw_inputs := foldl (\<lambda>xs i. xs[i := data ! i]) (sw_inputs w) [k..<n]\<rparr>)"
proof (induction "n - k" arbitrary: k w)
  case (Suc m)
  then have "k < n" by arith
  then have "[k..<n] = k # [Suc k..<n]" by (simp add: upt_conv_Cons)
  with Suc \<open>k < n\<close> show ?case by simp
qed simp

lemma set_inputs_wide:
  "k \<le> 10 \<Longrightarrow> 10 < n \<Longrightarrow> 10 \<le> length data \<Longrightarrow> set_inputs data [k..<n] w = Inl KeyError"
proof (induction "10 - k" arbitrary: k w)
  case 0
  then have "[k..<n] = 10 # [Suc 10..<n]" by (simp add: upt_conv_Cons)
  then show ?case by simp
next
  case (Suc m)
  then have "[k..<n] = k # [Suc k..<n]" by (simp add: upt_conv_Cons)
  with Suc show ?case by simp
qed

lemma take_as_map_nth: "n \<le> length xs \<Longrightarrow> map (\<lambda>i. xs ! i) [0..<n] = take n xs"
  by (rule nth_equalityI) simp_all

lemma extract_row_ok:
  assumes "sel \<noteq> []" "hd sel < length (sw_values w)" "sw_headers w = Some hs"
    "length hs \<le> 10" "length hs \<le> length (sw_values w ! hd sel)" "length (sw_inputs w) = 10"
  shows "extract_row sel w = Inr (w\<lparr>sw_inputs := take (length hs) (sw_values w ! hd sel) @ drop (length hs) (sw_inputs w)\<rparr>)"
  using assms by (simp add: extract_row_def set_inputs_upt foldl_update_upt take_as_map_nth)

lemma cur_execute_select:
  assumes "sql_plain_name t"
  shows "cur_execute db (''SELECT * FROM '' @ t @ '';'') = db_select db t"
proof -
  have "t \<noteq> []" using assms by (simp add: sql_plain_name_def)
  then have "select_star_name (''SELECT * FROM '' @ t @ '';'') = Some t"
    using assms by (simp add: select_star_name_def butlast_append)
  then show ?thesis by (simp add: cur_execute_def)
qed

lemma sql_plain_users: "sql_plain_name ''users''"
  by (simp add: sql_plain_name_def sqlite_keywords_def sql_ident_char_def ascii_lower_def ascii_digit_def)

lemma sql_unquoted_names:
  "\<not> sql_plain_name ''my table'' \<and> \<not> sql_plain_name ''order'' \<and> \<not> sql_plain_name ''2020'' \<and>
   cur_execute db ''SELECT * FROM my table;'' = db_query db ''SELECT * FROM my table;''"
  by (simp add: sql_plain_name_def sqlite_keywords_def sql_ident_char_def ascii_lower_def ascii_digit_def
      cur_execute_def select_star_name_def)

lemma show_table_ok:
  assumes "sel \<noteq> []" "sql_plain_name (hd sel)" "db_select db (hd sel) = Inr (description, rows)"
    "length (sw_headings w) = 10" "length (sw_titles w) = 10" "length (sw_inputs w) = 10"
  shows "show_table db sel w =
    Inr (w\<lparr>sw_viewing := Some (hd sel), sw_headers := Some (col_names description), sw_values := rows,
           sw_headings := take 10 (col_names description) @ numbered (length (col_names description)),
           sw_titles := take 10 (col_names description) @ numbered (length (col_names description)),
           sw_inputs := replicate 10 ''''\<rparr>)"
  using assms unfolding show_table_def Let_def cur_execute_select [OF assms(2)]
  by (simp add: update_title_eq clear_inputs foldl_update_upt col_names_def map_replicate_const
           del: map_eq_conv)

lemma db_ok_table:
  "db_ok db \<Longrightarrow> t \<in> set (db_tables db) \<Longrightarrow>
   sql_plain_name t \<and>
   (\<exists>description rows. db_select db t = Inr (description, rows) \<and> length (col_names description) \<le> 10 \<and>
     list_all (\<lambda>row. length row = length (col_names description)) rows)"
  by (cases "db_select db t") (auto simp: db_ok_def list_all_iff)

lemma sql_inv_init: "sql_inv db (sql_window_init (db_tables db))"
  by (simp add: sql_inv_def sql_window_init_def default_headings_def)

lemma sql_inv_show:
  assumes "sql_inv db w" "db_ok db" "set sel \<subseteq> set (sw_tables w)"
  shows "\<exists>w'. show_table db sel w = Inr w' \<and> sql_inv db w'"
proof (cases sel)
  case (Cons t ts)
  with assms have "t \<in> set (db_tables db)" by (auto simp: sql_inv_def)
  with assms(2) obtain description rows where
    d: "sql_plain_name t" "db_select db t = Inr (description, rows)" "length (col_names description) \<le> 10"
       "list_all (\<lambda>row. length row = length (col_names description)) rows"
    by (blast dest: db_ok_table)
  with Cons assms(1) show ?thesis
    by (simp add: show_table_ok sql_inv_def numbered_def)
qed (simp add: show_table_def assms(1))

lemma sql_inv_extract:
  assumes "sql_inv db w" "list_all (\<lambda>r. r < length (sw_values w)) sel" "sw_headers w \<noteq> None"
  shows "\<exists>w'. extract_row sel w = Inr w' \<and> sql_inv db w'"
proof (cases sel)
  case (Cons r rs)
  from assms obtain hs where h: "sw_headers w = Some hs" by auto
  with assms Cons have "length (sw_values w ! r) = length hs" "length hs \<le> 10"
    by (auto simp: sql_inv_def list_all_length)
  with assms h Cons show ?thesis
    by (simp add: extract_row_ok sql_inv_def)
qed (simp add: extract_row_def assms(1))

lemma sql_reach_inv: "sql_reach db w \<Longrightarrow> db_ok db \<Longrightarrow> sql_inv db w"
proof (induction rule: sql_reach.induct)
  case init
  show ?case by (rule sql_inv_init)
next
  case (show_ev w sel w')
  then obtain w'' where "show_table db sel w = Inr w''" "sql_inv db w''"
    using sql_inv_show by blast
  with show_ev show ?case by simp
next
  case (extract_ev w sel w')
  show ?case
  proof (cases "sw_headers w")
    case None
    with extract_ev show ?thesis by (cases sel) (auto simp: extract_row_def Let_def split: if_splits)
  next
    case (Some hs)
    with extract_ev obtain w'' where "extract_row sel w = Inr w''" "sql_inv db w''"
      using sql_inv_extract by blast
    with extract_ev show ?thesis by simp
  qed
qed

text \<open>
  C28: in every window a session reaches, on a database whose listed tables all have plain
  names (so that the unquoted \<open>SELECT * FROM name;\<close> of line 153 selects that table), can
  be selected, and have at most ten columns, a \<open>Show\<close> of a listed table never raises, and an
  \<open>Extract\<close> of a row of the table raises only \<open>NameError\<close>, when no table has been shown
  yet.
\<close>

theorem sql_session_safe:
  assumes "sql_reach db w" "db_ok db"
  shows "(set sel \<subseteq> set (sw_tables w) \<longrightarrow> (\<exists>w'. show_table db sel w = Inr w')) \<and>
         (list_all (\<lambda>r. r < length (sw_values w)) rs \<longrightarrow>
            (\<exists>w'. extract_row rs w = Inr w') \<or> (extract_row rs w = Inl NameError \<and> sw_headers w = None))"
proof -
  have i: "sql_inv db w" using assms by (rule sql_reach_inv)
  have s: "set sel \<subseteq> set (sw_tables w) \<longrightarrow> (\<exists>w'. show_table db sel w = Inr w')"
    using sql_inv_show [OF i assms(2)] by blast
  have "list_all (\<lambda>r. r < length (sw_values w)) rs \<longrightarrow>
          (\<exists>w'. extract_row rs w = Inr w') \<or> (extract_row rs w = Inl NameError \<and> sw_headers w = None)"
  proof
    assume l: "list_all (\<lambda>r. r < length (sw_values w)) rs"
    show "(\<exists>w'. extract_row rs w = Inr w') \<or> (extract_row rs w = Inl NameError \<and> sw_headers w = None)"
    proof (cases "sw_headers w = None \<and> rs \<noteq> []")
      case True
      with l have "hd rs < length (sw_values w)" by (cases rs) simp_all
      with True show ?thesis by (simp add: extract_row_def)
    next
      case False
      then show ?thesis
        using sql_inv_extract [OF i l] by (auto simp: extract_row_def)
    qed
  qed
  with s show ?thesis by blast
qed

theorem sql_session_safe_witness:
  "(\<exists>w'. show_table \<lparr>db_query = (\<lambda>q. Inl OperationalError), db_tables = [''users''],
     db_select = (\<lambda>t. if t = ''users'' then Inr ([Some ''id'', Some ''name''], [[''1'', ''ann''], [''2'', ''bob'']])
                       else Inl OperationalError)\<rparr> [''users''] (sql_window_init [''users'']) = Inr w') \<and>
   extract_row [0] (sql_window_init [''users'']) = Inl NameError"
  using sql_session_safe [OF sql_reach.init,
      of "\<lparr>db_query = (\<lambda>q. Inl OperationalError), db_tables = [''users''],
           db_select = (\<lambda>t. if t = ''users'' then Inr ([Some ''id'', Some ''name''], [[''1'', ''ann''], [''2'', ''bob'']])
                             else Inl OperationalError)\<rparr>" "[''users'']" "[0]"]
  by (simp add: db_ok_def col_names_def sql_window_init_def extract_row_def sql_plain_users)

lemma show_extract_loop:
  assumes "sql_plain_name t" "db_select db t = Inr (description, rows)" "r < length rows"
    "length (sw_headings w) = 10" "length (sw_titles w) = 10" "length (sw_inputs w) = 10"
  shows "sql_loop db w (ShowEv (t # ts) # ExtractEv (r # rs) # es) =
     sql_loop db (w\<lparr>sw_viewing := Some t, sw_headers := Some (col_names description), sw_values := rows,
           sw_headings := take 10 (col_names description) @ numbered (length (col_names description)),
           sw_titles := take 10 (col_names description) @ numbered (length (col_names description)),
           sw_inputs := replicate 10 ''''\<rparr>) (ExtractEv (r # rs) # es)"
  using assms show_table_ok [of "t # ts" db description rows w] by simp

text \<open>
  C29: \<open>Show\<close> of a table of a database the editor can show, then \<open>Extract\<close> of one of its
  rows: the columns are titled with the table's column names and then their numbers, and the
  editor's inputs hold the row's cells followed by empty inputs.
\<close>

theorem show_then_extract:
  assumes "sql_reach db w" "db_ok db" "t \<in> set (db_tables db)"
    "db_select db t = Inr (description, rows)" "r < length rows"
  shows "sql_loop db w (ShowEv (t # ts) # ExtractEv (r # rs) # WinClosed # es) =
     Some (Inr (w\<lparr>sw_viewing := Some t, sw_headers := Some (col_names description), sw_values := rows,
        sw_headings := col_names description @ numbered (length (col_names description)),
        sw_titles := col_names description @ numbered (length (col_names description)),
        sw_inputs := rows ! r @ replicate (10 - length (col_names description)) ''''\<rparr>))"
proof -
  have i: "sql_inv db w" using assms(1,2) by (rule sql_reach_inv)
  from assms(2,3) have p: "sql_plain_name t" by (simp add: db_ok_table)
  from assms(2-4) have n: "length (col_names description) \<le> 10"
    and l: "length (rows ! r) = length (col_names description)"
    using assms(5) by (auto dest!: db_ok_table simp: list_all_length)
  from i have "length (sw_headings w) = 10" "length (sw_titles w) = 10" "length (sw_inputs w) = 10"
    by (simp_all add: sql_inv_def)
  with assms(4,5) n l show ?thesis
    by (simp add: show_extract_loop [OF p assms(4,5)] extract_row_ok del: sql_loop.simps(5))
qed

theorem show_then_extract_witness:
  "\<exists>w'. sql_loop \<lparr>db_query = (\<lambda>q. Inl OperationalError), db_tables = [''users''],
     db_select = (\<lambda>t. if t = ''users'' then Inr ([Some ''id'', Some ''name''], [[''1'', ''ann''], [''2'', ''bob'']])
                       else Inl OperationalError)\<rparr>
     (sql_window_init [''users'']) [ShowEv [''users''], ExtractEv [1], WinClosed] = Some (Inr w') \<and>
   sw_inputs w' = [''2'', ''bob''] @ replicate 8 [] \<and> sw_headers w' = Some [''id'', ''name'']"
  using show_then_extract [OF sql_reach.init,
      of "\<lparr>db_query = (\<lambda>q. Inl OperationalError), db_tables = [''users''],
           db_select = (\<lambda>t. if t = ''users'' then Inr ([Some ''id'', Some ''name''], [[''1'', ''ann''], [''2'', ''bob'']])
                             else Inl OperationalError)\<rparr>" "''users''" "[Some ''id'', Some ''name'']"
         "[[''1'', ''ann''], [''2'', ''bob'']]" 1 "[]" "[]" "[]"]
  by (simp add: db_ok_def col_names_def sql_plain_users)

text \<open>
  the errors that end the script: closing the file dialog or pressing its \<open>Exit\<close>
  raises \<open>UnboundLocalError\<close>, a failed connection \<open>AttributeError\<close>, and \<open>Extract\<close> of the
  empty row of the initial table \<open>NameError\<close>.
\<close>

theorem sqlmanager_errors:
  "sqlmanager connect (PathClosed # pes) es = Some (Inl UnboundLocalError) \<and>
   sqlmanager connect (PathExit # pes) es = Some (Inl UnboundLocalError) \<and>
   (connect p = Inl e \<longrightarrow> sqlmanager connect (CreateOpen p # pes) es = Some (Inl AttributeError)) \<and>
   (connect q = Inr db \<longrightarrow>
      sqlmanager connect (CreateOpen q # pes) (ExtractEv (0 # rs) # es) = Some (Inl NameError))"
  by (simp add: sqlmanager_def sql_window_init_def extract_row_def)

theorem sqlmanager_errors_witness:
  "sqlmanager (\<lambda>p. if p = ''a.db'' then Inr \<lparr>db_query = (\<lambda>q. Inl OperationalError), db_tables = [], db_select = (\<lambda>t. Inl OperationalError)\<rparr>
                   else Inl OperationalError) [CreateOpen ''b.db''] [] = Some (Inl AttributeError) \<and>
   sqlmanager (\<lambda>p. if p = ''a.db'' then Inr \<lparr>db_query = (\<lambda>q. Inl OperationalError), db_tables = [], db_select = (\<lambda>t. Inl OperationalError)\<rparr>
                   else Inl OperationalError) [CreateOpen ''a.db''] [ExtractEv [0]] = Some (Inl NameError)"
  using sqlmanager_errors [of "\<lambda>p. if p = ''a.db'' then Inr \<lparr>db_query = (\<lambda>q. Inl OperationalError), db_tables = [], db_select = (\<lambda>t. Inl OperationalError)\<rparr>
                   else Inl OperationalError" "[]" "[]" "''b.db''" OperationalError "''a.db''"
                   "\<lparr>db_query = (\<lambda>q. Inl OperationalError), db_tables = [], db_select = (\<lambda>t. Inl OperationalError)\<rparr>" "[]"]
  by simp

lemma sql_wide_table:
  assumes "sql_plain_name t" "db_select db t = Inr (description, rows)" "10 < length (col_names description)"
    "r < length rows" "length (rows ! r) = length (col_names description)"
    "length (sw_headings w) = 10" "length (sw_titles w) = 10" "length (sw_inputs w) = 10"
  shows "sql_loop db w (ShowEv (t # ts) # ExtractEv (r # rs) # es) = Some (Inl KeyError)"
  using assms
  by (simp add: show_extract_loop [OF assms(1,2,4,6-8)] extract_row_def set_inputs_wide
           del: sql_loop.simps(5))

end
