(* ===== verification/Portfolio.thy ===== *)
theory Portfolio
  imports Prelude Complex_Main
begin

text \<open>
  The portfolio optimizer, src/portfolio_management.py, a Streamlit script: every run
  reads the widgets of the sidebar, downloads the adjusted closing prices of the chosen
  stocks (\<open>load_data\<close>, lines 19-48), and, as the check boxes ask, shows the cumulative
  return of the chosen allocation (lines 134-138) and the "covariance" matrix, the return
  and volatility of the allocation and the best of 5000 random allocations by Sharpe ratio
  (lines 153-222).  Prices and returns are reals; a pandas or numpy \<open>NaN\<close> is \<open>None\<close>.
  \<open>yf.download\<close> is an input function from the symbol and the two dates to the adjusted
  closes, and \<open>np.random.random\<close> an input function from the iteration to the draws.  A
  widget returns the value the user set; the plots and texts of the page are not modelled.
\<close>

subsection \<open>\<open>load_data\<close>\<close>

type_synonym pf_download = "string \<Rightarrow> string \<Rightarrow> string \<Rightarrow> real list"

text \<open>The columns \<open>load_data\<close> uses or adds to each downloaded frame.\<close>

record pf_frame =
  adj_close :: "real list"
  diff :: "real option list"
  scaled :: "real list"

text \<open>\<open>np.log(a / b)\<close> of two prices; a ratio that is not positive has no real logarithm
  (numpy gives \<open>-inf\<close> or \<open>NaN\<close>) and is \<open>NaN\<close> here.\<close>

definition log_ratio :: "real \<Rightarrow> real \<Rightarrow> real option" where
  "log_ratio prev cur = (if 0 < cur / prev then Some (ln (cur / prev)) else None)"

text \<open>\<open>np.log(df["Adj Close"] / df["Adj Close"].shift(1))\<close>: \<open>NaN\<close> in the first row.\<close>

definition log_returns :: "real list \<Rightarrow> real option list" where
  "log_returns p = (case p of [] \<Rightarrow> [] | _ # ps \<Rightarrow> None # map2 log_ratio p ps)"

text \<open>\<open>Series.mean()\<close> and \<open>Series.var()\<close> (\<open>ddof=1\<close>): both skip \<open>NaN\<close>, and give
  \<open>NaN\<close> with no value, resp. fewer than two.\<close>

definition nan_values :: "real option list \<Rightarrow> real list" where
  "nan_values xs = [x. Some x \<leftarrow> xs]"

definition series_mean :: "real option list \<Rightarrow> real option" where
  "series_mean xs =
     (let v = nan_values xs in if v = [] then None else Some (sum_list v / real (length v)))"

definition series_var :: "real option list \<Rightarrow> real option" where
  "series_var xs =
     (let v = nan_values xs; n = length v; m = sum_list v / real n
      in if n < 2 then None else Some (sum_list (map (\<lambda>x. (x - m)\<^sup>2) v) / (real n - 1)))"

text \<open>The body of the second loop of \<open>load_data\<close> for one frame: the column \<open>Diff\<close>, the
  annualised mean and variance appended to \<open>avg_rtns\<close> and \<open>avg_vols\<close>, and
  \<open>Scaled\<close>; \<open>df.iloc[0]\<close> of an empty frame raises \<open>IndexError\<close>.\<close>

definition load_frame :: "real list \<Rightarrow> py_error + (pf_frame \<times> real option \<times> real option)" where
  "load_frame p =
     (let d = log_returns p;
          avg_rtn = map_option (\<lambda>m. m * 252) (series_mean d);
          avg_vol = map_option (\<lambda>v. v * 252) (series_var d)
      in if p = [] then Inl IndexError
         else (let price_reference = hd p
               in Inr (\<lparr>adj_close = p, diff = d, scaled = map (\<lambda>x. x / price_reference) p\<rparr>,
                       avg_rtn, avg_vol)))"

fun load_frames :: "real list list \<Rightarrow> py_error + (pf_frame list \<times> real option list \<times> real option list)" where
  "load_frames [] = Inr ([], [], [])"
| "load_frames (p # ps) =
     (case load_frame p of
        Inl e \<Rightarrow> Inl e
      | Inr (df, r, v) \<Rightarrow>
          (case load_frames ps of
             Inl e \<Rightarrow> Inl e
           | Inr (dfs, rs, vs) \<Rightarrow> Inr (df # dfs, r # rs, v # vs)))"

text \<open>\<open>load_data(assets, start_date, end_date)\<close>: the first loop downloads every asset,
  the second processes the frames in order.\<close>

definition load_data ::
  "pf_download \<Rightarrow> string list \<Rightarrow> string \<Rightarrow> string \<Rightarrow> py_error + (pf_frame list \<times> real option list \<times> real option list)" where
  "load_data download assets start_date end_date =
     load_frames (map (\<lambda>asset. download asset start_date end_date) assets)"

subsection \<open>The sidebar\<close>

text \<open>\<open>st.sidebar.slider(label, value=0.01, min_value=0.01, max_value=hi, step=0.01)\<close>:
  Streamlit's slider first makes the bounds contain each other and the default value
  (\<open>min_value = min(min_value, max_value)\<close>, \<open>max_value = max(min_value, max_value)\<close>, then
  \<open>min_value = min(value, min_value)\<close>, \<open>max_value = max(value, max_value)\<close>), so it never raises
  here; it returns the position \<open>v\<close> the user set, within those bounds.\<close>

definition frac_slider :: "real \<Rightarrow> real \<Rightarrow> real" where
  "frac_slider hi v =
     (let lo1 = min 0.01 hi; hi1 = max lo1 hi; lo2 = min 0.01 lo1; hi2 = max 0.01 hi1
      in min hi2 (max lo2 v))"

text \<open>The loop of lines 88-91 over the stocks: \<open>max_value=1.0-total_ratio\<close>, then
  \<open>total_ratio += stock_frac[i]\<close>.\<close>

fun sidebar_fracs :: "real \<Rightarrow> real list \<Rightarrow> real list" where
  "sidebar_fracs total_ratio [] = []"
| "sidebar_fracs total_ratio (v # vs) =
     (let f = frac_slider (1 - total_ratio) v in f # sidebar_fracs (total_ratio + f) vs)"

subsection \<open>Cumulative return\<close>

text \<open>\<open>cost += stock_frac[i] * df["Scaled"].to_numpy()\<close> on a numpy array: the operand
  broadcasts when it has the same length or length one, else numpy raises
  \<open>ValueError\<close>.\<close>

definition add_scaled :: "real list \<Rightarrow> real \<Rightarrow> real list \<Rightarrow> py_error + real list" where
  "add_scaled cost f xs =
     (if length xs = length cost then Inr (map2 (\<lambda>c x. c + f * x) cost xs)
      else if length xs = 1 then Inr (map (\<lambda>c. c + f * hd xs) cost)
      else Inl ValueError)"

fun cum_loop :: "real list \<Rightarrow> (real \<times> pf_frame) list \<Rightarrow> py_error + real list" where
  "cum_loop cost [] = Inr cost"
| "cum_loop cost ((f, df) # rest) =
     (case add_scaled cost f (scaled df) of Inl e \<Rightarrow> Inl e | Inr cost' \<Rightarrow> cum_loop cost' rest)"

text \<open>Lines 135-138: \<open>dates = df_list[0].index\<close>, \<open>cost = np.zeros(len(dates))\<close>, and the
  loop over \<open>enumerate(df_list)\<close>.\<close>

definition cumulative_return :: "real list \<Rightarrow> pf_frame list \<Rightarrow> py_error + real list" where
  "cumulative_return stock_frac df_list =
     (case df_list of
        [] \<Rightarrow> Inl IndexError
      | df0 # _ \<Rightarrow>
          (if length stock_frac < length df_list then Inl IndexError
           else cum_loop (replicate (length (adj_close df0)) 0) (zip stock_frac df_list)))"

subsection \<open>Covariance and the efficient frontier\<close>

text \<open>\<open>Series.fillna(0).to_numpy()\<close>.\<close>

definition fillna0 :: "real option list \<Rightarrow> real list" where
  "fillna0 xs = map (\<lambda>x. case x of None \<Rightarrow> 0 | Some v \<Rightarrow> v) xs"

text \<open>\<open>np.cov(x)\<close> of a one-dimensional array: its sample variance (\<open>N - 1\<close> in the
  denominator).  The code only calls it on arrays of at least two values.\<close>

definition np_cov1 :: "real list \<Rightarrow> real" where
  "np_cov1 xs =
     (let n = length xs; m = sum_list xs / real n
      in sum_list (map (\<lambda>x. (x - m)\<^sup>2) xs) / (real n - 1))"

text \<open>One pass of the double loop of lines 158-165: \<open>np.hstack((series1, series2))\<close>
  concatenates the two series into one array, whose \<open>np.cov\<close> is written to
  \<open>covars[i][j]\<close> and \<open>covars[j][i]\<close>.\<close>

definition covar_entry :: "real option list list \<Rightarrow> nat \<Rightarrow> nat \<Rightarrow> real" where
  "covar_entry diff_cols i j = np_cov1 (fillna0 (diff_cols ! i) @ fillna0 (diff_cols ! j)) * 252"

definition covar_step :: "real option list list \<Rightarrow> real list list \<Rightarrow> nat \<times> nat \<Rightarrow> real list list" where
  "covar_step diff_cols covars ij =
     (case ij of (i, j) \<Rightarrow>
        let covar = covar_entry diff_cols i j;
            covars = covars[i := (covars ! i)[j := covar]]
        in covars[j := (covars ! j)[i := covar]])"

definition covariance_matrix :: "real option list list \<Rightarrow> real list list" where
  "covariance_matrix diff_cols =
     (let num_stocks = length diff_cols
      in foldl (covar_step diff_cols) (replicate num_stocks (replicate num_stocks 1))
           [(i, j). i \<leftarrow> [0..<num_stocks], j \<leftarrow> [0..<num_stocks]])"

text \<open>\<open>np.sum(a * b)\<close> and \<open>np.dot\<close> of vectors of equal length, \<open>np.dot(covars, w)\<close>, and
  \<open>np.sqrt(np.dot(w, np.dot(covars, w)))\<close>; a \<open>NaN\<close> in \<open>avg_rnts\<close> makes the sum
  \<open>NaN\<close>.\<close>

definition dot :: "real list \<Rightarrow> real list \<Rightarrow> real" where
  "dot a b = sum_list (map2 (*) a b)"

definition nan_dot :: "real option list \<Rightarrow> real list \<Rightarrow> real option" where
  "nan_dot a b = (if None \<in> set a then None else Some (dot (map the a) b))"

definition mat_vec :: "real list list \<Rightarrow> real list \<Rightarrow> real list" where
  "mat_vec m v = map (\<lambda>row. dot row v) m"

definition volatility :: "real list list \<Rightarrow> real list \<Rightarrow> real" where
  "volatility covars w = sqrt (dot w (mat_vec covars w))"

text \<open>One iteration of the loop of lines 192-199: the draws normalised to weights, the
  return, volatility and Sharpe ratio of the weights.\<close>

record pf_sample =
  weights :: "real list"
  ret :: "real option"
  vol :: real
  sharpe :: "real option"

definition mc_sample :: "real option list \<Rightarrow> real list list \<Rightarrow> real list \<Rightarrow> pf_sample" where
  "mc_sample avg_rnts covars draws =
     (let weights = map (\<lambda>x. x / sum_list draws) draws;
          r = nan_dot avg_rnts weights;
          v = volatility covars weights
      in \<lparr>weights = weights, ret = r, vol = v, sharpe = map_option (\<lambda>r. r / v) r\<rparr>)"

text \<open>\<open>np.argmax\<close>: the first index of the largest value, or the first \<open>NaN\<close> if any.\<close>

fun argmax_from :: "nat \<Rightarrow> nat \<Rightarrow> real \<Rightarrow> real option list \<Rightarrow> nat" where
  "argmax_from k best m [] = best"
| "argmax_from k best m (None # xs) = k"
| "argmax_from k best m (Some x # xs) =
     (if m < x then argmax_from (Suc k) k x xs else argmax_from (Suc k) best m xs)"

definition np_argmax :: "real option list \<Rightarrow> nat" where
  "np_argmax xs =
     (case xs of [] \<Rightarrow> 0 | None # _ \<Rightarrow> 0 | Some x # rest \<Rightarrow> argmax_from 1 0 x rest)"

text \<open>Lines 187-204: 5000 samples, the index of the largest Sharpe ratio, and the return,
  volatility and weights of that sample.\<close>

definition efficient_frontier ::
  "real option list \<Rightarrow> real list list \<Rightarrow> (nat \<Rightarrow> real list) \<Rightarrow> pf_sample list \<times> nat" where
  "efficient_frontier avg_rnts covars random =
     (let samples = map (\<lambda>i. mc_sample avg_rnts covars (random i)) [0..<5000]
      in (samples, np_argmax (map sharpe samples)))"

subsection \<open>One run of the page\<close>

text \<open>The widgets of the sidebar as the user set them: the number of stocks, the
  selected symbols and slider positions, the \<open>Update Data\<close> button and the three check
  boxes; and the draws of \<open>np.random.random(num_stocks)\<close>.\<close>

record pf_widgets =
  num_stocks :: nat
  stock_choice :: "string list"
  frac_choice :: "real list"
  fetch_data :: bool
  display_current_portfolio :: bool
  display_covariance :: bool
  random_draws :: "nat \<Rightarrow> real list"

text \<open>What the run computes: the fractions, the per-stock averages, the cumulative
  return if shown, and the covariance section if shown (matrix, return and volatility of
  the allocation, the best sample).\<close>

record pf_page =
  pg_stock_frac :: "real list"
  pg_avg_rnts :: "real option list"
  pg_avg_vols :: "real option list"
  pg_cost :: "real list option"
  pg_covars :: "real list list option"
  pg_portfolio_ret :: "real option"
  pg_portfolio_vol :: "real option"
  pg_best :: "pf_sample option"

definition pf_main :: "pf_download \<Rightarrow> pf_widgets \<Rightarrow> py_error + pf_page" where
  "pf_main download wd =
     (let n = min 10 (max 1 (num_stocks wd));
          stock_lists = take n (stock_choice wd);
          stock_frac = sidebar_fracs 0 (take n (frac_choice wd))
      in
             (case (let loaded = load_data download stock_lists ''2016-01-01'' ''2020-12-31''
                    in if fetch_data wd then load_data download stock_lists ''2016-01-01'' ''2020-12-31''
                       else loaded) of
                Inl e \<Rightarrow> Inl e
              | Inr (df_list, avg_rnts, avg_vols) \<Rightarrow>
                  (case (if display_current_portfolio wd
                         then map_sum id Some (cumulative_return stock_frac df_list) else Inr None) of
                     Inl e \<Rightarrow> Inl e
                   | Inr cost \<Rightarrow>
                       (let page = \<lparr>pg_stock_frac = stock_frac, pg_avg_rnts = avg_rnts, pg_avg_vols = avg_vols,
                                    pg_cost = cost, pg_covars = None, pg_portfolio_ret = None,
                                    pg_portfolio_vol = None, pg_best = None\<rparr>
                        in if \<not> display_covariance wd then Inr page
                           else if length df_list < n then Inl IndexError
                           else
                             (let covars = covariance_matrix (map diff (take n df_list));
                                  (samples, sharpe_max_idx) =
                                    efficient_frontier avg_rnts covars (random_draws wd)
                              in Inr (page\<lparr>pg_covars := Some covars,
                                           pg_portfolio_ret := nan_dot avg_rnts stock_frac,
                                           pg_portfolio_vol := Some (volatility covars stock_frac),
                                           pg_best := Some (samples ! sharpe_max_idx)\<rparr>))))))"

subsection \<open>Specification vocabulary\<close>

text \<open>The sample covariance of two series of equal length, which a covariance matrix holds.\<close>

definition sample_cov :: "real list \<Rightarrow> real list \<Rightarrow> real" where
  "sample_cov a b =
     (let n = length a; ma = sum_list a / real n; mb = sum_list b / real n
      in sum_list (map2 (\<lambda>x y. (x - ma) * (y - mb)) a b) / (real n - 1))"
subsection \<open>Properties\<close>

lemma frac_slider_bounds: "min 0.01 hi \<le> frac_slider hi v \<and> frac_slider hi v \<le> max 0.01 hi"
  by (auto simp: frac_slider_def Let_def min_def max_def)

lemma sidebar_fracs_length [simp]: "length (sidebar_fracs t vs) = length vs"
  by (induction vs arbitrary: t) (simp_all add: Let_def)

lemma sidebar_fracs_nth:
  "k < length vs \<Longrightarrow>
   sidebar_fracs t vs ! k = frac_slider (1 - (t + sum_list (take k (sidebar_fracs t vs)))) (vs ! k)"
proof (induction vs arbitrary: t k)
  case (Cons v vs)
  then show ?case by (cases k) (simp_all add: Let_def add.assoc)
qed simp

lemma frac_step:
  fixes t f S n c :: real
  assumes "0 \<le> n" "0 \<le> c" "min c (1 - t) \<le> f" "f \<le> max c (1 - t)"
    "min (t + f + c * n) 1 \<le> t + f + S" "t + f + S \<le> max (t + f + c * n) (1 - c + c * n)"
  shows "min (t + (c + c * n)) 1 \<le> t + (f + S) \<and> t + (f + S) \<le> max (t + (c + c * n)) (1 + c * n)"
proof
  have cn: "0 \<le> c * n" using assms(1,2) by simp
  have f: "c \<le> f \<or> 1 - t \<le> f" "f \<le> c \<or> f \<le> 1 - t"
    using assms(3,4) by (simp_all add: min_le_iff_disj le_max_iff_disj)
  show "min (t + (c + c * n)) 1 \<le> t + (f + S)"
  proof (cases "1 \<le> t + f + S")
    case False
    then have S: "t + f + c * n \<le> t + f + S" using assms(5) by (simp add: min_le_iff_disj)
    from f(1) show ?thesis
    proof
      assume "c \<le> f"
      with S have "t + (c + c * n) \<le> t + (f + S)" by linarith
      then show ?thesis by (simp add: min_le_iff_disj)
    next
      assume "1 - t \<le> f"
      with S False cn show ?thesis by linarith
    qed
  qed (simp add: min_le_iff_disj)
  show "t + (f + S) \<le> max (t + (c + c * n)) (1 + c * n)"
  proof (cases "t + f + S \<le> 1 - c + c * n")
    case False
    then have S: "t + f + S \<le> t + f + c * n" using assms(6) by (simp add: le_max_iff_disj)
    from f(2) show ?thesis
    proof
      assume "f \<le> c"
      with S have "t + (f + S) \<le> t + (c + c * n)" by linarith
      then show ?thesis by (simp add: le_max_iff_disj)
    next
      assume "f \<le> 1 - t"
      with S have "t + (f + S) \<le> 1 + c * n" by linarith
      then show ?thesis by (simp add: le_max_iff_disj)
    qed
  next
    case True
    with assms(2) show ?thesis by (simp add: le_max_iff_disj)
  qed
qed

lemma sidebar_fracs_sum:
  "min (t + 0.01 * real (length vs)) 1 \<le> t + sum_list (sidebar_fracs t vs) \<and>
   t + sum_list (sidebar_fracs t vs) \<le> max (t + 0.01 * real (length vs)) (0.99 + 0.01 * real (length vs))"
proof (induction vs arbitrary: t)
  case (Cons v vs)
  let ?f = "frac_slider (1 - t) v" and ?S = "sum_list (sidebar_fracs (t + frac_slider (1 - t) v) vs)"
  have f: "min 0.01 (1 - t) \<le> ?f" "?f \<le> max 0.01 (1 - t)" using frac_slider_bounds by blast+
  have "min (t + (0.01 + 0.01 * real (length vs))) 1 \<le> t + (?f + ?S) \<and>
        t + (?f + ?S) \<le> max (t + (0.01 + 0.01 * real (length vs))) (1 + 0.01 * real (length vs))"
    using Cons.IH [of "t + ?f"] f by (intro frac_step) simp_all
  moreover have "0.99 + 0.01 * real (length (v # vs)) = 1 + 0.01 * real (length vs)"
    "0.01 * real (length (v # vs)) = 0.01 + 0.01 * real (length vs)"
    "sum_list (sidebar_fracs t (v # vs)) = ?f + ?S" by (simp_all add: Let_def distrib_left)
  ultimately show ?case by (simp only:)
qed simp

lemma np_cov1_nonneg: "0 \<le> np_cov1 xs"
proof (cases xs)
  case (Cons x xs')
  then have "0 \<le> real (length xs) - 1" by simp
  then show ?thesis
    unfolding np_cov1_def Let_def by (intro divide_nonneg_nonneg sum_list_nonneg) auto
qed (simp add: np_cov1_def)

lemma np_cov1_append_commute: "np_cov1 (a @ b) = np_cov1 (b @ a)"
  by (simp add: np_cov1_def Let_def add.commute)

lemma covar_entry_sym: "covar_entry ds i j = covar_entry ds j i"
  by (simp add: covar_entry_def np_cov1_append_commute)

lemma covar_step_shape:
  assumes "length m = n" "list_all (\<lambda>r. length r = n) m" "i < n" "j < n"
  shows "length (covar_step ds m (i, j)) = n \<and> list_all (\<lambda>r. length r = n) (covar_step ds m (i, j))"
proof -
  have "length (covar_step ds m (i, j) ! k) = n" if "k < n" for k
    using assms that by (cases "k = j"; cases "k = i") (auto simp: covar_step_def Let_def list_all_length)
  then show ?thesis using assms by (auto simp: covar_step_def Let_def list_all_length)
qed

lemma covar_step_nth:
  assumes "length m = n" "list_all (\<lambda>r. length r = n) m" "i < n" "j < n" "a < n" "b < n"
  shows "covar_step ds m (i, j) ! a ! b =
    (if (a, b) = (i, j) \<or> (a, b) = (j, i) then covar_entry ds i j else m ! a ! b)"
  using assms covar_entry_sym [of ds i j]
  by (auto simp: covar_step_def Let_def list_all_length nth_list_update)

lemma covar_fold:
  assumes "length m = n" "list_all (\<lambda>r. length r = n) m" "\<forall>(i, j)\<in>set ps. i < n \<and> j < n"
  shows "length (foldl (covar_step ds) m ps) = n \<and> list_all (\<lambda>r. length r = n) (foldl (covar_step ds) m ps) \<and>
    (\<forall>a<n. \<forall>b<n. foldl (covar_step ds) m ps ! a ! b =
       (if (a, b) \<in> set ps \<or> (b, a) \<in> set ps then covar_entry ds a b else m ! a ! b))"
  using assms(3)
proof (induction ps rule: rev_induct)
  case Nil
  with assms show ?case by simp
next
  case (snoc p ps)
  obtain i j where p: "p = (i, j)" by (cases p)
  with snoc.prems have ij: "i < n" "j < n" by auto
  from snoc have ih: "length (foldl (covar_step ds) m ps) = n"
    "list_all (\<lambda>r. length r = n) (foldl (covar_step ds) m ps)"
    "\<forall>a<n. \<forall>b<n. foldl (covar_step ds) m ps ! a ! b =
       (if (a, b) \<in> set ps \<or> (b, a) \<in> set ps then covar_entry ds a b else m ! a ! b)"
    by auto
  show ?case
    using covar_step_shape [OF ih(1,2) ij, of ds] covar_step_nth [OF ih(1,2) ij, of _ _ ds] ih(3) p
      covar_entry_sym [of ds]
    by auto
qed

lemma all_pairs_set: "set [(i, j). i \<leftarrow> [0..<n], j \<leftarrow> [0..<n]] = {..<n} \<times> {..<n}"
  by auto

text \<open>
  C31: the double loop of lines 158-165 computes a square matrix of the stocks whose entry
  \<open>(i, j)\<close> is 252 times the sample variance of the two return series concatenated,
  whichever of \<open>covars[i][j]\<close> and \<open>covars[j][i]\<close> was written last.
\<close>

theorem covariance_matrix_entries:
  "length (covariance_matrix ds) = length ds \<and>
   list_all (\<lambda>r. length r = length ds) (covariance_matrix ds) \<and>
   (\<forall>i<length ds. \<forall>j<length ds.
      covariance_matrix ds ! i ! j = np_cov1 (fillna0 (ds ! i) @ fillna0 (ds ! j)) * 252)"
proof -
  let ?n = "length ds"
  have "length (replicate ?n (replicate ?n (1::real))) = ?n"
    "list_all (\<lambda>r. length r = ?n) (replicate ?n (replicate ?n (1::real)))" by (simp_all add: list_all_length)
  from covar_fold [OF this, of "[(i, j). i \<leftarrow> [0..<?n], j \<leftarrow> [0..<?n]]" ds] show ?thesis
    unfolding covariance_matrix_def Let_def all_pairs_set by (auto simp: covar_entry_def)
qed

theorem covariance_matrix_entries_witness:
  "covariance_matrix [[None, Some 1, Some (-1)], [None, Some (-1), Some 1]] ! 0 ! 1 =
   np_cov1 [0, 1, -1, 0, -1, 1] * 252"
  using covariance_matrix_entries [of "[[None, Some 1, Some (-1)], [None, Some (-1), Some 1]]"]
  by (simp add: fillna0_def)

lemma covariance_matrix_nonneg:
  "i < length ds \<Longrightarrow> j < length ds \<Longrightarrow> 0 \<le> covariance_matrix ds ! i ! j"
  using covariance_matrix_entries [of ds] np_cov1_nonneg by simp

lemma sum_list_div: "sum_list (map (\<lambda>x. x / c) xs) = sum_list xs / (c :: real)"
  by (induction xs) (simp_all add: add_divide_distrib)

lemma argmax_from_spec:
  "None \<notin> set xs \<Longrightarrow>
   (argmax_from k best m xs = best \<and> (\<forall>x\<in>set xs. the x \<le> m)) \<or>
   (k \<le> argmax_from k best m xs \<and> argmax_from k best m xs < k + length xs \<and>
    m < the (xs ! (argmax_from k best m xs - k)) \<and>
    (\<forall>x\<in>set xs. the x \<le> the (xs ! (argmax_from k best m xs - k))))"
proof (induction xs arbitrary: k best m)
  case (Cons a xs)
  then obtain x where a: "a = Some x" by (cases a) auto
  with Cons have nn: "None \<notin> set xs" by simp
  show ?case
  proof (cases "m < x")
    case True
    with a Cons.IH [OF nn, of "Suc k" k x] show ?thesis
      by (auto simp: nth_Cons' split: if_splits)
  next
    case False
    with a Cons.IH [OF nn, of "Suc k" best m] show ?thesis
      by (auto simp: nth_Cons')
  qed
qed simp

lemma np_argmax_max:
  assumes "xs \<noteq> []" "None \<notin> set xs"
  shows "np_argmax xs < length xs \<and> (\<forall>x\<in>set xs. the x \<le> the (xs ! np_argmax xs))"
proof -
  from assms obtain x rest where xs: "xs = Some x # rest" by (cases xs) (auto, metis option.exhaust)
  with assms have nn: "None \<notin> set rest" by simp
  from argmax_from_spec [OF nn, of 1 0 x] xs show ?thesis
    by (auto simp: np_argmax_def)
qed

lemma pf_main_stock_frac:
  "pf_main download wd = Inr page \<Longrightarrow>
   pg_stock_frac page = sidebar_fracs 0 (take (min 10 (max 1 (num_stocks wd))) (frac_choice wd))"
  unfolding pf_main_def Let_def
  by (auto split: sum.splits if_splits prod.splits)

lemma sidebar_fracs_past_one:
  "sidebar_fracs 0 [1, 0.01, 0.01] = [1, 0.01, 0.01] \<and> sidebar_fracs 0 [1, 0.01, -1] = [1, 0.01, -0.01]"
  by (simp add: frac_slider_def Let_def min_def max_def)

text \<open>
  C30: in a run of the page that does not raise, each chosen stock's fraction lies between
  0.01 and what the fractions before it leave of 1, the two bounds swapped once less
  than 0.01 is left; so the fractions of n stocks sum to at least min(0.01 n, 1) and at
  most 0.99 + 0.01 n, which exceeds 1 for two stocks or more.
\<close>

theorem pf_main_fractions:
  assumes "pf_main download wd = Inr page"
  shows "length (pg_stock_frac page) = min (min 10 (max 1 (num_stocks wd))) (length (frac_choice wd)) \<and>
    (\<forall>k < length (pg_stock_frac page).
       min 0.01 (1 - sum_list (take k (pg_stock_frac page))) \<le> pg_stock_frac page ! k \<and>
       pg_stock_frac page ! k \<le> max 0.01 (1 - sum_list (take k (pg_stock_frac page)))) \<and>
    min (0.01 * real (length (pg_stock_frac page))) 1 \<le> sum_list (pg_stock_frac page) \<and>
    sum_list (pg_stock_frac page) \<le> 0.99 + 0.01 * real (length (pg_stock_frac page))"
proof -
  let ?vs = "take (min 10 (max 1 (num_stocks wd))) (frac_choice wd)"
  have p: "pg_stock_frac page = sidebar_fracs 0 ?vs" by (rule pf_main_stock_frac [OF assms])
  have "\<forall>k < length ?vs. min 0.01 (1 - sum_list (take k (sidebar_fracs 0 ?vs))) \<le> sidebar_fracs 0 ?vs ! k \<and>
          sidebar_fracs 0 ?vs ! k \<le> max 0.01 (1 - sum_list (take k (sidebar_fracs 0 ?vs)))"
    using sidebar_fracs_nth [of _ ?vs 0] frac_slider_bounds by simp
  moreover have "min (0.01 * real (length ?vs)) 1 \<le> sum_list (sidebar_fracs 0 ?vs) \<and>
          sum_list (sidebar_fracs 0 ?vs) \<le> 0.99 + 0.01 * real (length ?vs)"
    using sidebar_fracs_sum [of 0 ?vs] by simp
  ultimately show ?thesis unfolding p by simp
qed

theorem pf_main_fractions_witness:
  "pf_main (\<lambda>a s e. [1, 2])
      \<lparr>num_stocks = 2, stock_choice = [''AAPL'', ''MSFT''], frac_choice = [1, 0.5],
        fetch_data = False, display_current_portfolio = False, display_covariance = False,
        random_draws = (\<lambda>i. [])\<rparr> =
    Inr \<lparr>pg_stock_frac = [1, 0.01], pg_avg_rnts = [Some (ln 2 * 252), Some (ln 2 * 252)],
        pg_avg_vols = [None, None], pg_cost = None, pg_covars = None, pg_portfolio_ret = None,
        pg_portfolio_vol = None, pg_best = None\<rparr> \<and>
   sum_list [1, 0.01::real] \<le> 0.99 + 0.01 * 2"
proof -
  have h: "pf_main (\<lambda>a s e. [1, 2])
      \<lparr>num_stocks = 2, stock_choice = [''AAPL'', ''MSFT''], frac_choice = [1, 0.5],
        fetch_data = False, display_current_portfolio = False, display_covariance = False,
        random_draws = (\<lambda>i. [])\<rparr> =
    Inr \<lparr>pg_stock_frac = [1, 0.01], pg_avg_rnts = [Some (ln 2 * 252), Some (ln 2 * 252)],
        pg_avg_vols = [None, None], pg_cost = None, pg_covars = None, pg_portfolio_ret = None,
        pg_portfolio_vol = None, pg_best = None\<rparr>"
    by (simp add: pf_main_def load_data_def load_frame_def log_returns_def log_ratio_def series_mean_def
        series_var_def nan_values_def frac_slider_def min_def max_def)
  show ?thesis using pf_main_fractions [OF h] h by simp
qed

lemma mc_weights:
  assumes "list_all (\<lambda>x. 0 \<le> x \<and> x < 1) draws" "0 < sum_list draws"
  shows "sum_list (weights (mc_sample a c draws)) = 1 \<and>
         list_all (\<lambda>w. 0 \<le> w \<and> w \<le> 1) (weights (mc_sample a c draws))"
proof -
  have "x \<le> sum_list draws" if "x \<in> set draws" for x
    using assms(1) that by (intro member_le_sum_list) (auto simp: list_all_iff)
  with assms show ?thesis
    by (auto simp: mc_sample_def Let_def sum_list_div list_all_iff)
qed

text \<open>
  C32: the efficient frontier: when the random draws of each of the 5000 iterations lie in
  [0, 1) with a positive sum, the annual returns are numbers and every volatility is positive,
  the best sample is one of the 5000, its weights lie in [0, 1] and sum to 1, and no sample has
  a larger Sharpe ratio.
\<close>

theorem efficient_frontier_best:
  assumes "None \<notin> set avg_rnts"
    "\<forall>i<5000. list_all (\<lambda>x. 0 \<le> x \<and> x < 1) (random i) \<and> 0 < sum_list (random i)"
    "\<forall>i<5000. 0 < vol (mc_sample avg_rnts covars (random i))"
    "efficient_frontier avg_rnts covars random = (samples, k)"
  shows "length samples = 5000 \<and> k < 5000 \<and> sum_list (weights (samples ! k)) = 1 \<and>
    list_all (\<lambda>w. 0 \<le> w \<and> w \<le> 1) (weights (samples ! k)) \<and>
    (\<forall>i<5000. the (sharpe (samples ! i)) \<le> the (sharpe (samples ! k)))"
proof -
  have s: "samples = map (\<lambda>i. mc_sample avg_rnts covars (random i)) [0..<5000]"
    and k: "k = np_argmax (map sharpe samples)"
    using assms(4) by (auto simp: efficient_frontier_def Let_def)
  have d: "sharpe (mc_sample avg_rnts covars d) \<noteq> None" for d
    using assms(1) by (simp add: mc_sample_def Let_def nan_dot_def)
  have "None \<notin> set (map sharpe samples)"
  proof
    assume "None \<in> set (map sharpe samples)"
    then obtain i where "sharpe (mc_sample avg_rnts covars (random i)) = None"
      unfolding s by (auto dest: sym)
    with d show False by blast
  qed
  have l: "length samples = 5000" by (simp add: s)
  then have "map sharpe samples \<noteq> []" by auto
  from np_argmax_max [OF this \<open>None \<notin> set (map sharpe samples)\<close>] l
  have k5: "k < 5000" and mx: "\<forall>x\<in>set (map sharpe samples). the x \<le> the (sharpe (samples ! k))"
    by (auto simp: k)
  have "\<forall>i<5000. the (sharpe (samples ! i)) \<le> the (sharpe (samples ! k))"
  proof (intro allI impI)
    fix i :: nat
    assume "i < 5000"
    with l have "sharpe (samples ! i) \<in> set (map sharpe samples)" by auto
    with mx show "the (sharpe (samples ! i)) \<le> the (sharpe (samples ! k))" by blast
  qed
  moreover have "samples ! k = mc_sample avg_rnts covars (random k)" using k5 by (simp add: s)
  ultimately show ?thesis using k5 l assms(2) mc_weights by simp
qed

theorem efficient_frontier_best_witness:
  "snd (efficient_frontier [Some 1, Some 2] [[1, 0], [0, 1]] (\<lambda>i. [1/2, 1/2])) < 5000"
  using efficient_frontier_best [of "[Some 1, Some 2]" "\<lambda>i. [1/2, 1/2]" "[[1, 0], [0, 1]]"
      "fst (efficient_frontier [Some 1, Some 2] [[1, 0], [0, 1]] (\<lambda>i. [1/2, 1/2]))"
      "snd (efficient_frontier [Some 1, Some 2] [[1, 0], [0, 1]] (\<lambda>i. [1/2, 1/2]))"]
  by (simp add: mc_sample_def Let_def volatility_def mat_vec_def dot_def)

lemma covariance_anticorrelated:
  "covariance_matrix [[None, Some 1, Some (-1)], [None, Some (-1), Some 1]] ! 0 ! 1 = 1008 / 5 \<and>
   sample_cov (fillna0 [None, Some 1, Some (-1)]) (fillna0 [None, Some (-1), Some 1]) = -1"
  by (simp add: covariance_matrix_def covar_step_def covar_entry_def np_cov1_def fillna0_def
      sample_cov_def Let_def upt_rec power2_eq_square)
end
