(* ===== verification/Saint_Saens.thy ===== *)
theory Saint_Saens
  imports Prelude Complex_Main
begin

text \<open>
  The composition query page, src/saint_saens.py, a Streamlit script.  \<open>load_data\<close>
  (lines 10-21) reads the table of compositions from Wikipedia, drops two columns and turns
  the catalogue number \<open>R\<close> into ints; \<open>main\<close> (lines 28-96) lets the user pick a genre
  and a title of that genre, or type a catalogue number, and writes the matching rows.  The
  table \<open>pd.read_html\<close> returns is an input.  A frame is the list of its named columns;
  a cell is a number, a string, an int after \<open>astype(int)\<close>, or \<open>NaN\<close>.  A widget
  returns the value the user set; the portrait and the texts are not modelled.
\<close>

datatype cell = CNaN | CNum real | CStr string | CInt int

type_synonym pd_frame = "(string \<times> cell list) list"

subsection \<open>Python and pandas operations\<close>

text \<open>\<open>df[c]\<close>, \<open>df.drop(c, axis=1)\<close> and \<open>df[c] = col\<close>: a missing column raises
  \<open>KeyError\<close> on reading and dropping.\<close>

definition get_col :: "pd_frame \<Rightarrow> string \<Rightarrow> py_error + cell list" where
  "get_col df c = (case map_of df c of None \<Rightarrow> Inl KeyError | Some col \<Rightarrow> Inr col)"

definition drop_col :: "pd_frame \<Rightarrow> string \<Rightarrow> py_error + pd_frame" where
  "drop_col df c = (if c \<in> fst ` set df then Inr (filter (\<lambda>(n, _). n \<noteq> c) df) else Inl KeyError)"

definition set_col :: "pd_frame \<Rightarrow> string \<Rightarrow> cell list \<Rightarrow> pd_frame" where
  "set_col df c col =
     (if c \<in> fst ` set df then map (\<lambda>(n, v). if n = c then (n, col) else (n, v)) df else df @ [(c, col)])"

text \<open>\<open>Series.fillna(v)\<close> and \<open>Series.astype(int)\<close>.  \<open>fillna("0")\<close> leaves an
  object column (texts beside numbers), which numpy casts to \<open>int64\<close> element by element:
  \<open>int(x)\<close> (a float is truncated towards zero, a string parsed by \<open>int\<close>, \<open>NaN\<close> raises
  \<open>ValueError\<close>), then a value outside \<open>[-2^63, 2^63)\<close> raises \<open>OverflowError\<close>.  The
  model applies the same check to a column of floats only, which numpy casts without it.\<close>

definition int64_val :: "int \<Rightarrow> py_error + int" where
  "int64_val v = (if - (2 ^ 63) \<le> v \<and> v < 2 ^ 63 then Inr v else Inl OverflowError)"

definition fillna :: "cell \<Rightarrow> cell list \<Rightarrow> cell list" where
  "fillna v col = map (\<lambda>x. if x = CNaN then v else x) col"

fun cell_int :: "cell \<Rightarrow> py_error + int" where
  "cell_int CNaN = Inl ValueError"
| "cell_int (CNum x) = int64_val (if 0 \<le> x then \<lfloor>x\<rfloor> else \<lceil>x\<rceil>)"
| "cell_int (CStr s) = (case py_int s of Inl e \<Rightarrow> Inl e | Inr v \<Rightarrow> int64_val v)"
| "cell_int (CInt i) = int64_val i"

fun astype_int :: "cell list \<Rightarrow> py_error + cell list" where
  "astype_int [] = Inr []"
| "astype_int (x # xs) =
     (case cell_int x of
        Inl e \<Rightarrow> Inl e
      | Inr i \<Rightarrow> (case astype_int xs of Inl e \<Rightarrow> Inl e | Inr ys \<Rightarrow> Inr (CInt i # ys)))"

text \<open>The integer \<open>int(x)\<close> reads from a cell, before the \<open>int64\<close> range check (\<open>None\<close>
  for \<open>NaN\<close> and for a text \<open>int\<close> rejects).\<close>

fun int_value :: "cell \<Rightarrow> int option" where
  "int_value CNaN = None"
| "int_value (CNum x) = Some (if 0 \<le> x then \<lfloor>x\<rfloor> else \<lceil>x\<rceil>)"
| "int_value (CStr s) = (case py_int s of Inl _ \<Rightarrow> None | Inr v \<Rightarrow> Some v)"
| "int_value (CInt i) = Some i"

text \<open>Element-wise \<open>==\<close> of a column with a value (\<open>NaN\<close> equals nothing; \<open>None\<close>, an
  empty select box, equals no cell), and \<open>df[mask]\<close>.\<close>

fun cell_eq :: "cell \<Rightarrow> cell \<Rightarrow> bool" where
  "cell_eq (CNum x) (CInt i) = (x = of_int i)"
| "cell_eq (CInt i) (CNum x) = (x = of_int i)"
| "cell_eq (CNum x) (CNum y) = (x = y)"
| "cell_eq (CInt i) (CInt j) = (i = j)"
| "cell_eq (CStr a) (CStr b) = (a = b)"
| "cell_eq _ _ = False"

definition col_eq :: "cell list \<Rightarrow> cell option \<Rightarrow> bool list" where
  "col_eq col v = map (\<lambda>x. case v of None \<Rightarrow> False | Some y \<Rightarrow> cell_eq x y) col"

definition mask_rows :: "pd_frame \<Rightarrow> bool list \<Rightarrow> pd_frame" where
  "mask_rows df bs = map (\<lambda>(n, col). (n, [x. (x, b) \<leftarrow> zip col bs, b])) df"

text \<open>\<open>Series.unique()\<close>: the values in order of first occurrence.\<close>

definition py_unique :: "cell list \<Rightarrow> cell list" where
  "py_unique xs = rev (remdups (rev xs))"

text \<open>\<open>st.sidebar.selectbox(label, options, index=0)\<close>: the option the user picked, or
  \<open>None\<close> when there are no options.\<close>

definition selectbox :: "cell list \<Rightarrow> nat \<Rightarrow> cell option" where
  "selectbox options k = (if options = [] then None else Some (options ! (k mod length options)))"

subsection \<open>The page\<close>

text \<open>\<open>load_data\<close>: drop \<open>Scoring\<close> and \<open>Opus\<close>, then
  \<open>df["R"] = df["R"].fillna("0").astype(int)\<close>.\<close>

definition ss_load_data :: "pd_frame \<Rightarrow> py_error + pd_frame" where
  "ss_load_data table =
     (case drop_col table ''Scoring'' of
        Inl e \<Rightarrow> Inl e
      | Inr df \<Rightarrow>
          (case drop_col df ''Opus'' of
             Inl e \<Rightarrow> Inl e
           | Inr df \<Rightarrow>
               (case get_col df ''R'' of
                  Inl e \<Rightarrow> Inl e
                | Inr r \<Rightarrow>
                    (case astype_int (fillna (CStr ''0'') r) of
                       Inl e \<Rightarrow> Inl e
                     | Inr r' \<Rightarrow> Inr (set_col df ''R'' r')))))"

abbreviation title_col :: string where
  "title_col \<equiv> ''French title (original title)''"

text \<open>The widgets as the user set them: the two check boxes, the picks of the genre and
  title select boxes, the two buttons and the text of the catalogue number input.\<close>

record ss_widgets =
  use_title :: bool
  use_opus :: bool
  genre_pick :: nat
  title_pick :: nat
  find_by_title :: bool
  opus_no :: string
  find_by_opus :: bool

text \<open>\<open>main\<close>: the frames written by \<open>composition_frame.write\<close>, in order.  The title
  branch (lines 59-71) computes the genres, the titles of the picked genre and the picked
  title; the buttons only count when their check box shows them.\<close>

definition ss_main :: "pd_frame \<Rightarrow> ss_widgets \<Rightarrow> py_error + pd_frame list" where
  "ss_main table wd =
     (case ss_load_data table of
        Inl e \<Rightarrow> Inl e
      | Inr df \<Rightarrow>
          (case get_col df ''Genre'' of
             Inl e \<Rightarrow> Inl e
           | Inr genre_col \<Rightarrow>
               (let genres = py_unique genre_col;
                    display_title = use_title wd \<and> find_by_title wd;
                    display_opus = use_opus wd \<and> find_by_opus wd
                in case (if use_title wd then
                           (let genre = selectbox genres (genre_pick wd) in
                            case get_col (mask_rows df (col_eq genre_col genre)) title_col of
                              Inl e \<Rightarrow> Inl e
                            | Inr comp_list \<Rightarrow> Inr (selectbox comp_list (title_pick wd)))
                         else Inr None) of
                     Inl e \<Rightarrow> Inl e
                   | Inr title \<Rightarrow>
                       (case (if display_title then
                                (case get_col df title_col of
                                   Inl e \<Rightarrow> Inl e
                                 | Inr t \<Rightarrow> Inr [mask_rows df (col_eq t title)])
                              else Inr []) of
                          Inl e \<Rightarrow> Inl e
                        | Inr out1 \<Rightarrow>
                            (if display_opus then
                               (case py_int (opus_no wd) of
                                  Inl e \<Rightarrow> Inl e
                                | Inr n \<Rightarrow>
                                    (case get_col df ''R'' of
                                       Inl e \<Rightarrow> Inl e
                                     | Inr r \<Rightarrow> Inr (out1 @ [mask_rows df (col_eq r (Some (CInt n)))])))
                             else Inr out1)))))"

subsection \<open>Specification vocabulary\<close>

text \<open>A cell holding a string, as the titles and genres of the Wikipedia table are.\<close>

fun is_str :: "cell \<Rightarrow> bool" where
  "is_str (CStr s) = True"
| "is_str _ = False"

subsection \<open>Properties\<close>


lemma cell_int_Inl_fits:
  "cell_int x = Inl e \<Longrightarrow> (\<forall>v. int_value x = Some v \<longrightarrow> int64_val v = Inr v) \<Longrightarrow>
   e = ValueError \<and> int_value x = None"
  by (cases x) (auto simp: int64_val_def dest: py_int_Inl split: sum.splits if_splits)

lemma astype_int_Inl_cell: "astype_int xs = Inl e \<Longrightarrow> \<exists>x\<in>set xs. cell_int x = Inl e"
  by (induction xs) (auto split: sum.splits)

lemma astype_int_fails: "(\<exists>e. astype_int xs = Inl e) \<longleftrightarrow> (\<exists>x\<in>set xs. \<exists>e. cell_int x = Inl e)"
  by (induction xs) (auto split: sum.splits)

lemma fillna_int_errors:
  assumes "\<forall>x\<in>set r. \<forall>v. int_value x = Some v \<longrightarrow> int64_val v = Inr v"
  shows "(\<exists>x\<in>set (fillna (CStr ''0'') r). \<exists>e. cell_int x = Inl e) \<longleftrightarrow>
         (\<exists>s. CStr s \<in> set r \<and> (\<exists>e. py_int s = Inl e))"
proof
  assume "\<exists>x\<in>set (fillna (CStr ''0'') r). \<exists>e. cell_int x = Inl e"
  then obtain y e where y: "y \<in> set r" "cell_int (if y = CNaN then CStr ''0'' else y) = Inl e"
    by (auto simp: fillna_def)
  have "y \<noteq> CNaN" using y(2) by (auto simp: py_int_zero int64_val_def)
  with y assms have "int_value y = None" using cell_int_Inl_fits by auto
  with \<open>y \<noteq> CNaN\<close> obtain s where "y = CStr s" "\<exists>e. py_int s = Inl e"
    by (cases y) (auto split: sum.splits)
  with y(1) show "\<exists>s. CStr s \<in> set r \<and> (\<exists>e. py_int s = Inl e)" by blast
next
  assume "\<exists>s. CStr s \<in> set r \<and> (\<exists>e. py_int s = Inl e)"
  then obtain s e where "CStr s \<in> set r" "py_int s = Inl e" by blast
  then show "\<exists>x\<in>set (fillna (CStr ''0'') r). \<exists>e. cell_int x = Inl e"
    by (auto simp: fillna_def intro!: bexI [of _ "CStr s"] image_eqI [of _ _ "CStr s"])
qed

lemma fillna_int_error_value:
  assumes "\<forall>x\<in>set r. \<forall>v. int_value x = Some v \<longrightarrow> int64_val v = Inr v"
    "astype_int (fillna (CStr ''0'') r) = Inl e"
  shows "e = ValueError"
proof -
  obtain x where x: "x \<in> set (fillna (CStr ''0'') r)" "cell_int x = Inl e"
    using astype_int_Inl_cell [OF assms(2)] by blast
  have "\<forall>v. int_value x = Some v \<longrightarrow> int64_val v = Inr v"
    using x(1) assms(1) by (auto simp: fillna_def py_int_zero int64_val_def)
  then show ?thesis using cell_int_Inl_fits [OF x(2)] by blast
qed

lemma map_of_filter_other:
  "map_of (filter (\<lambda>(n, _). n \<noteq> c) xs) k = (if k = c then None else map_of xs k)"
  by (induction xs) auto

lemma mem_filter_other:
  "c \<noteq> d \<Longrightarrow> (c \<in> fst ` set (filter (\<lambda>(n, _). n \<noteq> d) xs)) = (c \<in> fst ` set xs)"
  by (induction xs) auto

lemma map_of_None: "(map_of xs k = None) = (k \<notin> fst ` set xs)"
  by (simp add: map_of_eq_None_iff)

lemma load_data_eq:
  "ss_load_data table =
     (if ''Scoring'' \<notin> fst ` set table \<or> ''Opus'' \<notin> fst ` set table then Inl KeyError
      else case map_of table ''R'' of
             None \<Rightarrow> Inl KeyError
           | Some r \<Rightarrow>
               (case astype_int (fillna (CStr ''0'') r) of
                  Inl e \<Rightarrow> Inl e
                | Inr r' \<Rightarrow> Inr (set_col (filter (\<lambda>(n, _). n \<noteq> ''Opus'')
                                         (filter (\<lambda>(n, _). n \<noteq> ''Scoring'') table)) ''R'' r')))"
proof -
  let ?df = "filter (\<lambda>(n, _). n \<noteq> ''Opus'') (filter (\<lambda>(n, _). n \<noteq> ''Scoring'') table)"
  have r: "map_of ?df ''R'' = map_of table ''R''" by (simp add: map_of_filter_other del: filter_filter)
  have o: "(''Opus'' \<in> fst ` set (filter (\<lambda>(n, _). n \<noteq> ''Scoring'') table)) = (''Opus'' \<in> fst ` set table)"
    by (rule mem_filter_other) simp
  show ?thesis
    unfolding ss_load_data_def drop_col_def get_col_def using r o
    by (simp del: filter_filter split: option.split)
qed

text \<open>
  C34: \<open>load_data\<close> raises exactly when the table lacks one of the columns \<open>Scoring\<close>,
  \<open>Opus\<close> and \<open>R\<close> (\<open>KeyError\<close>), or when a catalogue number is a text \<open>int\<close> rejects
  (\<open>ValueError\<close>); missing catalogue numbers become 0.  This holds for every table whose
  catalogue numbers \<open>int\<close> reads all fit in \<open>int64\<close>; a number outside that range raises
  \<open>OverflowError\<close> instead (lemma \<open>load_data_overflow\<close>).
\<close>

theorem load_data_errors:
  assumes "\<forall>r. map_of table ''R'' = Some r \<longrightarrow>
             (\<forall>x\<in>set r. \<forall>v. int_value x = Some v \<longrightarrow> int64_val v = Inr v)"
  shows "ss_load_data table = Inl e \<longleftrightarrow>
   (e = KeyError \<and> (''Scoring'' \<notin> fst ` set table \<or> ''Opus'' \<notin> fst ` set table \<or> map_of table ''R'' = None)) \<or>
   (e = ValueError \<and> ''Scoring'' \<in> fst ` set table \<and> ''Opus'' \<in> fst ` set table \<and>
     (\<exists>r s. map_of table ''R'' = Some r \<and> CStr s \<in> set r \<and> (\<exists>e'. py_int s = Inl e')))"
proof (cases "''Scoring'' \<notin> fst ` set table \<or> ''Opus'' \<notin> fst ` set table")
  case True
  then have "ss_load_data table = Inl e \<longleftrightarrow> e = KeyError" by (auto simp: load_data_eq)
  with True show ?thesis by blast
next
  case False
  then have so: "''Scoring'' \<in> fst ` set table" "''Opus'' \<in> fst ` set table" by auto
  show ?thesis
  proof (cases "map_of table ''R''")
    case None
    with so show ?thesis by (auto simp: load_data_eq)
  next
    case (Some col)
    have fits: "\<forall>x\<in>set col. \<forall>v. int_value x = Some v \<longrightarrow> int64_val v = Inr v"
      using assms Some by blast
    have key: "(\<exists>e. astype_int (fillna (CStr ''0'') col) = Inl e) \<longleftrightarrow>
               (\<exists>s. CStr s \<in> set col \<and> (\<exists>e. py_int s = Inl e))"
      by (simp only: astype_int_fails fillna_int_errors [OF fits])
    show ?thesis
    proof (cases "astype_int (fillna (CStr ''0'') col)")
      case (Inl e0)
      then have "e0 = ValueError" by (rule fillna_int_error_value [OF fits])
      moreover from Inl key have "\<exists>s. CStr s \<in> set col \<and> (\<exists>e. py_int s = Inl e)" by blast
      ultimately show ?thesis using Inl Some so by (auto simp: load_data_eq)
    next
      case (Inr ys)
      with key have "\<not> (\<exists>s. CStr s \<in> set col \<and> (\<exists>e. py_int s = Inl e))" by auto
      with Inr Some so show ?thesis by (simp add: load_data_eq)
    qed
  qed
qed

theorem load_data_errors_witness:
  "ss_load_data [(''Genre'', [CStr ''Opera'']), (''R'', [CStr ''R. 12''])] = Inl KeyError \<and>
   ss_load_data [(''R'', [CStr ''R. 12'']), (''Scoring'', [CNaN]), (''Opus'', [CNaN])] = Inl ValueError"
proof -
  have "py_int ''R. 12'' = Inl ValueError"
    by (simp add: py_int_def py_strip_def py_space_def ascii_digit_def)
  then show ?thesis
    using load_data_errors [of "[(''Genre'', [CStr ''Opera'']), (''R'', [CStr ''R. 12''])]" KeyError]
      load_data_errors [of "[(''R'', [CStr ''R. 12'']), (''Scoring'', [CNaN]), (''Opus'', [CNaN])]" ValueError]
    by auto
qed

lemma load_data_overflow:
  "ss_load_data [(''R'', [CInt 7, CInt (2 ^ 63)]), (''Scoring'', []), (''Opus'', [])] = Inl OverflowError"
  by (simp add: load_data_eq fillna_def int64_val_def)

lemma masked_map_fst: "[x. (x, b) \<leftarrow> zip xs bs, b] = map fst (filter snd (zip xs bs))"
  by (induction xs arbitrary: bs) (auto simp: zip_Cons1 split: list.splits)

lemma masked_self: "[x. (x, b) \<leftarrow> zip xs (map P xs), b] = filter P xs"
  by (induction xs) auto

lemma get_col_mask_rows:
  "get_col (mask_rows df bs) c =
     (case get_col df c of Inl e \<Rightarrow> Inl e | Inr col \<Rightarrow> Inr [x. (x, b) \<leftarrow> zip col bs, b])"
  by (induction df) (auto simp: get_col_def mask_rows_def split: option.splits)

lemma set_py_unique [simp]: "set (py_unique xs) = set xs"
  by (simp add: py_unique_def)

lemma selectbox_in: "selectbox xs k = Some x \<Longrightarrow> x \<in> set xs"
  by (auto simp: selectbox_def split: if_splits)

lemma selectbox_Some: "xs \<noteq> [] \<Longrightarrow> \<exists>x. selectbox xs k = Some x"
  by (simp add: selectbox_def)

lemma is_str_CStr: "is_str x \<Longrightarrow> \<exists>s. x = CStr s"
  by (cases x) auto

lemma cell_eq_str: "cell_eq x (CStr s) = (x = CStr s)"
  by (cases x) auto

lemma masked_nonempty:
  assumes "length xs = length ys" "y \<in> set ys" "P y"
  shows "[x. (x, b) \<leftarrow> zip xs (map P ys), b] \<noteq> []"
proof -
  obtain i where i: "i < length ys" "ys ! i = y" using assms(2) by (auto simp: in_set_conv_nth)
  then have "(xs ! i, True) \<in> set (zip xs (map P ys))"
    using assms(1,3) by (auto simp: in_set_zip intro!: exI [of _ i])
  then show ?thesis by (force simp: masked_map_fst filter_empty_conv)
qed

lemma masked_subset: "set [x. (x, b) \<leftarrow> zip xs bs, b] \<subseteq> set xs"
  by (auto simp: masked_map_fst dest: set_zip_leftD)

lemma masked_col_eq: "[x. (x, b) \<leftarrow> zip t (col_eq t v), b] = filter (\<lambda>x. case v of None \<Rightarrow> False | Some y \<Rightarrow> cell_eq x y) t"
  unfolding col_eq_def by (rule masked_self)

lemma title_search_no_nan: "CNaN \<notin> set [x. (x, b) \<leftarrow> zip t (col_eq t v), b]"
  by (simp add: masked_col_eq split: option.split)

lemma astype_int_Inr:
  "astype_int xs = Inr ys \<Longrightarrow> ys = map (\<lambda>x. case cell_int x of Inl _ \<Rightarrow> CNaN | Inr i \<Rightarrow> CInt i) xs"
  by (induction xs arbitrary: ys) (auto split: sum.splits)

lemma map_of_replace:
  "map_of (map (\<lambda>(n, v). if n = c then (n, col) else (n, v)) df) c =
     (if c \<in> fst ` set df then Some col else None)"
  by (induction df) auto

lemma get_col_set_col: "get_col (set_col df c col) c = Inr col"
  by (force simp: get_col_def set_col_def map_of_replace map_add_def split: option.split dest: map_of_SomeD)

lemma load_data_R_zero:
  assumes "ss_load_data table = Inr df" "map_of table ''R'' = Some r" "i < length r" "r ! i = CNaN"
  shows "\<exists>r'. get_col df ''R'' = Inr r' \<and> r' ! i = CInt 0"
proof -
  from assms(1,2) obtain r' where r': "astype_int (fillna (CStr ''0'') r) = Inr r'"
    "df = set_col (filter (\<lambda>(n, _). n \<noteq> ''Opus'') (filter (\<lambda>(n, _). n \<noteq> ''Scoring'') table)) ''R'' r'"
    by (auto simp: load_data_eq split: if_splits sum.splits)
  then have "r' ! i = CInt 0"
    using astype_int_Inr [OF r'(1)] assms(3,4) by (simp add: fillna_def py_int_zero int64_val_def)
  then show ?thesis using r'(2) get_col_set_col by blast
qed

lemma masked_map:
  "[x. (x, b) \<leftarrow> zip xs (map P ys), b] = [x. (x, y) \<leftarrow> zip xs ys, P y]"
  by (induction xs arbitrary: ys) (auto simp: zip_Cons1 split: list.splits)

text \<open>
  C33: a search by title, when genres and titles are strings, picks a genre of the
  \<open>Genre\<close> column, then a title among the titles of the rows of that genre, and writes
  one frame: the rows with that title, the picked composition among them.
\<close>

theorem title_search_finds:
  assumes ld: "ss_load_data table = Inr df"
    and g: "get_col df ''Genre'' = Inr g" and t: "get_col df title_col = Inr t"
    and len: "length g = length t" and ne: "g \<noteq> []"
    and gs: "list_all is_str g" and ts: "list_all is_str t"
    and wd: "use_title wd" "find_by_title wd" "\<not> find_by_opus wd"
  shows "\<exists>gen s. selectbox (py_unique g) (genre_pick wd) = Some gen \<and>
             selectbox [x. (x, y) \<leftarrow> zip t g, y = gen] (title_pick wd) = Some (CStr s) \<and>
             ss_main table wd = Inr [mask_rows df (col_eq t (Some (CStr s)))] \<and>
             get_col (mask_rows df (col_eq t (Some (CStr s)))) title_col =
               Inr (filter (\<lambda>x. x = CStr s) t) \<and>
             filter (\<lambda>x. x = CStr s) t \<noteq> []"
proof -
  have "py_unique g \<noteq> []" using ne by (simp add: py_unique_def)
  then obtain gen where gen: "selectbox (py_unique g) (genre_pick wd) = Some gen"
    using selectbox_Some by blast
  have gen_in: "gen \<in> set g" using selectbox_in [OF gen] by simp
  have "is_str gen" using gs gen_in by (simp add: list_all_iff)
  then obtain a where a: "gen = CStr a" using is_str_CStr by blast
  define comp where "comp = [x. (x, y) \<leftarrow> zip t g, y = gen]"
  have "col_eq g (Some gen) = map (\<lambda>y. y = gen) g" by (simp add: col_eq_def a cell_eq_str)
  then have comp_eq: "[x. (x, b) \<leftarrow> zip t (col_eq g (Some gen)), b] = comp"
    by (simp add: comp_def masked_map)
  have comp_get: "get_col (mask_rows df (col_eq g (Some gen))) title_col = Inr comp"
    using t comp_eq by (simp add: get_col_mask_rows)
  have "[x. (x, b) \<leftarrow> zip t (col_eq g (Some gen)), b] \<noteq> []"
    using masked_nonempty [of t g gen "\<lambda>x. cell_eq x gen"] len gen_in a
    by (simp add: col_eq_def)
  then have "comp \<noteq> []" by (simp only: comp_eq simp_thms)
  then obtain c where c: "selectbox comp (title_pick wd) = Some c"
    using selectbox_Some by blast
  have "set comp \<subseteq> set t" using comp_eq masked_subset by metis
  then have c_in: "c \<in> set t" using selectbox_in [OF c] by blast
  have "is_str c" using ts c_in by (simp add: list_all_iff)
  then obtain s where s: "c = CStr s" using is_str_CStr by blast
  have mask: "get_col (mask_rows df (col_eq t (Some (CStr s)))) title_col = Inr (filter (\<lambda>x. x = CStr s) t)"
    using t by (simp add: get_col_mask_rows col_eq_def cell_eq_str masked_self)
  have main: "ss_main table wd = Inr [mask_rows df (col_eq t (Some (CStr s)))]"
    using ld g t gen comp_get c s wd by (simp add: ss_main_def Let_def)
  have s_in: "CStr s \<in> set t" using c_in s by simp
  then have "filter (\<lambda>x. x = CStr s) t \<noteq> []" by (auto simp: filter_empty_conv)
  with main mask gen c s show ?thesis unfolding comp_def by blast
qed

theorem title_search_finds_witness:
  "\<exists>gen s. selectbox (py_unique [CStr ''Opera'', CStr ''Symphony'']) 0 = Some gen \<and>
      selectbox [x. (x, y) \<leftarrow> zip [CStr ''Samson et Dalila'', CStr ''Symphonie''] [CStr ''Opera'', CStr ''Symphony''], y = gen] 0 = Some (CStr s) \<and>
      ss_main [(''Genre'', [CStr ''Opera'', CStr ''Symphony'']), (title_col, [CStr ''Samson et Dalila'', CStr ''Symphonie'']),
               (''R'', [CNum 47, CNaN]), (''Scoring'', [CNaN, CNaN]), (''Opus'', [CNaN, CNaN])]
             \<lparr>use_title = True, use_opus = False, genre_pick = 0, title_pick = 0,
              find_by_title = True, opus_no = '''', find_by_opus = False\<rparr> =
        Inr [mask_rows [(''Genre'', [CStr ''Opera'', CStr ''Symphony'']), (title_col, [CStr ''Samson et Dalila'', CStr ''Symphonie'']), (''R'', [CInt 47, CInt 0])] (col_eq [CStr ''Samson et Dalila'', CStr ''Symphonie''] (Some (CStr s)))] \<and>
      get_col (mask_rows [(''Genre'', [CStr ''Opera'', CStr ''Symphony'']), (title_col, [CStr ''Samson et Dalila'', CStr ''Symphonie'']), (''R'', [CInt 47, CInt 0])] (col_eq [CStr ''Samson et Dalila'', CStr ''Symphonie''] (Some (CStr s)))) title_col =
        Inr (filter (\<lambda>x. x = CStr s) [CStr ''Samson et Dalila'', CStr ''Symphonie'']) \<and>
      filter (\<lambda>x. x = CStr s) [CStr ''Samson et Dalila'', CStr ''Symphonie''] \<noteq> []"
proof -
  have "py_int ''0'' = Inr 0" by (rule py_int_zero)
  then have ld: "ss_load_data [(''Genre'', [CStr ''Opera'', CStr ''Symphony'']),
                  (title_col, [CStr ''Samson et Dalila'', CStr ''Symphonie'']),
                  (''R'', [CNum 47, CNaN]), (''Scoring'', [CNaN, CNaN]), (''Opus'', [CNaN, CNaN])] =
      Inr [(''Genre'', [CStr ''Opera'', CStr ''Symphony'']),
           (title_col, [CStr ''Samson et Dalila'', CStr ''Symphonie'']),
           (''R'', [CInt 47, CInt 0])]"
    by (simp add: load_data_eq fillna_def set_col_def int64_val_def)
  have h: "get_col [(''Genre'', [CStr ''Opera'', CStr ''Symphony'']), (title_col, [CStr ''Samson et Dalila'', CStr ''Symphonie'']), (''R'', [CInt 47, CInt 0])] ''Genre'' = Inr [CStr ''Opera'', CStr ''Symphony'']"
    "get_col [(''Genre'', [CStr ''Opera'', CStr ''Symphony'']), (title_col, [CStr ''Samson et Dalila'', CStr ''Symphonie'']), (''R'', [CInt 47, CInt 0])] title_col = Inr [CStr ''Samson et Dalila'', CStr ''Symphonie'']"
    "length [CStr ''Opera'', CStr ''Symphony''] = length [CStr ''Samson et Dalila'', CStr ''Symphonie'']" "[CStr ''Opera'', CStr ''Symphony''] \<noteq> []"
    "list_all is_str [CStr ''Opera'', CStr ''Symphony'']" "list_all is_str [CStr ''Samson et Dalila'', CStr ''Symphonie'']"
    by (simp_all add: get_col_def)
  have w: "use_title \<lparr>use_title = True, use_opus = False, genre_pick = 0, title_pick = 0, find_by_title = True, opus_no = '''', find_by_opus = False\<rparr>" "find_by_title \<lparr>use_title = True, use_opus = False, genre_pick = 0, title_pick = 0, find_by_title = True, opus_no = '''', find_by_opus = False\<rparr>" "\<not> find_by_opus \<lparr>use_title = True, use_opus = False, genre_pick = 0, title_pick = 0, find_by_title = True, opus_no = '''', find_by_opus = False\<rparr>"
    by simp_all
  show ?thesis using title_search_finds [OF ld h w] by simp
qed

end
