(* ===== verification/Spec2Isabelle.thy ===== *)
theory Spec2Isabelle
  imports Othello_Traces Ledger_Session Image_Converter Weather Forex SQL_Manager Portfolio Saint_Saens
begin

text \<open>
  A verification library for the python-apps repository: its two board games with
  their AI players and their screens, the bookkeeping backend, the image filter demo
  the weather lookup, the forex history viewer, the SQL table browser, the portfolio
  optimizer and the composition query page.

  \<^bold>\<open>The program.\<close>  src/tictactoe.py and src/othello.py are two pygame apps.
  Each has a backend class (\<open>Tictactoe\<close>, \<open>Othello\<close>) holding the board and the
  rules, a class \<open>Tree\<close> for the AI's game tree (the same code in both files), and a
  frontend class whose main loop feeds mouse clicks to the backend, lets the AI
  (\<open>player == 1\<close>) move, and draws the screen.  The AI builds a tree of all moves to
  \<open>decision_level\<close> plies (\<open>extend_tree\<close>), backs the scores up
  (\<open>Tree.pass_score\<close>), collects the moves whose child has the root's score
  (\<open>Tree.select_best_child\<close>) and draws one with \<open>random.choice\<close>.
  src/account_manager.py keeps a ledger of transfers in a pandas frame
  (\<open>AccountManager\<close>) behind a tkinter viewer.  src/image_converter.py filters an
  image with 3x3 kernels (\<open>ImageConverter\<close>) behind tkinter buttons
  (\<open>ImageConverterApp\<close>).  src/weatherapp.py looks a city up in a CSV list
  (\<open>WeatherBackend\<close>), lets the user pick it from a list box and shows the answer of
  the OpenWeather API (\<open>WeatherFrontend\<close>).  src/forex_hist.py downloads exchange rates,
  adds moving averages and Bollinger's band (\<open>ForexHist\<close>) and plots them with toggle
  buttons (\<open>ForexHistApp\<close>).  src/sqlmanager/sqlmanager.py is a PySimpleGUI script
  that opens an SQLite file, lists its tables and shows one in a table with a ten-column
  row editor.  src/portfolio_management.py is a Streamlit page that downloads the prices of
  the chosen stocks, lets the user split a portfolio among them, and searches 5000 random
  allocations for the best Sharpe ratio.  src/saint_saens.py is a Streamlit page that reads
  the list of Saint-Saens's compositions from Wikipedia and shows the rows of a title picked
  by genre, or of a typed catalogue number.

  \<^bold>\<open>The theories.\<close>
  \<^item> \<open>Prelude\<close>: boards as \<open>int list list\<close> (1 player 0, -1 player 1, 0 empty),
    \<open>set_cell\<close> for \<open>grid[i][j] = v\<close>, \<open>next_player\<close> for
    \<open>(player + 1) % 2\<close>, \<open>py_choice\<close> for \<open>random.choice\<close> over an explicit
    stream of draws (\<open>IndexError\<close> on an empty list), \<open>py_str\<close> for \<open>str\<close> of an
    int and \<open>py_int\<close> for \<open>int\<close> of a string, the pygame events, the Python exceptions, and the shared list lemmas.
  \<^item> \<open>GameTree\<close>: the datatype \<open>tree\<close> for class \<open>Tree\<close>, \<open>add_child\<close>,
    \<open>pass_score\<close> (the in-place score updates returned as a new tree),
    \<open>select_best_child\<close>; the loop-free value \<open>engine_value\<close> the backup
    computes and textbook \<open>minimax\<close> for comparison.
  \<^item> \<open>TicTacToe\<close>, \<open>TicTacToe_Engine\<close>, \<open>TicTacToe_App\<close>: the record
    \<open>tictactoe\<close> for the fields of class \<open>Tictactoe\<close>, one definition per method,
    the characterisation of the search, and the host: \<open>handle_mouse_click\<close>, the
    event loop of one frame (\<open>run_events\<close>, \<open>frame\<close>), the reachable states as
    the inductive predicate \<open>ttt_reach\<close> and the invariant \<open>ttt_inv\<close>, proved
    by rule induction.
  \<^item> \<open>Othello\<close>, \<open>Othello_Engine\<close>, \<open>Othello_App\<close>: the same for class
    \<open>Othello\<close> (fields prefixed \<open>ot_\<close>) on the 10x10 padded board.  Board
    reads and writes go through \<open>pget\<close>/\<open>pset\<close>, which index like Python
    (\<open>grid[-1]\<close> is the last row); \<open>is_valid_action\<close> and
    \<open>update_grid\<close> follow the eight hand-written scans of the source with their
    own ranges (\<open>host_in\<close>, \<open>flip_dir\<close>).  \<open>othello_legal\<close> is the move
    rule as the spec states it, for comparison.
  \<^item> \<open>Render\<close>: \<open>draw_game_board\<close> of both apps as the list of pygame calls a
    frame makes, with the geometry constants of each file.
  \<^item> \<open>Othello_Traces\<close>: three sessions played from \<open>Othello()\<close>, each frame
    evaluated on the definitions, reaching the states the Othello findings are about.
  \<^item> \<open>Ledger\<close>: class \<open>AccountManager\<close> on a frame modelled as a list of
    (index label, row) pairs, and the viewer handlers that call it.
  \<^item> \<open>Ledger_Editor\<close>: the viewer's tree as the strings Tk holds
    (\<open>row_values\<close>, \<open>tk_item_value\<close> for ttk's conversion of item values), the
    seven editor fields, \<open>clear_entry\<close>, \<open>edit_entry\<close>, \<open>load_database\<close>
    and the file name of \<open>save_database\<close>.
  \<^item> \<open>Ledger_Input\<close>: \<open>datetime.strptime(s, "%Y-%m-%d")\<close> as CPython's
    \<open>_strptime\<close> matches it: each group of its regular expression as the ordered list of
    its alternatives, the matches as a list of successes (\<open>date_matches\<close>), the
    first of which \<open>re.match\<close> returns, and the calendar check of
    \<open>datetime.date\<close>; the Create and Update handlers from the editor fields.
  \<^item> \<open>Ledger_Session\<close>: Remove from the tree's selection, the buttons and the typed
    fields as the datatype \<open>ledger_cmd\<close> with one step per command
    (\<open>ledger_step\<close>), the reachable states as the inductive \<open>ledger_reach\<close>, and the
    invariant proved over them by rule induction.
  \<^item> \<open>Image_Converter\<close>: class \<open>ImageConverter\<close> (\<open>filter_image\<close> with
    numpy's broadcasting, the zero padding and the 3x3 products; the channel and
    grey-scale filters, which save an array and a colour map) and the button handlers of
    \<open>ImageConverterApp\<close> as a step function over a datatype of commands,
    \<open>ic_step\<close>, run over command sequences by \<open>ic_run\<close>.  \<open>correlate\<close> is
    the textbook zero-padded correlation the filter is compared with.
  \<^item> \<open>Weather\<close>: the JSON value of the API's answer, Python subscripts on it
    (\<open>jget\<close>, \<open>jidx\<close>), the two handlers \<open>get_cityid\<close> and
    \<open>get_weather\<close> statement by statement (\<open>try_then\<close> ends a handler at its
    first exception, keeping the effects made so far), and the backend methods they call.
  \<^item> \<open>Forex\<close>: the price frame and its indicator columns, the pandas operations
    (\<open>ewm_mean\<close>, \<open>rolling_mean\<close>, \<open>rolling_std\<close>) as their documentation
    defines them, the plotted lines as records, and the handlers with \<open>fx_step\<close> and
    \<open>fx_run\<close> over command sequences; \<open>fx_inv\<close> is the consistency of the plot.
  \<^item> \<open>SQL_Manager\<close>: the file dialog (\<open>get_database_path\<close>), the table window as
    the record \<open>sql_window\<close>, its \<open>Show\<close> and \<open>Extract\<close> handlers with
    \<open>update_title\<close>, the help window and the main loop \<open>sql_loop\<close> over a list of
    events (\<open>None\<close> while the window still waits), and the whole script
    \<open>sqlmanager\<close>; the database is an input record (table list,
    \<open>SELECT *\<close> results of plainly named tables and the results of other
    statements), \<open>cur_execute\<close> runs the statement \<open>Show\<close> splices, and \<open>sql_reach\<close> the windows reachable by the events
    the widgets allow.
  \<^item> \<open>Portfolio\<close>: one run of the Streamlit page, \<open>pf_main\<close>, over the widget values
    (\<open>pf_widgets\<close>): \<open>load_data\<close> with the pandas log returns, means and variances,
    the sidebar sliders (\<open>sidebar_fracs\<close>), the cumulative return, the double loop of the
    "covariance" matrix, and the 5000 Monte-Carlo samples with numpy's \<open>argmax\<close>;
    \<open>sample_cov\<close> is the covariance the matrix is meant to hold.
  \<^item> \<open>Saint_Saens\<close>: frames as lists of named columns of \<open>cell\<close>s, the pandas
    operations the page uses (\<open>drop\<close>, \<open>fillna\<close>, \<open>astype(int)\<close>,
    element-wise \<open>==\<close>, boolean masks, \<open>unique\<close>), \<open>load_data\<close>
    (\<open>ss_load_data\<close>), and one run of \<open>main\<close> (\<open>ss_main\<close>) over the
    widget values, returning the frames it writes.

  \<^bold>\<open>What is shown.\<close>  The backup folds each node's own score into the minimum or
  maximum of its children (C6).  In Tic-Tac-Toe every
  expanded node has score 0, so the root value is decided by the next move alone at every
  depth (C7), and the AI draws among the
  winning moves, else among all empty cells (depth 1) or the moves that leave the opponent
  no immediate win (depth 2 or more) (C1), falling back
  to any empty cell when there is none (lemma \<open>ttt_decision_tree_fallback\<close>);
  at depth 0 it raises (lemma \<open>ttt_decision_tree_no_level\<close>).  The spec's
  optimality scenario fails: after X takes the centre, even at depth 9 the AI may answer on
  an edge (witness of C1).  A Tic-Tac-Toe session never
  raises and never shows a line for both players (C3,
  C8); every game ends within 9 moves
  (C16); reset keeps the side to move
  (lemma \<open>reset_game_board\<close>); one frame's two clicks play for both sides
  (C15).

  In Othello the AI always returns a valid action (C2);
  a frame raises exactly when the AI has none (C4), and a session
  reaches such a state by a wipe-out (C5); a player
  without a move can never pass (C14).  \<open>update_grid\<close> only
  writes the mover's value and adds a disc (C9,
  C10), but its scans jump over empty cells and fill them
  (C13, lemma \<open>ot_reachable_fill\<close>),
  \<open>is_valid_action\<close> misses captures towards row and column 1
  (lemma \<open>is_valid_action_misses_capture\<close>), and the up-left scan runs into negative
  indices and paints the border, which \<open>check_score\<close> counts
  (lemma \<open>ot_check_score_border\<close>) and the screen does not show
  (C12).  At depth 1 the AI plays randomly when every
  move leaves it behind (C11).  Every reachable state keeps
  its type (C17); reset keeps the side to move and the
  score (lemma \<open>ot_reset_board\<close>).

  The ledger's handlers keep labels equal to IDs (lemma \<open>ledger_ok_preserved\<close>), and
  in every state a session of the viewer reaches, pressing any button and loading files
  whose labels are the IDs, the labels stay the IDs and the tree shows nothing or the
  current frame's records of some account (C18);
  \<open>create_entry\<close> and \<open>remove_entry\<close> round-trip (lemma
  \<open>create_remove_roundtrip\<close>),
  each displayed \<open>Total\<close> is a running balance in file order (lemma
  \<open>get_records_total\<close>) but not in the sorted order shown
  (lemma \<open>get_records_total_not_running\<close>),
  \<open>remove_entry\<close> works on index labels (lemma \<open>remove_entry_by_label\<close>), and the
  account list is not refreshed after an entry is created
  (lemma \<open>app_create_stale_accounts\<close>); reloading the file refreshes it (lemma
  \<open>load_database_view\<close>).  Edit fills the editor with the selected row (lemma
  \<open>edit_entry_fields\<close>); \<open>strptime\<close> reads back every date Edit writes
  (C20), so Edit then Update leaves the ledger as it was
  (C19) unless a text is one \<open>int\<close> accepts:
  Tk gives it back in \<open>int\<close>'s normal form and Update writes \<open>007\<close> as
  \<open>7\<close> (lemma \<open>edit_update_rewrites_remark\<close>).  A cancelled Save dialog writes
  the ledger to \<open>.csv\<close> (lemma \<open>save_name_cancel\<close>).

  \<open>filter_image\<close> refines the zero-padded correlation with its kernel
  (C21) and raises only on a shape that does not
  broadcast or an unknown filter name on a non-empty image
  (lemma \<open>filter_image_error\<close>); the padding draws a frame around a uniform image
  (lemma \<open>laplacian_uniform_frame\<close>); in exact arithmetic the blurred grey image stays
  in [0, 0.9999] (lemma \<open>blur_filter_bounds\<close>), though numpy's float32 sum of the three
  weights is 0.99990004, just above that bound.  Once an RGB(A) image is open no button but Save
  raises (lemma \<open>ic_session_no_error\<close>); before that, and on a grey-scale PNG,
  every filter button does (C22).

  The weather list box round-trips a city id from the candidate row to the request
  (C23) but is never cleared (lemma \<open>get_cityid_prepends\<close>);
  a reply of the documented shape is displayed as the API's condition groups prescribe
  (lemma \<open>get_weather_reply\<close>, with the rounding caveat below); every error reply but the string "404" crashes the
  handler (C24); the clock labels are well-formed times of
  day (lemma \<open>strftime_HM_bounds\<close>).

  In the forex viewer, as long as downloads return rows, every drawn line shows its
  column of the current frame and no click raises (C25); an empty
  download raises before the old indicator lines are hidden (C26);
  the Bollinger band is NaN for 19 rows and ordered afterwards (C27).

  In the SQL browser every reachable window keeps ten titles and inputs and rows as wide
  as the headers; on a database of plainly named tables of at most ten columns no allowed
  event raises
  but \<open>Extract\<close> before the first \<open>Show\<close> (C28),
  \<open>Show\<close> then \<open>Extract\<close> copies the row into the editor
  (C29), and closing the file dialog, a failed connection and
  an early \<open>Extract\<close> crash the script (lemma \<open>sqlmanager_errors\<close>); a wider
  table makes \<open>Extract\<close> look up a missing input (lemma \<open>sql_wide_table\<close>).  The
  table name is spliced into \<open>SELECT * FROM name;\<close> unquoted, so these results need
  every listed table to have a plain name: the statement for a name with a space, a
  digit first or a keyword is parsed as something else, which the model leaves to the
  unspecified \<open>db_query\<close> (lemma \<open>sql_unquoted_names\<close>).

  On the portfolio page each stock's fraction lies between 0.01 and what the earlier ones
  leave of 1 while that is at least 0.01; past that, Streamlit widens the slider to the
  default 0.01, so the fractions of n stocks can sum to 0.99 + 0.01 n and a fraction can be
  negative (C30, lemma \<open>sidebar_fracs_past_one\<close>).  The "covariance" loop computes the
  variance of the two return series concatenated (C31),
  never negative, positive even for anti-correlated stocks (lemma
  \<open>covariance_anticorrelated\<close>).  The best Monte-Carlo sample has weights summing to 1
  and the largest Sharpe ratio of the 5000 (C32).

  On the composition page \<open>int\<close> reads back the decimal text of any number, padded with
  white space (lemma \<open>py_int_py_str\<close> of \<open>Prelude\<close>); when every catalogue number fits
  in \<open>int64\<close>, \<open>load_data\<close> raises exactly on a missing column or a catalogue
  number \<open>int\<close> rejects (C34), a larger one raising
  \<open>OverflowError\<close> (lemma \<open>load_data_overflow\<close>), and
  turns a missing number into 0 (lemma \<open>load_data_R_zero\<close>); a search by title writes
  the rows of a title of the picked genre, the picked composition among them
  (C33), while a row whose title is NaN is never written
  (lemma \<open>title_search_no_nan\<close>).

  \<^bold>\<open>Bounds and choices.\<close>  Python ints are \<open>int\<close>, pixel coordinates and depths
  \<open>nat\<close>.  Both \<open>extend_tree\<close>s recurse on the levels left,
  \<open>decision_level - level\<close>, so they are structural and total; the apps set the
  depth to 1, 3 or 5 and start at level 0, so the level never passes it.  Every index
  the Tic-Tac-Toe code computes is below 3; every index the Othello code computes for a
  move in rows and columns 1 to 8 lies in \<open>-10 .. 9\<close>, inside the 10-element lists,
  so no access raises.  Randomness is a stream: one draw per \<open>choice\<close>,
  \<open>r mod len\<close> selecting the element.  Ledger amounts are exact integers and dates
  \<open>(year, month, day)\<close> triples.  Pixel values and the weather API's numbers are
  exact rationals and forex prices reals: float rounding is not modelled.  Two results
  are therefore statements of exact arithmetic only: \<open>round(x, 2)\<close> in the weather
  labels rounds the exact value, ties to even, where Python rounds the nearest double
  (273.175 K shows 0.03, the model 0.02), and the grey-scale weights sum to 0.9999
  exactly, not in float32.  Slider positions are any real within the bounds, not only
  multiples of the step 0.01.  Every loop of the modelled code runs over a finite list or range,
  so every definition is total and no fuel is needed; the two event loops of the SQL browser
  recurse on the list of events, which the help window's loop only shortens.  numpy's
  division by a zero volatility gives an infinite or NaN Sharpe ratio, which the model's
  real division does not: the claim on the efficient frontier assumes positive volatilities.

  \<^bold>\<open>Not modelled.\<close>  pygame initialisation, image loading, the clock and debug
  prints; the text rendering of fonts (a text is its string and position); CSV reading
  and writing; \<open>float()\<close> of the amount in the ledger's Create and Update handlers, a parameter of \<open>gui_create_entry\<close> and
  \<open>gui_update_entry\<close> because amounts are exact integers in the model (the claims
  hold for every such function, assuming only that it reads back \<open>str\<close> of an
  integer); the tkinter widget layout,
  file dialogs (the chosen file is an input), message boxes and About windows; the HTTP
  request of the weather app (its answer is an input) and the X selection behind
  \<open>selection_get\<close> (the selected entry is an input); the yfinance download (an
  input function), line colours and \<open>canvas.draw\<close> of the forex viewer; and
  the SQLite engine and the PySimpleGUI layout and theme of the SQL browser (the
  database is an input: its tables, the result of \<open>SELECT *\<close> from each plainly
  named table, and the unspecified result of any other statement; only which spliced
  statements are plain selects is modelled, by \<open>select_star_name\<close>);
  the Wikipedia tables and the plots of the portfolio page; the HTML reading, the portrait
  and the texts of the composition page (the table \<open>pd.read_html\<close> returns is an
  input); \<open>st.cache\<close>, which only memoises.  Floats in the composition table are
  exact reals, truncated by \<open>astype(int)\<close> and checked against the \<open>int64\<close> range.
\<close>

end
